(* ===== verification/Gw_Prelude.thy ===== *)
theory Gw_Prelude
  imports Complex_Main
begin

text \<open>
  Shared vocabulary of the development: names for the gateway's base types, a concurrent
  hash map as an association list, ASCII string operations, machine bounds, and a small
  locale for step systems with an invariant and one for refinements.

  \<^item> \<open>decimal\<close> is the value of a \<open>rust_decimal::Decimal\<close>, an exact rational. Sums,
    differences and comparisons are exact; products and quotients, which \<open>rust_decimal\<close>
    rounds to 28 digits, are parameters of the definitions that use them, and so are the
    crate's printing and parsing.
  \<^item> \<open>instant\<close>, \<open>utc\<close> and \<open>duration\<close> are nanoseconds. \<open>Instant::duration_since\<close>
    saturates at zero, as subtraction on naturals does.
  \<^item> \<open>dmap\<close> is a \<open>DashMap\<close> or \<open>HashMap\<close>: an association list with distinct keys. Its list
    order stands for the map's unspecified iteration order.
\<close>

named_theorems gw_simps
  \<open>unfolding rules of the operations, for evaluation and for case analysis\<close>

named_theorems gw_inv
  \<open>preservation lemmas: an operation keeps an invariant\<close>

type_synonym decimal = rat
type_synonym instant = nat
type_synonym utc = nat
type_synonym duration = nat
type_synonym ('k, 'v) dmap = "('k \<times> 'v) list"

definition secs :: "nat \<Rightarrow> duration" where
  "secs n = n * 1000000000"

definition millis :: "nat \<Rightarrow> duration" where
  "millis n = n * 1000000"

definition u32_max :: nat where
  "u32_max = 2 ^ 32 - 1"

definition u64_max :: nat where
  "u64_max = 2 ^ 64 - 1"

text \<open>The longest \<open>std::time::Duration\<close>: \<open>u64::MAX\<close> seconds and 999,999,999 nanoseconds.\<close>

definition duration_max :: duration where
  "duration_max = u64_max * 1000000000 + 999999999"

text \<open>\<open>u32::try_from(n).unwrap_or(u32::MAX)\<close>.\<close>

definition u32_clamp :: "nat \<Rightarrow> nat" where
  "u32_clamp n = (if n \<le> u32_max then n else u32_max)"

subsection \<open>Hash maps\<close>

definition dm_get :: "('k, 'v) dmap \<Rightarrow> 'k \<Rightarrow> 'v option" where
  "dm_get m k = map_of m k"

fun dm_insert :: "'k \<Rightarrow> 'v \<Rightarrow> ('k, 'v) dmap \<Rightarrow> ('k, 'v) dmap" where
  "dm_insert k v [] = [(k, v)]"
| "dm_insert k v ((k', v') # m) = (if k = k' then (k, v) # m else (k', v') # dm_insert k v m)"

definition dm_remove :: "'k \<Rightarrow> ('k, 'v) dmap \<Rightarrow> ('k, 'v) dmap" where
  "dm_remove k m = filter (\<lambda>p. fst p \<noteq> k) m"

text \<open>\<open>get_mut\<close>: change the value at a key, if there is one.\<close>

definition dm_modify :: "'k \<Rightarrow> ('v \<Rightarrow> 'v) \<Rightarrow> ('k, 'v) dmap \<Rightarrow> ('k, 'v) dmap" where
  "dm_modify k f m = map (\<lambda>p. if fst p = k then (fst p, f (snd p)) else p) m"

text \<open>\<open>entry(k).or_default().extend(vs)\<close> on a map of vectors.\<close>

definition dm_extend :: "'k \<Rightarrow> 'v list \<Rightarrow> ('k, 'v list) dmap \<Rightarrow> ('k, 'v list) dmap" where
  "dm_extend k vs m = dm_insert k ((case dm_get m k of Some xs \<Rightarrow> xs | None \<Rightarrow> []) @ vs) m"

definition dm_keys :: "('k, 'v) dmap \<Rightarrow> 'k list" where
  "dm_keys m = map fst m"

definition dm_has :: "('k, 'v) dmap \<Rightarrow> 'k \<Rightarrow> bool" where
  "dm_has m k = (dm_get m k \<noteq> None)"

definition dm_wf :: "('k, 'v) dmap \<Rightarrow> bool" where
  "dm_wf m = distinct (map fst m)"

definition dm_all :: "('k \<Rightarrow> 'v \<Rightarrow> bool) \<Rightarrow> ('k, 'v) dmap \<Rightarrow> bool" where
  "dm_all P m = list_all (\<lambda>p. P (fst p) (snd p)) m"

text \<open>\<open>iter().find_map(f)\<close>: the first \<open>Some\<close> in iteration order.\<close>

fun find_map :: "('a \<Rightarrow> 'b option) \<Rightarrow> 'a list \<Rightarrow> 'b option" where
  "find_map f [] = None"
| "find_map f (x # xs) = (case f x of Some y \<Rightarrow> Some y | None \<Rightarrow> find_map f xs)"

lemma dm_get_Nil [simp]: "dm_get [] k = None"
  by (simp add: dm_get_def)

lemma dm_get_Cons [simp]: "dm_get ((k', v) # m) k = (if k' = k then Some v else dm_get m k)"
  by (auto simp: dm_get_def)

lemma dm_get_insert [simp]:
  "dm_get (dm_insert k v m) k' = (if k' = k then Some v else dm_get m k')"
  by (induction k v m rule: dm_insert.induct) auto

lemma dm_get_remove [simp]:
  "dm_get (dm_remove k m) k' = (if k' = k then None else dm_get m k')"
  by (induction m) (auto simp: dm_remove_def)

lemma dm_get_modify [simp]:
  "dm_get (dm_modify k f m) k' = (if k' = k then map_option f (dm_get m k') else dm_get m k')"
  by (induction m) (auto simp: dm_modify_def)

lemma dm_get_modify_same: "dm_get (dm_modify k f m) k = map_option f (dm_get m k)"
  by simp

lemma dm_keys_modify [simp]: "dm_keys (dm_modify k f m) = dm_keys m"
  by (induction m) (auto simp: dm_modify_def dm_keys_def)

lemma length_dm_modify [simp]: "length (dm_modify k f m) = length m"
  by (simp add: dm_modify_def)

lemma set_dm_keys: "set (dm_keys m) = {k. dm_get m k \<noteq> None}"
  by (induction m) (auto simp: dm_keys_def)

lemma dm_keys_insert: "set (dm_keys (dm_insert k v m)) = insert k (set (dm_keys m))"
  by (induction k v m rule: dm_insert.induct) (auto simp: dm_keys_def)

lemma dm_wf_keys: "dm_wf m = distinct (dm_keys m)"
  by (simp add: dm_wf_def dm_keys_def)

lemma dm_wf_Nil [simp]: "dm_wf []"
  by (simp add: dm_wf_def)

lemma fst_dm_insert: "map fst (dm_insert k v m) =
    (if k \<in> set (map fst m) then map fst m else map fst m @ [k])"
  by (induction k v m rule: dm_insert.induct) auto

lemma dm_wf_insert [simp, gw_inv]: "dm_wf m \<Longrightarrow> dm_wf (dm_insert k v m)"
  by (simp add: dm_wf_def fst_dm_insert del: set_map)

lemma dm_wf_remove [simp, gw_inv]: "dm_wf m \<Longrightarrow> dm_wf (dm_remove k m)"
  by (induction m) (auto simp: dm_wf_def dm_remove_def)

lemma dm_wf_modify [simp, gw_inv]: "dm_wf m \<Longrightarrow> dm_wf (dm_modify k f m)"
  by (simp add: dm_wf_keys)

lemma dm_get_in: "dm_wf m \<Longrightarrow> (k, v) \<in> set m \<longleftrightarrow> dm_get m k = Some v"
  by (simp add: dm_wf_def dm_get_def)

lemma dm_all_iff: "dm_wf m \<Longrightarrow> dm_all P m \<longleftrightarrow> (\<forall>k v. dm_get m k = Some v \<longrightarrow> P k v)"
  by (force simp: dm_all_def list_all_iff dm_get_in [symmetric])

lemma dm_get_SomeD: "dm_get m k = Some v \<Longrightarrow> (k, v) \<in> set m"
  by (simp add: dm_get_def map_of_SomeD)

lemma dm_insert_fresh: "dm_get m k = None \<Longrightarrow> dm_insert k v m = m @ [(k, v)]"
  by (induction k v m rule: dm_insert.induct) (auto split: if_splits)

lemma length_dm_insert:
  "length (dm_insert k v m) = (if dm_get m k = None then Suc (length m) else length m)"
  by (induction k v m rule: dm_insert.induct) auto

lemma length_dm_remove_le: "length (dm_remove k m) \<le> length m"
  by (simp add: dm_remove_def)

lemma length_dm_remove_less: "dm_get m k \<noteq> None \<Longrightarrow> length (dm_remove k m) < length m"
  unfolding dm_remove_def
  by (rule length_filter_less [of "(k, the (dm_get m k))"]) (auto dest: dm_get_SomeD)

lemma dm_remove_absent: "dm_get m k = None \<Longrightarrow> dm_remove k m = m"
  by (induction m) (auto simp: dm_remove_def split: if_splits)

lemma dm_remove_insert_fresh:
  "dm_get m k = None \<Longrightarrow> dm_remove k (dm_insert k v m) = m"
  using dm_remove_absent [of m k] by (simp add: dm_insert_fresh) (simp add: dm_remove_def)

lemma dm_modify_absent: "dm_get m k = None \<Longrightarrow> dm_modify k f m = m"
  by (induction m) (auto simp: dm_modify_def split: if_splits)

lemma dm_wf_extend [simp, gw_inv]: "dm_wf m \<Longrightarrow> dm_wf (dm_extend k vs m)"
  by (simp add: dm_extend_def)

lemma dm_get_extend [simp]:
  "dm_get (dm_extend k vs m) k' =
     (if k' = k then Some ((case dm_get m k of Some xs \<Rightarrow> xs | None \<Rightarrow> []) @ vs) else dm_get m k')"
  by (simp add: dm_extend_def)

lemma dm_get_filter:
  "dm_wf m \<Longrightarrow> dm_get (filter P m) k =
     (case dm_get m k of Some v \<Rightarrow> if P (k, v) then Some v else None | None \<Rightarrow> None)"
proof (induction m)
  case (Cons p m)
  obtain k' v' where p: "p = (k', v')" by (cases p)
  with Cons show ?case
    by (cases "dm_get m k") (auto simp: dm_wf_def dest!: dm_get_SomeD split: option.splits intro: rev_image_eqI)
qed simp

lemma dm_wf_filter [simp, gw_inv]: "dm_wf m \<Longrightarrow> dm_wf (filter P m)"
  by (simp add: dm_wf_def distinct_map_filter)

lemma find_map_Some: "find_map f xs = Some y \<Longrightarrow> \<exists>x \<in> set xs. f x = Some y"
  by (induction xs) (auto split: option.splits)

lemma find_map_None: "find_map f xs = None \<longleftrightarrow> (\<forall>x \<in> set xs. f x = None)"
  by (induction xs) (auto split: option.splits)

lemma find_map_unique:
  assumes "x \<in> set xs" and "f x = Some y"
    and "\<And>x' y'. x' \<in> set xs \<Longrightarrow> f x' = Some y' \<Longrightarrow> y' = y"
  shows "find_map f xs = Some y"
  using assms by (induction xs) (fastforce split: option.splits)+

subsection \<open>Strings\<close>

text \<open>
  The string operations the gateway uses on ASCII text: \<open>to_lowercase\<close>, \<open>contains\<close>,
  \<open>starts_with\<close>, \<open>strip_prefix\<close>, \<open>split_once(':')\<close> and the decimal printing of an
  unsigned integer.
\<close>

definition ascii_lower :: "char \<Rightarrow> char" where
  "ascii_lower c = (let n = (of_char c :: nat) in if 65 \<le> n \<and> n \<le> 90 then char_of (n + 32) else c)"

definition to_lowercase :: "string \<Rightarrow> string" where
  "to_lowercase s = map ascii_lower s"

fun starts_with :: "string \<Rightarrow> string \<Rightarrow> bool" where
  "starts_with s [] = True"
| "starts_with [] (p # ps) = False"
| "starts_with (c # s) (p # ps) = (c = p \<and> starts_with s ps)"

fun contains :: "string \<Rightarrow> string \<Rightarrow> bool" where
  "contains [] p = (p = [])"
| "contains (c # s) p = (starts_with (c # s) p \<or> contains s p)"

fun strip_prefix :: "string \<Rightarrow> string \<Rightarrow> string option" where
  "strip_prefix s [] = Some s"
| "strip_prefix [] (p # ps) = None"
| "strip_prefix (c # s) (p # ps) = (if c = p then strip_prefix s ps else None)"

fun split_once :: "char \<Rightarrow> string \<Rightarrow> (string \<times> string) option" where
  "split_once d [] = None"
| "split_once d (c # s) = (if c = d then Some ([], s)
     else map_option (\<lambda>(a, b). (c # a, b)) (split_once d s))"

fun show_nat_acc :: "nat \<Rightarrow> string \<Rightarrow> string" where
  "show_nat_acc n acc = (let d = char_of (48 + n mod 10) in
     if n < 10 then d # acc else show_nat_acc (n div 10) (d # acc))"

declare show_nat_acc.simps [simp del]

definition show_nat :: "nat \<Rightarrow> string" where
  "show_nat n = show_nat_acc n []"

text \<open>The value of a digit string, the left inverse of \<open>show_nat\<close>.\<close>

definition read_nat :: "string \<Rightarrow> nat" where
  "read_nat s = foldl (\<lambda>v c. 10 * v + (of_char c - 48)) 0 s"

text \<open>The UTF-8 bytes of an em dash, which some of the gateway's messages contain.\<close>

definition em_dash :: string where
  "em_dash = [CHR 0xE2, CHR 0x80, CHR 0x94]"

lemma starts_with_append [simp]: "starts_with (p @ s) p"
  by (induction p) auto

lemma starts_with_iff: "starts_with s p \<longleftrightarrow> (\<exists>r. s = p @ r)"
  by (induction s p rule: starts_with.induct) auto

lemma contains_iff: "contains s p \<longleftrightarrow> (\<exists>a b. s = a @ p @ b)"
proof (induction s)
  case (Cons c s)
  show ?case
    unfolding contains.simps Cons.IH starts_with_iff
    by (metis append_Cons append_Nil list.sel(3) tl_append2)
qed auto

lemma contains_append_left [simp]: "contains s p \<Longrightarrow> contains (a @ s) p"
  unfolding contains_iff by (metis append.assoc)

lemma contains_prefix [simp]: "contains (p @ b) p"
  unfolding contains_iff by (metis append_Nil)

lemma strip_prefix_append [simp]: "strip_prefix (p @ s) p = Some s"
  by (induction p) auto

lemma strip_prefix_SomeD: "strip_prefix s p = Some r \<Longrightarrow> s = p @ r"
  by (induction s p rule: strip_prefix.induct) (auto split: if_splits)

lemma split_once_append [simp]:
  "d \<notin> set a \<Longrightarrow> split_once d (a @ d # b) = Some (a, b)"
  by (induction a) auto

lemma split_once_SomeD: "split_once d s = Some (a, b) \<Longrightarrow> s = a @ d # b \<and> d \<notin> set a"
  by (induction d s arbitrary: a b rule: split_once.induct) (auto split: if_splits)

lemma of_char_digit: "n < 10 \<Longrightarrow> (of_char (char_of (48 + n) :: char) :: nat) = 48 + n"
  by simp

lemma read_show_nat_acc:
  "foldl (\<lambda>v c. 10 * v + (of_char c - 48)) 0 (show_nat_acc n acc)
     = foldl (\<lambda>v c. 10 * v + (of_char c - 48)) n acc"
proof (induction n acc rule: show_nat_acc.induct)
  case (1 n acc)
  show ?case
  proof (cases "n < 10")
    case True
    then show ?thesis
      by (subst show_nat_acc.simps) (simp add: Let_def of_char_digit)
  next
    case False
    have "10 * (n div 10) + (of_char (char_of (48 + n mod 10) :: char) - 48) = n"
      by (subst of_char_digit) simp_all
    with False 1 [OF refl] show ?thesis
      by (subst show_nat_acc.simps) (simp add: Let_def)
  qed
qed

lemma read_show_nat [simp]: "read_nat (show_nat n) = n"
  by (simp add: read_nat_def show_nat_def read_show_nat_acc)

lemma show_nat_inject [simp]: "show_nat m = show_nat n \<longleftrightarrow> m = n"
  by (metis read_show_nat)

definition ascii_digit :: "char \<Rightarrow> bool" where
  "ascii_digit c = (48 \<le> (of_char c :: nat) \<and> of_char c \<le> (57 :: nat))"

lemma ascii_digit_char_of: "ascii_digit (char_of (48 + n mod (10 :: nat)))"
  using of_char_digit [of "n mod 10"] unfolding ascii_digit_def by simp

lemma show_nat_acc_digits:
  "list_all ascii_digit acc \<Longrightarrow> list_all ascii_digit (show_nat_acc n acc)"
proof (induction n acc rule: show_nat_acc.induct)
  case (1 n acc)
  then have "list_all ascii_digit (char_of (48 + n mod 10) # acc)"
    using ascii_digit_char_of by (simp del: of_char_of)
  with 1 show ?case
    by (subst show_nat_acc.simps) (auto simp: Let_def)
qed

lemma show_nat_digits: "list_all ascii_digit (show_nat n)"
  by (simp add: show_nat_def show_nat_acc_digits)

lemma show_nat_no_colon [simp]: "CHR '':'' \<notin> set (show_nat n)"
  using show_nat_digits [of n] by (auto simp: list_all_iff ascii_digit_def)

subsection \<open>Results\<close>

text \<open>\<open>Result<T, E>\<close> is \<open>'e + 'a\<close>; \<open>try_res\<close> is the \<open>?\<close> operator.\<close>

fun try_res :: "'e + 'a \<Rightarrow> ('a \<Rightarrow> 'e + 'b) \<Rightarrow> 'e + 'b" where
  "try_res (Inl e) f = Inl e"
| "try_res (Inr x) f = f x"

lemma try_res_eq_Inr [simp]: "try_res r f = Inr y \<longleftrightarrow> (\<exists>x. r = Inr x \<and> f x = Inr y)"
  by (cases r) auto

subsection \<open>Step systems\<close>

text \<open>
  A component with its operations as a step relation. A predicate that holds initially and
  that every step keeps holds in every reachable state; the components instantiate this with
  their own step relation and invariant.
\<close>

inductive reachable :: "('s \<Rightarrow> bool) \<Rightarrow> ('s \<Rightarrow> 's \<Rightarrow> bool) \<Rightarrow> 's \<Rightarrow> bool"
  for init step where
  reach_init: "init s \<Longrightarrow> reachable init step s"
| reach_step: "reachable init step s \<Longrightarrow> step s s' \<Longrightarrow> reachable init step s'"

locale invariant_system =
  fixes init :: "'s \<Rightarrow> bool"
    and step :: "'s \<Rightarrow> 's \<Rightarrow> bool"
    and inv :: "'s \<Rightarrow> bool"
  assumes inv_init: "init s \<Longrightarrow> inv s"
    and inv_step: "inv s \<Longrightarrow> step s s' \<Longrightarrow> inv s'"
begin

lemma reachable_inv: "reachable init step s \<Longrightarrow> inv s"
  by (induction rule: reachable.induct) (auto intro: inv_init inv_step)

lemma inv_steps: "step\<^sup>*\<^sup>* s s' \<Longrightarrow> inv s \<Longrightarrow> inv s'"
  by (induction rule: rtranclp_induct) (auto intro: inv_step)

end

text \<open>
  A component with its operations as functions on a state, and an abstract machine with the same
  operations. When each operation that the abstract machine allows keeps a relation between the
  two states, so does every run of allowed operations.
\<close>

fun allowed_run :: "('o \<Rightarrow> 'a \<Rightarrow> bool) \<Rightarrow> ('o \<Rightarrow> 'a \<Rightarrow> 'a) \<Rightarrow> 'o list \<Rightarrow> 'a \<Rightarrow> bool" where
  "allowed_run ok step [] a = True"
| "allowed_run ok step (x # xs) a = (ok x a \<and> allowed_run ok step xs (step x a))"

locale refinement =
  fixes concrete :: "'o \<Rightarrow> 'c \<Rightarrow> 'c"
    and abstract :: "'o \<Rightarrow> 'a \<Rightarrow> 'a"
    and ok :: "'o \<Rightarrow> 'a \<Rightarrow> bool"
    and rel :: "'c \<Rightarrow> 'a \<Rightarrow> bool"
  assumes simulates: "rel c a \<Longrightarrow> ok x a \<Longrightarrow> rel (concrete x c) (abstract x a)"
begin

lemma run_refines: "rel c a \<Longrightarrow> allowed_run ok abstract xs a \<Longrightarrow> rel (fold concrete xs c) (fold abstract xs a)"
  by (induction xs arbitrary: c a) (auto intro: simulates)

end

end
