(* ===== verification/Gw_Error.thy ===== *)
theory Gw_Error
  imports Gw_Prelude
begin

text \<open>
  The gateway's error type (\<open>crates/core/src/error.rs\<close>): its variants, their display text,
  the HTTP status and code of each, the API error body with its credential scrubbing, and the
  two predicates the retry logic reads. Errors of other crates are opaque here: a boxed source
  error and the report of the \<open>validator\<close> crate are represented by their text.
\<close>

datatype json =
    JNull
  | JBool bool
  | JNum int
  | JString string
  | JArray "json list"
  | JObject "(string \<times> json) list"

datatype gateway_error =
    InvalidRequest string "string option"
  | InvalidValue string string "string option"
  | ValidationError string
  | Unauthorized string string
  | OrderNotFound string
  | PositionNotFound string
  | SymbolNotFound string
  | OcoGroupNotFound string
  | OrderNotModifiable string string
  | ResetCooldown string
  | OrderRejected string "string option" "json option"
  | RateLimited "nat option" "utc option"
  | Internal string "string option"
  | ProviderError string "string option" "string option"
  | ShuttingDown
  | ProviderUnavailable string
  | UnsupportedOperation string string

text \<open>The \<open>Display\<close> text of an error, from its \<open>#[error(..)]\<close> attributes.\<close>

fun error_to_string :: "gateway_error \<Rightarrow> string" where
  "error_to_string (InvalidRequest message field) = ''Invalid request: '' @ message"
| "error_to_string (InvalidValue field message provided) =
     ''Invalid value for '' @ field @ '': '' @ message"
| "error_to_string (ValidationError errors) = ''Validation failed: '' @ errors"
| "error_to_string (Unauthorized reason code) = ''Unauthorized: '' @ reason"
| "error_to_string (OrderNotFound i) = ''Order not found: '' @ i"
| "error_to_string (PositionNotFound i) = ''Position not found: '' @ i"
| "error_to_string (SymbolNotFound symbol) = ''Symbol not found: '' @ symbol"
| "error_to_string (OcoGroupNotFound i) = ''OCO group not found: '' @ i"
| "error_to_string (OrderNotModifiable order_id reason) = ''Order cannot be modified: '' @ reason"
| "error_to_string (ResetCooldown message) = message"
| "error_to_string (OrderRejected reason code details) = ''Order rejected: '' @ reason"
| "error_to_string (RateLimited retry_after reset_at) = ''Rate limit exceeded''"
| "error_to_string (Internal message source) = ''Internal error: '' @ message"
| "error_to_string (ProviderError message provider source) = ''Provider error: '' @ message"
| "error_to_string ShuttingDown = ''Gateway is shutting down''"
| "error_to_string (ProviderUnavailable message) = ''Provider unavailable: '' @ message"
| "error_to_string (UnsupportedOperation operation provider) =
     operation @ '' not supported on '' @ provider"

datatype error_code =
    CodeInvalidRequest | CodeInvalidValue | CodeValidationError | CodeUnauthorized
  | CodeOrderNotFound | CodePositionNotFound | CodeSymbolNotFound | CodeOcoGroupNotFound
  | CodeOrderNotModifiable | CodeResetCooldown | CodeOrderRejected | CodeRateLimited
  | CodeInternalError | CodeUnsupportedOperation | CodeProviderError | CodeShuttingDown
  | CodeProviderUnavailable

fun error_code_as_str :: "error_code \<Rightarrow> string" where
  "error_code_as_str CodeInvalidRequest = ''INVALID_REQUEST''"
| "error_code_as_str CodeInvalidValue = ''INVALID_VALUE''"
| "error_code_as_str CodeValidationError = ''VALIDATION_ERROR''"
| "error_code_as_str CodeUnauthorized = ''UNAUTHORIZED''"
| "error_code_as_str CodeOrderNotFound = ''ORDER_NOT_FOUND''"
| "error_code_as_str CodePositionNotFound = ''POSITION_NOT_FOUND''"
| "error_code_as_str CodeSymbolNotFound = ''SYMBOL_NOT_FOUND''"
| "error_code_as_str CodeOcoGroupNotFound = ''OCO_GROUP_NOT_FOUND''"
| "error_code_as_str CodeOrderNotModifiable = ''ORDER_NOT_MODIFIABLE''"
| "error_code_as_str CodeResetCooldown = ''RESET_COOLDOWN''"
| "error_code_as_str CodeOrderRejected = ''ORDER_REJECTED''"
| "error_code_as_str CodeRateLimited = ''RATE_LIMITED''"
| "error_code_as_str CodeInternalError = ''INTERNAL_ERROR''"
| "error_code_as_str CodeUnsupportedOperation = ''UNSUPPORTED_OPERATION''"
| "error_code_as_str CodeProviderError = ''PROVIDER_ERROR''"
| "error_code_as_str CodeShuttingDown = ''SHUTTING_DOWN''"
| "error_code_as_str CodeProviderUnavailable = ''PROVIDER_UNAVAILABLE''"

fun status_code :: "gateway_error \<Rightarrow> nat" where
  "status_code (InvalidRequest m f) = 400"
| "status_code (InvalidValue f m p) = 400"
| "status_code (ValidationError e) = 400"
| "status_code (Unauthorized r c) = 401"
| "status_code (OrderNotFound i) = 404"
| "status_code (PositionNotFound i) = 404"
| "status_code (SymbolNotFound s) = 404"
| "status_code (OcoGroupNotFound i) = 404"
| "status_code (OrderNotModifiable i r) = 409"
| "status_code (ResetCooldown m) = 409"
| "status_code (OrderRejected r c d) = 422"
| "status_code (RateLimited r t) = 429"
| "status_code (Internal m s) = 500"
| "status_code (UnsupportedOperation o1 p) = 501"
| "status_code (ProviderError m p s) = 502"
| "status_code ShuttingDown = 503"
| "status_code (ProviderUnavailable m) = 503"

fun error_code_of :: "gateway_error \<Rightarrow> error_code" where
  "error_code_of (InvalidRequest m f) = CodeInvalidRequest"
| "error_code_of (InvalidValue f m p) = CodeInvalidValue"
| "error_code_of (ValidationError e) = CodeValidationError"
| "error_code_of (Unauthorized r c) = CodeUnauthorized"
| "error_code_of (OrderNotFound i) = CodeOrderNotFound"
| "error_code_of (PositionNotFound i) = CodePositionNotFound"
| "error_code_of (SymbolNotFound s) = CodeSymbolNotFound"
| "error_code_of (OcoGroupNotFound i) = CodeOcoGroupNotFound"
| "error_code_of (OrderNotModifiable i r) = CodeOrderNotModifiable"
| "error_code_of (ResetCooldown m) = CodeResetCooldown"
| "error_code_of (OrderRejected r c d) = CodeOrderRejected"
| "error_code_of (RateLimited r t) = CodeRateLimited"
| "error_code_of (Internal m s) = CodeInternalError"
| "error_code_of (UnsupportedOperation o1 p) = CodeUnsupportedOperation"
| "error_code_of (ProviderError m p s) = CodeProviderError"
| "error_code_of ShuttingDown = CodeShuttingDown"
| "error_code_of (ProviderUnavailable m) = CodeProviderUnavailable"

subsection \<open>The API error body\<close>

text \<open>
  \<open>scrub\<close> is \<open>scrub_credentials\<close> and \<open>is_key\<close> the match of \<open>CREDENTIAL_KEY_PATTERN\<close>: both run the
  \<open>regex\<close> crate and are parameters.
\<close>

definition redacted :: string where
  "redacted = ''***REDACTED***''"

fun is_json_string :: "json \<Rightarrow> bool" where
  "is_json_string (JString s) = True"
| "is_json_string j = False"

function scrub_json_values :: "(string \<Rightarrow> string) \<Rightarrow> (string \<Rightarrow> bool) \<Rightarrow> json \<Rightarrow> json" where
  "scrub_json_values scrub is_key (JString s) = JString (scrub s)"
| "scrub_json_values scrub is_key (JArray xs) = JArray (map (scrub_json_values scrub is_key) xs)"
| "scrub_json_values scrub is_key (JObject kvs) =
     JObject (map (\<lambda>kv. (fst kv,
        if is_key (fst kv) \<and> is_json_string (snd kv) then JString (scrub redacted)
        else scrub_json_values scrub is_key (snd kv))) kvs)"
| "scrub_json_values scrub is_key JNull = JNull"
| "scrub_json_values scrub is_key (JBool b) = JBool b"
| "scrub_json_values scrub is_key (JNum n) = JNum n"
  by pat_completeness auto

lemma size_json_member: "(k, v) \<in> set kvs \<Longrightarrow> size v < size_list (size_prod (\<lambda>_. 0) size) kvs"
  by (induction kvs) auto

termination scrub_json_values
proof (relation "measure (\<lambda>(scrub, is_key, j). size j)")
  fix scrub :: "string \<Rightarrow> string" and is_key kvs and kv :: "string \<times> json"
  assume "kv \<in> set kvs"
  then show "((scrub, is_key, snd kv), scrub, is_key, JObject kvs)
      \<in> measure (\<lambda>(scrub, is_key, j). size j)"
    using size_json_member [of "fst kv" "snd kv" kvs] by simp
qed (auto simp: less_Suc_eq_le size_list_estimation')

record api_error =
  ae_code :: error_code
  ae_message :: string
  ae_details :: "json option"

fun json_opt :: "('a \<Rightarrow> json) \<Rightarrow> 'a option \<Rightarrow> json" where
  "json_opt f None = JNull"
| "json_opt f (Some x) = f x"

text \<open>
  The details of an error. \<open>val_json\<close> and \<open>ts_json\<close> are the serde forms of the validator's
  report and of a timestamp.
\<close>

fun error_details :: "(string \<Rightarrow> json) \<Rightarrow> (utc \<Rightarrow> json) \<Rightarrow> gateway_error \<Rightarrow> json option" where
  "error_details val_json ts_json (InvalidRequest m field) =
     map_option (\<lambda>f. JObject [(''field'', JString f)]) field"
| "error_details val_json ts_json (InvalidValue field m provided) =
     Some (JObject [(''field'', JString field), (''provided'', json_opt JString provided)])"
| "error_details val_json ts_json (ValidationError errors) = Some (val_json errors)"
| "error_details val_json ts_json (OrderNotFound i) =
     Some (JObject [(''resource'', JString ''order''), (''id'', JString i)])"
| "error_details val_json ts_json (PositionNotFound i) =
     Some (JObject [(''resource'', JString ''position''), (''id'', JString i)])"
| "error_details val_json ts_json (SymbolNotFound s) = Some (JObject [(''symbol'', JString s)])"
| "error_details val_json ts_json (OcoGroupNotFound i) =
     Some (JObject [(''resource'', JString ''oco_group''), (''id'', JString i)])"
| "error_details val_json ts_json (OrderNotModifiable i r) =
     Some (JObject [(''order_id'', JString i)])"
| "error_details val_json ts_json (OrderRejected r reject_code details) =
     (let d = (case details of Some d \<Rightarrow> d | None \<Rightarrow> JObject []) in
      Some (case (reject_code, d) of
              (Some code, JObject obj) \<Rightarrow> JObject (dm_insert ''reject_code'' (JString code) obj)
            | _ \<Rightarrow> d))"
| "error_details val_json ts_json (RateLimited retry_after reset_at) =
     Some (JObject [(''retry_after_seconds'', json_opt (\<lambda>n. JNum (int n)) retry_after),
                    (''reset_at'', json_opt ts_json reset_at)])"
| "error_details val_json ts_json (ProviderError m provider s) =
     map_option (\<lambda>p. JObject [(''provider'', JString p)]) provider"
| "error_details val_json ts_json (Unauthorized r code) = Some (JObject [(''code'', JString code)])"
| "error_details val_json ts_json (UnsupportedOperation operation provider) =
     Some (JObject [(''operation'', JString operation), (''provider'', JString provider)])"
| "error_details val_json ts_json (ResetCooldown m) = None"
| "error_details val_json ts_json ShuttingDown = None"
| "error_details val_json ts_json (Internal m s) = None"
| "error_details val_json ts_json (ProviderUnavailable m) = None"

definition to_api_error ::
  "(string \<Rightarrow> string) \<Rightarrow> (string \<Rightarrow> bool) \<Rightarrow> (string \<Rightarrow> json) \<Rightarrow> (utc \<Rightarrow> json) \<Rightarrow> gateway_error \<Rightarrow> api_error" where
  "to_api_error scrub is_key val_json ts_json e =
     \<lparr>ae_code = error_code_of e,
      ae_message = scrub (error_to_string e),
      ae_details = map_option (scrub_json_values scrub is_key) (error_details val_json ts_json e)\<rparr>"

subsection \<open>Predicates of the retry logic\<close>

fun is_wash_trade_error :: "gateway_error \<Rightarrow> bool" where
  "is_wash_trade_error (OrderRejected reason c d) =
     (let reason_lower = to_lowercase reason in
      contains reason_lower ''self-trade'' \<or> contains reason_lower ''wash'')"
| "is_wash_trade_error e = False"

definition is_retryable :: "gateway_error \<Rightarrow> bool" where
  "is_retryable e =
     ((case e of RateLimited r t \<Rightarrow> True | ProviderUnavailable m \<Rightarrow> True | ProviderError m p s \<Rightarrow> True
       | _ \<Rightarrow> False) \<or> is_wash_trade_error e)"

subsection \<open>Lemmas\<close>

text \<open>The strings of a JSON tree, with the object key each stands directly under.\<close>

function json_strings :: "json \<Rightarrow> (string option \<times> string) list" where
  "json_strings (JString s) = [(None, s)]"
| "json_strings (JArray xs) = concat (map json_strings xs)"
| "json_strings (JObject kvs) =
     concat (map (\<lambda>kv. if is_json_string (snd kv)
        then map (\<lambda>p. (Some (fst kv), snd p)) (json_strings (snd kv))
        else json_strings (snd kv)) kvs)"
| "json_strings JNull = []"
| "json_strings (JBool b) = []"
| "json_strings (JNum n) = []"
  by pat_completeness auto

termination json_strings
proof (relation "measure size")
  fix kvs and kv :: "string \<times> json"
  assume "kv \<in> set kvs"
  then show "(snd kv, JObject kvs) \<in> measure size"
    using size_json_member [of "fst kv" "snd kv" kvs] by simp
  then show "(snd kv, JObject kvs) \<in> measure size" .
qed (auto simp: less_Suc_eq_le size_list_estimation')

lemma is_json_string_scrub [simp]:
  "is_json_string (scrub_json_values scrub is_key j) = is_json_string j"
  by (cases j) auto

lemma json_strings_scrub_range:
  "(k, s) \<in> set (json_strings (scrub_json_values scrub is_key j)) \<Longrightarrow> s \<in> range scrub"
proof (induction j arbitrary: k s rule: json_strings.induct)
  case (3 kvs)
  then show ?case
    by (fastforce split: if_splits)
qed auto

lemma json_strings_scrub_keys:
  "(Some k, s) \<in> set (json_strings (scrub_json_values scrub is_key j)) \<Longrightarrow> is_key k \<Longrightarrow>
   s = scrub redacted"
proof (induction j arbitrary: k s rule: json_strings.induct)
  case (3 kvs)
  then show ?case
    by (fastforce split: if_splits elim!: is_json_string.elims(2))
qed auto

end
