(* ===== verification/Gw_Platform.thy ===== *)
theory Gw_Platform
  imports Gw_Prelude
begin

text \<open>
  Trading platforms (\<open>models/platform.rs\<close>): the broker and environment a gateway instance trades
  on, their wire names, and the two ways a platform is chosen: parsing its name and combining a
  provider with a trading mode.
\<close>

datatype trading_platform =
    AlpacaLive | AlpacaPaper | BinanceSpotLive | BinanceSpotTestnet
  | BinanceFuturesLive | BinanceFuturesTestnet | BinanceMarginLive | BinanceMarginTestnet
  | BinanceCoinFuturesLive | BinanceCoinFuturesTestnet | OandaPractice | OandaLive
  | SaxoSim | SaxoLive | Tektii | Mock

datatype trading_platform_kind =
    KindAlpaca | KindBinanceSpot | KindBinanceFutures | KindBinanceMargin | KindBinanceCoinFutures
  | KindOanda | KindSaxo | KindTektii | KindMock

datatype gateway_mode = Paper | Live

fun platform_kind :: "trading_platform \<Rightarrow> trading_platform_kind" where
  "platform_kind AlpacaLive = KindAlpaca"
| "platform_kind AlpacaPaper = KindAlpaca"
| "platform_kind BinanceSpotLive = KindBinanceSpot"
| "platform_kind BinanceSpotTestnet = KindBinanceSpot"
| "platform_kind BinanceFuturesLive = KindBinanceFutures"
| "platform_kind BinanceFuturesTestnet = KindBinanceFutures"
| "platform_kind BinanceMarginLive = KindBinanceMargin"
| "platform_kind BinanceMarginTestnet = KindBinanceMargin"
| "platform_kind BinanceCoinFuturesLive = KindBinanceCoinFutures"
| "platform_kind BinanceCoinFuturesTestnet = KindBinanceCoinFutures"
| "platform_kind OandaPractice = KindOanda"
| "platform_kind OandaLive = KindOanda"
| "platform_kind SaxoSim = KindSaxo"
| "platform_kind SaxoLive = KindSaxo"
| "platform_kind Tektii = KindTektii"
| "platform_kind Mock = KindMock"

definition is_paper :: "trading_platform \<Rightarrow> bool" where
  "is_paper p = (p \<in> {AlpacaPaper, BinanceSpotTestnet, BinanceFuturesTestnet, BinanceMarginTestnet,
     BinanceCoinFuturesTestnet, OandaPractice, SaxoSim, Tektii, Mock})"

definition is_live :: "trading_platform \<Rightarrow> bool" where
  "is_live p = (p \<in> {AlpacaLive, BinanceSpotLive, BinanceFuturesLive, BinanceMarginLive,
     BinanceCoinFuturesLive, OandaLive, SaxoLive})"

fun header_value :: "trading_platform \<Rightarrow> string" where
  "header_value AlpacaLive = ''alpaca-live''"
| "header_value AlpacaPaper = ''alpaca-paper''"
| "header_value BinanceSpotLive = ''binance-spot-live''"
| "header_value BinanceSpotTestnet = ''binance-spot-testnet''"
| "header_value BinanceFuturesLive = ''binance-futures-live''"
| "header_value BinanceFuturesTestnet = ''binance-futures-testnet''"
| "header_value BinanceMarginLive = ''binance-margin-live''"
| "header_value BinanceMarginTestnet = ''binance-margin-testnet''"
| "header_value BinanceCoinFuturesLive = ''binance-coin-futures-live''"
| "header_value BinanceCoinFuturesTestnet = ''binance-coin-futures-testnet''"
| "header_value OandaPractice = ''oanda-practice''"
| "header_value OandaLive = ''oanda-live''"
| "header_value SaxoSim = ''saxo-sim''"
| "header_value SaxoLive = ''saxo-live''"
| "header_value Tektii = ''tektii''"
| "header_value Mock = ''mock''"

fun display_name :: "trading_platform \<Rightarrow> string" where
  "display_name AlpacaLive = ''Alpaca (Live)''"
| "display_name AlpacaPaper = ''Alpaca (Paper)''"
| "display_name BinanceSpotLive = ''Binance Spot (Live)''"
| "display_name BinanceSpotTestnet = ''Binance Spot (Testnet)''"
| "display_name BinanceFuturesLive = ''Binance Futures (Live)''"
| "display_name BinanceFuturesTestnet = ''Binance Futures (Testnet)''"
| "display_name BinanceMarginLive = ''Binance Margin (Live)''"
| "display_name BinanceMarginTestnet = ''Binance Margin (Testnet)''"
| "display_name BinanceCoinFuturesLive = ''Binance COIN-M Futures (Live)''"
| "display_name BinanceCoinFuturesTestnet = ''Binance COIN-M Futures (Testnet)''"
| "display_name OandaPractice = ''Oanda (Practice)''"
| "display_name OandaLive = ''Oanda (Live)''"
| "display_name SaxoSim = ''Saxo Bank (SIM)''"
| "display_name SaxoLive = ''Saxo Bank (Live)''"
| "display_name Tektii = ''Tektii''"
| "display_name Mock = ''Mock (Local Development)''"

text \<open>The arms of \<open>TradingPlatform::from_str\<close>, in the order of the source.\<close>

definition platform_names :: "(string \<times> trading_platform) list" where
  "platform_names =
     [(''alpaca-live'', AlpacaLive), (''alpaca_live'', AlpacaLive),
      (''alpaca-paper'', AlpacaPaper), (''alpaca_paper'', AlpacaPaper), (''alpaca'', AlpacaPaper),
      (''binance-spot-live'', BinanceSpotLive), (''binance_spot_live'', BinanceSpotLive),
      (''binance-spot-testnet'', BinanceSpotTestnet), (''binance_spot_testnet'', BinanceSpotTestnet), (''binance-spot'', BinanceSpotTestnet),
      (''binance-futures-live'', BinanceFuturesLive), (''binance_futures_live'', BinanceFuturesLive),
      (''binance-futures-testnet'', BinanceFuturesTestnet), (''binance_futures_testnet'', BinanceFuturesTestnet), (''binance-futures'', BinanceFuturesTestnet),
      (''binance-margin-live'', BinanceMarginLive), (''binance_margin_live'', BinanceMarginLive),
      (''binance-margin-testnet'', BinanceMarginTestnet), (''binance_margin_testnet'', BinanceMarginTestnet), (''binance-margin'', BinanceMarginTestnet),
      (''binance-coin-futures-live'', BinanceCoinFuturesLive), (''binance_coin_futures_live'', BinanceCoinFuturesLive),
      (''binance-coin-futures-testnet'', BinanceCoinFuturesTestnet), (''binance_coin_futures_testnet'', BinanceCoinFuturesTestnet), (''binance-coin-futures'', BinanceCoinFuturesTestnet),
      (''oanda-live'', OandaLive), (''oanda_live'', OandaLive),
      (''oanda-practice'', OandaPractice), (''oanda_practice'', OandaPractice), (''oanda'', OandaPractice),
      (''saxo-sim'', SaxoSim), (''saxo_sim'', SaxoSim), (''saxo'', SaxoSim),
      (''saxo-live'', SaxoLive), (''saxo_live'', SaxoLive),
      (''tektii'', Tektii),
      (''mock'', Mock)]"

definition platform_from_str :: "string \<Rightarrow> string + trading_platform" where
  "platform_from_str s = (case map_of platform_names (to_lowercase s) of
     Some p \<Rightarrow> Inr p | None \<Rightarrow> Inl s)"

fun kind_platforms :: "trading_platform_kind \<Rightarrow> trading_platform list" where
  "kind_platforms KindAlpaca = [AlpacaLive, AlpacaPaper]"
| "kind_platforms KindBinanceSpot = [BinanceSpotLive, BinanceSpotTestnet]"
| "kind_platforms KindBinanceFutures = [BinanceFuturesLive, BinanceFuturesTestnet]"
| "kind_platforms KindBinanceMargin = [BinanceMarginLive, BinanceMarginTestnet]"
| "kind_platforms KindBinanceCoinFutures = [BinanceCoinFuturesLive, BinanceCoinFuturesTestnet]"
| "kind_platforms KindOanda = [OandaPractice, OandaLive]"
| "kind_platforms KindSaxo = [SaxoSim, SaxoLive]"
| "kind_platforms KindTektii = [Tektii]"
| "kind_platforms KindMock = [Mock]"

fun to_platform :: "trading_platform_kind \<Rightarrow> gateway_mode \<Rightarrow> trading_platform" where
  "to_platform KindAlpaca Paper = AlpacaPaper"
| "to_platform KindAlpaca Live = AlpacaLive"
| "to_platform KindBinanceSpot Paper = BinanceSpotTestnet"
| "to_platform KindBinanceSpot Live = BinanceSpotLive"
| "to_platform KindBinanceFutures Paper = BinanceFuturesTestnet"
| "to_platform KindBinanceFutures Live = BinanceFuturesLive"
| "to_platform KindBinanceMargin Paper = BinanceMarginTestnet"
| "to_platform KindBinanceMargin Live = BinanceMarginLive"
| "to_platform KindBinanceCoinFutures Paper = BinanceCoinFuturesTestnet"
| "to_platform KindBinanceCoinFutures Live = BinanceCoinFuturesLive"
| "to_platform KindOanda Paper = OandaPractice"
| "to_platform KindOanda Live = OandaLive"
| "to_platform KindSaxo Paper = SaxoSim"
| "to_platform KindSaxo Live = SaxoLive"
| "to_platform KindTektii m = Tektii"
| "to_platform KindMock m = Mock"

fun required_env_vars :: "trading_platform_kind \<Rightarrow> string list" where
  "required_env_vars KindAlpaca = [''ALPACA_API_KEY'', ''ALPACA_API_SECRET'']"
| "required_env_vars KindBinanceSpot = [''BINANCE_API_KEY'', ''BINANCE_API_SECRET'']"
| "required_env_vars KindBinanceFutures = [''BINANCE_API_KEY'', ''BINANCE_API_SECRET'']"
| "required_env_vars KindBinanceMargin = [''BINANCE_API_KEY'', ''BINANCE_API_SECRET'']"
| "required_env_vars KindBinanceCoinFutures = [''BINANCE_API_KEY'', ''BINANCE_API_SECRET'']"
| "required_env_vars KindOanda = [''OANDA_API_KEY'', ''OANDA_ACCOUNT_ID'']"
| "required_env_vars KindSaxo = [''SAXO_APP_KEY'', ''SAXO_APP_SECRET'', ''SAXO_ACCOUNT_KEY'']"
| "required_env_vars KindTektii = [''TEKTII_ENGINE_URL'', ''TEKTII_ENGINE_WS_URL'']"
| "required_env_vars KindMock = []"

fun kind_to_string :: "trading_platform_kind \<Rightarrow> string" where
  "kind_to_string KindAlpaca = ''alpaca''"
| "kind_to_string KindBinanceSpot = ''binance_spot''"
| "kind_to_string KindBinanceFutures = ''binance_futures''"
| "kind_to_string KindBinanceMargin = ''binance_margin''"
| "kind_to_string KindBinanceCoinFutures = ''binance_coin_futures''"
| "kind_to_string KindOanda = ''oanda''"
| "kind_to_string KindSaxo = ''saxo''"
| "kind_to_string KindTektii = ''tektii''"
| "kind_to_string KindMock = ''mock''"

definition kind_from_str :: "string \<Rightarrow> string + trading_platform_kind" where
  "kind_from_str s = (case map_of [(''alpaca'', KindAlpaca), (''binance_spot'', KindBinanceSpot),
      (''oanda'', KindOanda), (''saxo'', KindSaxo), (''tektii'', KindTektii), (''mock'', KindMock)] s of
     Some k \<Rightarrow> Inr k | None \<Rightarrow> Inl s)"

fun mode_to_string :: "gateway_mode \<Rightarrow> string" where
  "mode_to_string Paper = ''paper''"
| "mode_to_string Live = ''live''"

definition mode_from_str :: "string \<Rightarrow> string + gateway_mode" where
  "mode_from_str s = (if s = ''paper'' then Inr Paper else if s = ''live'' then Inr Live
     else Inl (''invalid GATEWAY_MODE='' @ [CHR 0x27] @ s @ [CHR 0x27] @ '': valid values are '' @ [CHR 0x27] @
               ''paper'' @ [CHR 0x27] @ '', '' @ [CHR 0x27] @ ''live'' @ [CHR 0x27]))"

subsection \<open>Lemmas\<close>

lemma live_or_paper: "is_live p \<longleftrightarrow> \<not> is_paper p"
  by (cases p) (simp_all add: is_live_def is_paper_def)

lemma platform_kind_to_platform [simp]: "platform_kind (to_platform k m) = k"
  by (cases k; cases m) simp_all

lemma kind_platforms_iff: "p \<in> set (kind_platforms k) \<longleftrightarrow> platform_kind p = k"
  by (cases k; cases p) simp_all

lemma to_platform_live: "is_live (to_platform k m) \<longleftrightarrow> m = Live \<and> k \<notin> {KindTektii, KindMock}"
  by (cases k; cases m) (simp_all add: is_live_def)

lemma mode_roundtrip [simp]: "mode_from_str (mode_to_string m) = Inr m"
  by (cases m) (simp_all add: mode_from_str_def)

lemma kind_from_str_sound: "kind_from_str s = Inr k \<Longrightarrow> kind_to_string k = s"
  by (auto simp: kind_from_str_def split: if_splits)

lemma lower_header_value: "to_lowercase (header_value p) = header_value p"
  by (cases p) (simp_all add: to_lowercase_def ascii_lower_def)

lemma header_value_names: "map_of platform_names (header_value p) = Some p"
  by (cases p) (simp_all add: platform_names_def)

lemma platform_roundtrip: "platform_from_str (header_value p) = Inr p"
  by (simp add: platform_from_str_def lower_header_value header_value_names)

text \<open>Every accepted spelling of a live platform ends in \<open>live\<close>.\<close>

lemma live_names:
  "list_all (\<lambda>(n, p). is_live p \<longrightarrow> drop (length n - 4) n = ''live'') platform_names"
  by (simp add: platform_names_def is_live_def)

lemma platform_from_str_live:
  assumes "platform_from_str s = Inr p" and "is_live p"
  shows "drop (length s - 4) (to_lowercase s) = ''live''"
proof -
  have "(to_lowercase s, p) \<in> set platform_names"
    using assms(1) by (auto simp: platform_from_str_def dest: map_of_SomeD split: option.splits)
  then show ?thesis
    using live_names assms(2) by (auto simp: list_all_iff to_lowercase_def)
qed

end
