(* ===== verification/Gw_Models.thy ===== *)
theory Gw_Models
  imports Gw_Error Gw_Platform
begin

text \<open>
  The data the gateway exchanges with its clients and brokers (\<open>crates/core/src/models\<close>): order
  and position records, the request constructors, and the cross-field validation of an order
  request. \<open>dts\<close> is \<open>Decimal::to_string\<close>.
\<close>

datatype side = Buy | Sell

datatype position_side = Long | Short

datatype order_type = Market | Limit | Stop | StopLimit | TrailingStop

datatype order_status =
  Pending | PendingCancel | Open | PartiallyFilled | Filled | Cancelled | Rejected | Expired

datatype trailing_type = Absolute | Percent

datatype margin_mode = Cross | Isolated

datatype time_in_force = Gtc | Day | Ioc | Fok

datatype reject_reason =
    ReasonInsufficientMargin | ReasonInsufficientBalance | ReasonInvalidQuantity
  | ReasonInvalidPrice | ReasonSymbolNotTradeable | ReasonMarketClosed
  | ReasonReduceOnlyViolated | ReasonPostOnlyViolated | ReasonRateLimited | ReasonUnknown

definition time_in_force_default :: time_in_force where
  "time_in_force_default = Gtc"

fun order_status_as_str :: "order_status \<Rightarrow> string" where
  "order_status_as_str Pending = ''PENDING''"
| "order_status_as_str PendingCancel = ''PENDING_CANCEL''"
| "order_status_as_str Open = ''OPEN''"
| "order_status_as_str PartiallyFilled = ''PARTIALLY_FILLED''"
| "order_status_as_str Filled = ''FILLED''"
| "order_status_as_str Cancelled = ''CANCELLED''"
| "order_status_as_str Rejected = ''REJECTED''"
| "order_status_as_str Expired = ''EXPIRED''"

definition order_status_is_terminal :: "order_status \<Rightarrow> bool" where
  "order_status_is_terminal s = (s \<in> {Filled, Cancelled, Rejected, Expired})"

record order_request =
  or_symbol :: string
  or_side :: side
  or_quantity :: decimal
  or_order_type :: order_type
  or_limit_price :: "decimal option"
  or_stop_price :: "decimal option"
  or_trailing_distance :: "decimal option"
  or_trailing_type :: "trailing_type option"
  or_stop_loss :: "decimal option"
  or_take_profit :: "decimal option"
  or_position_id :: "string option"
  or_reduce_only :: bool
  or_post_only :: bool
  or_hidden :: bool
  or_display_quantity :: "decimal option"
  or_margin_mode :: "margin_mode option"
  or_leverage :: "decimal option"
  or_client_order_id :: "string option"
  or_oco_group_id :: "string option"
  or_time_in_force :: time_in_force

record order_handle =
  oh_id :: string
  oh_client_order_id :: "string option"
  oh_correlation_id :: "string option"
  oh_status :: order_status

record order =
  o_id :: string
  o_client_order_id :: "string option"
  o_symbol :: string
  o_side :: side
  o_order_type :: order_type
  o_quantity :: decimal
  o_filled_quantity :: decimal
  o_remaining_quantity :: decimal
  o_limit_price :: "decimal option"
  o_stop_price :: "decimal option"
  o_stop_loss :: "decimal option"
  o_take_profit :: "decimal option"
  o_trailing_distance :: "decimal option"
  o_trailing_type :: "trailing_type option"
  o_average_fill_price :: "decimal option"
  o_status :: order_status
  o_reject_reason :: "reject_reason option"
  o_position_id :: "string option"
  o_parent_order_id :: "string option"
  o_reduce_only :: "bool option"
  o_post_only :: "bool option"
  o_hidden :: "bool option"
  o_display_quantity :: "decimal option"
  o_oco_group_id :: "string option"
  o_correlation_id :: "string option"
  o_time_in_force :: time_in_force
  o_created_at :: utc
  o_updated_at :: utc

record modify_order_request =
  mo_limit_price :: "decimal option"
  mo_stop_price :: "decimal option"
  mo_quantity :: "decimal option"
  mo_stop_loss :: "decimal option"
  mo_take_profit :: "decimal option"
  mo_trailing_distance :: "decimal option"

definition modify_order_request_default :: modify_order_request where
  "modify_order_request_default = \<lparr>mo_limit_price = None, mo_stop_price = None, mo_quantity = None,
     mo_stop_loss = None, mo_take_profit = None, mo_trailing_distance = None\<rparr>"

record modify_order_result =
  mr_order :: order
  mr_previous_order_id :: "string option"

record cancel_order_result =
  cr_success :: bool
  cr_order :: order

record cancel_all_result =
  ca_cancelled_count :: nat
  ca_failed_count :: nat
  ca_failed_order_ids :: "string list option"

record position =
  p_id :: string
  p_symbol :: string
  p_side :: position_side
  p_quantity :: decimal
  p_average_entry_price :: decimal
  p_current_price :: decimal
  p_unrealized_pnl :: decimal
  p_realized_pnl :: decimal
  p_margin_mode :: "margin_mode option"
  p_leverage :: "decimal option"
  p_liquidation_price :: "decimal option"
  p_opened_at :: utc
  p_updated_at :: utc

record exit_leg_placement =
  lp_order_ids :: "string list"
  lp_trigger_price :: decimal

subsection \<open>Request constructors\<close>

definition order_market :: "string \<Rightarrow> side \<Rightarrow> decimal \<Rightarrow> order_request" where
  "order_market symbol s quantity =
     \<lparr>or_symbol = symbol, or_side = s, or_quantity = quantity, or_order_type = Market,
      or_limit_price = None, or_stop_price = None, or_trailing_distance = None,
      or_trailing_type = None, or_stop_loss = None, or_take_profit = None,
      or_position_id = None, or_reduce_only = False, or_post_only = False, or_hidden = False,
      or_display_quantity = None, or_margin_mode = None, or_leverage = None,
      or_client_order_id = None, or_oco_group_id = None,
      or_time_in_force = time_in_force_default\<rparr>"

definition order_limit :: "string \<Rightarrow> side \<Rightarrow> decimal \<Rightarrow> decimal \<Rightarrow> order_request" where
  "order_limit symbol s quantity price =
     (order_market symbol s quantity)\<lparr>or_order_type := Limit, or_limit_price := Some price\<rparr>"

definition order_stop :: "string \<Rightarrow> side \<Rightarrow> decimal \<Rightarrow> decimal \<Rightarrow> order_request" where
  "order_stop symbol s quantity price =
     (order_market symbol s quantity)\<lparr>or_order_type := Stop, or_stop_price := Some price\<rparr>"

definition order_stop_limit ::
  "string \<Rightarrow> side \<Rightarrow> decimal \<Rightarrow> decimal \<Rightarrow> decimal \<Rightarrow> order_request" where
  "order_stop_limit symbol s quantity stop_price limit_price =
     (order_market symbol s quantity)\<lparr>or_order_type := StopLimit,
        or_stop_price := Some stop_price, or_limit_price := Some limit_price\<rparr>"

definition with_stop_loss :: "order_request \<Rightarrow> decimal \<Rightarrow> order_request" where
  "with_stop_loss r price = r\<lparr>or_stop_loss := Some price\<rparr>"

definition with_take_profit :: "order_request \<Rightarrow> decimal \<Rightarrow> order_request" where
  "with_take_profit r price = r\<lparr>or_take_profit := Some price\<rparr>"

definition with_client_id :: "order_request \<Rightarrow> string \<Rightarrow> order_request" where
  "with_client_id r i = r\<lparr>or_client_order_id := Some i\<rparr>"

definition with_oco_group :: "order_request \<Rightarrow> string \<Rightarrow> order_request" where
  "with_oco_group r g = r\<lparr>or_oco_group_id := Some g\<rparr>"

definition with_display_quantity :: "order_request \<Rightarrow> decimal \<Rightarrow> order_request" where
  "with_display_quantity r q = r\<lparr>or_display_quantity := Some q\<rparr>"

definition with_leverage :: "order_request \<Rightarrow> decimal \<Rightarrow> order_request" where
  "with_leverage r l = r\<lparr>or_leverage := Some l\<rparr>"

subsection \<open>Validation\<close>

definition missing_field :: "string \<Rightarrow> string \<Rightarrow> gateway_error" where
  "missing_field otype field = InvalidRequest (otype @ '' orders require '' @ field) (Some field)"

fun reject_unexpected ::
  "(decimal \<Rightarrow> string) \<Rightarrow> string \<Rightarrow> string \<Rightarrow> decimal option \<Rightarrow> gateway_error + unit" where
  "reject_unexpected dts otype field None = Inr ()"
| "reject_unexpected dts otype field (Some v) =
     Inl (InvalidValue field (otype @ '' orders should not have '' @ field) (Some (dts v)))"

fun require_positive ::
  "(decimal \<Rightarrow> string) \<Rightarrow> string \<Rightarrow> string \<Rightarrow> decimal option \<Rightarrow> gateway_error + decimal" where
  "require_positive dts otype field None = Inl (missing_field otype field)"
| "require_positive dts otype field (Some v) =
     (if v \<le> 0 then Inl (InvalidValue field ''must be positive'' (Some (dts v))) else Inr v)"

text \<open>The optional fields checked after the order type: \<open>if let Some(v) = f && v <= ZERO\<close>.\<close>

fun positive_if_set :: "(decimal \<Rightarrow> string) \<Rightarrow> string \<Rightarrow> decimal option \<Rightarrow> gateway_error + unit" where
  "positive_if_set dts field None = Inr ()"
| "positive_if_set dts field (Some v) =
     (if v \<le> 0 then Inl (InvalidValue field ''must be positive'' (Some (dts v))) else Inr ())"

definition validate_type_fields :: "(decimal \<Rightarrow> string) \<Rightarrow> order_request \<Rightarrow> gateway_error + unit" where
  "validate_type_fields dts r = (case or_order_type r of
     Market \<Rightarrow>
       try_res (reject_unexpected dts ''Market'' ''limit_price'' (or_limit_price r)) (\<lambda>_.
       try_res (reject_unexpected dts ''Market'' ''stop_price'' (or_stop_price r)) (\<lambda>_.
       reject_unexpected dts ''Market'' ''trailing_distance'' (or_trailing_distance r)))
   | Limit \<Rightarrow>
       try_res (require_positive dts ''Limit'' ''limit_price'' (or_limit_price r)) (\<lambda>_.
       try_res (reject_unexpected dts ''Limit'' ''stop_price'' (or_stop_price r)) (\<lambda>_.
       reject_unexpected dts ''Limit'' ''trailing_distance'' (or_trailing_distance r)))
   | Stop \<Rightarrow>
       try_res (require_positive dts ''Stop'' ''stop_price'' (or_stop_price r)) (\<lambda>_.
       try_res (reject_unexpected dts ''Stop'' ''limit_price'' (or_limit_price r)) (\<lambda>_.
       reject_unexpected dts ''Stop'' ''trailing_distance'' (or_trailing_distance r)))
   | StopLimit \<Rightarrow>
       try_res (require_positive dts ''StopLimit'' ''stop_price'' (or_stop_price r)) (\<lambda>_.
       try_res (require_positive dts ''StopLimit'' ''limit_price'' (or_limit_price r)) (\<lambda>_.
       reject_unexpected dts ''StopLimit'' ''trailing_distance'' (or_trailing_distance r)))
   | TrailingStop \<Rightarrow>
       try_res (require_positive dts ''TrailingStop'' ''trailing_distance'' (or_trailing_distance r)) (\<lambda>distance.
       if or_trailing_type r = None then Inl (missing_field ''TrailingStop'' ''trailing_type'')
       else if or_trailing_type r = Some Percent \<and> distance \<ge> 100 then
         Inl (InvalidValue ''trailing_distance'' ''percent trailing distance must be less than 100''
                (Some (dts distance)))
       else
         try_res (reject_unexpected dts ''TrailingStop'' ''limit_price'' (or_limit_price r)) (\<lambda>_.
         reject_unexpected dts ''TrailingStop'' ''stop_price'' (or_stop_price r))))"

definition validate_display_quantity :: "(decimal \<Rightarrow> string) \<Rightarrow> order_request \<Rightarrow> gateway_error + unit" where
  "validate_display_quantity dts r = (case or_display_quantity r of
     None \<Rightarrow> Inr ()
   | Some dq \<Rightarrow>
       if dq \<le> 0 then Inl (InvalidValue ''display_quantity'' ''must be positive'' (Some (dts dq)))
       else if dq \<ge> or_quantity r then
         Inl (InvalidValue ''display_quantity'' ''must be less than quantity'' (Some (dts dq)))
       else Inr ())"

definition validate_semantics :: "(decimal \<Rightarrow> string) \<Rightarrow> order_request \<Rightarrow> gateway_error + unit" where
  "validate_semantics dts r =
     try_res (validate_type_fields dts r) (\<lambda>_.
     try_res (positive_if_set dts ''stop_loss'' (or_stop_loss r)) (\<lambda>_.
     try_res (positive_if_set dts ''take_profit'' (or_take_profit r)) (\<lambda>_.
     try_res (validate_display_quantity dts r) (\<lambda>_.
     positive_if_set dts ''leverage'' (or_leverage r)))))"

text \<open>What a well-formed request is, without the order of the checks.\<close>

fun opt_positive :: "decimal option \<Rightarrow> bool" where
  "opt_positive None = True"
| "opt_positive (Some v) = (0 < v)"

definition has_positive :: "decimal option \<Rightarrow> bool" where
  "has_positive x = (x \<noteq> None \<and> opt_positive x)"

definition type_fields_ok :: "order_request \<Rightarrow> bool" where
  "type_fields_ok r = (case or_order_type r of
     Market \<Rightarrow> or_limit_price r = None \<and> or_stop_price r = None \<and> or_trailing_distance r = None
   | Limit \<Rightarrow> has_positive (or_limit_price r) \<and> or_stop_price r = None \<and> or_trailing_distance r = None
   | Stop \<Rightarrow> has_positive (or_stop_price r) \<and> or_limit_price r = None \<and> or_trailing_distance r = None
   | StopLimit \<Rightarrow> has_positive (or_stop_price r) \<and> has_positive (or_limit_price r)
        \<and> or_trailing_distance r = None
   | TrailingStop \<Rightarrow> has_positive (or_trailing_distance r) \<and> or_limit_price r = None
        \<and> or_stop_price r = None
        \<and> (case or_trailing_type r of None \<Rightarrow> False | Some Absolute \<Rightarrow> True
             | Some Percent \<Rightarrow> the (or_trailing_distance r) < 100))"

definition request_ok :: "order_request \<Rightarrow> bool" where
  "request_ok r = (type_fields_ok r \<and> opt_positive (or_stop_loss r) \<and> opt_positive (or_take_profit r)
     \<and> opt_positive (or_leverage r)
     \<and> (case or_display_quantity r of None \<Rightarrow> True | Some dq \<Rightarrow> 0 < dq \<and> dq < or_quantity r))"

lemma reject_unexpected_Inr [simp]: "reject_unexpected dts t f x = Inr u \<longleftrightarrow> x = None"
  by (cases x) auto

lemma require_positive_Inr [simp]: "require_positive dts t f x = Inr v \<longleftrightarrow> x = Some v \<and> 0 < v"
  by (cases x) auto

lemma positive_if_set_Inr [simp]: "positive_if_set dts f x = Inr u \<longleftrightarrow> opt_positive x"
  by (cases x) auto

lemma has_positive_iff: "has_positive x \<longleftrightarrow> (\<exists>v. x = Some v \<and> 0 < v)"
  by (cases x) (auto simp: has_positive_def)

lemma validate_display_quantity_Inr:
  "validate_display_quantity dts r = Inr u \<longleftrightarrow>
     (case or_display_quantity r of None \<Rightarrow> True | Some dq \<Rightarrow> 0 < dq \<and> dq < or_quantity r)"
  by (auto simp: validate_display_quantity_def split: option.splits)

lemma validate_type_fields_Inr: "validate_type_fields dts r = Inr () \<longleftrightarrow> type_fields_ok r"
proof (cases "or_order_type r")
  case TrailingStop
  then show ?thesis
    by (cases "or_trailing_type r"; cases "or_trailing_distance r")
      (auto simp: validate_type_fields_def type_fields_ok_def has_positive_iff not_le
            split: trailing_type.splits if_splits intro!: exI [of _ "the (or_trailing_distance r)"])
qed (auto simp: validate_type_fields_def type_fields_ok_def has_positive_iff)

lemma validate_semantics_iff: "validate_semantics dts r = Inr () \<longleftrightarrow> request_ok r"
  by (auto simp: validate_semantics_def request_ok_def validate_type_fields_Inr
        validate_display_quantity_Inr)

end
