(* ===== verification/Gw_Breaker.thy ===== *)
theory Gw_Breaker
  imports Gw_Models
begin

text \<open>
  The two circuit breakers: \<open>ExitOrderCircuitBreaker\<close> (\<open>exit_management/circuit_breaker.rs\<close>), which
  guards exit-order placement, and \<open>AdapterCircuitBreaker\<close> (\<open>circuit_breaker.rs\<close>), which guards the
  broker connection. Both keep a queue of failure times, trip on a threshold of failures within a
  window and stay open until a manual reset outside a cooldown. The locale \<open>sliding_breaker\<close> is
  that contract; what it implies over a whole run is proved once in it and holds of both.
  The clock reading \<open>Instant::now()\<close> is an argument.
\<close>

datatype circuit_state = CircuitClosed | CircuitOpen

text \<open>The pruning loop of \<open>record_failure\<close>: pop the front while it is older than the window.\<close>

fun prune_failures :: "instant \<Rightarrow> duration \<Rightarrow> instant list \<Rightarrow> instant list" where
  "prune_failures now window [] = []"
| "prune_failures now window (ts # rest) =
     (if now - ts > window then prune_failures now window rest else ts # rest)"

subsection \<open>The exit-order breaker\<close>

record exit_breaker =
  eb_failure_threshold :: nat
  eb_failure_window :: duration
  eb_recent_failures :: "instant list"
  eb_state :: circuit_state
  eb_last_reset_at :: "instant option"
  eb_reset_cooldown :: duration

definition eb_new :: "nat \<Rightarrow> duration \<Rightarrow> exit_breaker" where
  "eb_new threshold window = \<lparr>eb_failure_threshold = threshold, eb_failure_window = window,
     eb_recent_failures = [], eb_state = CircuitClosed, eb_last_reset_at = None,
     eb_reset_cooldown = secs 60\<rparr>"

definition eb_record_failure :: "instant \<Rightarrow> exit_breaker \<Rightarrow> exit_breaker" where
  "eb_record_failure now b =
     (let recent = prune_failures now (eb_failure_window b) (eb_recent_failures b) @ [now];
          b' = b\<lparr>eb_recent_failures := recent\<rparr>
      in if length recent \<ge> eb_failure_threshold b then b'\<lparr>eb_state := CircuitOpen\<rparr> else b')"

definition eb_is_open :: "exit_breaker \<Rightarrow> bool" where
  "eb_is_open b = (eb_state b = CircuitOpen)"

definition reset_cooldown_message :: string where
  "reset_cooldown_message = ''Circuit breaker re-tripped within cooldown period. '' @
     ''Investigate the underlying failure before resetting again.''"

definition eb_reset :: "instant \<Rightarrow> exit_breaker \<Rightarrow> (string + unit) \<times> exit_breaker" where
  "eb_reset now b =
     (if (case eb_last_reset_at b of Some t \<Rightarrow> now - t < eb_reset_cooldown b | None \<Rightarrow> False)
      then (Inl reset_cooldown_message, b)
      else (Inr (), b\<lparr>eb_recent_failures := [], eb_state := CircuitClosed,
                      eb_last_reset_at := Some now\<rparr>))"

definition eb_failure_count :: "exit_breaker \<Rightarrow> nat" where
  "eb_failure_count b = length (eb_recent_failures b)"

definition eb_default :: exit_breaker where
  "eb_default = eb_new 3 (secs 300)"

subsection \<open>The adapter breaker\<close>

record adapter_breaker =
  ab_failure_threshold :: nat
  ab_failure_window :: duration
  ab_recent_failures :: "instant list"
  ab_state :: circuit_state
  ab_provider :: string
  ab_last_reset_at :: "instant option"
  ab_reset_cooldown :: duration

definition ab_new :: "nat \<Rightarrow> duration \<Rightarrow> string \<Rightarrow> adapter_breaker" where
  "ab_new threshold window provider = \<lparr>ab_failure_threshold = threshold, ab_failure_window = window,
     ab_recent_failures = [], ab_state = CircuitClosed, ab_provider = provider,
     ab_last_reset_at = None, ab_reset_cooldown = secs 60\<rparr>"

definition ab_record_failure :: "instant \<Rightarrow> adapter_breaker \<Rightarrow> adapter_breaker" where
  "ab_record_failure now b =
     (let recent = prune_failures now (ab_failure_window b) (ab_recent_failures b) @ [now];
          b' = b\<lparr>ab_recent_failures := recent\<rparr>
      in if length recent \<ge> ab_failure_threshold b then b'\<lparr>ab_state := CircuitOpen\<rparr> else b')"

definition ab_is_open :: "adapter_breaker \<Rightarrow> bool" where
  "ab_is_open b = (ab_state b = CircuitOpen)"

definition ab_reset :: "instant \<Rightarrow> adapter_breaker \<Rightarrow> (string + unit) \<times> adapter_breaker" where
  "ab_reset now b =
     (if (case ab_last_reset_at b of Some t \<Rightarrow> now - t < ab_reset_cooldown b | None \<Rightarrow> False)
      then (Inl reset_cooldown_message, b)
      else (Inr (), b\<lparr>ab_recent_failures := [], ab_state := CircuitClosed,
                      ab_last_reset_at := Some now\<rparr>))"

definition ab_failure_count :: "adapter_breaker \<Rightarrow> nat" where
  "ab_failure_count b = length (ab_recent_failures b)"

definition ab_open_error :: "adapter_breaker \<Rightarrow> gateway_error" where
  "ab_open_error b = ProviderUnavailable (''Adapter circuit breaker open '' @ em_dash @ '' '' @
     ab_provider b @ '' provider outage detected. Manual reset required.'')"

record breaker_snapshot =
  sn_state :: string
  sn_failure_count :: nat

definition snapshot_from_adapter :: "adapter_breaker \<Rightarrow> breaker_snapshot" where
  "snapshot_from_adapter b =
     \<lparr>sn_state = (case ab_state b of CircuitClosed \<Rightarrow> ''closed'' | CircuitOpen \<Rightarrow> ''open''),
      sn_failure_count = ab_failure_count b\<rparr>"

definition snapshot_closed :: breaker_snapshot where
  "snapshot_closed = \<lparr>sn_state = ''closed'', sn_failure_count = 0\<rparr>"

fun is_outage_error :: "gateway_error \<Rightarrow> bool" where
  "is_outage_error (ProviderUnavailable m) = True"
| "is_outage_error (ProviderError m p s) = True"
| "is_outage_error e = False"

subsection \<open>Pruning\<close>

lemma prune_failures_filter:
  "sorted xs \<Longrightarrow> prune_failures now window xs = filter (\<lambda>t. now - t \<le> window) xs"
proof (induction now window xs rule: prune_failures.induct)
  case (2 now window t rest)
  show ?case
  proof (cases "now - t > window")
    case True
    with 2 show ?thesis by simp
  next
    case False
    then have "\<forall>t' \<in> set rest. now - t' \<le> window"
      using "2.prems" by (auto simp: le_diff_conv2 intro: order_trans [OF diff_le_mono2])
    with False show ?thesis by simp
  qed
qed simp

text \<open>
  In a sorted list, a predicate that holds from some element on holds of the last \<open>n\<close> elements
  as soon as it holds of the first of them.
\<close>

lemma length_filter_sorted:
  assumes "sorted xs" and "\<And>x y. x \<le> y \<Longrightarrow> P x \<Longrightarrow> P y" and "0 < n"
  shows "n \<le> length (filter P xs) \<longleftrightarrow> n \<le> length xs \<and> P (xs ! (length xs - n))"
  using assms(1)
proof (induction xs)
  case (Cons x xs)
  show ?case
  proof (cases "P x")
    case True
    then have all: "\<forall>y \<in> set (x # xs). P y" using Cons.prems assms(2) by auto
    then have "filter P (x # xs) = x # xs" by (simp add: filter_id_conv)
    with all assms(3) show ?thesis
      by (metis diff_less length_greater_0_conv list.distinct(1) nth_mem)
  next
    case False
    with Cons assms(3) show ?thesis
      by (auto simp: le_Suc_eq Suc_diff_le)
  qed
qed (use assms(3) in simp)

subsection \<open>The contract\<close>

locale sliding_breaker =
  fixes rec_failure :: "instant \<Rightarrow> 'b \<Rightarrow> 'b"
    and do_reset :: "instant \<Rightarrow> 'b \<Rightarrow> (string + unit) \<times> 'b"
    and opened :: "'b \<Rightarrow> bool"
    and recent :: "'b \<Rightarrow> instant list"
    and threshold :: "'b \<Rightarrow> nat"
    and window :: "'b \<Rightarrow> duration"
    and last_reset :: "'b \<Rightarrow> instant option"
    and cooldown :: "'b \<Rightarrow> duration"
  assumes recent_failure: "recent (rec_failure now b) = prune_failures now (window b) (recent b) @ [now]"
    and opened_failure: "opened (rec_failure now b) \<longleftrightarrow>
          opened b \<or> threshold b \<le> length (recent (rec_failure now b))"
    and config_failure: "threshold (rec_failure now b) = threshold b"
          "window (rec_failure now b) = window b" "cooldown (rec_failure now b) = cooldown b"
          "last_reset (rec_failure now b) = last_reset b"
    and reset_ok: "fst (do_reset now b) = Inr () \<longleftrightarrow>
          (\<forall>t. last_reset b = Some t \<longrightarrow> cooldown b \<le> now - t)"
    and reset_fail: "fst (do_reset now b) \<noteq> Inr () \<Longrightarrow> snd (do_reset now b) = b"
    and reset_done: "fst (do_reset now b) = Inr () \<Longrightarrow>
          recent (snd (do_reset now b)) = [] \<and> \<not> opened (snd (do_reset now b))
          \<and> last_reset (snd (do_reset now b)) = Some now"
    and config_reset: "threshold (snd (do_reset now b)) = threshold b"
          "window (snd (do_reset now b)) = window b" "cooldown (snd (do_reset now b)) = cooldown b"
begin

definition failures :: "instant list \<Rightarrow> 'b \<Rightarrow> 'b" where
  "failures ts b = fold rec_failure ts b"

lemma failures_snoc: "failures (ts @ [t]) b = rec_failure t (failures ts b)"
  by (simp add: failures_def)

lemma failures_config:
  "threshold (failures ts b) = threshold b" "window (failures ts b) = window b"
  "cooldown (failures ts b) = cooldown b" "last_reset (failures ts b) = last_reset b"
  by (induction ts rule: rev_induct) (simp_all add: failures_def config_failure)

lemma stays_open: "opened b \<Longrightarrow> opened (failures ts b)"
  by (induction ts rule: rev_induct) (simp_all add: failures_def opened_failure)

lemma recent_window:
  "recent b = [] \<Longrightarrow> sorted (ts @ [t]) \<Longrightarrow>
   recent (failures (ts @ [t]) b) = filter (\<lambda>x. t - x \<le> window b) (ts @ [t])"
proof (induction ts arbitrary: t rule: rev_induct)
  case Nil
  then show ?case by (simp add: failures_def recent_failure)
next
  case (snoc u ts)
  then have s: "sorted (ts @ [u])" "u \<le> t" by (auto simp: sorted_append)
  have r: "recent (failures (ts @ [u]) b) = filter (\<lambda>x. u - x \<le> window b) (ts @ [u])"
    using snoc.IH [OF snoc.prems(1) s(1)] .
  have "sorted (recent (failures (ts @ [u]) b))"
    unfolding r by (rule sorted_wrt_filter [OF s(1)])
  then have "recent (failures (ts @ [u] @ [t]) b)
      = filter (\<lambda>x. t - x \<le> window b) (filter (\<lambda>x. u - x \<le> window b) (ts @ [u])) @ [t]"
    using failures_snoc [of "ts @ [u]" t b]
    by (simp add: recent_failure failures_config prune_failures_filter r)
  also have "filter (\<lambda>x. t - x \<le> window b) (filter (\<lambda>x. u - x \<le> window b) (ts @ [u]))
      = filter (\<lambda>x. t - x \<le> window b) (ts @ [u])"
    using s(2) by (auto intro!: filter_cong)
  finally show ?case by simp
qed

lemma trip_step:
  assumes "recent b = []" "sorted (ts @ [t])" "0 < threshold b"
  shows "opened (failures (ts @ [t]) b) \<longleftrightarrow> opened (failures ts b) \<or>
    (threshold b \<le> length (ts @ [t]) \<and>
     t - (ts @ [t]) ! (length (ts @ [t]) - threshold b) \<le> window b)"
proof -
  have "threshold b \<le> length (filter (\<lambda>x. t - x \<le> window b) (ts @ [t])) \<longleftrightarrow>
      threshold b \<le> length (ts @ [t]) \<and>
      t - (ts @ [t]) ! (length (ts @ [t]) - threshold b) \<le> window b"
    by (rule length_filter_sorted [OF assms(2) _ assms(3)]) arith
  then show ?thesis
    using recent_window [OF assms(1,2)]
    by (simp add: failures_snoc opened_failure failures_config)
qed

text \<open>
  From a fresh breaker, a run of failures opens it exactly when some \<open>threshold\<close> consecutive
  failures lie within one window.
\<close>

lemma trips_iff:
  assumes "recent b = []" "\<not> opened b" "sorted ts" "0 < threshold b"
  shows "opened (failures ts b) \<longleftrightarrow>
    (\<exists>i. i + threshold b \<le> length ts \<and> ts ! (i + threshold b - 1) - ts ! i \<le> window b)"
  using assms(3)
proof (induction ts rule: rev_induct)
  case Nil
  then show ?case using assms by (simp add: failures_def)
next
  case (snoc t ts)
  let ?n = "threshold b"
  let ?burst = "\<lambda>xs i. xs ! (i + ?n - 1) - xs ! i \<le> window b"
  have IH: "opened (failures ts b) \<longleftrightarrow> (\<exists>i. i + ?n \<le> length ts \<and> ?burst ts i)"
    using snoc by (simp add: sorted_append)
  have old: "?burst (ts @ [t]) i \<longleftrightarrow> ?burst ts i" if "i + ?n \<le> length ts" for i
    using that assms(4) by (simp add: nth_append)
  have new: "?n \<le> length (ts @ [t]) \<and> t - (ts @ [t]) ! (length (ts @ [t]) - ?n) \<le> window b
      \<longleftrightarrow> (\<exists>i. i + ?n = length (ts @ [t]) \<and> ?burst (ts @ [t]) i)"
  proof (intro iffI exI [of _ "length (ts @ [t]) - ?n"])
    assume "\<exists>i. i + ?n = length (ts @ [t]) \<and> ?burst (ts @ [t]) i"
    then obtain i where "i + ?n = length (ts @ [t])" "?burst (ts @ [t]) i" by blast
    then show "?n \<le> length (ts @ [t]) \<and> t - (ts @ [t]) ! (length (ts @ [t]) - ?n) \<le> window b"
      by (metis (no_types, lifting) add_diff_cancel_right' diff_Suc_1 le_add2 length_append_singleton
          nth_append_length)
  qed (use assms(4) in auto)
  have "opened (failures (ts @ [t]) b) \<longleftrightarrow>
      (\<exists>i. i + ?n \<le> length ts \<and> ?burst (ts @ [t]) i) \<or>
      (\<exists>i. i + ?n = length (ts @ [t]) \<and> ?burst (ts @ [t]) i)"
    unfolding trip_step [OF assms(1) snoc.prems assms(4)] IH new using old by blast
  also have "\<dots> \<longleftrightarrow> (\<exists>i. i + ?n \<le> length (ts @ [t]) \<and> ?burst (ts @ [t]) i)"
    by (simp add: le_Suc_eq) blast
  finally show ?case .
qed

lemma second_reset_waits:
  assumes "fst (do_reset t1 b) = Inr ()"
    and "fst (do_reset t2 (failures ts (snd (do_reset t1 b)))) = Inr ()"
  shows "cooldown b \<le> t2 - t1"
  using assms reset_done [OF assms(1)] by (auto simp: reset_ok failures_config config_reset)

end

interpretation exit_cb: sliding_breaker eb_record_failure eb_reset eb_is_open eb_recent_failures
  eb_failure_threshold eb_failure_window eb_last_reset_at eb_reset_cooldown
  by unfold_locales
    (auto simp: eb_record_failure_def eb_reset_def eb_is_open_def Let_def split: if_splits option.splits)

interpretation adapter_cb: sliding_breaker ab_record_failure ab_reset ab_is_open ab_recent_failures
  ab_failure_threshold ab_failure_window ab_last_reset_at ab_reset_cooldown
  by unfold_locales
    (auto simp: ab_record_failure_def ab_reset_def ab_is_open_def Let_def split: if_splits option.splits)

end
