(* ===== verification/Gw_Exit_Types.thy ===== *)
theory Gw_Exit_Types
  imports Gw_Breaker
begin

text \<open>
  The data of exit management (\<open>exit_management/types.rs\<close>, \<open>coverage.rs\<close>): legs, placed orders,
  entries and their life-cycle status, placeholder ids, results, configuration, and the coverage
  arithmetic that says how much of a filled position a leg's resting orders protect.
\<close>

datatype exit_leg_type = StopLoss | TakeProfit

fun leg_prefix :: "exit_leg_type \<Rightarrow> string" where
  "leg_prefix StopLoss = ''exit:sl:''"
| "leg_prefix TakeProfit = ''exit:tp:''"

fun client_order_suffix :: "exit_leg_type \<Rightarrow> string" where
  "client_order_suffix StopLoss = ''sl''"
| "client_order_suffix TakeProfit = ''tp''"

fun leg_to_string :: "exit_leg_type \<Rightarrow> string" where
  "leg_to_string StopLoss = ''stop_loss''"
| "leg_to_string TakeProfit = ''take_profit''"

datatype actual_order_status =
    OrderOpen
  | OrderPartiallyFilled decimal utc
  | OrderFilled utc
  | OrderPendingCancel utc
  | OrderCancelled utc
  | OrderRejectedAt utc string
  | OrderExpired utc
  | OrderUnknown

record actual_order =
  ao_order_id :: string
  ao_quantity :: decimal
  ao_placed_at :: utc
  ao_status :: actual_order_status
  ao_leg_type :: exit_leg_type

definition remaining_qty :: "actual_order \<Rightarrow> decimal" where
  "remaining_qty ao = (case ao_status ao of
     OrderOpen \<Rightarrow> ao_quantity ao
   | OrderPartiallyFilled filled t \<Rightarrow> max (ao_quantity ao - filled) 0
   | _ \<Rightarrow> 0)"

definition ao_is_active :: "actual_order \<Rightarrow> bool" where
  "ao_is_active ao = (case ao_status ao of
     OrderOpen \<Rightarrow> True | OrderPartiallyFilled f t \<Rightarrow> True | _ \<Rightarrow> False)"

definition ao_is_terminal :: "actual_order \<Rightarrow> bool" where
  "ao_is_terminal ao = (case ao_status ao of
     OrderFilled t \<Rightarrow> True | OrderCancelled t \<Rightarrow> True | OrderRejectedAt t r \<Rightarrow> True
   | OrderExpired t \<Rightarrow> True | _ \<Rightarrow> False)"

datatype cancellation_reason =
  PrimaryCancelled | PrimaryRejected | SiblingFilled | UserRequested | PositionClosed
  | SystemCleanup | OcoSucceeded

datatype exit_entry_status =
    EntryPending
  | EntryPartiallyTriggered decimal decimal "actual_order list"
  | EntryPlaced "actual_order list"
  | EntryFailed string nat utc "actual_order list"
  | EntryCancelled utc cancellation_reason
  | EntryExpired utc

fun actual_orders :: "exit_entry_status \<Rightarrow> actual_order list" where
  "actual_orders (EntryPartiallyTriggered f t aos) = aos"
| "actual_orders (EntryPlaced aos) = aos"
| "actual_orders (EntryFailed e n t aos) = aos"
| "actual_orders EntryPending = []"
| "actual_orders (EntryCancelled t r) = []"
| "actual_orders (EntryExpired t) = []"

definition generate_placeholder_id :: "exit_leg_type \<Rightarrow> string \<Rightarrow> string" where
  "generate_placeholder_id leg primary_order_id = leg_prefix leg @ primary_order_id"

definition parse_placeholder_id :: "string \<Rightarrow> (exit_leg_type \<times> string) option" where
  "parse_placeholder_id placeholder_id =
     (case map_option (Pair StopLoss) (strip_prefix placeholder_id ''exit:sl:'') of
        Some r \<Rightarrow> Some r
      | None \<Rightarrow> map_option (Pair TakeProfit) (strip_prefix placeholder_id ''exit:tp:''))"

fun opposite_side :: "side \<Rightarrow> side" where
  "opposite_side Buy = Sell"
| "opposite_side Sell = Buy"

definition parse_side :: "string \<Rightarrow> side option" where
  "parse_side s = (let l = to_lowercase s in
     if l = ''buy'' then Some Buy else if l = ''sell'' then Some Sell else None)"

fun side_to_str :: "side \<Rightarrow> string" where
  "side_to_str Buy = ''buy''"
| "side_to_str Sell = ''sell''"

record exit_entry_info =
  ei_primary_order_id :: string
  ei_order_type :: exit_leg_type
  ei_created_at :: utc

record failed_exit_info =
  fi_primary_order_id :: string
  fi_symbol :: string
  fi_order_type :: exit_leg_type
  fi_error :: string
  fi_failed_at :: utc
  fi_actual_order_ids :: "string list"

record cancelled_exit_info =
  ci_placeholder_id :: string
  ci_primary_order_id :: string
  ci_leg_type :: exit_leg_type
  ci_platform :: string
  ci_symbol :: string
  ci_side :: side
  ci_trigger_price :: decimal
  ci_quantity :: decimal

record cancel_exit_result =
  ce_cancelled :: "string list"
  ce_failed :: "string list"

datatype cancel_exit_result_internal =
    CancelledPending cancelled_exit_info
  | NeedsCancelAtProvider "actual_order list" cancelled_exit_info
  | NeedsCancelPartiallyTriggered "actual_order list" cancelled_exit_info
  | NeedsCancelFailed "actual_order list" cancelled_exit_info
  | AlreadyTerminal exit_entry_status

record exit_entry_params =
  ep_primary_order_id :: string
  ep_parent_client_order_id :: "string option"
  ep_order_type :: exit_leg_type
  ep_symbol :: string
  ep_side :: side
  ep_trigger_price :: decimal
  ep_limit_price :: "decimal option"
  ep_quantity :: decimal
  ep_platform :: trading_platform

record exit_entry =
  ee_placeholder_id :: string
  ee_primary_order_id :: string
  ee_position_id :: "string option"
  ee_parent_client_order_id :: "string option"
  ee_order_type :: exit_leg_type
  ee_symbol :: string
  ee_side :: side
  ee_trigger_price :: decimal
  ee_limit_price :: "decimal option"
  ee_quantity :: decimal
  ee_original_quantity :: decimal
  ee_status :: exit_entry_status
  ee_created_at :: instant
  ee_created_at_utc :: utc
  ee_updated_at :: "utc option"
  ee_platform :: trading_platform
  ee_sibling_id :: "string option"
  ee_last_attempted_fill_qty :: "decimal option"
  ee_version :: nat

text \<open>\<open>ExitEntry::new\<close> and the entry methods; \<open>inst\<close> and \<open>now\<close> are the two clock readings.\<close>

definition exit_entry_new :: "instant \<Rightarrow> utc \<Rightarrow> exit_entry_params \<Rightarrow> exit_entry" where
  "exit_entry_new inst now p =
     \<lparr>ee_placeholder_id = generate_placeholder_id (ep_order_type p) (ep_primary_order_id p),
      ee_primary_order_id = ep_primary_order_id p, ee_position_id = None,
      ee_parent_client_order_id = ep_parent_client_order_id p, ee_order_type = ep_order_type p,
      ee_symbol = ep_symbol p, ee_side = ep_side p, ee_trigger_price = ep_trigger_price p,
      ee_limit_price = ep_limit_price p, ee_quantity = ep_quantity p,
      ee_original_quantity = ep_quantity p, ee_status = EntryPending, ee_created_at = inst,
      ee_created_at_utc = now, ee_updated_at = None, ee_platform = ep_platform p,
      ee_sibling_id = None, ee_last_attempted_fill_qty = None, ee_version = 0\<rparr>"

definition set_status :: "utc \<Rightarrow> exit_entry_status \<Rightarrow> exit_entry \<Rightarrow> exit_entry" where
  "set_status now st e = e\<lparr>ee_status := st, ee_updated_at := Some now, ee_version := ee_version e + 1\<rparr>"

definition increment_version :: "utc \<Rightarrow> exit_entry \<Rightarrow> exit_entry" where
  "increment_version now e = e\<lparr>ee_version := ee_version e + 1, ee_updated_at := Some now\<rparr>"

definition is_triggered :: "exit_entry \<Rightarrow> bool" where
  "is_triggered e = (case ee_status e of EntryPlaced aos \<Rightarrow> True | EntryFailed m n t aos \<Rightarrow> True
     | _ \<Rightarrow> False)"

definition is_pending :: "exit_entry \<Rightarrow> bool" where
  "is_pending e = (case ee_status e of EntryPending \<Rightarrow> True
     | EntryPartiallyTriggered f t aos \<Rightarrow> True | _ \<Rightarrow> False)"

text \<open>\<open>(a - b).to_std().ok()\<close>: a negative span has no \<open>Duration\<close>.\<close>

definition span_to_std :: "utc \<Rightarrow> utc \<Rightarrow> duration option" where
  "span_to_std a b = (if b \<le> a then Some (a - b) else None)"

definition placement_latency :: "exit_entry \<Rightarrow> duration option" where
  "placement_latency e = (case ee_status e of
     EntryPlaced (ao # rest) \<Rightarrow> span_to_std (ao_placed_at ao) (ee_created_at_utc e)
   | EntryPartiallyTriggered f t (ao # rest) \<Rightarrow> span_to_std (ao_placed_at ao) (ee_created_at_utc e)
   | _ \<Rightarrow> None)"

definition lifecycle_duration :: "exit_entry \<Rightarrow> duration option" where
  "lifecycle_duration e = (case ee_status e of
     EntryFailed m n t aos \<Rightarrow> span_to_std t (ee_created_at_utc e)
   | EntryCancelled t r \<Rightarrow> span_to_std t (ee_created_at_utc e)
   | EntryExpired t \<Rightarrow> span_to_std t (ee_created_at_utc e)
   | _ \<Rightarrow> None)"

record registered_exit_legs =
  rl_stop_loss_id :: "string option"
  rl_take_profit_id :: "string option"

definition registered_empty :: registered_exit_legs where
  "registered_empty = \<lparr>rl_stop_loss_id = None, rl_take_profit_id = None\<rparr>"

definition has_any :: "registered_exit_legs \<Rightarrow> bool" where
  "has_any r = (rl_stop_loss_id r \<noteq> None \<or> rl_take_profit_id r \<noteq> None)"

record exit_backup_registration =
  br_id :: string
  br_placeholder_ids :: "string list"

record exit_handler_config =
  hc_max_pending_entries :: nat
  hc_entry_ttl :: duration
  hc_circuit_breaker_threshold :: nat
  hc_circuit_breaker_window :: duration
  hc_min_exit_order_qty :: decimal
  hc_retry_delays :: "duration list"

definition exit_handler_config_default :: exit_handler_config where
  "exit_handler_config_default =
     \<lparr>hc_max_pending_entries = 10000, hc_entry_ttl = secs 86400,
      hc_circuit_breaker_threshold = 3, hc_circuit_breaker_window = secs 300,
      hc_min_exit_order_qty = 1 / 1000, hc_retry_delays = [millis 100, millis 300, millis 1000]\<rparr>"

datatype placement_outcome =
    PlacementSuccess string order
  | PlacementFailed string nat
  | AlreadyProcessed
  | Deferred string

record placement_result =
  pr_placeholder_id :: string
  pr_order_type :: exit_leg_type
  pr_outcome :: placement_outcome

definition pr_success :: "string \<Rightarrow> exit_leg_type \<Rightarrow> order \<Rightarrow> placement_result" where
  "pr_success pid leg ord = \<lparr>pr_placeholder_id = pid, pr_order_type = leg,
     pr_outcome = PlacementSuccess (o_id ord) ord\<rparr>"

definition pr_failed :: "string \<Rightarrow> exit_leg_type \<Rightarrow> string \<Rightarrow> nat \<Rightarrow> placement_result" where
  "pr_failed pid leg err n = \<lparr>pr_placeholder_id = pid, pr_order_type = leg,
     pr_outcome = PlacementFailed err n\<rparr>"

definition pr_already_processed :: "string \<Rightarrow> exit_leg_type \<Rightarrow> placement_result" where
  "pr_already_processed pid leg = \<lparr>pr_placeholder_id = pid, pr_order_type = leg,
     pr_outcome = AlreadyProcessed\<rparr>"

definition pr_deferred :: "string \<Rightarrow> exit_leg_type \<Rightarrow> string \<Rightarrow> placement_result" where
  "pr_deferred pid leg reason = \<lparr>pr_placeholder_id = pid, pr_order_type = leg,
     pr_outcome = Deferred reason\<rparr>"

definition pr_is_success :: "placement_result \<Rightarrow> bool" where
  "pr_is_success r = (case pr_outcome r of PlacementSuccess i ord \<Rightarrow> True | _ \<Rightarrow> False)"

definition pr_is_failed :: "placement_result \<Rightarrow> bool" where
  "pr_is_failed r = (case pr_outcome r of PlacementFailed e n \<Rightarrow> True | _ \<Rightarrow> False)"

definition pr_is_deferred :: "placement_result \<Rightarrow> bool" where
  "pr_is_deferred r = (case pr_outcome r of Deferred s \<Rightarrow> True | _ \<Rightarrow> False)"

datatype error_category = InfrastructureFailure | CategoryRateLimited | ExchangeUnavailable

definition should_count_toward_breaker :: "error_category \<Rightarrow> bool" where
  "should_count_toward_breaker c = (c = InfrastructureFailure)"

datatype place_order_error =
    PlaceFailed string nat error_category
  | WashTrade string
  | InsufficientBalance string decimal decimal

subsection \<open>Coverage\<close>

record exit_coverage =
  cov_filled_qty :: decimal
  cov_sl_covered :: decimal
  cov_tp_covered :: decimal

definition coverage_new :: "decimal \<Rightarrow> exit_coverage" where
  "coverage_new q = \<lparr>cov_filled_qty = q, cov_sl_covered = 0, cov_tp_covered = 0\<rparr>"

definition qty_needing_sl :: "exit_coverage \<Rightarrow> decimal" where
  "qty_needing_sl c = max (cov_filled_qty c - cov_sl_covered c) 0"

definition qty_needing_tp :: "exit_coverage \<Rightarrow> decimal" where
  "qty_needing_tp c = max (cov_filled_qty c - cov_tp_covered c) 0"

fun qty_needing :: "exit_coverage \<Rightarrow> exit_leg_type \<Rightarrow> decimal" where
  "qty_needing c StopLoss = qty_needing_sl c"
| "qty_needing c TakeProfit = qty_needing_tp c"

definition is_fully_covered :: "exit_coverage \<Rightarrow> bool" where
  "is_fully_covered c = (qty_needing_sl c = 0 \<and> qty_needing_tp c = 0)"

definition has_gap :: "exit_coverage \<Rightarrow> bool" where
  "has_gap c = (\<not> is_fully_covered c)"

definition calculate_active_coverage :: "actual_order list \<Rightarrow> exit_leg_type \<Rightarrow> decimal" where
  "calculate_active_coverage aos leg =
     sum_list (map remaining_qty (filter (\<lambda>ao. ao_is_active ao \<and> ao_leg_type ao = leg) aos))"

definition build_coverage :: "decimal \<Rightarrow> actual_order list \<Rightarrow> exit_coverage" where
  "build_coverage filled aos = \<lparr>cov_filled_qty = filled,
     cov_sl_covered = calculate_active_coverage aos StopLoss,
     cov_tp_covered = calculate_active_coverage aos TakeProfit\<rparr>"

subsection \<open>Lemmas\<close>

lemma parse_generate [simp]:
  "parse_placeholder_id (generate_placeholder_id leg primary) = Some (leg, primary)"
  by (cases leg) (simp_all add: parse_placeholder_id_def generate_placeholder_id_def)

lemma generate_parse:
  "parse_placeholder_id s = Some (leg, primary) \<Longrightarrow> s = generate_placeholder_id leg primary"
  by (auto simp: parse_placeholder_id_def generate_placeholder_id_def split: option.splits
      dest!: strip_prefix_SomeD)

lemma generate_placeholder_inject [simp]:
  "generate_placeholder_id l p = generate_placeholder_id l' p' \<longleftrightarrow> l = l' \<and> p = p'"
  by (metis option.inject parse_generate prod.inject)

lemma opposite_side_opposite [simp]: "opposite_side (opposite_side s) = s"
  by (cases s) auto

lemma calculate_active_coverage_Nil [simp]: "calculate_active_coverage [] leg = 0"
  by (simp add: calculate_active_coverage_def)

lemma calculate_active_coverage_append [simp]:
  "calculate_active_coverage (xs @ ys) leg =
     calculate_active_coverage xs leg + calculate_active_coverage ys leg"
  by (simp add: calculate_active_coverage_def)

lemma calculate_active_coverage_Cons:
  "calculate_active_coverage (ao # aos) leg =
     (if ao_is_active ao \<and> ao_leg_type ao = leg then remaining_qty ao else 0)
     + calculate_active_coverage aos leg"
  by (simp add: calculate_active_coverage_def)

lemma remaining_qty_nonneg: "0 \<le> ao_quantity ao \<Longrightarrow> 0 \<le> remaining_qty ao"
  by (auto simp: remaining_qty_def split: actual_order_status.splits)

lemma remaining_qty_le: "0 \<le> ao_quantity ao \<Longrightarrow>
    (case ao_status ao of OrderPartiallyFilled f t \<Rightarrow> 0 \<le> f | _ \<Rightarrow> True) \<Longrightarrow>
    remaining_qty ao \<le> ao_quantity ao"
  by (auto simp: remaining_qty_def split: actual_order_status.splits)

lemma inactive_remaining: "\<not> ao_is_active ao \<Longrightarrow> remaining_qty ao = 0"
  by (auto simp: remaining_qty_def ao_is_active_def split: actual_order_status.splits)

lemma active_not_terminal: "ao_is_active ao \<Longrightarrow> \<not> ao_is_terminal ao"
  by (auto simp: ao_is_active_def ao_is_terminal_def split: actual_order_status.splits)

lemma calculate_active_coverage_nonneg:
  "(\<And>ao. ao \<in> set aos \<Longrightarrow> 0 \<le> ao_quantity ao) \<Longrightarrow> 0 \<le> calculate_active_coverage aos leg"
  by (induction aos) (auto simp: calculate_active_coverage_Cons intro!: add_nonneg_nonneg remaining_qty_nonneg)

lemma has_gap_iff: "has_gap c \<longleftrightarrow> (\<exists>leg. 0 < qty_needing c leg)"
proof -
  have "has_gap c \<longleftrightarrow> 0 < qty_needing c StopLoss \<or> 0 < qty_needing c TakeProfit"
    by (auto simp: has_gap_def is_fully_covered_def qty_needing_sl_def qty_needing_tp_def)
  then show ?thesis by (metis exit_leg_type.exhaust)
qed

lemma set_status_simps [simp]:
  "ee_status (set_status now st e) = st"
  "ee_placeholder_id (set_status now st e) = ee_placeholder_id e"
  "ee_primary_order_id (set_status now st e) = ee_primary_order_id e"
  "ee_order_type (set_status now st e) = ee_order_type e"
  "ee_sibling_id (set_status now st e) = ee_sibling_id e"
  "ee_symbol (set_status now st e) = ee_symbol e"
  "ee_last_attempted_fill_qty (set_status now st e) = ee_last_attempted_fill_qty e"
  "ee_trigger_price (set_status now st e) = ee_trigger_price e"
  by (simp_all add: set_status_def)

lemma increment_version_simps [simp]:
  "ee_status (increment_version now e) = ee_status e"
  "ee_placeholder_id (increment_version now e) = ee_placeholder_id e"
  "ee_primary_order_id (increment_version now e) = ee_primary_order_id e"
  "ee_order_type (increment_version now e) = ee_order_type e"
  "ee_sibling_id (increment_version now e) = ee_sibling_id e"
  "ee_symbol (increment_version now e) = ee_symbol e"
  "ee_trigger_price (increment_version now e) = ee_trigger_price e"
  by (simp_all add: increment_version_def)

end
