(* ===== verification/Gw_Adapter.thy ===== *)
theory Gw_Adapter
  imports Gw_Exit_Types
begin

text \<open>
  What the gateway calls outside its own code, as one record over an abstract world \<open>'w\<close>: the
  broker behind \<open>TradingAdapter\<close> (\<open>adapter/mod.rs\<close>), the clocks and the sleep of the runtime, and the
  printing and parsing of \<open>Decimal\<close>. A call takes the world and returns its answer with the new
  world, so that an unchanged world says that nothing was called. The provided methods of the
  trait and the bracket links (\<open>adapter/bracket_links.rs\<close>) are modelled here too.
\<close>

record order_query =
  oq_symbol :: "string option"
  oq_status :: "order_status list option"
  oq_side :: "side option"
  oq_client_order_id :: "string option"
  oq_oco_group_id :: "string option"
  oq_since :: "utc option"
  oq_until :: "utc option"
  oq_limit :: "nat option"

definition order_query_default :: order_query where
  "order_query_default = \<lparr>oq_symbol = None, oq_status = None, oq_side = None,
     oq_client_order_id = None, oq_oco_group_id = None, oq_since = None, oq_until = None,
     oq_limit = None\<rparr>"

record 'w env =
  submit_order :: "order_request \<Rightarrow> 'w \<Rightarrow> (gateway_error + order_handle) \<times> 'w"
  get_order :: "string \<Rightarrow> 'w \<Rightarrow> (gateway_error + order) \<times> 'w"
  get_orders :: "order_query \<Rightarrow> 'w \<Rightarrow> (gateway_error + order list) \<times> 'w"
  modify_order :: "string \<Rightarrow> modify_order_request \<Rightarrow> 'w \<Rightarrow> (gateway_error + modify_order_result) \<times> 'w"
  cancel_order :: "string \<Rightarrow> 'w \<Rightarrow> (gateway_error + cancel_order_result) \<times> 'w"
  get_positions :: "string option \<Rightarrow> 'w \<Rightarrow> (gateway_error + position list) \<times> 'w"
  close_position_all :: "string \<Rightarrow> 'w \<Rightarrow> (gateway_error + order_handle) \<times> 'w"
  utc_now :: "'w \<Rightarrow> utc"
  instant_now :: "'w \<Rightarrow> instant"
  sleep :: "duration \<Rightarrow> 'w \<Rightarrow> 'w"
  dec_to_string :: "decimal \<Rightarrow> string"
  dec_from_str :: "string \<Rightarrow> decimal option"
  status_debug :: "exit_entry_status \<Rightarrow> string"

subsection \<open>Provided methods of the adapter trait\<close>

fun cancel_all_loop :: "'w env \<Rightarrow> order list \<Rightarrow> nat \<Rightarrow> string list \<Rightarrow> 'w \<Rightarrow> (nat \<times> string list) \<times> 'w" where
  "cancel_all_loop E [] cancelled failed w = ((cancelled, failed), w)"
| "cancel_all_loop E (ord # ords) cancelled failed w =
     (case cancel_order E (o_id ord) w of
        (Inr r, w') \<Rightarrow> cancel_all_loop E ords (cancelled + 1) failed w'
      | (Inl e, w') \<Rightarrow> cancel_all_loop E ords cancelled (failed @ [o_id ord]) w')"

definition cancel_all_orders :: "'w env \<Rightarrow> string option \<Rightarrow> 'w \<Rightarrow> (gateway_error + cancel_all_result) \<times> 'w" where
  "cancel_all_orders E symbol w =
     (case get_orders E (order_query_default\<lparr>oq_symbol := symbol\<rparr>) w of
        (Inl e, w1) \<Rightarrow> (Inl e, w1)
      | (Inr ords, w1) \<Rightarrow>
          (case cancel_all_loop E ords 0 [] w1 of
             ((cancelled, failed), w2) \<Rightarrow>
               (Inr \<lparr>ca_cancelled_count = cancelled, ca_failed_count = length failed,
                     ca_failed_order_ids = (if failed = [] then None else Some failed)\<rparr>, w2)))"

fun close_all_loop :: "'w env \<Rightarrow> position list \<Rightarrow> order_handle list \<Rightarrow> 'w \<Rightarrow> (gateway_error + order_handle list) \<times> 'w" where
  "close_all_loop E [] handles w = (Inr handles, w)"
| "close_all_loop E (p # ps) handles w =
     (case close_position_all E (p_id p) w of
        (Inl e, w') \<Rightarrow> (Inl e, w')
      | (Inr h, w') \<Rightarrow> close_all_loop E ps (handles @ [h]) w')"

definition close_all_positions :: "'w env \<Rightarrow> string option \<Rightarrow> 'w \<Rightarrow> (gateway_error + order_handle list) \<times> 'w" where
  "close_all_positions E symbol w =
     (case get_positions E symbol w of
        (Inl e, w1) \<Rightarrow> (Inl e, w1)
      | (Inr ps, w1) \<Rightarrow> close_all_loop E ps [] w1)"

subsection \<open>Bracket links\<close>

type_synonym bracket_links = "(string, string) dmap"

definition bl_new :: bracket_links where
  "bl_new = []"

definition bl_record :: "string \<Rightarrow> string \<Rightarrow> bracket_links \<Rightarrow> bracket_links" where
  "bl_record exit_order_id parent_order_id l = dm_insert exit_order_id parent_order_id l"

definition bl_parent_of :: "bracket_links \<Rightarrow> string \<Rightarrow> string option" where
  "bl_parent_of l order_id = dm_get l order_id"

definition bl_release :: "string \<Rightarrow> bracket_links \<Rightarrow> bracket_links" where
  "bl_release order_id l = dm_remove order_id l"

subsection \<open>Recording the calls\<close>

text \<open>
  \<open>traced E\<close> behaves as \<open>E\<close> and also records every broker call in its world, in order. What an
  operation asks of the broker is stated over it.
\<close>

datatype broker_call =
    CallSubmit order_request
  | CallGetOrder string
  | CallGetOrders order_query
  | CallModify string modify_order_request
  | CallCancel string
  | CallGetPositions "string option"
  | CallClose string

definition note_call :: "broker_call \<Rightarrow> ('w \<Rightarrow> 'a \<times> 'w) \<Rightarrow> 'w \<times> broker_call list \<Rightarrow> 'a \<times> ('w \<times> broker_call list)" where
  "note_call c f wt = (case f (fst wt) of (a, w') \<Rightarrow> (a, (w', snd wt @ [c])))"

definition traced :: "'w env \<Rightarrow> ('w \<times> broker_call list) env" where
  "traced E =
     \<lparr>submit_order = (\<lambda>r. note_call (CallSubmit r) (submit_order E r)),
      get_order = (\<lambda>i. note_call (CallGetOrder i) (get_order E i)),
      get_orders = (\<lambda>q. note_call (CallGetOrders q) (get_orders E q)),
      modify_order = (\<lambda>i m. note_call (CallModify i m) (modify_order E i m)),
      cancel_order = (\<lambda>i. note_call (CallCancel i) (cancel_order E i)),
      get_positions = (\<lambda>s. note_call (CallGetPositions s) (get_positions E s)),
      close_position_all = (\<lambda>i. note_call (CallClose i) (close_position_all E i)),
      utc_now = (\<lambda>wt. utc_now E (fst wt)),
      instant_now = (\<lambda>wt. instant_now E (fst wt)),
      sleep = (\<lambda>d wt. (sleep E d (fst wt), snd wt)),
      dec_to_string = dec_to_string E,
      dec_from_str = dec_from_str E,
      status_debug = status_debug E\<rparr>"

subsection \<open>Lemmas\<close>

lemma traced_simps [simp]:
  "submit_order (traced E) r (w, tr) = (case submit_order E r w of (a, w') \<Rightarrow> (a, (w', tr @ [CallSubmit r])))"
  "get_order (traced E) i (w, tr) = (case get_order E i w of (a, w') \<Rightarrow> (a, (w', tr @ [CallGetOrder i])))"
  "get_orders (traced E) q (w, tr) = (case get_orders E q w of (a, w') \<Rightarrow> (a, (w', tr @ [CallGetOrders q])))"
  "modify_order (traced E) i m (w, tr) = (case modify_order E i m w of (a, w') \<Rightarrow> (a, (w', tr @ [CallModify i m])))"
  "cancel_order (traced E) i (w, tr) = (case cancel_order E i w of (a, w') \<Rightarrow> (a, (w', tr @ [CallCancel i])))"
  "get_positions (traced E) s (w, tr) = (case get_positions E s w of (a, w') \<Rightarrow> (a, (w', tr @ [CallGetPositions s])))"
  "close_position_all (traced E) i (w, tr) = (case close_position_all E i w of (a, w') \<Rightarrow> (a, (w', tr @ [CallClose i])))"
  "utc_now (traced E) (w, tr) = utc_now E w"
  "instant_now (traced E) (w, tr) = instant_now E w"
  "sleep (traced E) d (w, tr) = (sleep E d w, tr)"
  "dec_to_string (traced E) = dec_to_string E"
  "dec_from_str (traced E) = dec_from_str E"
  "status_debug (traced E) = status_debug E"
  by (simp_all add: traced_def note_call_def)

lemma cancel_all_loop_counts:
  "cancel_all_loop E ords c f w = ((c', f'), w') \<Longrightarrow> c' + length f' = c + length f + length ords"
  by (induction E ords c f w rule: cancel_all_loop.induct) (auto split: prod.splits sum.splits)

lemma cancel_all_loop_failed:
  "cancel_all_loop E ords c f w = ((c', f'), w') \<Longrightarrow> set f' \<subseteq> set f \<union> set (map o_id ords)"
  by (induction E ords c f w rule: cancel_all_loop.induct) (fastforce split: prod.splits sum.splits)+

lemma cancel_all_orders_counts:
  assumes "get_orders E (order_query_default\<lparr>oq_symbol := symbol\<rparr>) w = (Inr ords, w1)"
    and "cancel_all_orders E symbol w = (Inr r, w')"
  shows "ca_cancelled_count r + ca_failed_count r = length ords"
    and "ca_failed_count r = (case ca_failed_order_ids r of None \<Rightarrow> 0 | Some ids \<Rightarrow> length ids)"
  using assms by (auto simp: cancel_all_orders_def split: prod.splits dest!: cancel_all_loop_counts)

lemma close_all_loop_handles:
  "close_all_loop E ps hs w = (Inr hs', w') \<Longrightarrow> length hs' = length hs + length ps"
  by (induction E ps hs w rule: close_all_loop.induct) (auto split: prod.splits sum.splits)

end
