(* ===== verification/Gw_Exit_Handler.thy ===== *)
theory Gw_Exit_Handler
  imports Gw_Adapter "HOL-Library.List_Lexorder" "HOL-Library.Char_ord"
begin

text \<open>
  The exit handler's state, its lookups, registration and backups
  (\<open>exit_management/handler.rs\<close>), and the invariant that ties its two maps together: entries are
  stored under their own placeholder id, the secondary index lists only stored entries of the
  order it is for, and linked siblings point at each other and are indexed together.
  \<open>dts\<close> is the decimal printer; \<open>inst\<close> and \<open>now\<close> are the operation's clock readings.
\<close>

record buffered_fill =
  bf_filled_qty :: decimal
  bf_total_qty :: decimal
  bf_position_qty :: "decimal option"
  bf_position_id :: "string option"
  bf_buffered_at :: instant

record exit_handler =
  eh_pending :: "(string, exit_entry) dmap"
  eh_primary :: "(string, string list) dmap"
  eh_unmatched :: "(string, buffered_fill) dmap"
  eh_config :: exit_handler_config
  eh_breaker :: exit_breaker
  eh_platform :: trading_platform

definition exit_handler_new :: "trading_platform \<Rightarrow> exit_handler_config \<Rightarrow> exit_handler" where
  "exit_handler_new platform config =
     \<lparr>eh_pending = [], eh_primary = [], eh_unmatched = [], eh_config = config,
      eh_breaker = eb_new (hc_circuit_breaker_threshold config) (hc_circuit_breaker_window config),
      eh_platform = platform\<rparr>"

definition pending_count :: "exit_handler \<Rightarrow> nat" where
  "pending_count h = length (eh_pending h)"

definition is_placeholder_id :: "string \<Rightarrow> bool" where
  "is_placeholder_id i = (starts_with i ''exit:sl:'' \<or> starts_with i ''exit:tp:'')"

definition has_pending_for_primary :: "exit_handler \<Rightarrow> string \<Rightarrow> bool" where
  "has_pending_for_primary h primary_order_id = (case dm_get (eh_primary h) primary_order_id of
     Some ids \<Rightarrow> list_ex (dm_has (eh_pending h)) ids | None \<Rightarrow> False)"

definition get_placeholders_for_primary :: "exit_handler \<Rightarrow> string \<Rightarrow> string list" where
  "get_placeholders_for_primary h primary_order_id =
     (case dm_get (eh_primary h) primary_order_id of Some ids \<Rightarrow> ids | None \<Rightarrow> [])"

definition entry_has_order :: "string \<Rightarrow> exit_entry \<Rightarrow> bool" where
  "entry_has_order order_id e = list_ex (\<lambda>ao. ao_order_id ao = order_id) (actual_orders (ee_status e))"

definition parent_order_id_for :: "exit_handler \<Rightarrow> string \<Rightarrow> string option" where
  "parent_order_id_for h order_id = find_map
     (\<lambda>p. if entry_has_order order_id (snd p) then Some (ee_primary_order_id (snd p)) else None)
     (eh_pending h)"

definition get_entry :: "exit_handler \<Rightarrow> string \<Rightarrow> exit_entry option" where
  "get_entry h pid = dm_get (eh_pending h) pid"

definition get_status :: "exit_handler \<Rightarrow> string \<Rightarrow> exit_entry_status option" where
  "get_status h pid = map_option ee_status (dm_get (eh_pending h) pid)"

definition get_non_terminal_entries :: "exit_handler \<Rightarrow> exit_entry list" where
  "get_non_terminal_entries h = filter
     (\<lambda>e. case ee_status e of EntryCancelled t r \<Rightarrow> False | EntryExpired t \<Rightarrow> False | _ \<Rightarrow> True)
     (map snd (eh_pending h))"

definition get_pending_entries :: "exit_handler \<Rightarrow> exit_entry_info list" where
  "get_pending_entries h = map
     (\<lambda>e. \<lparr>ei_primary_order_id = ee_primary_order_id e, ei_order_type = ee_order_type e,
           ei_created_at = ee_created_at_utc e\<rparr>)
     (filter is_pending (map snd (eh_pending h)))"

definition failed_info :: "exit_entry \<Rightarrow> failed_exit_info option" where
  "failed_info e = (case ee_status e of
     EntryFailed err n t aos \<Rightarrow>
       Some \<lparr>fi_primary_order_id = ee_primary_order_id e, fi_symbol = ee_symbol e,
             fi_order_type = ee_order_type e, fi_error = err, fi_failed_at = t,
             fi_actual_order_ids = map ao_order_id aos\<rparr>
   | _ \<Rightarrow> None)"

definition get_failed_entries_internal :: "exit_handler \<Rightarrow> failed_exit_info list" where
  "get_failed_entries_internal h = List.map_filter failed_info (map snd (eh_pending h))"

definition is_circuit_breaker_open_internal :: "exit_handler \<Rightarrow> bool" where
  "is_circuit_breaker_open_internal h = eb_is_open (eh_breaker h)"

definition reset_circuit_breaker :: "instant \<Rightarrow> exit_handler \<Rightarrow> (string + unit) \<times> exit_handler" where
  "reset_circuit_breaker inst h = (case eb_reset inst (eh_breaker h) of (r, b) \<Rightarrow> (r, h\<lparr>eh_breaker := b\<rparr>))"

subsection \<open>Index maintenance\<close>

definition add_to_secondary_index :: "string \<Rightarrow> string \<Rightarrow> exit_handler \<Rightarrow> exit_handler" where
  "add_to_secondary_index primary pid h = h\<lparr>eh_primary := dm_extend primary [pid] (eh_primary h)\<rparr>"

definition insert_entry_inner :: "exit_entry \<Rightarrow> exit_handler \<Rightarrow> exit_handler" where
  "insert_entry_inner e h = add_to_secondary_index (ee_primary_order_id e) (ee_placeholder_id e)
     (h\<lparr>eh_pending := dm_insert (ee_placeholder_id e) e (eh_pending h)\<rparr>)"

definition index_drop :: "string \<Rightarrow> string list \<Rightarrow> (string, string list) dmap \<Rightarrow> (string, string list) dmap" where
  "index_drop primary to_remove idx = (case dm_get idx primary of
     None \<Rightarrow> idx
   | Some ids \<Rightarrow>
       (let ids' = filter (\<lambda>i. i \<notin> set to_remove) ids in
        if ids' = [] then dm_remove primary idx else dm_insert primary ids' idx))"

definition remove_batch_from_secondary_index :: "string \<Rightarrow> string list \<Rightarrow> exit_handler \<Rightarrow> exit_handler" where
  "remove_batch_from_secondary_index primary to_remove h =
     h\<lparr>eh_primary := index_drop primary to_remove (eh_primary h)\<rparr>"

definition extend_secondary_index :: "string \<Rightarrow> string list \<Rightarrow> exit_handler \<Rightarrow> exit_handler" where
  "extend_secondary_index primary pids h = h\<lparr>eh_primary := dm_extend primary pids (eh_primary h)\<rparr>"

text \<open>\<open>pending_by_placeholder.get_mut(pid)\<close> followed by an update of the entry.\<close>

definition update_entry :: "string \<Rightarrow> (exit_entry \<Rightarrow> exit_entry) \<Rightarrow> exit_handler \<Rightarrow> exit_handler" where
  "update_entry pid f h = h\<lparr>eh_pending := dm_modify pid f (eh_pending h)\<rparr>"

subsection \<open>Registration\<close>

definition validate_price :: "(decimal \<Rightarrow> string) \<Rightarrow> decimal \<Rightarrow> string \<Rightarrow> gateway_error + unit" where
  "validate_price dts price field_name =
     (if price \<le> 0 then Inl (InvalidRequest (field_name @ '' must be a positive number, got '' @ dts price) None)
      else Inr ())"

fun validate_price_opt :: "(decimal \<Rightarrow> string) \<Rightarrow> decimal option \<Rightarrow> string \<Rightarrow> gateway_error + unit" where
  "validate_price_opt dts None field_name = Inr ()"
| "validate_price_opt dts (Some price) field_name = validate_price dts price field_name"

definition new_leg_entry ::
  "instant \<Rightarrow> utc \<Rightarrow> trading_platform \<Rightarrow> string \<Rightarrow> order_request \<Rightarrow> exit_leg_type \<Rightarrow> decimal \<Rightarrow> exit_entry" where
  "new_leg_entry inst now platform primary r leg price =
     exit_entry_new inst now
       \<lparr>ep_primary_order_id = primary, ep_parent_client_order_id = or_client_order_id r,
        ep_order_type = leg, ep_symbol = or_symbol r, ep_side = opposite_side (or_side r),
        ep_trigger_price = price, ep_limit_price = None, ep_quantity = or_quantity r,
        ep_platform = platform\<rparr>"

fun register_leg ::
  "instant \<Rightarrow> utc \<Rightarrow> string \<Rightarrow> order_request \<Rightarrow> exit_leg_type \<Rightarrow> decimal option \<Rightarrow> exit_handler
     \<Rightarrow> string option \<times> exit_handler" where
  "register_leg inst now primary r leg None h = (None, h)"
| "register_leg inst now primary r leg (Some price) h =
     (let e = new_leg_entry inst now (eh_platform h) primary r leg price
      in (Some (ee_placeholder_id e), insert_entry_inner e h))"

fun link_siblings :: "string option \<Rightarrow> string option \<Rightarrow> exit_handler \<Rightarrow> exit_handler" where
  "link_siblings (Some sl_id) (Some tp_id) h =
     (let (first_id, second_id) = (if sl_id < tp_id then (sl_id, tp_id) else (tp_id, sl_id))
      in update_entry second_id (\<lambda>e. e\<lparr>ee_sibling_id := Some first_id\<rparr>)
           (update_entry first_id (\<lambda>e. e\<lparr>ee_sibling_id := Some second_id\<rparr>) h))"
| "link_siblings _ _ h = h"

definition register ::
  "(decimal \<Rightarrow> string) \<Rightarrow> instant \<Rightarrow> utc \<Rightarrow> string \<Rightarrow> order_request \<Rightarrow> exit_handler
     \<Rightarrow> (gateway_error + registered_exit_legs) \<times> exit_handler" where
  "register dts inst now primary r h =
     (if pending_count h \<ge> hc_max_pending_entries (eh_config h) then
        (Inl (Internal (''Resource exhausted: pending_exit_entries (limit: '' @
            show_nat (hc_max_pending_entries (eh_config h)) @ '')'') None), h)
      else if or_stop_loss r = None \<and> or_take_profit r = None then (Inr registered_empty, h)
      else case try_res (validate_price_opt dts (or_stop_loss r) ''stop_loss'')
                  (\<lambda>_. validate_price_opt dts (or_take_profit r) ''take_profit'') of
        Inl e \<Rightarrow> (Inl e, h)
      | Inr _ \<Rightarrow>
          (let (sl_id, h1) = register_leg inst now primary r StopLoss (or_stop_loss r) h;
               (tp_id, h2) = register_leg inst now primary r TakeProfit (or_take_profit r) h1
           in (Inr \<lparr>rl_stop_loss_id = sl_id, rl_take_profit_id = tp_id\<rparr>, link_siblings sl_id tp_id h2)))"

text \<open>\<open>register_preemptive\<close>; \<open>uuid\<close> is the freshly generated identifier.\<close>

definition opt_list :: "'a option \<Rightarrow> 'a list" where
  "opt_list x = (case x of None \<Rightarrow> [] | Some y \<Rightarrow> [y])"

definition register_preemptive ::
  "(decimal \<Rightarrow> string) \<Rightarrow> instant \<Rightarrow> utc \<Rightarrow> string \<Rightarrow> order_request \<Rightarrow> exit_handler
     \<Rightarrow> (gateway_error + exit_backup_registration) \<times> exit_handler" where
  "register_preemptive dts inst now uuid r h =
     (let backup_id = ''backup:'' @ uuid in
      case register dts inst now backup_id r h of
        (Inl e, h') \<Rightarrow> (Inl e, h')
      | (Inr legs, h') \<Rightarrow>
          (Inr \<lparr>br_id = backup_id,
                br_placeholder_ids = opt_list (rl_stop_loss_id legs) @ opt_list (rl_take_profit_id legs)\<rparr>, h'))"

definition activate_backup :: "string \<Rightarrow> string \<Rightarrow> exit_handler \<Rightarrow> (gateway_error + unit) \<times> exit_handler" where
  "activate_backup backup_id actual_primary_id h =
     (let pids = get_placeholders_for_primary h backup_id in
      if pids = [] then (Inl (OrderNotFound backup_id), h)
      else
        (let h1 = fold (\<lambda>pid. update_entry pid (\<lambda>e. e\<lparr>ee_primary_order_id := actual_primary_id\<rparr>)) pids h;
             h2 = h1\<lparr>eh_primary := dm_remove backup_id (eh_primary h1)\<rparr>
         in (Inr (), extend_secondary_index actual_primary_id pids h2)))"

definition cancel_backup :: "utc \<Rightarrow> string \<Rightarrow> exit_handler \<Rightarrow> (gateway_error + unit) \<times> exit_handler" where
  "cancel_backup now backup_id h =
     (let pids = get_placeholders_for_primary h backup_id in
      if pids = [] then (Inl (OrderNotFound backup_id), h)
      else
        (let h1 = fold (\<lambda>pid g.
                    (let g' = update_entry pid (set_status now (EntryCancelled now OcoSucceeded)) g
                     in g'\<lparr>eh_pending := dm_remove pid (eh_pending g')\<rparr>)) pids h
         in (Inr (), h1\<lparr>eh_primary := dm_remove backup_id (eh_primary h1)\<rparr>)))"

subsection \<open>The invariant\<close>

fun other_leg :: "exit_leg_type \<Rightarrow> exit_leg_type" where
  "other_leg StopLoss = TakeProfit"
| "other_leg TakeProfit = StopLoss"

text \<open>The placeholder id of the other leg of the same order.\<close>

definition counterpart :: "string \<Rightarrow> string" where
  "counterpart k = (case parse_placeholder_id k of
     Some (leg, p) \<Rightarrow> generate_placeholder_id (other_leg leg) p | None \<Rightarrow> k)"

definition entry_ok :: "string \<Rightarrow> exit_entry \<Rightarrow> bool" where
  "entry_ok k e = (ee_placeholder_id e = k
     \<and> map_option fst (parse_placeholder_id k) = Some (ee_order_type e)
     \<and> list_all (\<lambda>ao. ao_status ao = OrderOpen \<and> ao_leg_type ao = ee_order_type e)
         (actual_orders (ee_status e)))"

definition listed :: "string list option \<Rightarrow> string \<Rightarrow> bool" where
  "listed ids i = (case ids of Some xs \<Rightarrow> i \<in> set xs | None \<Rightarrow> False)"

definition index_ok :: "(string \<Rightarrow> exit_entry option) \<Rightarrow> string \<Rightarrow> string list \<Rightarrow> bool" where
  "index_ok P p ids = (ids \<noteq> [] \<and>
     list_all (\<lambda>i. case P i of Some e \<Rightarrow> ee_primary_order_id e = p | None \<Rightarrow> False) ids)"

definition sibling_ok ::
  "(string \<Rightarrow> exit_entry option) \<Rightarrow> (string \<Rightarrow> string list option) \<Rightarrow> string \<Rightarrow> exit_entry \<Rightarrow> bool" where
  "sibling_ok P I k e = (case ee_sibling_id e of None \<Rightarrow> True
     | Some s \<Rightarrow> s = counterpart k \<and> (case P s of None \<Rightarrow> True
         | Some e' \<Rightarrow> ee_sibling_id e' = Some k \<and> ee_primary_order_id e' = ee_primary_order_id e
             \<and> listed (I (ee_primary_order_id e)) k = listed (I (ee_primary_order_id e)) s))"

definition max_unmatched_fills :: nat where
  "max_unmatched_fills = 256"

definition eh_inv :: "exit_handler \<Rightarrow> bool" where
  "eh_inv h = (dm_wf (eh_pending h) \<and> dm_wf (eh_primary h) \<and> dm_wf (eh_unmatched h)
     \<and> length (eh_unmatched h) \<le> max_unmatched_fills
     \<and> dm_all entry_ok (eh_pending h)
     \<and> dm_all (index_ok (dm_get (eh_pending h))) (eh_primary h)
     \<and> dm_all (sibling_ok (dm_get (eh_pending h)) (dm_get (eh_primary h))) (eh_pending h))"

text \<open>The invariant over the two maps read as functions.\<close>

definition store_inv :: "(string \<Rightarrow> exit_entry option) \<Rightarrow> (string \<Rightarrow> string list option) \<Rightarrow> bool" where
  "store_inv P I = ((\<forall>k e. P k = Some e \<longrightarrow> entry_ok k e)
     \<and> (\<forall>p ids. I p = Some ids \<longrightarrow> index_ok P p ids)
     \<and> (\<forall>k e. P k = Some e \<longrightarrow> sibling_ok P I k e))"

lemma eh_inv_iff:
  "eh_inv h \<longleftrightarrow> dm_wf (eh_pending h) \<and> dm_wf (eh_primary h) \<and> dm_wf (eh_unmatched h)
     \<and> length (eh_unmatched h) \<le> max_unmatched_fills
     \<and> store_inv (dm_get (eh_pending h)) (dm_get (eh_primary h))"
  by (auto simp: eh_inv_def store_inv_def dm_all_iff)

lemma listed_simps [simp]: "listed None i = False" "listed (Some xs) i = (i \<in> set xs)"
  by (simp_all add: listed_def)

lemma index_ok_iff: "index_ok P p ids \<longleftrightarrow>
    ids \<noteq> [] \<and> (\<forall>i \<in> set ids. \<exists>e. P i = Some e \<and> ee_primary_order_id e = p)"
  by (force simp: index_ok_def list_all_iff split: option.splits)

lemma store_inv_entry: "store_inv P I \<Longrightarrow> P k = Some e \<Longrightarrow> entry_ok k e"
  by (simp add: store_inv_def)

lemma store_inv_placeholder: "store_inv P I \<Longrightarrow> P k = Some e \<Longrightarrow> ee_placeholder_id e = k"
  by (simp add: store_inv_def entry_ok_def)

lemma store_inv_listed:
  "store_inv P I \<Longrightarrow> listed (I p) i \<Longrightarrow> \<exists>e. P i = Some e \<and> ee_primary_order_id e = p"
  by (auto simp: store_inv_def index_ok_iff listed_def split: option.splits)

lemma store_inv_nonempty: "store_inv P I \<Longrightarrow> I p = Some ids \<Longrightarrow> ids \<noteq> []"
  by (auto simp: store_inv_def index_ok_iff)

lemma store_inv_sibling_ok: "store_inv P I \<Longrightarrow> P k = Some e \<Longrightarrow> sibling_ok P I k e"
  by (simp add: store_inv_def)

lemma store_inv_sibling:
  assumes "store_inv P I" "P k = Some e" "ee_sibling_id e = Some s" "P s = Some e'"
  shows "ee_sibling_id e' = Some k \<and> ee_primary_order_id e' = ee_primary_order_id e
     \<and> (listed (I (ee_primary_order_id e)) k \<longleftrightarrow> listed (I (ee_primary_order_id e)) s)"
  using store_inv_sibling_ok [OF assms(1,2)] assms(3,4) by (simp add: sibling_ok_def)

lemma store_inv_counterpart:
  assumes "store_inv P I" "P k = Some e" "ee_sibling_id e = Some s"
  shows "s = counterpart k"
  using store_inv_sibling_ok [OF assms(1,2)] assms(3) by (simp add: sibling_ok_def)

lemma sibling_okI:
  assumes "\<And>s. ee_sibling_id e = Some s \<Longrightarrow> s = counterpart k"
    and "\<And>s e'. ee_sibling_id e = Some s \<Longrightarrow> P s = Some e' \<Longrightarrow>
      ee_sibling_id e' = Some k \<and> ee_primary_order_id e' = ee_primary_order_id e
      \<and> (listed (I (ee_primary_order_id e)) k \<longleftrightarrow> listed (I (ee_primary_order_id e)) s)"
  shows "sibling_ok P I k e"
  using assms by (auto simp: sibling_ok_def split: option.splits)

text \<open>An update of one entry that keeps its identity, its links and the shape of its orders.\<close>

definition same_frame :: "exit_entry \<Rightarrow> exit_entry \<Rightarrow> bool" where
  "same_frame e e' = (ee_placeholder_id e' = ee_placeholder_id e
     \<and> ee_primary_order_id e' = ee_primary_order_id e
     \<and> ee_sibling_id e' = ee_sibling_id e \<and> ee_order_type e' = ee_order_type e)"

lemma same_frame_refl [simp]: "same_frame e e"
  by (simp add: same_frame_def)

lemma same_frame_set_status [simp]: "same_frame e (set_status now st e)"
  by (simp add: same_frame_def)

lemma store_inv_update:
  assumes inv: "store_inv P I" and e: "P k = Some e"
    and f: "same_frame e e'" and ok: "entry_ok k e'"
  shows "store_inv (P(k \<mapsto> e')) I"
proof -
  have frame: "\<exists>x0. P i = Some x0 \<and> same_frame x0 x" if "(P(k \<mapsto> e')) i = Some x" for i x
    using that e f by (auto split: if_splits)
  have "index_ok (P(k \<mapsto> e')) p ids" if "I p = Some ids" for p ids
  proof -
    have "index_ok P p ids" using inv that by (simp add: store_inv_def)
    then show ?thesis
      using e f by (force simp: index_ok_iff same_frame_def)
  qed
  moreover have "sibling_ok (P(k \<mapsto> e')) I i x" if ix: "(P(k \<mapsto> e')) i = Some x" for i x
  proof (rule sibling_okI)
    obtain x0 where x0: "P i = Some x0" "same_frame x0 x" using frame [OF ix] by blast
    fix s
    assume s: "ee_sibling_id x = Some s"
    then have s0: "ee_sibling_id x0 = Some s" using x0 by (simp add: same_frame_def)
    then show "s = counterpart i" using store_inv_counterpart [OF inv x0(1)] by simp
    fix y
    assume "(P(k \<mapsto> e')) s = Some y"
    then obtain y0 where "P s = Some y0" "same_frame y0 y" using frame by blast
    with store_inv_sibling [OF inv x0(1) s0] x0(2)
    show "ee_sibling_id y = Some i \<and> ee_primary_order_id y = ee_primary_order_id x
      \<and> (listed (I (ee_primary_order_id x)) i \<longleftrightarrow> listed (I (ee_primary_order_id x)) s)"
      by (simp add: same_frame_def)
  qed
  ultimately show ?thesis
    using inv ok by (simp add: store_inv_def)
qed

lemma dm_get_modify_fun:
  "dm_get (dm_modify k f m) = (case dm_get m k of None \<Rightarrow> dm_get m | Some v \<Rightarrow> (dm_get m)(k \<mapsto> f v))"
  by (rule ext) (auto split: option.splits)

lemma eh_inv_update_entry [gw_inv]:
  assumes "eh_inv h"
    and "\<And>e. get_entry h pid = Some e \<Longrightarrow> entry_ok pid e \<Longrightarrow> same_frame e (f e) \<and> entry_ok pid (f e)"
  shows "eh_inv (update_entry pid f h)"
proof (cases "dm_get (eh_pending h) pid")
  case None
  then have "dm_modify pid f (eh_pending h) = eh_pending h" by (rule dm_modify_absent)
  with assms(1) show ?thesis by (simp add: update_entry_def)
next
  case (Some e)
  have inv: "store_inv (dm_get (eh_pending h)) (dm_get (eh_primary h))"
    using assms(1) by (simp add: eh_inv_iff)
  have "same_frame e (f e) \<and> entry_ok pid (f e)"
    using assms(2) Some store_inv_entry [OF inv Some] by (simp add: get_entry_def)
  then show ?thesis
    using assms(1) Some store_inv_update [OF inv Some]
    by (simp add: eh_inv_iff update_entry_def dm_get_modify_fun)
qed

lemma eh_inv_breaker [simp]: "eh_inv (h\<lparr>eh_breaker := b\<rparr>) = eh_inv h"
  by (simp add: eh_inv_def)

text \<open>Dropping a set of entries from both maps.\<close>

lemma store_inv_remove:
  assumes inv: "store_inv P I"
    and P': "\<And>k. P' k = (if k \<in> K then None else P k)"
    and nonempty: "\<And>p ids. I' p = Some ids \<Longrightarrow> ids \<noteq> []"
    and listed: "\<And>p i. listed (I' p) i \<longleftrightarrow> listed (I p) i \<and> i \<notin> K"
  shows "store_inv P' I'"
proof -
  have "index_ok P' p ids" if "I' p = Some ids" for p ids
  proof -
    have "\<exists>e. P i = Some e \<and> ee_primary_order_id e = p" "i \<notin> K" if "i \<in> set ids" for i
      using that listed [of p i] \<open>I' p = Some ids\<close> store_inv_listed [OF inv] by auto
    then show ?thesis using nonempty [OF that] by (simp add: index_ok_iff P')
  qed
  moreover have "sibling_ok P' I' k e" if "P' k = Some e" for k e
  proof (rule sibling_okI)
    have e: "P k = Some e" "k \<notin> K" using that by (simp_all add: P' split: if_splits)
    fix s
    assume s: "ee_sibling_id e = Some s"
    show "s = counterpart k" by (rule store_inv_counterpart [OF inv e(1) s])
    fix e'
    assume "P' s = Some e'"
    then have e': "P s = Some e'" "s \<notin> K" by (simp_all add: P' split: if_splits)
    from store_inv_sibling [OF inv e(1) s e'(1)] e(2) e'(2)
    show "ee_sibling_id e' = Some k \<and> ee_primary_order_id e' = ee_primary_order_id e
      \<and> (listed (I' (ee_primary_order_id e)) k \<longleftrightarrow> listed (I' (ee_primary_order_id e)) s)"
      by (simp add: listed)
  qed
  ultimately show ?thesis
    using inv by (auto simp: store_inv_def P' split: if_splits)
qed

lemma store_inv_unindex:
  assumes inv: "store_inv P I"
  shows "store_inv P (I(p := None))"
proof -
  have "sibling_ok P (I(p := None)) k e" if "P k = Some e" for k e
  proof (rule sibling_okI)
    fix s
    assume s: "ee_sibling_id e = Some s"
    show "s = counterpart k" by (rule store_inv_counterpart [OF inv that s])
    fix e'
    assume "P s = Some e'"
    from store_inv_sibling [OF inv that s this]
    show "ee_sibling_id e' = Some k \<and> ee_primary_order_id e' = ee_primary_order_id e
      \<and> (listed ((I(p := None)) (ee_primary_order_id e)) k \<longleftrightarrow>
         listed ((I(p := None)) (ee_primary_order_id e)) s)"
      by simp
  qed
  then show ?thesis
    using inv by (auto simp: store_inv_def split: if_splits)
qed

lemma dm_get_remove_fun: "dm_get (dm_remove k m) = (dm_get m)(k := None)"
  by (rule ext) simp

lemma dm_get_insert_fun: "dm_get (dm_insert k v m) = (dm_get m)(k \<mapsto> v)"
  by (rule ext) simp

lemma eh_inv_unindex [gw_inv]:
  "eh_inv h \<Longrightarrow> eh_inv (h\<lparr>eh_primary := dm_remove p (eh_primary h)\<rparr>)"
  by (simp add: eh_inv_iff dm_get_remove_fun store_inv_unindex)

lemma index_drop_wf [simp, gw_inv]: "dm_wf idx \<Longrightarrow> dm_wf (index_drop p ids idx)"
  by (simp add: index_drop_def Let_def split: option.splits)

lemma listed_index_drop:
  "listed (dm_get (index_drop p ids idx) q) i \<longleftrightarrow>
     listed (dm_get idx q) i \<and> (q = p \<longrightarrow> i \<notin> set ids)"
  by (auto simp: index_drop_def Let_def listed_def filter_empty_conv split: option.splits if_splits)

lemma index_drop_nonempty:
  "(\<And>q xs. dm_get idx q = Some xs \<Longrightarrow> xs \<noteq> []) \<Longrightarrow>
   dm_get (index_drop p ids idx) q = Some xs \<Longrightarrow> xs \<noteq> []"
  by (auto simp: index_drop_def Let_def split: option.splits if_splits)

lemma get_placeholders_listed:
  "i \<in> set (get_placeholders_for_primary h p) \<longleftrightarrow> listed (dm_get (eh_primary h) p) i"
  by (simp add: get_placeholders_for_primary_def listed_def split: option.splits)

lemma eh_inv_placeholders:
  assumes "eh_inv h" and "i \<in> set (get_placeholders_for_primary h p)"
  shows "\<exists>e. get_entry h i = Some e \<and> ee_primary_order_id e = p"
proof -
  have "store_inv (dm_get (eh_pending h)) (dm_get (eh_primary h))"
    using assms(1) by (simp add: eh_inv_iff)
  from store_inv_listed [OF this] assms(2) show ?thesis
    by (simp add: get_entry_def get_placeholders_listed)
qed

lemma has_pending_iff:
  assumes "eh_inv h"
  shows "has_pending_for_primary h p \<longleftrightarrow> get_placeholders_for_primary h p \<noteq> []"
proof (cases "dm_get (eh_primary h) p")
  case None
  then show ?thesis
    by (simp add: has_pending_for_primary_def get_placeholders_for_primary_def)
next
  case (Some ids)
  then have "ids \<noteq> []"
    using assms store_inv_nonempty [of "dm_get (eh_pending h)" "dm_get (eh_primary h)" p ids]
    by (simp add: eh_inv_iff)
  moreover have "dm_has (eh_pending h) i" if "i \<in> set ids" for i
    using eh_inv_placeholders [OF assms, of i p] that Some
    by (auto simp: get_placeholders_for_primary_def get_entry_def dm_has_def)
  ultimately show ?thesis
    using Some by (cases ids) (simp_all add: has_pending_for_primary_def get_placeholders_for_primary_def)
qed

lemma other_leg_neq [simp]: "other_leg leg \<noteq> leg" "leg \<noteq> other_leg leg" "other_leg (other_leg leg) = leg"
  by (cases leg; simp)+

lemma counterpart_generate [simp]:
  "counterpart (generate_placeholder_id leg p) = generate_placeholder_id (other_leg leg) p"
  by (simp add: counterpart_def)

lemma entry_ok_counterpart:
  assumes "entry_ok k e"
  shows "counterpart (counterpart k) = k" and "counterpart k \<noteq> k"
    and "map_option fst (parse_placeholder_id (counterpart k)) = Some (other_leg (ee_order_type e))"
proof -
  from assms obtain p where "parse_placeholder_id k = Some (ee_order_type e, p)"
    by (auto simp: entry_ok_def)
  then have "k = generate_placeholder_id (ee_order_type e) p" by (rule generate_parse)
  then show "counterpart (counterpart k) = k" "counterpart k \<noteq> k"
    "map_option fst (parse_placeholder_id (counterpart k)) = Some (other_leg (ee_order_type e))"
    by simp_all
qed

lemma siblings_opposite_legs:
  assumes inv: "store_inv P I" and e: "P k = Some e" "ee_sibling_id e = Some s" and e': "P s = Some e'"
  shows "ee_order_type e' = other_leg (ee_order_type e)"
  using entry_ok_counterpart(3) [OF store_inv_entry [OF inv e(1)]]
    store_inv_entry [OF inv e'] store_inv_counterpart [OF inv e]
  by (auto simp: entry_ok_def)

subsection \<open>Registration keeps the invariant\<close>

lemma store_inv_insert:
  assumes inv: "store_inv P I" and new: "P k = None" and ok: "entry_ok k e"
    and sib: "ee_sibling_id e = None"
    and unlinked: "\<And>k' x. P k' = Some x \<Longrightarrow> ee_sibling_id x \<noteq> Some k"
    and p: "ee_primary_order_id e = p"
  shows "store_inv (P(k \<mapsto> e)) (I(p \<mapsto> (case I p of Some xs \<Rightarrow> xs | None \<Rightarrow> []) @ [k]))"
    (is "store_inv ?P ?I")
proof -
  have "index_ok ?P q ids" if "?I q = Some ids" for q ids
  proof (cases "q = p")
    case True
    with that have "ids = (case I p of Some xs \<Rightarrow> xs | None \<Rightarrow> []) @ [k]" by simp
    moreover have "\<exists>x. P i = Some x \<and> ee_primary_order_id x = p" if "listed (I p) i" for i
      by (rule store_inv_listed [OF inv that])
    ultimately show ?thesis
      using True p by (auto simp: index_ok_iff listed_def split: option.splits)
  next
    case False
    with that have "index_ok P q ids" using inv by (simp add: store_inv_def)
    then show ?thesis using new by (auto simp: index_ok_iff)
  qed
  moreover have "sibling_ok ?P ?I k' x" if x: "?P k' = Some x" for k' x
  proof (rule sibling_okI)
    fix s
    assume s: "ee_sibling_id x = Some s"
    with x sib have x': "P k' = Some x" "k' \<noteq> k" by (auto split: if_splits)
    show "s = counterpart k'" by (rule store_inv_counterpart [OF inv x'(1) s])
    fix y
    assume y: "?P s = Some y"
    have "s \<noteq> k" using unlinked [OF x'(1)] s by auto
    with y have "P s = Some y" by simp
    from store_inv_sibling [OF inv x'(1) s this] \<open>s \<noteq> k\<close> x'(2)
    show "ee_sibling_id y = Some k' \<and> ee_primary_order_id y = ee_primary_order_id x
      \<and> (listed (?I (ee_primary_order_id x)) k' \<longleftrightarrow> listed (?I (ee_primary_order_id x)) s)"
      by (auto simp: listed_def split: option.splits)
  qed
  ultimately show ?thesis
    using inv ok by (auto simp: store_inv_def)
qed

lemma store_inv_link:
  assumes inv: "store_inv P I" and a: "P a = Some x" "ee_sibling_id x = None"
    and b: "P b = Some y" "ee_sibling_id y = None" and ab: "b = counterpart a" "a \<noteq> b"
    and p: "ee_primary_order_id y = ee_primary_order_id x"
    and idx: "listed (I (ee_primary_order_id x)) a" "listed (I (ee_primary_order_id x)) b"
  shows "store_inv (P(a \<mapsto> x\<lparr>ee_sibling_id := Some b\<rparr>, b \<mapsto> y\<lparr>ee_sibling_id := Some a\<rparr>)) I"
    (is "store_inv ?P I")
proof -
  have ba: "counterpart b = a"
    using entry_ok_counterpart(1) [OF store_inv_entry [OF inv a(1)]] ab(1) by simp
  have "index_ok ?P q ids" if "I q = Some ids" for q ids
  proof -
    have "index_ok P q ids" using inv that by (simp add: store_inv_def)
    then show ?thesis using a b ab(2) by (fastforce simp: index_ok_iff)
  qed
  moreover have "sibling_ok ?P I k z" if z: "?P k = Some z" for k z
  proof (cases "k = a \<or> k = b")
    case True
    then show ?thesis
      using z a b ab ba p idx by (intro sibling_okI) (auto split: if_splits)
  next
    case False
    then have z': "P k = Some z" using z by simp
    show ?thesis
    proof (rule sibling_okI)
      fix s
      assume s: "ee_sibling_id z = Some s"
      show "s = counterpart k" by (rule store_inv_counterpart [OF inv z' s])
      have "s \<noteq> a" "s \<noteq> b"
        using store_inv_sibling [OF inv z' s, of x] store_inv_sibling [OF inv z' s, of y] a b by auto
      moreover fix z''
      assume "?P s = Some z''"
      ultimately have "P s = Some z''" by simp
      from store_inv_sibling [OF inv z' s this]
      show "ee_sibling_id z'' = Some k \<and> ee_primary_order_id z'' = ee_primary_order_id z
        \<and> (listed (I (ee_primary_order_id z)) k \<longleftrightarrow> listed (I (ee_primary_order_id z)) s)" .
    qed
  qed
  moreover have "entry_ok k z" if "?P k = Some z" for k z
    using that store_inv_entry [OF inv a(1)] store_inv_entry [OF inv b(1)] store_inv_entry [OF inv, of k z]
    by (auto simp: entry_ok_def split: if_splits)
  ultimately show ?thesis by (simp add: store_inv_def)
qed

text \<open>
  An order id is new to the handler when neither of its placeholder ids is stored. Broker order
  ids and generated backup ids are new when they are registered.
\<close>

definition register_fresh :: "exit_handler \<Rightarrow> string \<Rightarrow> bool" where
  "register_fresh h p = (dm_get (eh_pending h) (generate_placeholder_id StopLoss p) = None
     \<and> dm_get (eh_pending h) (generate_placeholder_id TakeProfit p) = None)"

lemma new_leg_entry_simps [simp]:
  "ee_placeholder_id (new_leg_entry inst now pl p r leg price) = generate_placeholder_id leg p"
  "ee_primary_order_id (new_leg_entry inst now pl p r leg price) = p"
  "ee_sibling_id (new_leg_entry inst now pl p r leg price) = None"
  "ee_order_type (new_leg_entry inst now pl p r leg price) = leg"
  "ee_status (new_leg_entry inst now pl p r leg price) = EntryPending"
  "ee_trigger_price (new_leg_entry inst now pl p r leg price) = price"
  "ee_limit_price (new_leg_entry inst now pl p r leg price) = None"
  "ee_quantity (new_leg_entry inst now pl p r leg price) = or_quantity r"
  "ee_side (new_leg_entry inst now pl p r leg price) = opposite_side (or_side r)"
  "ee_symbol (new_leg_entry inst now pl p r leg price) = or_symbol r"
  "ee_last_attempted_fill_qty (new_leg_entry inst now pl p r leg price) = None"
  by (simp_all add: new_leg_entry_def exit_entry_new_def)

lemma entry_ok_new_leg [simp]:
  "entry_ok (generate_placeholder_id leg p) (new_leg_entry inst now pl p r leg price)"
  by (simp add: entry_ok_def)

lemma insert_entry_inner_maps:
  "dm_get (eh_pending (insert_entry_inner e h)) = (dm_get (eh_pending h))(ee_placeholder_id e \<mapsto> e)"
  "dm_get (eh_primary (insert_entry_inner e h)) = (dm_get (eh_primary h))(ee_primary_order_id e \<mapsto>
     (case dm_get (eh_primary h) (ee_primary_order_id e) of Some xs \<Rightarrow> xs | None \<Rightarrow> []) @ [ee_placeholder_id e])"
  "eh_unmatched (insert_entry_inner e h) = eh_unmatched h"
  "eh_config (insert_entry_inner e h) = eh_config h"
  "eh_breaker (insert_entry_inner e h) = eh_breaker h"
  "eh_platform (insert_entry_inner e h) = eh_platform h"
  by (auto simp: insert_entry_inner_def add_to_secondary_index_def)

lemma insert_entry_inner_wf:
  "dm_wf (eh_pending h) \<Longrightarrow> dm_wf (eh_pending (insert_entry_inner e h))"
  "dm_wf (eh_primary h) \<Longrightarrow> dm_wf (eh_primary (insert_entry_inner e h))"
  by (simp_all add: insert_entry_inner_def add_to_secondary_index_def)

lemma eh_inv_insert_leg:
  assumes inv: "eh_inv h" and new: "dm_get (eh_pending h) (generate_placeholder_id leg p) = None"
    and other: "\<And>x. dm_get (eh_pending h) (generate_placeholder_id (other_leg leg) p) = Some x \<Longrightarrow>
      ee_sibling_id x = None"
  shows "eh_inv (insert_entry_inner (new_leg_entry inst now pl p r leg price) h)"
proof -
  have si: "store_inv (dm_get (eh_pending h)) (dm_get (eh_primary h))"
    using inv by (simp add: eh_inv_iff)
  have "ee_sibling_id x \<noteq> Some (generate_placeholder_id leg p)"
    if x: "dm_get (eh_pending h) k = Some x" for k x
  proof
    assume s: "ee_sibling_id x = Some (generate_placeholder_id leg p)"
    have "counterpart (generate_placeholder_id leg p) = k"
      using store_inv_counterpart [OF si x s] entry_ok_counterpart(1) [OF store_inv_entry [OF si x]]
      by simp
    with other [of x] x s show False by simp
  qed
  from store_inv_insert [OF si new entry_ok_new_leg _ this] show ?thesis
    using inv by (simp add: eh_inv_iff insert_entry_inner_maps insert_entry_inner_wf)
qed

lemma sl_less_tp: "generate_placeholder_id StopLoss p < generate_placeholder_id TakeProfit p"
  by (simp add: generate_placeholder_id_def less_char_def)

lemma link_siblings_legs:
  "link_siblings (Some (generate_placeholder_id StopLoss p)) (Some (generate_placeholder_id TakeProfit p)) h =
     update_entry (generate_placeholder_id TakeProfit p)
       (\<lambda>e. e\<lparr>ee_sibling_id := Some (generate_placeholder_id StopLoss p)\<rparr>)
       (update_entry (generate_placeholder_id StopLoss p)
         (\<lambda>e. e\<lparr>ee_sibling_id := Some (generate_placeholder_id TakeProfit p)\<rparr>) h)"
  using sl_less_tp by simp

lemma update_entry_simps [simp]:
  "eh_primary (update_entry pid f h) = eh_primary h"
  "eh_unmatched (update_entry pid f h) = eh_unmatched h"
  "eh_config (update_entry pid f h) = eh_config h"
  "eh_breaker (update_entry pid f h) = eh_breaker h"
  "eh_platform (update_entry pid f h) = eh_platform h"
  "dm_get (eh_pending (update_entry pid f h)) k =
     (if k = pid then map_option f (dm_get (eh_pending h) k) else dm_get (eh_pending h) k)"
  "get_entry (update_entry pid f h) k =
     (if k = pid then map_option f (get_entry h k) else get_entry h k)"
  "length (eh_pending (update_entry pid f h)) = length (eh_pending h)"
  by (simp_all add: update_entry_def get_entry_def)

lemma update_entry_wf: "dm_wf (eh_pending h) \<Longrightarrow> dm_wf (eh_pending (update_entry pid f h))"
  by (simp add: update_entry_def)

text \<open>The two legs of a bracket, inserted and linked.\<close>

lemma eh_inv_register_both:
  assumes inv: "eh_inv h" and fresh: "register_fresh h p"
  shows "eh_inv (link_siblings (Some (generate_placeholder_id StopLoss p))
           (Some (generate_placeholder_id TakeProfit p))
           (insert_entry_inner (new_leg_entry i2 n2 pl2 p r TakeProfit tp)
             (insert_entry_inner (new_leg_entry i1 n1 pl1 p r StopLoss sl) h)))"
    (is "eh_inv (link_siblings (Some ?a) (Some ?b) (insert_entry_inner ?y (insert_entry_inner ?x h)))")
proof -
  let ?h1 = "insert_entry_inner ?x h"
  let ?h2 = "insert_entry_inner ?y ?h1"
  have inv1: "eh_inv ?h1"
    by (rule eh_inv_insert_leg [OF inv]) (use fresh in \<open>auto simp: register_fresh_def\<close>)
  have inv2: "eh_inv ?h2"
    by (rule eh_inv_insert_leg [OF inv1])
      (use fresh in \<open>auto simp: register_fresh_def insert_entry_inner_maps\<close>)
  then have si: "store_inv (dm_get (eh_pending ?h2)) (dm_get (eh_primary ?h2))"
    by (simp add: eh_inv_iff)
  have maps: "dm_get (eh_pending ?h2) ?a = Some ?x" "dm_get (eh_pending ?h2) ?b = Some ?y"
    "listed (dm_get (eh_primary ?h2) p) ?a" "listed (dm_get (eh_primary ?h2) p) ?b"
    by (simp_all add: insert_entry_inner_maps)
  have "store_inv ((dm_get (eh_pending ?h2))(?a \<mapsto> ?x\<lparr>ee_sibling_id := Some ?b\<rparr>,
      ?b \<mapsto> ?y\<lparr>ee_sibling_id := Some ?a\<rparr>)) (dm_get (eh_primary ?h2))"
    by (rule store_inv_link [OF si maps(1) _ maps(2)]) (use maps(3,4) in auto)
  moreover have "dm_get (eh_pending (link_siblings (Some ?a) (Some ?b) ?h2)) =
      (dm_get (eh_pending ?h2))(?a \<mapsto> ?x\<lparr>ee_sibling_id := Some ?b\<rparr>,
      ?b \<mapsto> ?y\<lparr>ee_sibling_id := Some ?a\<rparr>)"
    using maps(1,2) by (auto simp: link_siblings_legs)
  ultimately show ?thesis
    using inv2 by (simp add: eh_inv_iff link_siblings_legs update_entry_wf)
qed

lemma eh_inv_register [gw_inv]:
  assumes inv: "eh_inv h" and fresh: "register_fresh h p"
  shows "eh_inv (snd (register dts inst now p r h))"
proof (cases "or_stop_loss r")
  case None
  then show ?thesis
    using inv fresh
    by (cases "or_take_profit r")
      (auto simp: register_def register_fresh_def Let_def intro!: eh_inv_insert_leg split: sum.splits)
next
  case (Some sl)
  show ?thesis
  proof (cases "or_take_profit r")
    case None
    with Some inv fresh show ?thesis
      by (auto simp: register_def register_fresh_def Let_def intro!: eh_inv_insert_leg split: sum.splits)
  next
    case (Some tp)
    with \<open>or_stop_loss r = Some sl\<close> inv eh_inv_register_both [OF inv fresh] show ?thesis
      by (auto simp: register_def Let_def simp del: link_siblings.simps split: sum.splits)
  qed
qed

lemma eh_inv_register_preemptive [gw_inv]:
  assumes "eh_inv h" "register_fresh h (''backup:'' @ uuid)"
  shows "eh_inv (snd (register_preemptive dts inst now uuid r h))"
  using eh_inv_register [OF assms, of dts inst now r]
  by (auto simp: register_preemptive_def Let_def split: prod.splits sum.splits)

lemma fold_update_entry:
  assumes "\<And>e. f (f e) = f e"
  shows "dm_get (eh_pending (fold (\<lambda>pid. update_entry pid f) pids h)) k =
     (if k \<in> set pids then map_option f (dm_get (eh_pending h) k) else dm_get (eh_pending h) k)"
proof (induction pids arbitrary: h)
  case (Cons a pids)
  show ?case
    by (cases "dm_get (eh_pending h) k") (auto simp: Cons assms)
qed simp

lemma fold_update_entry_frame:
  "eh_primary (fold (\<lambda>pid. update_entry pid f) pids h) = eh_primary h"
  "eh_unmatched (fold (\<lambda>pid. update_entry pid f) pids h) = eh_unmatched h"
  "dm_wf (eh_pending h) \<Longrightarrow> dm_wf (eh_pending (fold (\<lambda>pid. update_entry pid f) pids h))"
  by (induction pids arbitrary: h) (auto simp: update_entry_wf)

lemma store_inv_activate:
  assumes inv: "store_inv P I" and ids: "I b = Some ids"
  shows "store_inv (\<lambda>k. if k \<in> set ids then map_option (\<lambda>e. e\<lparr>ee_primary_order_id := a\<rparr>) (P k) else P k)
    ((I(b := None))(a \<mapsto> (case (I(b := None)) a of Some xs \<Rightarrow> xs | None \<Rightarrow> []) @ ids))"
    (is "store_inv ?P ?I")
proof -
  have in_b: "listed (I b) k \<longleftrightarrow> k \<in> set ids" for k using ids by simp
  have prim: "ee_primary_order_id e = q" if "P k = Some e" "listed (I q) k" for k e q
    using store_inv_listed [OF inv that(2)] that(1) by auto
  have listed': "listed (?I q) k \<longleftrightarrow>
      (if k \<in> set ids then q = a else listed (I q) k \<and> q \<noteq> b)" if "P k = Some e" for q k e
    using prim [OF that, of q] prim [OF that, of b] in_b [of k]
    by (auto simp: listed_def split: option.splits if_splits)
  have "index_ok ?P q xs" if xs: "?I q = Some xs" for q xs
  proof -
    have "xs \<noteq> []"
      using xs store_inv_nonempty [OF inv ids] store_inv_nonempty [OF inv, of q xs]
      by (auto split: if_splits)
    moreover have "\<exists>e. ?P i = Some e \<and> ee_primary_order_id e = q" if i: "i \<in> set xs" for i
    proof -
      have l: "listed (?I q) i" using xs i by simp
      then have "listed (I q) i \<or> i \<in> set ids" by (auto simp: listed_def split: option.splits if_splits)
      then obtain e where e: "P i = Some e"
        using store_inv_listed [OF inv] in_b by blast
      show ?thesis
        using l [unfolded listed' [OF e]] e prim [OF e] by (auto split: if_splits)
    qed
    ultimately show ?thesis by (simp add: index_ok_iff)
  qed
  moreover have "sibling_ok ?P ?I k x" if x: "?P k = Some x" for k x
  proof (rule sibling_okI)
    obtain x0 where x0: "P k = Some x0"
      "x = (if k \<in> set ids then x0\<lparr>ee_primary_order_id := a\<rparr> else x0)"
      using x by (auto split: if_splits)
    fix s
    assume "ee_sibling_id x = Some s"
    then have s: "ee_sibling_id x0 = Some s" using x0 by (simp split: if_splits)
    show "s = counterpart k" by (rule store_inv_counterpart [OF inv x0(1) s])
    fix y
    assume "?P s = Some y"
    then obtain y0 where y0: "P s = Some y0"
      "y = (if s \<in> set ids then y0\<lparr>ee_primary_order_id := a\<rparr> else y0)"
      by (auto split: if_splits)
    note sib = store_inv_sibling [OF inv x0(1) s y0(1)]
    have both: "k \<in> set ids \<longleftrightarrow> s \<in> set ids"
      using sib prim [OF x0(1), of b] prim [OF y0(1), of b] in_b by metis
    show "ee_sibling_id y = Some k \<and> ee_primary_order_id y = ee_primary_order_id x
      \<and> (listed (?I (ee_primary_order_id x)) k \<longleftrightarrow> listed (?I (ee_primary_order_id x)) s)"
      unfolding listed' [OF x0(1)] listed' [OF y0(1)] using sib both x0(2) y0(2) by simp
  qed
  moreover have "entry_ok k x" if "?P k = Some x" for k x
    using that store_inv_entry [OF inv, of k] by (auto simp: entry_ok_def split: if_splits)
  ultimately show ?thesis by (simp add: store_inv_def)
qed

lemma eh_inv_activate_backup [gw_inv]:
  assumes inv: "eh_inv h"
  shows "eh_inv (snd (activate_backup b a h))"
proof (cases "dm_get (eh_primary h) b")
  case None
  then show ?thesis using inv by (simp add: activate_backup_def get_placeholders_for_primary_def)
next
  case (Some ids)
  have si: "store_inv (dm_get (eh_pending h)) (dm_get (eh_primary h))"
    using inv by (simp add: eh_inv_iff)
  let ?f = "\<lambda>e. e\<lparr>ee_primary_order_id := a\<rparr>"
  have P: "dm_get (eh_pending (fold (\<lambda>pid. update_entry pid ?f) ids h)) =
      (\<lambda>k. if k \<in> set ids then map_option ?f (dm_get (eh_pending h) k) else dm_get (eh_pending h) k)"
    by (rule ext, rule fold_update_entry) simp
  have I: "dm_get (dm_extend a ids (dm_remove b (eh_primary h))) =
      ((dm_get (eh_primary h))(b := None))(a \<mapsto>
        (case ((dm_get (eh_primary h))(b := None)) a of Some xs \<Rightarrow> xs | None \<Rightarrow> []) @ ids)"
    by (rule ext) simp
  show ?thesis
    using inv Some store_inv_nonempty [OF si Some] store_inv_activate [OF si Some, of a]
    by (simp add: activate_backup_def get_placeholders_for_primary_def Let_def extend_secondary_index_def
        eh_inv_iff fold_update_entry_frame P I)
qed

lemma cancel_fold_maps:
  fixes h :: exit_handler
  defines "step \<equiv> \<lambda>now st pid g. (let g' = update_entry pid (set_status now st) g
      in g'\<lparr>eh_pending := dm_remove pid (eh_pending g')\<rparr>)"
  shows "dm_get (eh_pending (fold (step now st) pids h)) k =
      (if k \<in> set pids then None else dm_get (eh_pending h) k)"
    and "eh_primary (fold (step now st) pids h) = eh_primary h"
    and "eh_unmatched (fold (step now st) pids h) = eh_unmatched h"
    and "dm_wf (eh_pending h) \<Longrightarrow> dm_wf (eh_pending (fold (step now st) pids h))"
  by (induction pids arbitrary: h) (auto simp: step_def Let_def update_entry_wf)

lemma eh_inv_cancel_backup [gw_inv]:
  assumes inv: "eh_inv h"
  shows "eh_inv (snd (cancel_backup now b h))"
proof (cases "dm_get (eh_primary h) b")
  case None
  then show ?thesis using inv by (simp add: cancel_backup_def get_placeholders_for_primary_def)
next
  case (Some ids)
  have si: "store_inv (dm_get (eh_pending h)) (dm_get (eh_primary h))"
    using inv by (simp add: eh_inv_iff)
  have "listed (((dm_get (eh_primary h))(b := None)) q) i \<longleftrightarrow>
      listed (dm_get (eh_primary h) q) i \<and> i \<notin> set ids" for q i
    using store_inv_listed [OF si, of q i] store_inv_listed [OF si, of b i] Some by auto
  then have "store_inv (\<lambda>k. if k \<in> set ids then None else dm_get (eh_pending h) k)
      ((dm_get (eh_primary h))(b := None))"
    using store_inv_nonempty [OF si] by (intro store_inv_remove [OF si]) (auto split: if_splits)
  moreover have "dm_get (eh_pending (fold (\<lambda>pid g.
        (let g' = update_entry pid (set_status now (EntryCancelled now OcoSucceeded)) g
         in g'\<lparr>eh_pending := dm_remove pid (eh_pending g')\<rparr>)) ids h)) =
      (\<lambda>k. if k \<in> set ids then None else dm_get (eh_pending h) k)"
    by (rule ext, rule cancel_fold_maps(1))
  ultimately show ?thesis
    using inv Some store_inv_nonempty [OF si Some]
    by (simp add: cancel_backup_def get_placeholders_for_primary_def Let_def eh_inv_iff
        cancel_fold_maps(2-4) [unfolded Let_def] dm_get_remove_fun)
qed

lemma eh_inv_new [simp]: "eh_inv (exit_handler_new platform config)"
  by (simp add: eh_inv_def exit_handler_new_def dm_all_def max_unmatched_fills_def)

lemma eh_inv_reset [gw_inv]: "eh_inv h \<Longrightarrow> eh_inv (snd (reset_circuit_breaker inst h))"
  by (simp add: reset_circuit_breaker_def split: prod.splits)

end
