(* ===== verification/Gw_Exit_Fill.thy ===== *)
theory Gw_Exit_Fill
  imports Gw_Exit_Handler
begin

text \<open>
  Fill handling (\<open>exit_management/fill_handler.rs\<close>): a fill of an entry order places or grows its
  exit legs, a full fill of an exit leg resolves the pair, and a fill that beats registration is
  buffered and replayed. Operations take the environment, the handler and the world and return
  their result with the new handler and world; the fill lock of the source makes each of them run
  without another fill or move in between.
\<close>

definition unmatched_fill_ttl :: duration where
  "unmatched_fill_ttl = secs 30"

subsection \<open>Error classification\<close>

text \<open>\<open>s.split(p)\<close> up to its second piece: what stands before and after the first occurrence.\<close>

fun split_str_once :: "string \<Rightarrow> string \<Rightarrow> (string \<times> string) option" where
  "split_str_once p [] = (if p = [] then Some ([], []) else None)"
| "split_str_once p (c # s) = (if starts_with (c # s) p then Some ([], drop (length p) (c # s))
     else map_option (\<lambda>(a, b). (c # a, b)) (split_str_once p s))"

definition before_str :: "string \<Rightarrow> string \<Rightarrow> string" where
  "before_str p s = (case split_str_once p s of Some (a, b) \<Rightarrow> a | None \<Rightarrow> s)"

definition is_ascii_space :: "char \<Rightarrow> bool" where
  "is_ascii_space c = (of_char c \<in> {9, 10, 11, 12, 13, 32 :: nat})"

definition trim :: "string \<Rightarrow> string" where
  "trim s = rev (dropWhile is_ascii_space (rev (dropWhile is_ascii_space s)))"

definition parse_available_quantity :: "(string \<Rightarrow> decimal option) \<Rightarrow> string \<Rightarrow> decimal option" where
  "parse_available_quantity parse error_msg =
     (case split_str_once ''available:'' error_msg of
        None \<Rightarrow> None
      | Some (_, rest) \<Rightarrow>
          (case parse (trim (before_str '')'' (before_str ''available:'' rest))) of
             Some qty \<Rightarrow> if qty > 0 then Some qty else None
           | None \<Rightarrow> None))"

definition classify_error_text :: "string \<Rightarrow> error_category" where
  "classify_error_text error_str =
     (if contains error_str ''rate limit'' \<or> contains error_str ''too many requests''
      then CategoryRateLimited
      else if contains error_str ''market is closed'' \<or> contains error_str ''is not tradable''
        \<or> contains error_str ''symbol is halted'' \<or> contains error_str ''not accepting orders''
      then ExchangeUnavailable
      else if contains error_str ''-1013'' \<or> contains error_str ''-4014''
        \<or> contains error_str ''maintenance''
      then ExchangeUnavailable
      else InfrastructureFailure)"

definition classify_error :: "gateway_error \<Rightarrow> error_category" where
  "classify_error err = (case err of
     RateLimited r t \<Rightarrow> CategoryRateLimited
   | ProviderUnavailable m \<Rightarrow> ExchangeUnavailable
   | _ \<Rightarrow> classify_error_text (to_lowercase (error_to_string err)))"

subsection \<open>Entry updates\<close>

definition record_position_id :: "string \<Rightarrow> string option \<Rightarrow> exit_handler \<Rightarrow> exit_handler" where
  "record_position_id pid position_id h = (case position_id of
     None \<Rightarrow> h
   | Some p \<Rightarrow> update_entry pid (\<lambda>e. e\<lparr>ee_position_id := Some p\<rparr>) h)"

definition update_last_attempted_fill_qty :: "utc \<Rightarrow> string \<Rightarrow> decimal \<Rightarrow> exit_handler \<Rightarrow> exit_handler" where
  "update_last_attempted_fill_qty now pid qty h =
     update_entry pid (\<lambda>e. e\<lparr>ee_last_attempted_fill_qty := Some qty, ee_updated_at := Some now\<rparr>) h"

definition partial_fill_status :: "actual_order \<Rightarrow> decimal \<Rightarrow> decimal \<Rightarrow> exit_entry_status \<Rightarrow> exit_entry_status" where
  "partial_fill_status new_order filled_qty total_qty st = (case st of
     EntryPending \<Rightarrow> EntryPartiallyTriggered filled_qty total_qty [new_order]
   | EntryPartiallyTriggered f t aos \<Rightarrow> EntryPartiallyTriggered filled_qty t (aos @ [new_order])
   | _ \<Rightarrow> st)"

definition update_entry_partial_fill ::
  "utc \<Rightarrow> string \<Rightarrow> actual_order \<Rightarrow> decimal \<Rightarrow> decimal \<Rightarrow> exit_handler \<Rightarrow> exit_handler" where
  "update_entry_partial_fill now pid new_order filled_qty total_qty h = update_entry pid
     (\<lambda>e. e\<lparr>ee_status := partial_fill_status new_order filled_qty total_qty (ee_status e),
            ee_updated_at := Some now\<rparr>) h"

definition placed_status :: "actual_order \<Rightarrow> exit_entry_status \<Rightarrow> exit_entry_status" where
  "placed_status new_order st = EntryPlaced ((case st of
     EntryPartiallyTriggered f t aos \<Rightarrow> aos | _ \<Rightarrow> []) @ [new_order])"

definition update_entry_to_placed :: "utc \<Rightarrow> string \<Rightarrow> actual_order \<Rightarrow> exit_handler \<Rightarrow> exit_handler" where
  "update_entry_to_placed now pid new_order h = update_entry pid
     (\<lambda>e. e\<lparr>ee_status := placed_status new_order (ee_status e), ee_updated_at := Some now\<rparr>) h"

definition failed_status :: "utc \<Rightarrow> string \<Rightarrow> nat \<Rightarrow> exit_entry_status \<Rightarrow> exit_entry_status" where
  "failed_status now err retry_count st = EntryFailed err retry_count now (case st of
     EntryPartiallyTriggered f t aos \<Rightarrow> aos | EntryPlaced aos \<Rightarrow> aos | _ \<Rightarrow> [])"

definition update_entry_to_failed :: "utc \<Rightarrow> string \<Rightarrow> string \<Rightarrow> nat \<Rightarrow> exit_handler \<Rightarrow> exit_handler" where
  "update_entry_to_failed now pid err retry_count h = update_entry pid
     (\<lambda>e. set_status now (failed_status now err retry_count (ee_status e)) e) h"

subsection \<open>Building and placing an exit order\<close>

definition exit_id_seed :: "exit_entry \<Rightarrow> string" where
  "exit_id_seed e = (case ee_parent_client_order_id e of
     Some i \<Rightarrow> if i = [] then ee_primary_order_id e else i
   | None \<Rightarrow> ee_primary_order_id e)"

definition exit_client_order_id :: "exit_entry \<Rightarrow> nat \<Rightarrow> string" where
  "exit_client_order_id e existing_order_count =
     (if existing_order_count = 0
      then exit_id_seed e @ ''-'' @ client_order_suffix (ee_order_type e)
      else exit_id_seed e @ ''-'' @ client_order_suffix (ee_order_type e) @ ''-'' @ show_nat existing_order_count)"

definition build_exit_order_request :: "exit_entry \<Rightarrow> decimal \<Rightarrow> nat \<Rightarrow> string option \<Rightarrow> order_request" where
  "build_exit_order_request e quantity existing_order_count position_id =
     (let (otype, stop_price, limit_price) = (case ee_order_type e of
            StopLoss \<Rightarrow> (case ee_limit_price e of
                None \<Rightarrow> (Stop, Some (ee_trigger_price e), None)
              | Some limit \<Rightarrow> (StopLimit, Some (ee_trigger_price e), Some limit))
          | TakeProfit \<Rightarrow> (Limit, None, Some (ee_trigger_price e)))
      in \<lparr>or_symbol = ee_symbol e, or_side = ee_side e, or_quantity = quantity,
          or_order_type = otype, or_limit_price = limit_price, or_stop_price = stop_price,
          or_trailing_distance = None, or_trailing_type = None, or_stop_loss = None,
          or_take_profit = None, or_position_id = position_id,
          or_reduce_only = (position_id \<noteq> None), or_post_only = False, or_hidden = False,
          or_display_quantity = None, or_margin_mode = None, or_leverage = None,
          or_client_order_id = Some (exit_client_order_id e existing_order_count),
          or_oco_group_id = None, or_time_in_force = Gtc\<rparr>)"

definition classify_and_handle_placement_error ::
  "(string \<Rightarrow> decimal option) \<Rightarrow> duration list \<Rightarrow> gateway_error \<Rightarrow> order_request \<Rightarrow> nat \<Rightarrow> nat
     \<Rightarrow> (place_order_error \<times> nat) option" where
  "classify_and_handle_placement_error parse delays err r attempt retry_count =
     (let error_str = error_to_string err; error_str_lower = to_lowercase error_str in
      if contains error_str_lower ''insufficient'' \<or> contains error_str_lower ''balance''
         \<or> contains error_str_lower ''not enough''
      then Some (InsufficientBalance error_str (or_quantity r)
                   (case parse_available_quantity parse error_str of Some q \<Rightarrow> q | None \<Rightarrow> 0), retry_count)
      else if contains error_str_lower ''wash'' \<or> contains error_str_lower ''self-trade''
      then Some (WashTrade error_str, retry_count)
      else if attempt \<ge> length delays
      then Some (PlaceFailed error_str (u32_clamp (attempt + 1)) (classify_error err), u32_clamp (attempt + 1))
      else None)"

text \<open>The order recorded when the placed order cannot be fetched.\<close>

definition fallback_order :: "utc \<Rightarrow> order_handle \<Rightarrow> order_request \<Rightarrow> order" where
  "fallback_order now handle r =
     \<lparr>o_id = oh_id handle, o_client_order_id = or_client_order_id r, o_symbol = or_symbol r,
      o_side = or_side r, o_order_type = or_order_type r, o_quantity = or_quantity r,
      o_filled_quantity = 0, o_remaining_quantity = or_quantity r,
      o_limit_price = or_limit_price r, o_stop_price = or_stop_price r,
      o_stop_loss = or_stop_loss r, o_take_profit = or_take_profit r,
      o_trailing_distance = or_trailing_distance r, o_trailing_type = or_trailing_type r,
      o_average_fill_price = None, o_status = oh_status handle, o_reject_reason = None,
      o_position_id = or_position_id r, o_parent_order_id = None,
      o_reduce_only = Some (or_reduce_only r), o_post_only = Some (or_post_only r),
      o_hidden = Some (or_hidden r), o_display_quantity = or_display_quantity r,
      o_oco_group_id = or_oco_group_id r, o_correlation_id = None,
      o_time_in_force = or_time_in_force r, o_created_at = now, o_updated_at = now\<rparr>"

text \<open>
  The retry loop. \<open>None\<close> is the panic of indexing \<open>retry_delays\<close> out of range, which
  \<open>place_loop_total\<close> below rules out.
\<close>

function place_loop ::
  "'w env \<Rightarrow> duration list \<Rightarrow> order_request \<Rightarrow> nat \<Rightarrow> nat \<Rightarrow> 'w
     \<Rightarrow> (((place_order_error \<times> nat) + (order \<times> nat)) \<times> 'w) option" where
  "place_loop E delays r attempt retry_count w =
     (if attempt < length delays + 1 then
        (case submit_order E r w of
           (Inr handle, w1) \<Rightarrow>
             (case get_order E (oh_id handle) w1 of
                (Inr full_order, w2) \<Rightarrow> Some (Inr (full_order, retry_count), w2)
              | (Inl err, w2) \<Rightarrow> Some (Inr (fallback_order (utc_now E w2) handle r, retry_count), w2))
         | (Inl err, w1) \<Rightarrow>
             (case classify_and_handle_placement_error (dec_from_str E) delays err r attempt retry_count of
                Some failure \<Rightarrow> Some (Inl failure, w1)
              | None \<Rightarrow>
                  if attempt < length delays
                  then place_loop E delays r (attempt + 1) (u32_clamp (attempt + 1))
                         (sleep E (delays ! attempt) w1)
                  else None))
      else Some (Inl (PlaceFailed ''Exhausted all retry attempts'' retry_count InfrastructureFailure,
                      retry_count), w))"
  by pat_completeness auto

termination place_loop
  by (relation "measure (\<lambda>(E, delays, r, attempt, rc, w). length delays + 1 - attempt)") auto

declare place_loop.simps [simp del]

definition place_order_with_retry ::
  "'w env \<Rightarrow> exit_handler \<Rightarrow> order_request \<Rightarrow> 'w \<Rightarrow> ((place_order_error \<times> nat) + (order \<times> nat)) \<times> 'w" where
  "place_order_with_retry E h r w = the (place_loop E (hc_retry_delays (eh_config h)) r 0 0 w)"

definition handle_successful_placement ::
  "utc \<Rightarrow> string \<Rightarrow> exit_entry \<Rightarrow> order \<Rightarrow> (decimal \<times> decimal) option \<Rightarrow> exit_handler
     \<Rightarrow> placement_result \<times> exit_handler" where
  "handle_successful_placement now pid e placed_order partial_fill h =
     (let new_order = \<lparr>ao_order_id = o_id placed_order, ao_quantity = o_quantity placed_order,
                       ao_placed_at = now, ao_status = OrderOpen, ao_leg_type = ee_order_type e\<rparr>;
          h' = (case partial_fill of
                  Some (filled_qty, total_qty) \<Rightarrow> update_entry_partial_fill now pid new_order filled_qty total_qty h
                | None \<Rightarrow> update_entry_to_placed now pid new_order h)
      in (pr_success pid (ee_order_type e) placed_order, h'))"

definition handle_placement_error ::
  "instant \<Rightarrow> utc \<Rightarrow> string \<Rightarrow> exit_entry \<Rightarrow> place_order_error \<Rightarrow> nat \<Rightarrow> exit_handler
     \<Rightarrow> placement_result \<times> exit_handler" where
  "handle_placement_error inst now pid e err retry_count h = (case err of
     InsufficientBalance message rq aq \<Rightarrow>
       (pr_deferred pid (ee_order_type e) (''Insufficient balance: '' @ message), h)
   | WashTrade message \<Rightarrow>
       (pr_deferred pid (ee_order_type e) (''Wash trade prevention: '' @ message), h)
   | PlaceFailed message rc category \<Rightarrow>
       (let h1 = (if should_count_toward_breaker category
                  then h\<lparr>eh_breaker := eb_record_failure inst (eh_breaker h)\<rparr> else h)
        in (pr_failed pid (ee_order_type e) message retry_count,
            update_entry_to_failed now pid message retry_count h1)))"

subsection \<open>One entry\<close>

definition validate_entry_for_fill ::
  "(exit_entry_status \<Rightarrow> string) \<Rightarrow> exit_handler \<Rightarrow> string \<Rightarrow> decimal \<Rightarrow> placement_result + exit_entry" where
  "validate_entry_for_fill dbg h pid filled_qty = (case get_entry h pid of
     None \<Rightarrow> Inl (pr_failed pid StopLoss ''Entry not found'' 0)
   | Some e \<Rightarrow>
       if (case ee_status e of EntryCancelled t r \<Rightarrow> True | EntryFailed m n t aos \<Rightarrow> True
             | EntryExpired t \<Rightarrow> True | _ \<Rightarrow> False)
       then Inl (pr_deferred pid (ee_order_type e) (''Entry in terminal state: '' @ dbg (ee_status e)))
       else if (case ee_last_attempted_fill_qty e of Some q \<Rightarrow> filled_qty \<le> q | None \<Rightarrow> False)
       then Inl (pr_already_processed pid (ee_order_type e))
       else Inr e)"

definition fill_target :: "decimal \<Rightarrow> decimal \<Rightarrow> decimal option \<Rightarrow> bool \<Rightarrow> decimal" where
  "fill_target filled_qty total_qty position_qty is_partial =
     (if is_partial then filled_qty else (case position_qty of Some q \<Rightarrow> q | None \<Rightarrow> total_qty))"

definition calculate_exit_quantity ::
  "(decimal \<Rightarrow> string) \<Rightarrow> exit_handler \<Rightarrow> string \<Rightarrow> exit_entry \<Rightarrow> decimal \<Rightarrow> decimal \<Rightarrow> decimal option
     \<Rightarrow> bool \<Rightarrow> placement_result + (decimal \<times> actual_order list)" where
  "calculate_exit_quantity dts h pid e filled_qty total_qty position_qty is_partial =
     (let existing_orders = actual_orders (ee_status e);
          already_covered = calculate_active_coverage existing_orders (ee_order_type e);
          target_qty = fill_target filled_qty total_qty position_qty is_partial;
          qty_to_place = target_qty - already_covered;
          min_qty = hc_min_exit_order_qty (eh_config h)
      in if qty_to_place < min_qty
         then Inl (pr_deferred pid (ee_order_type e)
                (''Quantity '' @ dts qty_to_place @ '' below minimum '' @ dts min_qty))
         else Inr (qty_to_place, existing_orders))"

definition process_entry_fill ::
  "'w env \<Rightarrow> string \<Rightarrow> decimal \<Rightarrow> decimal \<Rightarrow> decimal option \<Rightarrow> string option \<Rightarrow> exit_handler \<Rightarrow> 'w
     \<Rightarrow> placement_result \<times> exit_handler \<times> 'w" where
  "process_entry_fill E pid filled_qty total_qty position_qty position_id h w =
     (let is_partial = filled_qty < total_qty in
      case validate_entry_for_fill (status_debug E) h pid filled_qty of
        Inl r \<Rightarrow> (r, h, w)
      | Inr e \<Rightarrow>
          (let h1 = update_last_attempted_fill_qty (utc_now E w) pid filled_qty h in
           case calculate_exit_quantity (dec_to_string E) h1 pid e filled_qty total_qty position_qty is_partial of
             Inl r \<Rightarrow> (r, h1, w)
           | Inr (qty, existing) \<Rightarrow>
               if is_circuit_breaker_open_internal h1
               then (pr_deferred pid (ee_order_type e) ''Circuit breaker open'', h1, w)
               else
                 (let h2 = record_position_id pid position_id h1;
                      r = build_exit_order_request e qty (length existing) position_id
                  in case place_order_with_retry E h2 r w of
                       (Inr (placed_order, n), w1) \<Rightarrow>
                         (case handle_successful_placement (utc_now E w1) pid e placed_order
                                 (if is_partial then Some (filled_qty, total_qty) else None) h2 of
                            (res, h3) \<Rightarrow> (res, h3, w1))
                     | (Inl (err, n), w1) \<Rightarrow>
                         (case handle_placement_error (instant_now E w1) (utc_now E w1) pid e err n h2 of
                            (res, h3) \<Rightarrow> (res, h3, w1)))))"

subsection \<open>Buffered fills and exit legs\<close>

definition sweep_unmatched_fills :: "instant \<Rightarrow> exit_handler \<Rightarrow> exit_handler" where
  "sweep_unmatched_fills inst h = h\<lparr>eh_unmatched :=
     filter (\<lambda>p. inst - bf_buffered_at (snd p) \<le> unmatched_fill_ttl) (eh_unmatched h)\<rparr>"

text \<open>\<open>min_by_key\<close>: the first of the oldest.\<close>

fun oldest_fill :: "(string, buffered_fill) dmap \<Rightarrow> (string \<times> buffered_fill) option" where
  "oldest_fill [] = None"
| "oldest_fill (p # m) = (case oldest_fill m of
     None \<Rightarrow> Some p
   | Some q \<Rightarrow> if bf_buffered_at (snd q) < bf_buffered_at (snd p) then Some q else Some p)"

definition evict_oldest :: "(string, buffered_fill) dmap \<Rightarrow> (string, buffered_fill) dmap" where
  "evict_oldest m = (case oldest_fill m of Some (k, f) \<Rightarrow> dm_remove k m | None \<Rightarrow> m)"

definition buffer_unmatched_fill ::
  "instant \<Rightarrow> string \<Rightarrow> decimal \<Rightarrow> decimal \<Rightarrow> decimal option \<Rightarrow> string option \<Rightarrow> exit_handler \<Rightarrow> exit_handler" where
  "buffer_unmatched_fill inst primary filled_qty total_qty position_qty position_id h =
     (let h1 = sweep_unmatched_fills inst h;
          m = (if length (eh_unmatched h1) \<ge> max_unmatched_fills
               then evict_oldest (eh_unmatched h1) else eh_unmatched h1)
      in h1\<lparr>eh_unmatched := dm_insert primary
             \<lparr>bf_filled_qty = filled_qty, bf_total_qty = total_qty, bf_position_qty = position_qty,
              bf_position_id = position_id, bf_buffered_at = inst\<rparr> m\<rparr>)"

definition find_entry_by_actual_order ::
  "exit_handler \<Rightarrow> string \<Rightarrow> (string \<times> string option \<times> string) option" where
  "find_entry_by_actual_order h order_id = find_map
     (\<lambda>p. if entry_has_order order_id (snd p)
          then Some (ee_placeholder_id (snd p), ee_sibling_id (snd p), ee_primary_order_id (snd p))
          else None) (eh_pending h)"

definition remove_pending_entry :: "string \<Rightarrow> string \<Rightarrow> exit_handler \<Rightarrow> exit_handler" where
  "remove_pending_entry pid primary h = remove_batch_from_secondary_index primary [pid]
     (h\<lparr>eh_pending := dm_remove pid (eh_pending h)\<rparr>)"

fun cancel_active_orders :: "'w env \<Rightarrow> actual_order list \<Rightarrow> 'w \<Rightarrow> bool \<times> 'w" where
  "cancel_active_orders E [] w = (True, w)"
| "cancel_active_orders E (ao # aos) w =
     (if ao_is_active ao then
        (case cancel_order E (ao_order_id ao) w of
           (Inr r, w1) \<Rightarrow> cancel_active_orders E aos w1
         | (Inl err, w1) \<Rightarrow> (case cancel_active_orders E aos w1 of (_, w2) \<Rightarrow> (False, w2)))
      else cancel_active_orders E aos w)"

definition cancel_exit_leg_orders ::
  "'w env \<Rightarrow> string \<Rightarrow> string \<Rightarrow> exit_handler \<Rightarrow> 'w \<Rightarrow> exit_handler \<times> 'w" where
  "cancel_exit_leg_orders E pid primary h w = (case get_entry h pid of
     None \<Rightarrow> (h, w)
   | Some e \<Rightarrow>
       (case cancel_active_orders E (actual_orders (ee_status e)) w of
          (all_cancelled, w1) \<Rightarrow>
            (if all_cancelled then remove_pending_entry pid primary h else h, w1)))"

definition handle_exit_leg_fill ::
  "'w env \<Rightarrow> string \<Rightarrow> bool \<Rightarrow> exit_handler \<Rightarrow> 'w \<Rightarrow> bool \<times> exit_handler \<times> 'w" where
  "handle_exit_leg_fill E order_id is_full_fill h w =
     (case find_entry_by_actual_order h order_id of
        None \<Rightarrow> (False, h, w)
      | Some (pid, sibling, primary) \<Rightarrow>
          if \<not> is_full_fill then (True, h, w)
          else
            (let h1 = remove_pending_entry pid primary h in
             case sibling of
               Some sib \<Rightarrow> (case cancel_exit_leg_orders E sib primary h1 w of (h2, w2) \<Rightarrow> (True, h2, w2))
             | None \<Rightarrow> (True, h1, w)))"

subsection \<open>A fill event\<close>

fun process_entries ::
  "'w env \<Rightarrow> string list \<Rightarrow> decimal \<Rightarrow> decimal \<Rightarrow> decimal option \<Rightarrow> string option \<Rightarrow> exit_handler \<Rightarrow> 'w
     \<Rightarrow> placement_result list \<times> exit_handler \<times> 'w" where
  "process_entries E [] filled_qty total_qty position_qty position_id h w = ([], h, w)"
| "process_entries E (pid # pids) filled_qty total_qty position_qty position_id h w =
     (case process_entry_fill E pid filled_qty total_qty position_qty position_id h w of
        (r, h1, w1) \<Rightarrow>
          (case process_entries E pids filled_qty total_qty position_qty position_id h1 w1 of
             (rs, h2, w2) \<Rightarrow> (r # rs, h2, w2)))"

text \<open>
  \<open>between\<close> is what other tasks did to the handler between the lookup of the placeholders and the
  second look at the index: registration runs without the fill lock. Without interference it is
  the identity.
\<close>

definition handle_fill_with ::
  "(exit_handler \<Rightarrow> exit_handler) \<Rightarrow> 'w env \<Rightarrow> string \<Rightarrow> decimal \<Rightarrow> decimal \<Rightarrow> decimal option \<Rightarrow> string option
     \<Rightarrow> exit_handler \<Rightarrow> 'w \<Rightarrow> placement_result list \<times> exit_handler \<times> 'w" where
  "handle_fill_with between E primary filled_qty total_qty position_qty position_id h w =
     (if filled_qty \<le> 0 \<or> total_qty \<le> 0 then ([], h, w)
      else
        (let pids = get_placeholders_for_primary h primary in
         if pids = [] then
           (case handle_exit_leg_fill E primary (filled_qty \<ge> total_qty) h w of
              (True, h1, w1) \<Rightarrow> ([], h1, w1)
            | (False, h1, w1) \<Rightarrow>
                (let h2 = between (buffer_unmatched_fill (instant_now E w1) primary filled_qty total_qty
                                     position_qty position_id h1) in
                 if has_pending_for_primary h2 primary \<and> dm_has (eh_unmatched h2) primary
                 then process_entries E (get_placeholders_for_primary h2 primary) filled_qty total_qty
                        position_qty position_id
                        (h2\<lparr>eh_unmatched := dm_remove primary (eh_unmatched h2)\<rparr>) w1
                 else ([], h2, w1)))
         else process_entries E pids filled_qty total_qty position_qty position_id h w))"

definition handle_fill_internal ::
  "'w env \<Rightarrow> string \<Rightarrow> decimal \<Rightarrow> decimal \<Rightarrow> decimal option \<Rightarrow> string option \<Rightarrow> exit_handler \<Rightarrow> 'w
     \<Rightarrow> placement_result list \<times> exit_handler \<times> 'w" where
  "handle_fill_internal E primary filled_qty total_qty position_qty position_id h w =
     handle_fill_with (\<lambda>g. g) E primary filled_qty total_qty position_qty position_id h w"

definition process_buffered_fill ::
  "'w env \<Rightarrow> string \<Rightarrow> exit_handler \<Rightarrow> 'w \<Rightarrow> placement_result list \<times> exit_handler \<times> 'w" where
  "process_buffered_fill E primary h w = (case dm_get (eh_unmatched h) primary of
     None \<Rightarrow> ([], h, w)
   | Some f \<Rightarrow> handle_fill_internal E primary (bf_filled_qty f) (bf_total_qty f) (bf_position_qty f)
                 (bf_position_id f) (h\<lparr>eh_unmatched := dm_remove primary (eh_unmatched h)\<rparr>) w)"

subsection \<open>The retry loop\<close>

lemma classify_None:
  "classify_and_handle_placement_error parse delays err r attempt rc = None \<Longrightarrow> attempt < length delays"
  by (simp add: classify_and_handle_placement_error_def Let_def split: if_splits)

lemma place_loop_total: "\<exists>res. place_loop E delays r attempt rc w = Some res"
proof (induction E delays r attempt rc w rule: place_loop.induct)
  case (1 E delays r attempt rc w)
  show ?case
    by (subst place_loop.simps)
      (use 1 in \<open>auto dest: classify_None split: prod.splits sum.splits option.splits\<close>)
qed

lemma place_order_with_retry_eq:
  "place_loop E (hc_retry_delays (eh_config h)) r 0 0 w = Some (place_order_with_retry E h r w)"
  using place_loop_total [of E "hc_retry_delays (eh_config h)" r 0 0 w]
  by (auto simp: place_order_with_retry_def)

text \<open>The loop never falls through: it ends in a placed order or in a classified error.\<close>

lemma place_loop_never_exhausted:
  "place_loop E delays r attempt rc w = Some (Inl (err, n), w') \<Longrightarrow> attempt \<le> length delays \<Longrightarrow>
   \<exists>gerr w0 w1 a rc0. submit_order E r w0 = (Inl gerr, w1) \<and> a \<le> length delays \<and>
     classify_and_handle_placement_error (dec_from_str E) delays gerr r a rc0 = Some (err, n)"
proof (induction E delays r attempt rc w rule: place_loop.induct)
  case (1 E delays r attempt rc w)
  from "1.prems" have lt: "attempt < length delays + 1" by simp
  obtain res w1 where sub: "submit_order E r w = (res, w1)" by (cases "submit_order E r w")
  show ?case
  proof (cases res)
    case (Inr handle)
    with "1.prems"(1) sub lt show ?thesis
      by (subst (asm) place_loop.simps) (auto split: prod.splits sum.splits)
  next
    case (Inl gerr)
    show ?thesis
    proof (cases "classify_and_handle_placement_error (dec_from_str E) delays gerr r attempt rc")
      case None
      then have "attempt < length delays" by (rule classify_None)
      with None Inl "1.prems" sub lt show ?thesis
        by (intro "1.IH" [OF lt sub [symmetric] _ None]) (auto simp: place_loop.simps [of E delays r attempt])
    next
      case (Some f)
      with Inl "1.prems" sub lt show ?thesis
        by (intro exI [of _ gerr] exI [of _ w] exI [of _ w1] exI [of _ attempt] exI [of _ rc])
          (auto simp: place_loop.simps [of E delays r attempt])
    qed
  qed
qed

subsection \<open>What a fill may change\<close>

text \<open>
  Processing an entry touches that entry only, keeps its identity and links, and leaves the
  index, the buffer and the configuration alone.
\<close>

definition fill_frame :: "string \<Rightarrow> exit_handler \<Rightarrow> exit_handler \<Rightarrow> bool" where
  "fill_frame pid h h' = (eh_primary h' = eh_primary h \<and> eh_unmatched h' = eh_unmatched h
     \<and> eh_config h' = eh_config h \<and> eh_platform h' = eh_platform h
     \<and> dm_keys (eh_pending h') = dm_keys (eh_pending h)
     \<and> (\<forall>k. k \<noteq> pid \<longrightarrow> get_entry h' k = get_entry h k)
     \<and> rel_option same_frame (get_entry h pid) (get_entry h' pid))"

lemma fill_frame_refl [simp]: "fill_frame pid h h"
  by (simp add: fill_frame_def option.rel_refl)

lemma same_frame_trans: "same_frame a b \<Longrightarrow> same_frame b c \<Longrightarrow> same_frame a c"
  by (simp add: same_frame_def)

lemma fill_frame_trans: "fill_frame pid a b \<Longrightarrow> fill_frame pid b c \<Longrightarrow> fill_frame pid a c"
  by (auto simp: fill_frame_def elim!: option.rel_cases intro: same_frame_trans)

lemma fill_frame_update:
  "(\<And>e. same_frame e (f e)) \<Longrightarrow> fill_frame pid h (update_entry pid f h)"
  by (cases "get_entry h pid") (auto simp: fill_frame_def update_entry_def get_entry_def)

lemma fill_frame_breaker [simp]: "fill_frame pid h (h\<lparr>eh_breaker := b\<rparr>)"
  by (simp add: fill_frame_def get_entry_def option.rel_refl)

lemma frame_entry_updates:
  "fill_frame pid h (update_last_attempted_fill_qty now pid q h)"
  "fill_frame pid h (record_position_id pid posid h)"
  "fill_frame pid h (update_entry_partial_fill now pid ao q1 q2 h)"
  "fill_frame pid h (update_entry_to_placed now pid ao h)"
  "fill_frame pid h (update_entry_to_failed now pid msg n h)"
  by (auto simp: update_last_attempted_fill_qty_def record_position_id_def update_entry_partial_fill_def
      update_entry_to_placed_def update_entry_to_failed_def same_frame_def
      intro!: fill_frame_update split: option.splits)

lemma frame_handle_successful:
  "handle_successful_placement now pid e ord pf h = (res, h') \<Longrightarrow> fill_frame pid h h'"
  by (auto simp: handle_successful_placement_def Let_def frame_entry_updates split: option.splits)

lemma frame_handle_error:
  "handle_placement_error inst now pid e err n h = (res, h') \<Longrightarrow> fill_frame pid h h'"
  by (auto simp: handle_placement_error_def Let_def frame_entry_updates
      intro: fill_frame_trans [OF fill_frame_breaker frame_entry_updates(5)] split: place_order_error.splits if_splits)

lemma frame_before_placement:
  "fill_frame pid (record_position_id pid posid (update_last_attempted_fill_qty now pid q h)) h' \<Longrightarrow>
   fill_frame pid h h'"
  using fill_frame_trans frame_entry_updates(1,2) by blast

lemma frame_process_entry_fill:
  "process_entry_fill E pid f t pq posid h w = (res, h', w') \<Longrightarrow> fill_frame pid h h'"
  by (auto simp: process_entry_fill_def Let_def frame_entry_updates
      dest!: frame_handle_successful frame_handle_error frame_before_placement
      split: sum.splits prod.splits if_splits)

subsection \<open>Fills keep the invariant\<close>

definition order_fits :: "actual_order \<Rightarrow> string \<Rightarrow> exit_handler \<Rightarrow> bool" where
  "order_fits ao pid h = (ao_status ao = OrderOpen \<and>
     (case get_entry h pid of Some e \<Rightarrow> ao_leg_type ao = ee_order_type e | None \<Rightarrow> True))"

lemma fill_frame_fits: "fill_frame pid h h' \<Longrightarrow> order_fits ao pid h' = order_fits ao pid h"
  by (auto simp: order_fits_def fill_frame_def same_frame_def split: option.splits elim: option.rel_cases)

lemma eh_inv_last_attempted [gw_inv]: "eh_inv h \<Longrightarrow> eh_inv (update_last_attempted_fill_qty now pid q h)"
  unfolding update_last_attempted_fill_qty_def
  by (erule eh_inv_update_entry) (simp add: entry_ok_def same_frame_def)

lemma eh_inv_record_position [gw_inv]: "eh_inv h \<Longrightarrow> eh_inv (record_position_id pid posid h)"
  unfolding record_position_id_def
  by (auto intro!: eh_inv_update_entry simp: entry_ok_def same_frame_def split: option.splits)

lemma eh_inv_to_failed [gw_inv]: "eh_inv h \<Longrightarrow> eh_inv (update_entry_to_failed now pid msg n h)"
  unfolding update_entry_to_failed_def
  by (erule eh_inv_update_entry)
    (auto simp: entry_ok_def failed_status_def split: exit_entry_status.splits)

lemma eh_inv_to_placed [gw_inv]:
  "eh_inv h \<Longrightarrow> order_fits ao pid h \<Longrightarrow> eh_inv (update_entry_to_placed now pid ao h)"
  unfolding update_entry_to_placed_def
  by (erule eh_inv_update_entry)
    (auto simp: entry_ok_def same_frame_def placed_status_def order_fits_def split: exit_entry_status.splits)

lemma eh_inv_partial_fill [gw_inv]:
  "eh_inv h \<Longrightarrow> order_fits ao pid h \<Longrightarrow> eh_inv (update_entry_partial_fill now pid ao q1 q2 h)"
  unfolding update_entry_partial_fill_def
  by (erule eh_inv_update_entry)
    (auto simp: entry_ok_def same_frame_def partial_fill_status_def order_fits_def
          split: exit_entry_status.splits)

lemma eh_inv_successful [gw_inv]:
  assumes "eh_inv h" and "get_entry h pid = Some e0" and "ee_order_type e = ee_order_type e0"
  shows "eh_inv (snd (handle_successful_placement now pid e ord pf h))"
  using assms by (auto simp: handle_successful_placement_def Let_def order_fits_def
      intro!: eh_inv_to_placed eh_inv_partial_fill split: option.splits)

lemma eh_inv_placement_error [gw_inv]:
  "eh_inv h \<Longrightarrow> eh_inv (snd (handle_placement_error inst now pid e err n h))"
  by (auto simp: handle_placement_error_def Let_def intro!: eh_inv_to_failed split: place_order_error.splits)

lemma validate_entry_SomeD:
  "validate_entry_for_fill dbg h pid f = Inr e \<Longrightarrow> get_entry h pid = Some e"
  by (auto simp: validate_entry_for_fill_def split: option.splits if_splits)

lemma before_placement_entry:
  assumes "get_entry h pid = Some e"
  shows "\<exists>e0. get_entry (record_position_id pid posid (update_last_attempted_fill_qty now pid q h)) pid = Some e0
    \<and> same_frame e e0 \<and> ee_status e0 = ee_status e \<and> ee_last_attempted_fill_qty e0 = Some q"
  using assms by (auto simp: record_position_id_def update_last_attempted_fill_qty_def same_frame_def
      split: option.splits)

lemma eh_inv_process_entry_fill [gw_inv]:
  assumes inv: "eh_inv h"
  shows "eh_inv (fst (snd (process_entry_fill E pid f t pq posid h w)))"
proof (cases "validate_entry_for_fill (status_debug E) h pid f")
  case (Inl r)
  then show ?thesis using inv by (simp add: process_entry_fill_def)
next
  case (Inr e)
  define h1 where "h1 = update_last_attempted_fill_qty (utc_now E w) pid f h"
  define h2 where "h2 = record_position_id pid posid h1"
  have inv2: "eh_inv h1" "eh_inv h2"
    using inv by (simp_all add: h1_def h2_def eh_inv_last_attempted eh_inv_record_position)
  obtain e0 where e0: "get_entry h2 pid = Some e0" "ee_order_type e = ee_order_type e0"
    using before_placement_entry [OF validate_entry_SomeD [OF Inr], of posid "utc_now E w" f]
    by (auto simp: h1_def h2_def same_frame_def)
  show ?thesis
    using Inr inv2 eh_inv_successful [OF inv2(2) e0] eh_inv_placement_error [OF inv2(2)]
    by (auto simp: process_entry_fill_def Let_def h1_def [symmetric] h2_def [symmetric]
        split: sum.splits prod.splits if_splits) (metis snd_conv)+
qed

lemma eh_inv_process_entries [gw_inv]:
  "eh_inv h \<Longrightarrow> eh_inv (fst (snd (process_entries E pids f t pq posid h w)))"
proof (induction pids arbitrary: h w)
  case (Cons pid pids)
  show ?case
    using eh_inv_process_entry_fill [OF Cons.prems, of E pid f t pq posid w] Cons.IH
    by (auto split: prod.splits) (metis fst_conv snd_conv)
qed simp

lemma eh_inv_remove_pending [gw_inv]:
  assumes inv: "eh_inv h" and e: "\<And>e. get_entry h pid = Some e \<Longrightarrow> ee_primary_order_id e = p"
  shows "eh_inv (remove_pending_entry pid p h)"
proof -
  have si: "store_inv (dm_get (eh_pending h)) (dm_get (eh_primary h))"
    using inv by (simp add: eh_inv_iff)
  have "listed (dm_get (index_drop p [pid] (eh_primary h)) q) i \<longleftrightarrow>
      listed (dm_get (eh_primary h) q) i \<and> i \<notin> {pid}" for q i
    using store_inv_listed [OF si, of q pid] e by (auto simp: listed_index_drop get_entry_def)
  then have "store_inv (dm_get (dm_remove pid (eh_pending h))) (dm_get (index_drop p [pid] (eh_primary h)))"
    using index_drop_nonempty [OF store_inv_nonempty [OF si]]
    by (intro store_inv_remove [OF si, where K = "{pid}"]) auto
  then show ?thesis
    using inv by (simp add: remove_pending_entry_def remove_batch_from_secondary_index_def eh_inv_iff)
qed

lemma eh_inv_remove_unmatched [gw_inv]:
  "eh_inv h \<Longrightarrow> eh_inv (h\<lparr>eh_unmatched := dm_remove k (eh_unmatched h)\<rparr>)"
  using length_dm_remove_le [of k "eh_unmatched h"] by (simp add: eh_inv_def)

lemma oldest_fill_SomeD: "oldest_fill m = Some (k, f) \<Longrightarrow> (k, f) \<in> set m"
  by (induction m) (auto split: option.splits if_splits)

lemma oldest_fill_None: "oldest_fill m = None \<longleftrightarrow> m = []"
  by (cases m) (auto split: option.splits)

lemma evict_oldest_length: "m \<noteq> [] \<Longrightarrow> length (evict_oldest m) < length m"
proof -
  assume "m \<noteq> []"
  then obtain k f where kf: "oldest_fill m = Some (k, f)" using oldest_fill_None by fastforce
  then have "dm_get m k \<noteq> None"
    by (auto simp: dm_get_def map_of_eq_None_iff dest!: oldest_fill_SomeD intro: rev_image_eqI)
  then show ?thesis using kf by (simp add: evict_oldest_def length_dm_remove_less)
qed

lemma buffer_length:
  assumes "length (eh_unmatched h) \<le> max_unmatched_fills"
  shows "length (eh_unmatched (buffer_unmatched_fill inst p f t pq posid h)) \<le> max_unmatched_fills"
proof -
  let ?m = "eh_unmatched (sweep_unmatched_fills inst h)"
  have "length ?m \<le> length (eh_unmatched h)" by (simp add: sweep_unmatched_fills_def)
  with assms have "length (if length ?m \<ge> max_unmatched_fills then evict_oldest ?m else ?m) < max_unmatched_fills"
    using evict_oldest_length [of ?m] by (cases "?m = []") (auto simp: max_unmatched_fills_def)
  then show ?thesis
    by (auto simp: buffer_unmatched_fill_def Let_def length_dm_insert)
qed

lemma buffer_wf: "dm_wf (eh_unmatched h) \<Longrightarrow> dm_wf (eh_unmatched (buffer_unmatched_fill inst p f t pq posid h))"
  by (simp add: buffer_unmatched_fill_def Let_def sweep_unmatched_fills_def evict_oldest_def split: option.splits)

lemma buffer_frame [simp]:
  "eh_pending (buffer_unmatched_fill inst p f t pq posid h) = eh_pending h"
  "eh_primary (buffer_unmatched_fill inst p f t pq posid h) = eh_primary h"
  "eh_config (buffer_unmatched_fill inst p f t pq posid h) = eh_config h"
  "eh_breaker (buffer_unmatched_fill inst p f t pq posid h) = eh_breaker h"
  "eh_platform (buffer_unmatched_fill inst p f t pq posid h) = eh_platform h"
  "dm_get (eh_unmatched (buffer_unmatched_fill inst p f t pq posid h)) p = Some
     \<lparr>bf_filled_qty = f, bf_total_qty = t, bf_position_qty = pq, bf_position_id = posid, bf_buffered_at = inst\<rparr>"
  by (simp_all add: buffer_unmatched_fill_def Let_def sweep_unmatched_fills_def)

lemma eh_inv_buffer [gw_inv]:
  "eh_inv h \<Longrightarrow> eh_inv (buffer_unmatched_fill inst p f t pq posid h)"
  by (simp add: eh_inv_iff buffer_length buffer_wf)

lemma find_entry_SomeD:
  assumes inv: "eh_inv h" and "find_entry_by_actual_order h oid = Some (pid, sib, p)"
  shows "\<exists>e. get_entry h pid = Some e \<and> ee_sibling_id e = sib \<and> ee_primary_order_id e = p
    \<and> entry_has_order oid e"
proof -
  from assms(2) obtain k e where "(k, e) \<in> set (eh_pending h)" "entry_has_order oid e"
    "pid = ee_placeholder_id e" "sib = ee_sibling_id e" "p = ee_primary_order_id e"
    by (auto simp: find_entry_by_actual_order_def dest!: find_map_Some split: if_splits)
  moreover from this(1) have "get_entry h k = Some e"
    using inv by (simp add: eh_inv_def get_entry_def dm_get_in)
  moreover from this have "ee_placeholder_id e = k"
    using inv by (auto simp: eh_inv_iff get_entry_def intro: store_inv_placeholder)
  ultimately show ?thesis by auto
qed

lemma find_entry_None_iff:
  assumes "eh_inv h"
  shows "find_entry_by_actual_order h oid = None \<longleftrightarrow>
    (\<forall>k e. get_entry h k = Some e \<longrightarrow> \<not> entry_has_order oid e)"
proof -
  have "(k, e) \<in> set (eh_pending h) \<longleftrightarrow> get_entry h k = Some e" for k e
    using assms by (simp add: eh_inv_def get_entry_def dm_get_in)
  then show ?thesis
    unfolding find_entry_by_actual_order_def find_map_None by (force split: if_splits)
qed

lemma remove_pending_maps [simp]:
  "eh_pending (remove_pending_entry pid p h) = dm_remove pid (eh_pending h)"
  "eh_unmatched (remove_pending_entry pid p h) = eh_unmatched h"
  "eh_config (remove_pending_entry pid p h) = eh_config h"
  "eh_breaker (remove_pending_entry pid p h) = eh_breaker h"
  "get_entry (remove_pending_entry pid p h) k = (if k = pid then None else get_entry h k)"
  by (simp_all add: remove_pending_entry_def remove_batch_from_secondary_index_def get_entry_def)

lemma eh_inv_cancel_exit_leg [gw_inv]:
  assumes "eh_inv h" and "\<And>e. get_entry h pid = Some e \<Longrightarrow> ee_primary_order_id e = p"
  shows "eh_inv (fst (cancel_exit_leg_orders E pid p h w))"
  using assms eh_inv_remove_pending [OF assms]
  by (auto simp: cancel_exit_leg_orders_def split: option.splits prod.splits)

lemma eh_inv_exit_leg_fill [gw_inv]:
  assumes inv: "eh_inv h"
  shows "eh_inv (fst (snd (handle_exit_leg_fill E oid full h w)))"
proof (cases "find_entry_by_actual_order h oid")
  case None
  then show ?thesis using inv by (simp add: handle_exit_leg_fill_def)
next
  case (Some x)
  obtain pid sib p where x: "x = (pid, sib, p)" by (cases x)
  with Some find_entry_SomeD [OF inv] obtain e where
    e: "get_entry h pid = Some e" "ee_sibling_id e = sib" "ee_primary_order_id e = p" by blast
  have rm: "eh_inv (remove_pending_entry pid p h)"
    by (rule eh_inv_remove_pending [OF inv]) (use e in simp)
  show ?thesis
  proof (cases sib)
    case None
    then show ?thesis using Some x inv rm by (simp add: handle_exit_leg_fill_def)
  next
    case (Some s)
    have si: "store_inv (dm_get (eh_pending h)) (dm_get (eh_primary h))"
      using inv by (simp add: eh_inv_iff)
    have "ee_primary_order_id e' = p" if "get_entry (remove_pending_entry pid p h) s = Some e'" for e'
    proof -
      have "dm_get (eh_pending h) s = Some e'"
        using that by (simp add: get_entry_def split: if_splits)
      then show ?thesis
        using store_inv_sibling [OF si, of pid e s e'] e Some by (simp add: get_entry_def)
    qed
    from eh_inv_cancel_exit_leg [OF rm this, where E = E and w = w] show ?thesis
      using \<open>find_entry_by_actual_order h oid = Some x\<close> x Some inv
      by (auto simp: handle_exit_leg_fill_def split: prod.splits)
  qed
qed

lemma eh_inv_handle_fill_with [gw_inv]:
  assumes inv: "eh_inv h" and between: "\<And>g. eh_inv g \<Longrightarrow> eh_inv (between g)"
  shows "eh_inv (fst (snd (handle_fill_with between E p f t pq posid h w)))"
proof -
  obtain b h1 w1 where leg: "handle_exit_leg_fill E p (f \<ge> t) h w = (b, h1, w1)"
    by (cases "handle_exit_leg_fill E p (f \<ge> t) h w")
  have "eh_inv h1" using eh_inv_exit_leg_fill [OF inv, of E p "f \<ge> t" w] leg by simp
  then have "eh_inv (between (buffer_unmatched_fill (instant_now E w1) p f t pq posid h1))"
    by (intro between eh_inv_buffer)
  then show ?thesis
    using inv leg \<open>eh_inv h1\<close>
    by (auto simp: handle_fill_with_def Let_def split: bool.splits
        intro!: eh_inv_process_entries eh_inv_remove_unmatched)
qed

lemma eh_inv_handle_fill [gw_inv]:
  "eh_inv h \<Longrightarrow> eh_inv (fst (snd (handle_fill_internal E p f t pq posid h w)))"
  by (simp add: handle_fill_internal_def eh_inv_handle_fill_with)

lemma eh_inv_process_buffered [gw_inv]:
  "eh_inv h \<Longrightarrow> eh_inv (fst (snd (process_buffered_fill E p h w)))"
  by (auto simp: process_buffered_fill_def intro!: eh_inv_handle_fill eh_inv_remove_unmatched split: option.splits)

end
