(* ===== verification/Gw_Fill_Props.thy ===== *)
theory Gw_Fill_Props
  imports Gw_Exit_Fill
begin

text \<open>
  What fill handling guarantees: bounded retries, suppression of repeated fills, coverage of the
  filled quantity, well-formed exit orders with distinct ids, replay of buffered fills, and the
  resolution of a filled exit pair.
\<close>

subsection \<open>Retries\<close>

definition submits :: "broker_call list \<Rightarrow> order_request list" where
  "submits tr = List.map_filter (\<lambda>c. case c of CallSubmit r \<Rightarrow> Some r | _ \<Rightarrow> None) tr"

lemma submits_simps [simp]:
  "submits [] = []"
  "submits (xs @ ys) = submits xs @ submits ys"
  "submits (CallSubmit r # tr) = r # submits tr"
  "submits (CallGetOrder i # tr) = submits tr"
  "submits (CallCancel i # tr) = submits tr"
  "submits (CallModify i m # tr) = submits tr"
  by (auto simp: submits_def map_filter_def)

lemma place_loop_submits:
  "place_loop (traced E) delays r a rc (w, tr) = Some (res, (w', tr')) \<Longrightarrow> a \<le> length delays \<Longrightarrow>
   \<exists>n. submits tr' = submits tr @ replicate n r \<and> 1 \<le> n \<and> n \<le> length delays + 1 - a"
proof (induction "length delays - a" arbitrary: a rc w tr rule: less_induct)
  case less
  obtain ans w1 where sub: "submit_order E r w = (ans, w1)" by (cases "submit_order E r w")
  have lt: "a < length delays + 1" using less.prems by simp
  show ?case
  proof (cases ans)
    case (Inr handle)
    with less.prems(1) sub lt show ?thesis
      by (intro exI [of _ "1 :: nat"])
        (auto simp: place_loop.simps [of "traced E"] split: prod.splits sum.splits)
  next
    case (Inl gerr)
    show ?thesis
    proof (cases "classify_and_handle_placement_error (dec_from_str E) delays gerr r a rc")
      case (Some failure)
      with Inl less.prems(1) sub lt show ?thesis
        by (intro exI [of _ "1 :: nat"]) (auto simp: place_loop.simps [of "traced E"])
    next
      case None
      then have a: "a < length delays" by (rule classify_None)
      then have "length delays - (a + 1) < length delays - a" by simp
      moreover have "place_loop (traced E) delays r (a + 1) (u32_clamp (a + 1))
          (sleep E (delays ! a) w1, tr @ [CallSubmit r]) = Some (res, (w', tr'))"
        using None Inl less.prems(1) sub lt a by (simp add: place_loop.simps [of "traced E" delays r a])
      ultimately obtain n where n: "submits tr' = submits (tr @ [CallSubmit r]) @ replicate n r"
        "1 \<le> n" "n \<le> length delays + 1 - (a + 1)"
        using less.hyps [of "a + 1"] a by force
      then show ?thesis
        using a by (intro exI [of _ "Suc n"]) auto
    qed
  qed
qed

text \<open>
  Placing an exit order submits at least once and at most once more than there are retry
  delays, and every attempt carries the same request, hence the same client order id.
\<close>

theorem retry_bounded:
  "case place_order_with_retry (traced E) h r (w, []) of (res, w', tr) \<Rightarrow>
     \<exists>n. submits tr = replicate n r \<and> 1 \<le> n \<and> n \<le> length (hc_retry_delays (eh_config h)) + 1"
proof -
  obtain res w' tr where p: "place_order_with_retry (traced E) h r (w, []) = (res, w', tr)"
    by (cases "place_order_with_retry (traced E) h r (w, [])")
  then have "place_loop (traced E) (hc_retry_delays (eh_config h)) r 0 0 (w, []) = Some (res, (w', tr))"
    using place_order_with_retry_eq [of "traced E" h r "(w, [])"] by simp
  from place_loop_submits [OF this] p show ?thesis by simp
qed

subsection \<open>Repeated fills\<close>

text \<open>An entry is settled for a fill once no processing of it, or of a smaller one, places anything.\<close>

definition terminal_status :: "exit_entry_status \<Rightarrow> bool" where
  "terminal_status st = (case st of EntryCancelled t r \<Rightarrow> True | EntryFailed m n t aos \<Rightarrow> True
     | EntryExpired t \<Rightarrow> True | _ \<Rightarrow> False)"

definition settled :: "exit_handler \<Rightarrow> string \<Rightarrow> decimal \<Rightarrow> bool" where
  "settled h pid f = (case get_entry h pid of None \<Rightarrow> True
     | Some e \<Rightarrow> terminal_status (ee_status e)
         \<or> (case ee_last_attempted_fill_qty e of Some q \<Rightarrow> f \<le> q | None \<Rightarrow> False))"

lemma settled_validate:
  "(\<exists>r. validate_entry_for_fill dbg h pid f = Inl r) \<longleftrightarrow> settled h pid f"
  by (auto simp: validate_entry_for_fill_def settled_def terminal_status_def
      split: option.splits exit_entry_status.splits if_splits)

lemma settled_mono: "settled h pid f \<Longrightarrow> f' \<le> f \<Longrightarrow> settled h pid f'"
  by (auto simp: settled_def split: option.splits)

lemma validate_not_success: "validate_entry_for_fill dbg h pid f = Inl r \<Longrightarrow> \<not> pr_is_success r"
  by (auto simp: validate_entry_for_fill_def pr_is_success_def pr_failed_def pr_deferred_def
      pr_already_processed_def split: option.splits if_splits)

lemma settled_noop:
  assumes "settled h pid f"
  shows "\<exists>r. process_entry_fill E pid f t pq posid h w = (r, h, w) \<and> \<not> pr_is_success r"
proof -
  obtain r where "validate_entry_for_fill (status_debug E) h pid f = Inl r"
    using assms settled_validate by blast
  then show ?thesis using validate_not_success by (auto simp: process_entry_fill_def)
qed

definition keeps_attempt :: "string \<Rightarrow> exit_handler \<Rightarrow> exit_handler \<Rightarrow> bool" where
  "keeps_attempt pid h h' = (map_option ee_last_attempted_fill_qty (get_entry h' pid) =
     map_option ee_last_attempted_fill_qty (get_entry h pid))"

lemma keeps_attempt_successful:
  "handle_successful_placement now pid e ord pf h = (res, h') \<Longrightarrow> keeps_attempt pid h h'"
  by (auto simp: keeps_attempt_def handle_successful_placement_def Let_def update_entry_partial_fill_def
      update_entry_to_placed_def option.map_comp comp_def split: option.splits)

lemma keeps_attempt_error:
  "handle_placement_error inst now pid e err n h = (res, h') \<Longrightarrow> keeps_attempt pid h h'"
  by (auto simp: keeps_attempt_def handle_placement_error_def Let_def update_entry_to_failed_def
      option.map_comp comp_def get_entry_def split: place_order_error.splits)

lemma settled_keeps:
  "keeps_attempt pid h h' \<Longrightarrow> get_entry h pid = Some e \<Longrightarrow> ee_last_attempted_fill_qty e = Some f \<Longrightarrow>
   settled h' pid f"
  by (auto simp: keeps_attempt_def settled_def split: option.splits)

lemma process_settles:
  assumes p: "process_entry_fill E pid f t pq posid h w = (res, h', w')"
  shows "settled h' pid f"
proof (cases "validate_entry_for_fill (status_debug E) h pid f")
  case (Inl r)
  then have "settled h pid f" using settled_validate by blast
  with Inl p show ?thesis by (simp add: process_entry_fill_def)
next
  case (Inr e)
  let ?h1 = "update_last_attempted_fill_qty (utc_now E w) pid f h"
  obtain e1 where e1: "get_entry ?h1 pid = Some e1" "ee_last_attempted_fill_qty e1 = Some f"
    using validate_entry_SomeD [OF Inr] by (simp add: update_last_attempted_fill_qty_def)
  obtain e2 where e2: "get_entry (record_position_id pid posid ?h1) pid = Some e2"
    "ee_last_attempted_fill_qty e2 = Some f"
    using before_placement_entry [OF validate_entry_SomeD [OF Inr]] by blast
  have "settled ?h1 pid f" using e1 by (simp add: settled_def)
  then show ?thesis
    using p Inr settled_keeps [OF _ e2]
    by (auto simp: process_entry_fill_def Let_def
        dest!: keeps_attempt_successful keeps_attempt_error split: sum.splits prod.splits if_splits)
qed

lemma process_keeps_settled:
  assumes "process_entry_fill E pid f t pq posid h w = (res, h', w')" and "settled h k f"
  shows "settled h' k f"
proof (cases "k = pid")
  case True
  then show ?thesis using process_settles [OF assms(1)] by simp
next
  case False
  then have "get_entry h' k = get_entry h k"
    using frame_process_entry_fill [OF assms(1)] by (simp add: fill_frame_def)
  then show ?thesis using assms(2) by (simp add: settled_def)
qed

lemma process_entries_settle:
  "process_entries E pids f t pq posid h w = (rs, h', w') \<Longrightarrow> k \<in> set pids \<or> settled h k f \<Longrightarrow> settled h' k f"
proof (induction pids arbitrary: h w rs)
  case (Cons pid pids)
  obtain r h1 w1 where p: "process_entry_fill E pid f t pq posid h w = (r, h1, w1)"
    by (cases "process_entry_fill E pid f t pq posid h w")
  obtain rs2 where q: "process_entries E pids f t pq posid h1 w1 = (rs2, h', w')"
    using Cons.prems(1) p by (auto split: prod.splits)
  have "k \<in> set pids \<or> settled h1 k f"
    using Cons.prems(2) process_settles [OF p] process_keeps_settled [OF p] by auto
  from Cons.IH [OF q this] show ?case .
qed auto

lemma process_entries_primary:
  "process_entries E pids f t pq posid h w = (rs, h', w') \<Longrightarrow> eh_primary h' = eh_primary h"
proof (induction pids arbitrary: h w rs)
  case (Cons pid pids)
  then show ?case
    by (auto split: prod.splits dest!: frame_process_entry_fill simp: fill_frame_def)
qed simp

lemma process_entries_noop:
  "(\<And>k. k \<in> set pids \<Longrightarrow> settled h k f) \<Longrightarrow>
   \<exists>rs. process_entries E pids f t pq posid h w = (rs, h, w) \<and> (\<forall>r \<in> set rs. \<not> pr_is_success r)"
proof (induction pids)
  case (Cons pid pids)
  then obtain rs where "process_entries E pids f t pq posid h w = (rs, h, w)"
    "\<forall>r \<in> set rs. \<not> pr_is_success r" by auto
  moreover obtain r where "process_entry_fill E pid f t pq posid h w = (r, h, w)" "\<not> pr_is_success r"
    using settled_noop Cons.prems by (metis list.set_intros(1))
  ultimately show ?case by auto
qed simp

lemma placeholders_primary_eq:
  "eh_primary h' = eh_primary h \<Longrightarrow> get_placeholders_for_primary h' p = get_placeholders_for_primary h p"
  by (simp add: get_placeholders_for_primary_def)

text \<open>
  C4: Once a fill of a registered order has been handled, handling it again, or any fill report of
  the same or a smaller cumulative quantity, calls no broker, changes no state and places nothing.
\<close>

theorem repeated_fill_is_noop:
  assumes reg: "get_placeholders_for_primary h p \<noteq> []"
    and first: "handle_fill_internal E p f t pq posid h w = (rs, h', w')"
    and pos: "0 < f" "0 < t" and le: "f' \<le> f"
  shows "\<exists>rs'. handle_fill_internal E' p f' t' pq' posid' h' w'' = (rs', h', w'')
    \<and> (\<forall>r \<in> set rs'. \<not> pr_is_success r)"
proof -
  have run: "process_entries E (get_placeholders_for_primary h p) f t pq posid h w = (rs, h', w')"
    using reg first pos by (simp add: handle_fill_internal_def handle_fill_with_def Let_def)
  have ids: "get_placeholders_for_primary h' p = get_placeholders_for_primary h p"
    by (rule placeholders_primary_eq [OF process_entries_primary [OF run]])
  have "settled h' k f'" if "k \<in> set (get_placeholders_for_primary h p)" for k
    using process_entries_settle [OF run] that settled_mono [OF _ le] by blast
  from process_entries_noop [OF this, where E = E' and t = t' and pq = pq' and posid = posid' and w = w''] ids reg show ?thesis
    by (auto simp: handle_fill_internal_def handle_fill_with_def Let_def)
qed

subsection \<open>Coverage\<close>

definition leg_coverage :: "exit_handler \<Rightarrow> string \<Rightarrow> decimal" where
  "leg_coverage h pid = (case get_entry h pid of
     Some e \<Rightarrow> calculate_active_coverage (actual_orders (ee_status e)) (ee_order_type e) | None \<Rightarrow> 0)"

text \<open>What is relied on of the broker: an accepted order, when fetched, has the submitted quantity.\<close>

definition reports_quantity :: "'w env \<Rightarrow> bool" where
  "reports_quantity E = (\<forall>r w handle w1 ord w2. submit_order E r w = (Inr handle, w1) \<longrightarrow>
     get_order E (oh_id handle) w1 = (Inr ord, w2) \<longrightarrow> o_quantity ord = or_quantity r)"

lemma place_loop_quantity:
  assumes "reports_quantity E"
  shows "place_loop E delays r a rc w = Some (Inr (ord, n), w') \<Longrightarrow> o_quantity ord = or_quantity r"
  using assms
proof (induction E delays r a rc w rule: place_loop.induct)
  case (1 E delays r a rc w)
  obtain ans w1 where sub: "submit_order E r w = (ans, w1)" by (cases "submit_order E r w")
  have lt: "a < length delays + 1"
    using "1.prems"(1) by (auto simp: place_loop.simps [of E delays r a] split: if_splits)
  show ?case
  proof (cases ans)
    case (Inr handle)
    with "1.prems" sub lt show ?thesis
      by (auto simp: place_loop.simps [of E delays r a] fallback_order_def reports_quantity_def
          split: prod.splits sum.splits)
  next
    case (Inl gerr)
    with "1.prems"(1) sub lt have none: "classify_and_handle_placement_error (dec_from_str E) delays gerr r a rc = None"
      by (auto simp: place_loop.simps [of E delays r a] split: option.splits)
    have a: "a < length delays" by (rule classify_None [OF none])
    have rest: "place_loop E delays r (a + 1) (u32_clamp (a + 1)) (sleep E (delays ! a) w1)
        = Some (Inr (ord, n), w')"
      using "1.prems"(1) sub lt none Inl a by (simp add: place_loop.simps [of E delays r a])
    show ?thesis
      by (rule "1.IH" [OF lt sub [symmetric] Inl none a rest "1.prems"(2)])
  qed
qed

lemma place_order_quantity:
  "reports_quantity E \<Longrightarrow> place_order_with_retry E h r w = (Inr (ord, n), w') \<Longrightarrow> o_quantity ord = or_quantity r"
  using place_order_with_retry_eq [of E h r w] place_loop_quantity by metis

lemma or_quantity_build [simp]: "or_quantity (build_exit_order_request e q n posid) = q"
  by (simp add: build_exit_order_request_def split: prod.splits)

lemma active_coverage_new [simp]:
  "calculate_active_coverage [\<lparr>ao_order_id = i, ao_quantity = q, ao_placed_at = t, ao_status = OrderOpen,
     ao_leg_type = leg\<rparr>] leg = q"
  by (simp add: calculate_active_coverage_def ao_is_active_def remaining_qty_def)

lemma coverage_error:
  assumes "handle_placement_error inst now pid e err n h = (res, h')" and "get_entry h pid = Some e0"
    and "\<not> terminal_status (ee_status e0)"
  shows "leg_coverage h' pid = leg_coverage h pid \<and> \<not> pr_is_success res"
  using assms by (auto simp: handle_placement_error_def Let_def leg_coverage_def update_entry_to_failed_def
      failed_status_def terminal_status_def pr_is_success_def pr_failed_def pr_deferred_def get_entry_def
      split: place_order_error.splits exit_entry_status.splits)

lemma coverage_successful:
  assumes "handle_successful_placement now pid e ord pf h = (res, h')" and "get_entry h pid = Some e0"
    and "\<not> terminal_status (ee_status e0)" and "ee_order_type e = ee_order_type e0"
  shows "pr_is_success res \<and> leg_coverage h' pid =
    (if is_pending e0 then leg_coverage h pid + o_quantity ord
     else if pf = None then o_quantity ord else leg_coverage h pid)"
  using assms by (auto simp: handle_successful_placement_def Let_def leg_coverage_def is_pending_def
      update_entry_partial_fill_def update_entry_to_placed_def partial_fill_status_def placed_status_def
      pr_is_success_def pr_success_def terminal_status_def
      split: option.splits exit_entry_status.splits if_splits)

text \<open>The four ways processing an entry can end.\<close>

lemma process_entry_fill_elim:
  assumes p: "process_entry_fill E pid f t pq posid h w = (res, h', w')"
  defines "h1 \<equiv> update_last_attempted_fill_qty (utc_now E w) pid f h"
  defines "h2 \<equiv> record_position_id pid posid h1"
  obtains
    (skipped) "validate_entry_for_fill (status_debug E) h pid f = Inl res" "h' = h" "w' = w"
  | (deferred) e where "validate_entry_for_fill (status_debug E) h pid f = Inr e"
      "pr_is_deferred res" "h' = h1" "w' = w"
  | (rejected) e r err n where "validate_entry_for_fill (status_debug E) h pid f = Inr e"
      "place_order_with_retry E h2 r w = (Inl (err, n), w')"
      "handle_placement_error (instant_now E w') (utc_now E w') pid e err n h2 = (res, h')"
  | (placed) e ord n where "validate_entry_for_fill (status_debug E) h pid f = Inr e"
      "\<not> eb_is_open (eh_breaker h)"
      "place_order_with_retry E h2 (build_exit_order_request e
         (fill_target f t pq (f < t) - calculate_active_coverage (actual_orders (ee_status e)) (ee_order_type e))
         (length (actual_orders (ee_status e))) posid) w = (Inr (ord, n), w')"
      "handle_successful_placement (utc_now E w') pid e ord (if f < t then Some (f, t) else None) h2 = (res, h')"
proof (cases "validate_entry_for_fill (status_debug E) h pid f")
  case (Inl r)
  then have "res = r" "h' = h" "w' = w" using p by (auto simp: process_entry_fill_def)
  with Inl show ?thesis by (intro skipped) simp_all
next
  case (Inr e)
  note valid = Inr
  show ?thesis
  proof (cases "calculate_exit_quantity (dec_to_string E) h1 pid e f t pq (f < t)")
    case (Inl r)
    then have "pr_is_deferred r"
      by (auto simp: calculate_exit_quantity_def Let_def pr_is_deferred_def pr_deferred_def split: if_splits)
    moreover have "res = r" "h' = h1" "w' = w"
      using p valid Inl by (auto simp: process_entry_fill_def h1_def)
    ultimately show ?thesis by (intro deferred [OF valid]) simp_all
  next
    case (Inr qe)
    have qe: "qe = (fill_target f t pq (f < t)
        - calculate_active_coverage (actual_orders (ee_status e)) (ee_order_type e), actual_orders (ee_status e))"
      using Inr by (auto simp: calculate_exit_quantity_def Let_def split: if_splits)
    have brk: "eh_breaker h1 = eh_breaker h" by (simp add: h1_def update_last_attempted_fill_qty_def)
    note unfold = process_entry_fill_def Let_def h1_def [symmetric] h2_def [symmetric]
      is_circuit_breaker_open_internal_def
    show ?thesis
    proof (cases "eb_is_open (eh_breaker h)")
      case True
      then have "(res, h', w') = (pr_deferred pid (ee_order_type e) ''Circuit breaker open'', h1, w)"
        using p valid Inr qe brk by (simp add: unfold)
      then show ?thesis
        by (intro deferred [OF valid]) (simp_all add: pr_is_deferred_def pr_deferred_def)
    next
      case False
      define r where "r = build_exit_order_request e (fst qe) (length (snd qe)) posid"
      obtain ans w1 where ans: "place_order_with_retry E h2 r w = (ans, w1)"
        by (cases "place_order_with_retry E h2 r w")
      show ?thesis
      proof (cases ans)
        case (Inl a)
        obtain err n where a: "a = (err, n)" by (cases a)
        have "w1 = w'" "handle_placement_error (instant_now E w1) (utc_now E w1) pid e err n h2 = (res, h')"
          using p valid Inr qe brk False ans Inl a by (auto simp: unfold r_def split: prod.splits)
        with ans Inl a show ?thesis by (intro rejected [OF valid]) simp_all
      next
        case (Inr a)
        obtain ord n where a: "a = (ord, n)" by (cases a)
        have "w1 = w'" "handle_successful_placement (utc_now E w1) pid e ord
            (if f < t then Some (f, t) else None) h2 = (res, h')"
          using p valid \<open>calculate_exit_quantity (dec_to_string E) h1 pid e f t pq (f < t) = Inr qe\<close>
            qe brk False ans Inr a by (auto simp: unfold r_def split: prod.splits)
        with ans Inr a qe False show ?thesis by (intro placed [OF valid]) (simp_all add: r_def)
      qed
    qed
  qed
qed

lemma validate_Inr_live:
  "validate_entry_for_fill dbg h pid f = Inr e \<Longrightarrow> \<not> terminal_status (ee_status e)"
  by (auto simp: validate_entry_for_fill_def terminal_status_def
      split: option.splits if_splits exit_entry_status.splits)

lemma process_coverage:
  assumes rq: "reports_quantity E" and e: "get_entry h pid = Some e"
    and p: "process_entry_fill E pid f t pq posid h w = (res, h', w')"
  shows "(\<not> pr_is_success res \<and> leg_coverage h' pid = leg_coverage h pid) \<or>
    (pr_is_success res \<and> leg_coverage h' pid =
       (if is_pending e then fill_target f t pq (f < t)
        else if f < t then leg_coverage h pid
        else fill_target f t pq False - leg_coverage h pid))"
proof -
  let ?h1 = "update_last_attempted_fill_qty (utc_now E w) pid f h"
  let ?h2 = "record_position_id pid posid ?h1"
  obtain e2 where e2: "get_entry ?h2 pid = Some e2" "ee_status e2 = ee_status e"
      "ee_order_type e = ee_order_type e2" "is_pending e2 = is_pending e"
    using before_placement_entry [OF e, of posid "utc_now E w" f] by (auto simp: same_frame_def is_pending_def)
  have cov: "leg_coverage ?h1 pid = leg_coverage h pid" "leg_coverage ?h2 pid = leg_coverage h pid"
    "leg_coverage h pid = calculate_active_coverage (actual_orders (ee_status e)) (ee_order_type e)"
    using e e2 by (simp_all add: leg_coverage_def update_last_attempted_fill_qty_def)
  show ?thesis
    using p
  proof (cases rule: process_entry_fill_elim)
    case skipped
    then show ?thesis using validate_not_success by blast
  next
    case (deferred e')
    then show ?thesis
      using cov by (auto simp: pr_is_deferred_def pr_is_success_def split: placement_outcome.splits)
  next
    case (rejected e' r err n)
    then have "\<not> terminal_status (ee_status e2)"
      using validate_Inr_live validate_entry_SomeD [OF rejected(1)] e e2(2) by fastforce
    from coverage_error [OF rejected(3) e2(1) this] cov show ?thesis by simp
  next
    case (placed e' ord n)
    have e': "e' = e" using validate_entry_SomeD [OF placed(1)] e by simp
    have "o_quantity ord = fill_target f t pq (f < t) - leg_coverage h pid"
      using place_order_quantity [OF rq placed(3)] cov(3) e' by simp
    moreover have "\<not> terminal_status (ee_status e2)"
      using validate_Inr_live [OF placed(1)] e' e2(2) by simp
    ultimately show ?thesis
      using coverage_successful [OF placed(4) e2(1)] e' e2(3,4) cov by auto
  qed
qed


text \<open>A run of fill reports of one order, processed for one of its legs.\<close>

fun fill_run ::
  "'w env \<Rightarrow> string \<Rightarrow> decimal list \<Rightarrow> decimal \<Rightarrow> string option \<Rightarrow> exit_handler \<Rightarrow> 'w \<Rightarrow> exit_handler \<times> 'w" where
  "fill_run E pid [] t posid h w = (h, w)"
| "fill_run E pid (f # fs) t posid h w =
     (case process_entry_fill E pid f t None posid h w of (r, h1, w1) \<Rightarrow> fill_run E pid fs t posid h1 w1)"

text \<open>The broker accepts what is submitted; \<open>spaced m c fs\<close>: each report grows the fill by at least \<open>m\<close>.\<close>

definition accepting :: "'w env \<Rightarrow> bool" where
  "accepting E = (\<forall>r w. \<exists>handle w1. submit_order E r w = (Inr handle, w1))"

fun spaced :: "decimal \<Rightarrow> decimal \<Rightarrow> decimal list \<Rightarrow> bool" where
  "spaced m c [] = True"
| "spaced m c (f # fs) = (c + m \<le> f \<and> spaced m f fs)"

lemma place_accepting:
  assumes "accepting E"
  shows "\<exists>ord n w'. place_order_with_retry E h r w = (Inr (ord, n), w')"
proof -
  have "\<exists>handle w1. submit_order E r w = (Inr handle, w1)"
    using assms by (simp add: accepting_def)
  then show ?thesis
    by (auto simp: place_order_with_retry_def place_loop.simps split: prod.splits sum.splits)
qed

definition tracks :: "exit_handler \<Rightarrow> string \<Rightarrow> decimal \<Rightarrow> bool" where
  "tracks h pid c = (\<not> eb_is_open (eh_breaker h) \<and> leg_coverage h pid = c \<and>
     (case get_entry h pid of None \<Rightarrow> False
      | Some e \<Rightarrow> is_pending e \<and> (case ee_last_attempted_fill_qty e of None \<Rightarrow> True | Some q \<Rightarrow> q \<le> c)))"

lemma process_places:
  assumes "accepting E" and "\<not> eb_is_open (eh_breaker h)" and e: "get_entry h pid = Some e"
    and pend: "is_pending e" and fresh: "\<not> settled h pid f"
    and qty: "hc_min_exit_order_qty (eh_config h) \<le> fill_target f t pq (f < t) - leg_coverage h pid"
  obtains ord h2 w1 where
    "process_entry_fill E pid f t pq posid h w = (pr_success pid (ee_order_type e) ord,
       snd (handle_successful_placement (utc_now E w1) pid e ord (if f < t then Some (f, t) else None) h2), w1)"
    "h2 = record_position_id pid posid (update_last_attempted_fill_qty (utc_now E w) pid f h)"
proof -
  let ?h1 = "update_last_attempted_fill_qty (utc_now E w) pid f h"
  let ?h2 = "record_position_id pid posid ?h1"
  let ?r = "build_exit_order_request e (fill_target f t pq (f < t) - leg_coverage h pid)
    (length (actual_orders (ee_status e))) posid"
  obtain ord n w1 where ord: "place_order_with_retry E ?h2 ?r w = (Inr (ord, n), w1)"
    using place_accepting [OF assms(1)] by blast
  have v: "validate_entry_for_fill (status_debug E) h pid f = Inr e"
    using settled_validate [of "status_debug E" h pid f] fresh e validate_entry_SomeD
    by (cases "validate_entry_for_fill (status_debug E) h pid f") fastforce+
  have lc: "leg_coverage h pid = calculate_active_coverage (actual_orders (ee_status e)) (ee_order_type e)"
    using e by (simp add: leg_coverage_def)
  have c: "calculate_exit_quantity (dec_to_string E) ?h1 pid e f t pq (f < t) =
      Inr (fill_target f t pq (f < t) - leg_coverage h pid, actual_orders (ee_status e))"
    using qty by (simp add: calculate_exit_quantity_def Let_def lc update_last_attempted_fill_qty_def)
  show ?thesis
    by (rule that [where ord = ord and ?h2.0 = ?h2 and ?w1.0 = w1])
      (use v c ord assms(2) in \<open>simp_all add: process_entry_fill_def is_circuit_breaker_open_internal_def
         update_last_attempted_fill_qty_def handle_successful_placement_def Let_def\<close>)
qed

lemma tracks_step:
  assumes env: "accepting E" "reports_quantity E" and t: "tracks h pid c"
    and f: "c + m \<le> f" "f < tot" and m: "0 < m" "hc_min_exit_order_qty (eh_config h) = m"
    and p: "process_entry_fill E pid f tot None posid h w = (r, h', w')"
  shows "tracks h' pid f \<and> hc_min_exit_order_qty (eh_config h') = m"
proof -
  obtain e where e: "get_entry h pid = Some e" "is_pending e" and brk: "\<not> eb_is_open (eh_breaker h)"
    and cov: "leg_coverage h pid = c"
    using t by (auto simp: tracks_def split: option.splits)
  have new: "\<not> settled h pid f"
    using t e f m by (auto simp: tracks_def settled_def terminal_status_def is_pending_def
        split: option.splits exit_entry_status.splits)
  have "hc_min_exit_order_qty (eh_config h) \<le> fill_target f tot None (f < tot) - leg_coverage h pid"
    using f m cov by (simp add: fill_target_def)
  from process_places [OF env(1) brk e new this, of posid w] p
  obtain ord where r: "r = pr_success pid (ee_order_type e) ord" and
    h': "h' = snd (handle_successful_placement (utc_now E w') pid e ord (Some (f, tot))
      (record_position_id pid posid (update_last_attempted_fill_qty (utc_now E w) pid f h)))"
    using f by auto
  have "leg_coverage h' pid = f"
    using process_coverage [OF env(2) e(1) p] r e(2) f
    by (simp add: pr_is_success_def pr_success_def fill_target_def)
  then show ?thesis
    using h' e brk m by (auto simp: tracks_def handle_successful_placement_def Let_def
        update_entry_partial_fill_def update_last_attempted_fill_qty_def record_position_id_def
        is_pending_def partial_fill_status_def split: option.splits exit_entry_status.splits)
qed

lemma tracks_run:
  assumes env: "accepting E" "reports_quantity E" and m: "0 < m"
  shows "tracks h pid c \<Longrightarrow> hc_min_exit_order_qty (eh_config h) = m \<Longrightarrow> spaced m c fs \<Longrightarrow>
    (\<forall>f \<in> set fs. f < tot) \<Longrightarrow> fill_run E pid fs tot posid h w = (h', w') \<Longrightarrow>
    tracks h' pid (last (c # fs)) \<and> hc_min_exit_order_qty (eh_config h') = m"
proof (induction fs arbitrary: h w c)
  case (Cons f fs)
  obtain r h1 w1 where p: "process_entry_fill E pid f tot None posid h w = (r, h1, w1)"
    by (cases "process_entry_fill E pid f tot None posid h w")
  have "tracks h1 pid f \<and> hc_min_exit_order_qty (eh_config h1) = m"
    using Cons.prems by (intro tracks_step [OF env Cons.prems(1) _ _ m Cons.prems(2) p]) auto
  with Cons.IH [of h1 f w1] Cons.prems p show ?case by auto
qed simp

lemma fill_run_append:
  "fill_run E pid (xs @ ys) t posid h w =
     (case fill_run E pid xs t posid h w of (h1, w1) \<Rightarrow> fill_run E pid ys t posid h1 w1)"
  by (induction xs arbitrary: h w) (auto split: prod.splits)

text \<open>
  C2: With a broker that accepts the orders, every report of a growing partial fill leaves the leg
  covering exactly the filled quantity, and the final full fill leaves it covering the whole order,
  as long as each report grows the fill by at least the minimum order quantity.
\<close>

theorem fills_are_covered:
  assumes env: "accepting E" "reports_quantity E"
    and pend: "tracks h pid 0" and m: "0 < hc_min_exit_order_qty (eh_config h)"
    and fs: "spaced (hc_min_exit_order_qty (eh_config h)) 0 (fs @ [tot])" "\<forall>f \<in> set fs. f < tot"
  shows "leg_coverage (fst (fill_run E pid fs tot posid h w)) pid = last (0 # fs)
    \<and> leg_coverage (fst (fill_run E pid (fs @ [tot]) tot posid h w)) pid = tot"
proof -
  let ?m = "hc_min_exit_order_qty (eh_config h)"
  obtain h1 w1 where run: "fill_run E pid fs tot posid h w = (h1, w1)"
    by (cases "fill_run E pid fs tot posid h w")
  have sp: "spaced ?m c (xs @ [y]) \<Longrightarrow> spaced ?m c xs \<and> last (c # xs) + ?m \<le> y" for c xs y
    by (induction xs arbitrary: c) auto
  have t1: "tracks h1 pid (last (0 # fs))" "hc_min_exit_order_qty (eh_config h1) = ?m"
    using tracks_run [OF env m pend refl _ fs(2) run] sp [OF fs(1)] by auto
  then have part: "leg_coverage (fst (fill_run E pid fs tot posid h w)) pid = last (0 # fs)"
    using run by (simp add: tracks_def)
  obtain e where e: "get_entry h1 pid = Some e" "is_pending e" and brk: "\<not> eb_is_open (eh_breaker h1)"
    and cov: "leg_coverage h1 pid = last (0 # fs)"
    using t1(1) by (auto simp: tracks_def split: option.splits)
  have new: "\<not> settled h1 pid tot"
    using t1(1) e sp [OF fs(1)] m by (auto simp: tracks_def settled_def terminal_status_def is_pending_def
        split: option.splits exit_entry_status.splits)
  have "hc_min_exit_order_qty (eh_config h1) \<le> fill_target tot tot None (tot < tot) - leg_coverage h1 pid"
    using sp [OF fs(1)] t1(2) cov by (simp add: fill_target_def)
  from process_places [OF env(1) brk e new this, of posid w1]
  obtain ord h2 w2 where p: "process_entry_fill E pid tot tot None posid h1 w1 =
      (pr_success pid (ee_order_type e) ord, h2, w2)" by blast
  have "leg_coverage h2 pid = tot"
    using process_coverage [OF env(2) e(1) p] e(2)
    by (simp add: pr_is_success_def pr_success_def fill_target_def)
  then show ?thesis
    using run p part by (simp add: fill_run_append)
qed

end
