(* ===== verification/Gw_Fill_Replay.thy ===== *)
theory Gw_Fill_Replay
  imports Gw_Fill_Props
begin

text \<open>
  The orders a leg places, the race between a fill and the registration of its exits, and the
  resolution of a pair when one of its legs fills.
\<close>

subsection \<open>The orders of a leg\<close>

lemma exit_request_ok:
  assumes "0 < ee_trigger_price e" and "opt_positive (ee_limit_price e)"
  shows "request_ok (build_exit_order_request e q n posid)"
  using assms by (cases "ee_order_type e"; cases "ee_limit_price e")
    (auto simp: build_exit_order_request_def request_ok_def type_fields_ok_def has_positive_def)

lemma validate_price_opt_Inr: "validate_price_opt dts x field = Inr u \<longleftrightarrow> opt_positive x"
  by (cases x) (auto simp: validate_price_def)

lemma register_InrD:
  assumes "register dts inst now p r h = (Inr legs, h')"
  shows "opt_positive (or_stop_loss r)" "opt_positive (or_take_profit r)"
    "rl_stop_loss_id legs = map_option (\<lambda>_. generate_placeholder_id StopLoss p) (or_stop_loss r)"
    "rl_take_profit_id legs = map_option (\<lambda>_. generate_placeholder_id TakeProfit p) (or_take_profit r)"
  using assms by (cases "or_stop_loss r"; cases "or_take_profit r";
      auto simp: register_def Let_def registered_empty_def validate_price_def split: sum.splits if_splits)+

text \<open>What registration stores for a leg.\<close>

lemma register_entry:
  assumes reg: "register dts inst now p r h = (Inr legs, h')"
    and price: "(case leg of StopLoss \<Rightarrow> or_stop_loss r | TakeProfit \<Rightarrow> or_take_profit r) = Some price"
  shows "\<exists>e. get_entry h' (generate_placeholder_id leg p) = Some e
    \<and> ee_order_type e = leg \<and> ee_trigger_price e = price \<and> ee_limit_price e = None
    \<and> ee_side e = opposite_side (or_side r) \<and> ee_symbol e = or_symbol r \<and> ee_status e = EntryPending
    \<and> ee_last_attempted_fill_qty e = None \<and> ee_primary_order_id e = p
    \<and> ee_sibling_id e = (case (case leg of StopLoss \<Rightarrow> or_take_profit r | TakeProfit \<Rightarrow> or_stop_loss r) of
         None \<Rightarrow> None | Some _ \<Rightarrow> Some (generate_placeholder_id (other_leg leg) p))"
  using reg price
  by (cases "or_stop_loss r"; cases "or_take_profit r"; cases leg)
    (auto simp: register_def Let_def get_entry_def insert_entry_inner_maps link_siblings_legs
        simp del: link_siblings.simps(1) split: sum.splits if_splits)

text \<open>
  C29: Every exit order the handler would submit for a registered leg, whatever quantity and
  position it is for, passes the validation of client order requests, and it trades the registered
  symbol on the side opposite to the entry order.
\<close>

theorem registered_exits_are_valid:
  assumes reg: "register dts inst now p r h = (Inr legs, h')"
    and e: "get_entry h' (generate_placeholder_id leg p) = Some e"
    and price: "(case leg of StopLoss \<Rightarrow> or_stop_loss r | TakeProfit \<Rightarrow> or_take_profit r) = Some price"
  shows "validate_semantics dts' (build_exit_order_request e q n posid) = Inr ()
    \<and> or_side (build_exit_order_request e q n posid) = opposite_side (or_side r)
    \<and> or_symbol (build_exit_order_request e q n posid) = or_symbol r"
proof -
  have pos: "0 < price"
    using price register_InrD(1,2) [OF reg] by (cases leg) auto
  have "request_ok (build_exit_order_request e q n posid)"
    using register_entry [OF reg price] e pos by (intro exit_request_ok) auto
  then have "validate_semantics dts' (build_exit_order_request e q n posid) = Inr ()"
    by (simp add: validate_semantics_iff)
  moreover have "or_side (build_exit_order_request e q n posid) = opposite_side (or_side r)"
    "or_symbol (build_exit_order_request e q n posid) = or_symbol r"
    using register_entry [OF reg price] e by (auto simp: build_exit_order_request_def split: prod.splits)
  ultimately show ?thesis by blast
qed

lemma client_suffix_inject [simp]: "client_order_suffix l = client_order_suffix l' \<longleftrightarrow> l = l'"
  by (cases l; cases l') auto

lemma length_client_suffix [simp]: "length (client_order_suffix l) = 2"
  by (cases l) auto

text \<open>
  For one seed (the parent's client order id, or else its order id), the client order ids of
  exit orders are distinct for distinct legs and for distinct counts of orders already placed.
\<close>

theorem exit_client_order_id_unique:
  assumes "exit_id_seed e = exit_id_seed e'"
    and "exit_client_order_id e n = exit_client_order_id e' n'"
  shows "ee_order_type e = ee_order_type e' \<and> n = n'"
proof -
  define tail :: "nat \<Rightarrow> string" where "tail k = (if k = 0 then [] else ''-'' @ show_nat k)" for k
  have id: "exit_client_order_id x k = exit_id_seed x @ ''-'' @ client_order_suffix (ee_order_type x) @ tail k" for x k
    by (simp add: exit_client_order_id_def tail_def)
  have "client_order_suffix (ee_order_type e) @ tail n = client_order_suffix (ee_order_type e') @ tail n'"
    using assms unfolding id by simp
  then have "client_order_suffix (ee_order_type e) = client_order_suffix (ee_order_type e')" "tail n = tail n'"
    by (simp_all add: append_eq_append_conv)
  then show ?thesis by (auto simp: tail_def split: if_splits)
qed

subsection \<open>Fills that beat registration\<close>

lemma unmatched_commutes [simp]:
  "get_entry (h\<lparr>eh_unmatched := u\<rparr>) k = get_entry h k"
  "update_entry k g (h\<lparr>eh_unmatched := u\<rparr>) = (update_entry k g h)\<lparr>eh_unmatched := u\<rparr>"
  "validate_entry_for_fill dbg (h\<lparr>eh_unmatched := u\<rparr>) k f = validate_entry_for_fill dbg h k f"
  "calculate_exit_quantity dts (h\<lparr>eh_unmatched := u\<rparr>) k e f t pq b = calculate_exit_quantity dts h k e f t pq b"
  "place_order_with_retry E (h\<lparr>eh_unmatched := u\<rparr>) r w = place_order_with_retry E h r w"
  "is_circuit_breaker_open_internal (h\<lparr>eh_unmatched := u\<rparr>) = is_circuit_breaker_open_internal h"
  "get_placeholders_for_primary (h\<lparr>eh_unmatched := u\<rparr>) p = get_placeholders_for_primary h p"
  "has_pending_for_primary (h\<lparr>eh_unmatched := u\<rparr>) p = has_pending_for_primary h p"
  by (simp_all add: get_entry_def update_entry_def validate_entry_for_fill_def calculate_exit_quantity_def
      place_order_with_retry_def is_circuit_breaker_open_internal_def get_placeholders_for_primary_def
      has_pending_for_primary_def split: option.splits)

lemma entry_updates_unmatched [simp]:
  "update_last_attempted_fill_qty now k q (h\<lparr>eh_unmatched := u\<rparr>) =
     (update_last_attempted_fill_qty now k q h)\<lparr>eh_unmatched := u\<rparr>"
  "record_position_id k posid (h\<lparr>eh_unmatched := u\<rparr>) = (record_position_id k posid h)\<lparr>eh_unmatched := u\<rparr>"
  by (simp_all add: update_last_attempted_fill_qty_def record_position_id_def split: option.splits)

lemma placement_unmatched [simp]:
  "handle_successful_placement now k e ord pf (h\<lparr>eh_unmatched := u\<rparr>) =
     apsnd (\<lambda>g. g\<lparr>eh_unmatched := u\<rparr>) (handle_successful_placement now k e ord pf h)"
  "handle_placement_error inst now k e err n (h\<lparr>eh_unmatched := u\<rparr>) =
     apsnd (\<lambda>g. g\<lparr>eh_unmatched := u\<rparr>) (handle_placement_error inst now k e err n h)"
  by (auto simp: handle_successful_placement_def handle_placement_error_def Let_def
      update_entry_partial_fill_def update_entry_to_placed_def update_entry_to_failed_def update_entry_def
      split: option.splits place_order_error.splits)

lemma process_entry_fill_unmatched:
  "process_entry_fill E k f t pq posid (h\<lparr>eh_unmatched := u\<rparr>) w =
     (case process_entry_fill E k f t pq posid h w of (r, h', w') \<Rightarrow> (r, h'\<lparr>eh_unmatched := u\<rparr>, w'))"
  by (auto simp: process_entry_fill_def Let_def split: sum.splits prod.splits)

lemma process_entries_unmatched:
  "process_entries E pids f t pq posid (h\<lparr>eh_unmatched := u\<rparr>) w =
     (case process_entries E pids f t pq posid h w of (rs, h', w') \<Rightarrow> (rs, h'\<lparr>eh_unmatched := u\<rparr>, w'))"
  by (induction pids arbitrary: h w) (auto simp: process_entry_fill_unmatched split: prod.splits)

lemma insert_entry_unmatched [simp]:
  "insert_entry_inner e (h\<lparr>eh_unmatched := u\<rparr>) = (insert_entry_inner e h)\<lparr>eh_unmatched := u\<rparr>"
  by (simp add: insert_entry_inner_def add_to_secondary_index_def)

lemma register_leg_unmatched [simp]:
  "register_leg inst now p r leg price (h\<lparr>eh_unmatched := u\<rparr>) =
     apsnd (\<lambda>g. g\<lparr>eh_unmatched := u\<rparr>) (register_leg inst now p r leg price h)"
  by (cases price) (simp_all add: Let_def)

lemma link_siblings_unmatched [simp]:
  "link_siblings a b (h\<lparr>eh_unmatched := u\<rparr>) = (link_siblings a b h)\<lparr>eh_unmatched := u\<rparr>"
  by (cases "(a, b, h)" rule: link_siblings.cases) (auto simp: Let_def)

lemma register_unmatched:
  "register dts inst now p r (h\<lparr>eh_unmatched := u\<rparr>) =
     apsnd (\<lambda>g. g\<lparr>eh_unmatched := u\<rparr>) (register dts inst now p r h)"
  by (auto simp: register_def pending_count_def Let_def split: sum.splits prod.splits)

lemma register_listed:
  assumes "register dts inst now p r h = (Inr legs, h')" and "has_any legs"
  shows "get_placeholders_for_primary h' p \<noteq> []"
  using assms by (cases "or_stop_loss r"; cases "or_take_profit r")
    (auto simp: register_def Let_def get_placeholders_for_primary_def insert_entry_inner_maps link_siblings_legs
        has_any_def registered_empty_def simp del: link_siblings.simps(1) split: sum.splits if_splits)

lemma no_pending: "get_placeholders_for_primary h p = [] \<Longrightarrow> \<not> has_pending_for_primary h p"
  by (auto simp: get_placeholders_for_primary_def has_pending_for_primary_def split: option.splits)

lemma exit_leg_unknown:
  "find_entry_by_actual_order h p = None \<Longrightarrow> handle_exit_leg_fill E p full h w = (False, h, w)"
  by (simp add: handle_exit_leg_fill_def)

lemma buffer_eq: "buffer_unmatched_fill inst p f t pq posid h =
    h\<lparr>eh_unmatched := eh_unmatched (buffer_unmatched_fill inst p f t pq posid h)\<rparr>"
  by (simp add: buffer_unmatched_fill_def sweep_unmatched_fills_def Let_def)

text \<open>
  C5: A fill that arrives before its order's exits are registered is not lost: it calls no broker,
  and replaying it after registration gives the same placements, broker calls, entries and
  breaker as if the exits had been registered first.
\<close>

theorem early_fill_is_replayed:
  assumes none: "get_placeholders_for_primary h p = []" "find_entry_by_actual_order h p = None"
    and pos: "0 < f" "0 < t"
    and reg: "register dts inst now p r h = (Inr legs, h1)" "has_any legs"
    and late: "handle_fill_internal E p f t pq posid h1 w = (rs, h', w')"
  shows "\<exists>g1 g2 g3. handle_fill_internal E p f t pq posid h w = ([], g1, w)
    \<and> register dts inst now p r g1 = (Inr legs, g2)
    \<and> process_buffered_fill E p g2 w = (rs, g3, w')
    \<and> g3 = h'\<lparr>eh_unmatched := eh_unmatched g3\<rparr> \<and> dm_get (eh_unmatched g3) p = None"
proof -
  define g1 where "g1 = buffer_unmatched_fill (instant_now E w) p f t pq posid h"
  define u where "u = eh_unmatched g1"
  have g1: "g1 = h\<lparr>eh_unmatched := u\<rparr>" unfolding u_def g1_def by (rule buffer_eq)
  have buf: "dm_get u p = Some \<lparr>bf_filled_qty = f, bf_total_qty = t, bf_position_qty = pq,
      bf_position_id = posid, bf_buffered_at = instant_now E w\<rparr>"
    by (simp add: u_def g1_def)
  have early: "handle_fill_internal E p f t pq posid h w = ([], g1, w)"
    using none pos no_pending [OF none(1)] g1
    by (simp add: handle_fill_internal_def handle_fill_with_def Let_def exit_leg_unknown g1_def [symmetric])
  have reg2: "register dts inst now p r g1 = (Inr legs, h1\<lparr>eh_unmatched := u\<rparr>)"
    using reg(1) by (simp add: g1 register_unmatched)
  have run: "process_entries E (get_placeholders_for_primary h1 p) f t pq posid h1 w = (rs, h', w')"
    using late register_listed [OF reg] pos by (simp add: handle_fill_internal_def handle_fill_with_def Let_def)
  have replay: "process_buffered_fill E p (h1\<lparr>eh_unmatched := u\<rparr>) w =
      (rs, h'\<lparr>eh_unmatched := dm_remove p u\<rparr>, w')"
    using pos register_listed [OF reg] run
    by (simp add: process_buffered_fill_def buf handle_fill_internal_def handle_fill_with_def Let_def
        process_entries_unmatched)
  show ?thesis
    by (intro exI conjI, rule early, rule reg2, rule replay) simp_all
qed

text \<open>
  C6: When registration lands while the fill is being buffered, the fill is processed on the spot
  with the same outcome, and the buffer no longer holds it, so the replay that follows
  registration finds nothing and the fill is processed exactly once.
\<close>

theorem racing_fill_processed_once:
  assumes inv: "eh_inv h" "register_fresh h p"
    and none: "get_placeholders_for_primary h p = []" "find_entry_by_actual_order h p = None"
    and pos: "0 < f" "0 < t"
    and reg: "register dts inst now p r h = (Inr legs, h1)" "has_any legs"
    and late: "handle_fill_internal E p f t pq posid h1 w = (rs, h', w')"
  shows "\<exists>u. handle_fill_with (\<lambda>g. snd (register dts inst now p r g)) E p f t pq posid h w =
       (rs, h'\<lparr>eh_unmatched := u\<rparr>, w')
    \<and> process_buffered_fill E p (h'\<lparr>eh_unmatched := u\<rparr>) w' = ([], h'\<lparr>eh_unmatched := u\<rparr>, w')"
proof -
  define u where "u = eh_unmatched (buffer_unmatched_fill (instant_now E w) p f t pq posid h)"
  have buf: "buffer_unmatched_fill (instant_now E w) p f t pq posid h = h\<lparr>eh_unmatched := u\<rparr>"
    unfolding u_def by (rule buffer_eq)
  have reg2: "snd (register dts inst now p r (h\<lparr>eh_unmatched := u\<rparr>)) = h1\<lparr>eh_unmatched := u\<rparr>"
    using reg(1) by (simp add: register_unmatched)
  have "eh_inv h1" using eh_inv_register [OF inv, of dts inst now r] reg(1) by simp
  then have pend: "has_pending_for_primary h1 p" using has_pending_iff register_listed [OF reg] by blast
  have has: "dm_has u p" by (simp add: u_def dm_has_def)
  have run: "process_entries E (get_placeholders_for_primary h1 p) f t pq posid h1 w = (rs, h', w')"
    using late register_listed [OF reg] pos by (simp add: handle_fill_internal_def handle_fill_with_def Let_def)
  have "handle_fill_with (\<lambda>g. snd (register dts inst now p r g)) E p f t pq posid h w =
      (rs, h'\<lparr>eh_unmatched := dm_remove p u\<rparr>, w')"
    using none pos pend has run
    by (simp add: handle_fill_with_def Let_def exit_leg_unknown buf reg2 process_entries_unmatched)
  then show ?thesis by (intro exI conjI, assumption) (simp add: process_buffered_fill_def)
qed

subsection \<open>Resolving a pair\<close>

lemma cancel_active_trace:
  "cancel_active_orders (traced E) aos (w, tr) = (b, w', tr') \<Longrightarrow>
   tr' = tr @ map (\<lambda>ao. CallCancel (ao_order_id ao)) (filter ao_is_active aos)"
  by (induction aos arbitrary: w tr b) (force split: if_splits prod.splits sum.splits)+

definition cancels_accepted :: "'w env \<Rightarrow> bool" where
  "cancels_accepted E = (\<forall>i w. \<exists>r w'. cancel_order E i w = (Inr r, w'))"

lemma cancel_active_accepted:
  assumes "cancels_accepted E"
  shows "fst (cancel_active_orders (traced E) aos (w, tr))"
proof (induction aos arbitrary: w tr)
  case (Cons ao aos)
  have "\<exists>r w'. cancel_order E (ao_order_id ao) w = (Inr r, w')"
    using assms by (simp add: cancels_accepted_def)
  then show ?case using Cons by auto
qed simp

lemma sibling_neq:
  assumes inv: "eh_inv h" and e: "get_entry h pid = Some e" "ee_sibling_id e = Some sib"
  shows "sib \<noteq> pid"
proof -
  have si: "store_inv (dm_get (eh_pending h)) (dm_get (eh_primary h))"
    using inv by (simp add: eh_inv_iff)
  have "dm_get (eh_pending h) pid = Some e" using e(1) by (simp add: get_entry_def)
  from entry_ok_counterpart(2) [OF store_inv_entry [OF si this]] store_inv_counterpart [OF si this e(2)]
  show ?thesis by simp
qed

lemma resolve_pair:
  assumes inv: "eh_inv h"
    and leg: "find_entry_by_actual_order h oid = Some (pid, Some sib, p)" "get_entry h sib = Some s"
    and exit: "get_placeholders_for_primary h oid = []" and qty: "0 < t" "t \<le> f"
    and ok: "cancels_accepted E"
  obtains h' w' where
    "handle_fill_internal (traced E) oid f t pq posid h (w, []) =
       ([], h', w', map (\<lambda>ao. CallCancel (ao_order_id ao)) (filter ao_is_active (actual_orders (ee_status s))))"
    and "eh_inv h'"
    and "\<And>k. get_entry h' k = (if k \<in> {pid, sib} then None else get_entry h k)"
proof -
  obtain e where e: "get_entry h pid = Some e" "ee_sibling_id e = Some sib"
    using find_entry_SomeD [OF inv leg(1)] by blast
  have sib: "get_entry (remove_pending_entry pid p h) sib = Some s"
    using leg(2) sibling_neq [OF inv e] by simp
  obtain b w' tr where c: "cancel_active_orders (traced E) (actual_orders (ee_status s)) (w, []) = (b, w', tr)"
    by (cases "cancel_active_orders (traced E) (actual_orders (ee_status s)) (w, [])")
  have b: "b" using cancel_active_accepted [OF ok, of "actual_orders (ee_status s)" w "[]"] c by simp
  let ?h' = "remove_pending_entry sib p (remove_pending_entry pid p h)"
  have run: "handle_fill_internal (traced E) oid f t pq posid h (w, []) = ([], ?h', w', tr)"
    using exit qty leg(1) sib c b
    by (simp add: handle_fill_internal_def handle_fill_with_def Let_def handle_exit_leg_fill_def
        cancel_exit_leg_orders_def)
  show ?thesis
  proof (rule that)
    show "handle_fill_internal (traced E) oid f t pq posid h (w, []) = ([], ?h', w',
        map (\<lambda>ao. CallCancel (ao_order_id ao)) (filter ao_is_active (actual_orders (ee_status s))))"
      using run cancel_active_trace [OF c] by simp
    show "eh_inv ?h'"
      using eh_inv_handle_fill [OF inv, of "traced E" oid f t pq posid "(w, [])"] run by simp
  qed auto
qed

text \<open>
  C7: When an exit order fills completely, the entry it belongs to is dropped, exactly the resting
  orders of its sibling leg are cancelled at the broker, and with the cancellations accepted the
  sibling entry is dropped too; no other entry changes.
\<close>

theorem filled_leg_resolves_pair:
  assumes "eh_inv h"
    and "find_entry_by_actual_order h oid = Some (pid, Some sib, p)" "get_entry h sib = Some s"
    and "get_placeholders_for_primary h oid = []" and "0 < t" "t \<le> f"
    and "cancels_accepted E"
  shows "\<exists>h' w'. handle_fill_internal (traced E) oid f t pq posid h (w, []) =
       ([], h', w', map (\<lambda>ao. CallCancel (ao_order_id ao)) (filter ao_is_active (actual_orders (ee_status s))))
    \<and> (\<forall>k. get_entry h' k = (if k \<in> {pid, sib} then None else get_entry h k))"
  using resolve_pair [OF assms] by metis

text \<open>
  A leg that spans several orders, one per partial fill, is dropped as a whole when one of them
  fills: no call cancels its other orders, which stay live at the broker, but no entry tracks them
  any more, while the resting orders of the sibling leg are cancelled.
\<close>

theorem filled_order_drops_rest_of_leg:
  assumes inv: "eh_inv h"
    and leg: "find_entry_by_actual_order h oid = Some (pid, Some sib, p)" "get_entry h sib = Some s"
    and exit: "get_placeholders_for_primary h oid = []" and qty: "0 < t" "t \<le> f"
    and ok: "cancels_accepted E"
    and rest: "\<And>k e. get_entry h k = Some e \<Longrightarrow> k \<noteq> pid \<Longrightarrow> \<not> entry_has_order rest e"
  shows "\<exists>h' w' tr. handle_fill_internal (traced E) oid f t pq posid h (w, []) = ([], h', w', tr)
    \<and> CallCancel rest \<notin> set tr \<and> find_entry_by_actual_order h' rest = None
    \<and> (\<forall>ao \<in> set (actual_orders (ee_status s)). ao_is_active ao \<longrightarrow> CallCancel (ao_order_id ao) \<in> set tr)"
proof -
  obtain e where "get_entry h pid = Some e" "ee_sibling_id e = Some sib"
    using find_entry_SomeD [OF inv leg(1)] by blast
  then have ne: "sib \<noteq> pid" by (rule sibling_neq [OF inv])
  obtain h' w' where run: "handle_fill_internal (traced E) oid f t pq posid h (w, []) =
       ([], h', w', map (\<lambda>ao. CallCancel (ao_order_id ao)) (filter ao_is_active (actual_orders (ee_status s))))"
    and inv': "eh_inv h'" and h': "\<And>k. get_entry h' k = (if k \<in> {pid, sib} then None else get_entry h k)"
    using resolve_pair [OF inv leg exit qty ok] by metis
  have "find_entry_by_actual_order h' rest = None"
    unfolding find_entry_None_iff [OF inv'] using h' rest by (auto split: if_splits)
  moreover have "\<not> entry_has_order rest s" by (rule rest [OF leg(2) ne])
  ultimately show ?thesis
    using run by (auto simp: entry_has_order_def list_ex_iff)
qed

end
