(* ===== verification/Gw_Exit_Cancel.thy ===== *)
theory Gw_Exit_Cancel
  imports Gw_Exit_Fill
begin

text \<open>
  Cancellation and cleanup of exit entries (\<open>exit_management/cancellation.rs\<close>): by placeholder, for
  a cancelled entry order, before a position close, after failures were reported, and by age.
\<close>

definition cancelled_info :: "string \<Rightarrow> exit_entry \<Rightarrow> cancelled_exit_info" where
  "cancelled_info pid e = \<lparr>ci_placeholder_id = pid, ci_primary_order_id = ee_primary_order_id e,
     ci_leg_type = ee_order_type e, ci_platform = header_value (ee_platform e), ci_symbol = ee_symbol e,
     ci_side = ee_side e, ci_trigger_price = ee_trigger_price e, ci_quantity = ee_quantity e\<rparr>"

definition cancel_entry ::
  "utc \<Rightarrow> string \<Rightarrow> exit_handler \<Rightarrow> (gateway_error + cancel_exit_result_internal) \<times> exit_handler" where
  "cancel_entry now pid h = (case get_entry h pid of
     None \<Rightarrow> (Inl (OrderNotFound pid), h)
   | Some e \<Rightarrow>
       (let info = cancelled_info pid e;
            cancelled = update_entry pid (set_status now (EntryCancelled now UserRequested)) h
        in case ee_status e of
             EntryPending \<Rightarrow> (Inr (CancelledPending info), cancelled)
           | EntryPartiallyTriggered f t aos \<Rightarrow>
               if aos = [] then (Inr (CancelledPending info), cancelled)
               else (Inr (NeedsCancelPartiallyTriggered aos info), h)
           | EntryPlaced aos \<Rightarrow> (Inr (NeedsCancelAtProvider aos info), h)
           | EntryFailed m n t aos \<Rightarrow>
               if aos \<noteq> [] then (Inr (NeedsCancelFailed aos info), h)
               else (Inr (AlreadyTerminal (ee_status e)), h)
           | EntryCancelled t r \<Rightarrow> (Inr (AlreadyTerminal (ee_status e)), h)
           | EntryExpired t \<Rightarrow> (Inr (AlreadyTerminal (ee_status e)), h)))"

fun cancel_pending_loop ::
  "utc \<Rightarrow> string list \<Rightarrow> exit_handler \<Rightarrow> cancelled_exit_info list \<times> exit_handler" where
  "cancel_pending_loop now [] h = ([], h)"
| "cancel_pending_loop now (pid # pids) h = (case get_entry h pid of
     Some e \<Rightarrow>
       if is_pending e then
         (case cancel_pending_loop now pids
                 (update_entry pid (set_status now (EntryCancelled now PrimaryCancelled)) h) of
            (infos, h') \<Rightarrow> (cancelled_info pid e # infos, h'))
       else cancel_pending_loop now pids h
   | None \<Rightarrow> cancel_pending_loop now pids h)"

definition handle_cancellation_internal ::
  "utc \<Rightarrow> string \<Rightarrow> exit_handler \<Rightarrow> cancelled_exit_info list \<times> exit_handler" where
  "handle_cancellation_internal now primary h =
     cancel_pending_loop now (get_placeholders_for_primary h primary)
       (h\<lparr>eh_primary := dm_remove primary (eh_primary h)\<rparr>)"

definition handle_cancellation :: "utc \<Rightarrow> string \<Rightarrow> exit_handler \<Rightarrow> cancel_exit_result \<times> exit_handler" where
  "handle_cancellation now primary h = (case handle_cancellation_internal now primary h of
     (infos, h') \<Rightarrow> (\<lparr>ce_cancelled = map ci_placeholder_id infos, ce_failed = []\<rparr>, h'))"

subsection \<open>Before a position close\<close>

definition close_orders :: "string \<Rightarrow> exit_entry \<Rightarrow> actual_order list option" where
  "close_orders symbol e = (if ee_symbol e \<noteq> symbol then None else (case ee_status e of
     EntryPending \<Rightarrow> Some []
   | EntryPlaced aos \<Rightarrow> Some aos
   | EntryPartiallyTriggered f t aos \<Rightarrow> Some aos
   | EntryFailed m n t aos \<Rightarrow> if aos \<noteq> [] then Some aos else None
   | _ \<Rightarrow> None))"

definition entries_to_cancel :: "string \<Rightarrow> exit_handler \<Rightarrow> (string \<times> actual_order list) list" where
  "entries_to_cancel symbol h = List.map_filter
     (\<lambda>p. map_option (\<lambda>aos. (fst p, aos)) (close_orders symbol (snd p))) (eh_pending h)"

text \<open>The provider's answers are only logged by the source.\<close>

fun cancel_orders_ignoring :: "'w env \<Rightarrow> actual_order list \<Rightarrow> 'w \<Rightarrow> 'w" where
  "cancel_orders_ignoring E [] w = w"
| "cancel_orders_ignoring E (ao # aos) w =
     cancel_orders_ignoring E aos (snd (cancel_order E (ao_order_id ao) w))"

fun close_loop ::
  "'w env \<Rightarrow> (string \<times> actual_order list) list \<Rightarrow> exit_handler \<Rightarrow> 'w
     \<Rightarrow> cancelled_exit_info list \<times> exit_handler \<times> 'w" where
  "close_loop E [] h w = ([], h, w)"
| "close_loop E ((pid, aos) # rest) h w =
     (let w1 = cancel_orders_ignoring E aos w; now = utc_now E w1 in
      case get_entry h pid of
        Some e \<Rightarrow>
          (case close_loop E rest (update_entry pid (set_status now (EntryCancelled now PositionClosed)) h) w1 of
             (infos, h2, w2) \<Rightarrow> (cancelled_info pid e # infos, h2, w2))
      | None \<Rightarrow> close_loop E rest h w1)"

definition cancel_for_position_close_internal ::
  "'w env \<Rightarrow> string \<Rightarrow> exit_handler \<Rightarrow> 'w \<Rightarrow> cancelled_exit_info list \<times> exit_handler \<times> 'w" where
  "cancel_for_position_close_internal E symbol h w = close_loop E (entries_to_cancel symbol h) h w"

definition cancel_for_position_close ::
  "'w env \<Rightarrow> string \<Rightarrow> exit_handler \<Rightarrow> 'w \<Rightarrow> string list \<times> exit_handler \<times> 'w" where
  "cancel_for_position_close E symbol h w = (case cancel_for_position_close_internal E symbol h w of
     (infos, h', w') \<Rightarrow> (map ci_placeholder_id infos, h', w'))"

subsection \<open>Bulk removal\<close>

text \<open>
  Both cleanups remove a list of placeholders, grouping the removed ids by their entry order, and
  then drop each group from the secondary index.
\<close>

fun remove_group ::
  "string list \<Rightarrow> exit_handler \<Rightarrow> (string, string list) dmap \<Rightarrow> exit_handler \<times> (string, string list) dmap" where
  "remove_group [] h g = (h, g)"
| "remove_group (pid # pids) h g = (case get_entry h pid of
     Some e \<Rightarrow> remove_group pids (h\<lparr>eh_pending := dm_remove pid (eh_pending h)\<rparr>)
                 (dm_extend (ee_primary_order_id e) [pid] g)
   | None \<Rightarrow> remove_group pids h g)"

definition drop_groups :: "(string, string list) dmap \<Rightarrow> exit_handler \<Rightarrow> exit_handler" where
  "drop_groups g h = fold (\<lambda>pg. remove_batch_from_secondary_index (fst pg) (snd pg)) g h"

definition remove_placeholders :: "string list \<Rightarrow> exit_handler \<Rightarrow> exit_handler" where
  "remove_placeholders pids h = (case remove_group pids h [] of
     (h1, g) \<Rightarrow> drop_groups g h1)"

definition is_failed_status :: "exit_entry_status \<Rightarrow> bool" where
  "is_failed_status st = (case st of EntryFailed m n t aos \<Rightarrow> True | _ \<Rightarrow> False)"

definition clear_failed_entries_internal :: "exit_handler \<Rightarrow> nat \<times> exit_handler" where
  "clear_failed_entries_internal h =
     (let failed = map fst (filter (\<lambda>p. is_failed_status (ee_status (snd p))) (eh_pending h)) in
      if failed = [] then (0, h) else (length failed, remove_placeholders failed h))"

definition cleanup_expired_entries :: "instant \<Rightarrow> exit_handler \<Rightarrow> nat \<times> exit_handler" where
  "cleanup_expired_entries inst h =
     (let expired = map (\<lambda>p. ee_placeholder_id (snd p))
            (filter (\<lambda>p. inst - ee_created_at (snd p) > hc_entry_ttl (eh_config h)) (eh_pending h)) in
      if expired = [] then (0, h) else (length expired, remove_placeholders expired h))"

subsection \<open>The invariant is kept\<close>

lemma entry_ok_cancelled [simp]:
  "entry_ok k e \<Longrightarrow> entry_ok k (set_status now (EntryCancelled t r) e)"
  by (simp add: entry_ok_def)

lemma eh_inv_set_cancelled [gw_inv]:
  "eh_inv h \<Longrightarrow> eh_inv (update_entry pid (set_status now (EntryCancelled t r)) h)"
  by (erule eh_inv_update_entry) simp

lemma eh_inv_cancel_entry [gw_inv]: "eh_inv h \<Longrightarrow> eh_inv (snd (cancel_entry now pid h))"
  by (auto simp: cancel_entry_def Let_def eh_inv_set_cancelled split: option.splits exit_entry_status.splits)

lemma eh_inv_cancel_loop [gw_inv]: "eh_inv h \<Longrightarrow> eh_inv (snd (cancel_pending_loop now pids h))"
  by (induction now pids h rule: cancel_pending_loop.induct)
    (auto simp: eh_inv_set_cancelled split: option.splits prod.splits)

lemma eh_inv_handle_cancellation [gw_inv]: "eh_inv h \<Longrightarrow> eh_inv (snd (handle_cancellation_internal now p h))"
  by (simp add: handle_cancellation_internal_def eh_inv_cancel_loop eh_inv_unindex)

lemma eh_inv_close_loop [gw_inv]: "eh_inv h \<Longrightarrow> eh_inv (fst (snd (close_loop E xs h w)))"
  by (induction E xs h w rule: close_loop.induct)
    (auto simp: Let_def eh_inv_set_cancelled split: option.splits prod.splits)

lemma eh_inv_position_close [gw_inv]:
  "eh_inv h \<Longrightarrow> eh_inv (fst (snd (cancel_for_position_close_internal E symbol h w)))"
  by (simp add: cancel_for_position_close_internal_def eh_inv_close_loop)

lemma remove_group_frame:
  "remove_group pids h g = (h', g') \<Longrightarrow>
   eh_primary h' = eh_primary h \<and> eh_unmatched h' = eh_unmatched h \<and> eh_config h' = eh_config h
   \<and> eh_breaker h' = eh_breaker h \<and> (dm_wf g \<longrightarrow> dm_wf g') \<and> (dm_wf (eh_pending h) \<longrightarrow> dm_wf (eh_pending h'))
   \<and> (\<forall>k. get_entry h' k = (if k \<in> set pids then None else get_entry h k))"
proof (induction pids h g rule: remove_group.induct)
  case (2 pid pids h g)
  then show ?case
    by (cases "get_entry h pid") (auto simp: get_entry_def split: if_splits)
qed simp

lemma remove_group_groups:
  "remove_group pids h g = (h', g') \<Longrightarrow>
   listed (dm_get g' q) i \<longleftrightarrow> listed (dm_get g q) i \<or>
     (i \<in> set pids \<and> (\<exists>e. get_entry h i = Some e \<and> ee_primary_order_id e = q))"
proof (induction pids h g rule: remove_group.induct)
  case (2 pid pids h g)
  show ?case
  proof (cases "get_entry h pid")
    case None
    with 2 show ?thesis by auto
  next
    case (Some e)
    let ?h1 = "h\<lparr>eh_pending := dm_remove pid (eh_pending h)\<rparr>"
    have e1: "get_entry ?h1 k = (if k = pid then None else get_entry h k)" for k
      by (simp add: get_entry_def)
    have l: "listed (dm_get (dm_extend (ee_primary_order_id e) [pid] g) q) i \<longleftrightarrow>
        listed (dm_get g q) i \<or> (i = pid \<and> q = ee_primary_order_id e)"
      by (auto simp: listed_def split: option.splits)
    have "listed (dm_get g' q) i \<longleftrightarrow> listed (dm_get (dm_extend (ee_primary_order_id e) [pid] g) q) i \<or>
        (i \<in> set pids \<and> (\<exists>e. get_entry ?h1 i = Some e \<and> ee_primary_order_id e = q))"
      using 2 Some by simp
    then show ?thesis unfolding l e1 using Some by auto
  qed
qed simp

lemma drop_groups_listed:
  "dm_wf g \<Longrightarrow> listed (dm_get (eh_primary (drop_groups g h)) q) i
     \<longleftrightarrow> listed (dm_get (eh_primary h) q) i \<and> \<not> listed (dm_get g q) i"
proof (induction g arbitrary: h)
  case (Cons pg g)
  obtain p ids where pg: "pg = (p, ids)" by (cases pg)
  have g: "dm_wf g" "dm_get g p = None"
    using Cons.prems pg by (auto simp: dm_wf_def dm_get_def map_of_eq_None_iff)
  then show ?case
    using Cons.IH [OF g(1)] pg
    by (auto simp: drop_groups_def remove_batch_from_secondary_index_def listed_index_drop)
qed (simp add: drop_groups_def)

lemma drop_groups_frame:
  "eh_pending (drop_groups g h) = eh_pending h" "eh_unmatched (drop_groups g h) = eh_unmatched h"
  "eh_config (drop_groups g h) = eh_config h" "eh_breaker (drop_groups g h) = eh_breaker h"
  "dm_wf (eh_primary h) \<Longrightarrow> dm_wf (eh_primary (drop_groups g h))"
  unfolding drop_groups_def
  by (induction g arbitrary: h) (auto simp: remove_batch_from_secondary_index_def)

lemma drop_groups_nonempty:
  "(\<And>q xs. dm_get (eh_primary h) q = Some xs \<Longrightarrow> xs \<noteq> []) \<Longrightarrow>
   dm_get (eh_primary (drop_groups g h)) q = Some xs \<Longrightarrow> xs \<noteq> []"
proof (induction g arbitrary: h)
  case (Cons pg g)
  let ?h1 = "remove_batch_from_secondary_index (fst pg) (snd pg) h"
  have "ys \<noteq> []" if "dm_get (eh_primary ?h1) r = Some ys" for r ys
    using that index_drop_nonempty [OF Cons.prems(1), where p = "fst pg" and ids = "snd pg" and q = r and xs = ys]
    by (simp add: remove_batch_from_secondary_index_def)
  from Cons.IH [OF this] Cons.prems(2) show ?case by (simp add: drop_groups_def)
qed (simp add: drop_groups_def)

lemma remove_placeholders_entry:
  "get_entry (remove_placeholders pids h) k = (if k \<in> set pids then None else get_entry h k)"
proof -
  obtain h1 g where g: "remove_group pids h [] = (h1, g)" by (cases "remove_group pids h []")
  then show ?thesis
    using remove_group_frame [OF g] by (simp add: remove_placeholders_def get_entry_def drop_groups_frame)
qed

lemma eh_inv_remove_placeholders [gw_inv]:
  assumes inv: "eh_inv h"
  shows "eh_inv (remove_placeholders pids h)"
proof -
  obtain h1 g where g: "remove_group pids h [] = (h1, g)" by (cases "remove_group pids h []")
  note frame = remove_group_frame [OF g]
  let ?h2 = "drop_groups g h1"
  have wf: "dm_wf g" using frame by simp
  have si: "store_inv (dm_get (eh_pending h)) (dm_get (eh_primary h))"
    using inv by (simp add: eh_inv_iff)
  have "listed (dm_get (eh_primary ?h2) q) i \<longleftrightarrow> listed (dm_get (eh_primary h) q) i \<and> i \<notin> set pids" for q i
    unfolding drop_groups_listed [OF wf] remove_group_groups [OF g]
    using frame store_inv_listed [OF si, of q i] by (auto simp: get_entry_def)
  moreover have "dm_get (eh_pending ?h2) k = (if k \<in> set pids then None else dm_get (eh_pending h) k)" for k
    using frame by (simp add: drop_groups_frame get_entry_def)
  moreover have "xs \<noteq> []" if "dm_get (eh_primary ?h2) q = Some xs" for q xs
    by (rule drop_groups_nonempty [OF _ that]) (use frame store_inv_nonempty [OF si] in auto)
  ultimately have "store_inv (dm_get (eh_pending ?h2)) (dm_get (eh_primary ?h2))"
    by (intro store_inv_remove [OF si, where K = "set pids"]) auto
  then show ?thesis
    using inv frame g by (simp add: remove_placeholders_def eh_inv_iff drop_groups_frame)
qed

lemma eh_inv_clear_failed [gw_inv]: "eh_inv h \<Longrightarrow> eh_inv (snd (clear_failed_entries_internal h))"
  by (simp add: clear_failed_entries_internal_def Let_def eh_inv_remove_placeholders)

lemma eh_inv_cleanup [gw_inv]: "eh_inv h \<Longrightarrow> eh_inv (snd (cleanup_expired_entries inst h))"
  by (simp add: cleanup_expired_entries_def Let_def eh_inv_remove_placeholders)

subsection \<open>What cancellation does\<close>

lemma cancel_orders_trace:
  "cancel_orders_ignoring (traced E) aos (w, tr) =
     (cancel_orders_ignoring E aos w, tr @ map (\<lambda>ao. CallCancel (ao_order_id ao)) aos)"
  by (induction aos arbitrary: w tr) (auto split: prod.splits)

lemma map_filter_values:
  "set (List.map_filter (\<lambda>p. map_option (\<lambda>y. (fst p, y)) (f (snd p))) m) =
     {(k, y). \<exists>v. (k, v) \<in> set m \<and> f v = Some y}"
  by (induction m) (auto simp: List.map_filter_simps split: option.splits)

lemma map_filter_keys:
  "map fst (List.map_filter (\<lambda>p. map_option (\<lambda>y. (fst p, y)) (f (snd p))) m) =
     map fst (filter (\<lambda>p. f (snd p) \<noteq> None) m)"
  by (induction m) (auto simp: List.map_filter_simps split: option.splits)

lemma entries_to_cancel_iff:
  assumes "dm_wf (eh_pending h)"
  shows "(k, aos) \<in> set (entries_to_cancel symbol h) \<longleftrightarrow>
     (\<exists>e. get_entry h k = Some e \<and> close_orders symbol e = Some aos)"
  using assms by (simp add: entries_to_cancel_def map_filter_values get_entry_def dm_get_in)

lemma entries_to_cancel_keys:
  assumes "dm_wf (eh_pending h)"
  shows "k \<in> set (map fst (entries_to_cancel symbol h)) \<longleftrightarrow>
     (\<exists>e. get_entry h k = Some e \<and> close_orders symbol e \<noteq> None)"
proof -
  have "k \<in> set (map fst (entries_to_cancel symbol h)) \<longleftrightarrow> (\<exists>aos. (k, aos) \<in> set (entries_to_cancel symbol h))"
    by (auto intro: rev_image_eqI)
  then show ?thesis unfolding entries_to_cancel_iff [OF assms] by blast
qed

lemma distinct_entries_to_cancel:
  "dm_wf (eh_pending h) \<Longrightarrow> distinct (map fst (entries_to_cancel symbol h))"
  by (simp add: entries_to_cancel_def map_filter_keys dm_wf_def distinct_map_filter)

lemma close_loop_spec:
  assumes "distinct (map fst xs)" and "\<And>k. k \<in> set (map fst xs) \<Longrightarrow> get_entry h k \<noteq> None"
    and "close_loop (traced E) xs h (w, tr) = (infos, h', w', tr')"
  shows "map ci_placeholder_id infos = map fst xs
    \<and> tr' = tr @ map (\<lambda>ao. CallCancel (ao_order_id ao)) (concat (map snd xs))
    \<and> (\<forall>k. k \<notin> set (map fst xs) \<longrightarrow> get_entry h' k = get_entry h k)
    \<and> (\<forall>k e. k \<in> set (map fst xs) \<longrightarrow> get_entry h k = Some e \<longrightarrow>
        (\<exists>now. get_entry h' k = Some (set_status now (EntryCancelled now PositionClosed) e)))"
  using assms
proof (induction xs arbitrary: h w tr infos)
  case (Cons x xs)
  obtain pid aos where x: "x = (pid, aos)" by (cases x)
  let ?w1 = "cancel_orders_ignoring E aos w"
  let ?tr1 = "tr @ map (\<lambda>ao. CallCancel (ao_order_id ao)) aos"
  obtain e0 where e0: "get_entry h pid = Some e0" using Cons.prems x by force
  let ?h1 = "update_entry pid (set_status (utc_now E ?w1) (EntryCancelled (utc_now E ?w1) PositionClosed)) h"
  obtain infos1 where rest: "close_loop (traced E) xs ?h1 (?w1, ?tr1) = (infos1, h', w', tr')"
    and infos: "infos = cancelled_info pid e0 # infos1"
    using Cons.prems(3) x e0 by (auto simp: cancel_orders_trace Let_def split: prod.splits)
  have d: "distinct (map fst xs)" "pid \<notin> set (map fst xs)" using Cons.prems(1) x by auto
  have pres: "get_entry ?h1 k \<noteq> None" if "k \<in> set (map fst xs)" for k
    using Cons.prems(2) [of k] that by auto
  note IH = Cons.IH [OF d(1) pres rest]
  have "\<exists>now. get_entry h' k = Some (set_status now (EntryCancelled now PositionClosed) e)"
    if "k \<in> set (map fst (x # xs))" "get_entry h k = Some e" for k e
  proof (cases "k = pid")
    case True
    then show ?thesis using IH d(2) that by auto
  next
    case False
    then show ?thesis using IH that x by auto
  qed
  then show ?case using IH infos x by (auto simp: cancelled_info_def)
qed auto


definition cancels_rejected :: "'w env \<Rightarrow> bool" where
  "cancels_rejected E = (\<forall>i w. \<exists>err w'. cancel_order E i w = (Inl err, w'))"

lemma close_loop_untraced:
  "close_loop (traced E) xs h (w, tr) = (infos, h', w', tr') \<Longrightarrow> close_loop E xs h w = (infos, h', w')"
proof (induction xs arbitrary: h w tr infos)
  case (Cons x xs)
  obtain pid aos where "x = (pid, aos)" by (cases x)
  with Cons show ?case
    by (auto simp: cancel_orders_trace Let_def split: option.splits prod.splits)
qed simp

text \<open>
  A position close forgets the exit orders it could not cancel: even when the broker rejects
  every cancellation, the entry is marked cancelled and no entry holds the still resting order, so
  nothing later retries it or resolves its fill.
\<close>

theorem position_close_forgets_uncancelled:
  assumes inv: "eh_inv h" and "cancels_rejected E"
    and e: "get_entry h k = Some e" "ee_symbol e = symbol" "ee_status e = EntryPlaced aos" "ao \<in> set aos"
    and only: "\<And>k' e'. get_entry h k' = Some e' \<Longrightarrow> entry_has_order (ao_order_id ao) e' \<Longrightarrow> k' = k"
    and run: "cancel_for_position_close_internal E symbol h w = (infos, h', w')"
  shows "find_entry_by_actual_order h' (ao_order_id ao) = None
    \<and> (\<exists>now. get_status h' k = Some (EntryCancelled now PositionClosed))"
proof -
  obtain infos2 h2 w2 tr where t: "cancel_for_position_close_internal (traced E) symbol h (w, []) = (infos2, h2, w2, tr)"
    by (cases "cancel_for_position_close_internal (traced E) symbol h (w, [])")
  have h2: "h2 = h'"
    using run close_loop_untraced t by (fastforce simp: cancel_for_position_close_internal_def)
  have wf: "dm_wf (eh_pending h)" using inv by (simp add: eh_inv_def)
  have "close_orders symbol e \<noteq> None" using e by (simp add: close_orders_def)
  then have mem: "k \<in> set (map fst (entries_to_cancel symbol h))"
    using e(1) unfolding entries_to_cancel_keys [OF wf] by blast
  have pres: "\<And>k. k \<in> set (map fst (entries_to_cancel symbol h)) \<Longrightarrow> get_entry h k \<noteq> None"
    unfolding entries_to_cancel_keys [OF wf] by auto
  note spec = close_loop_spec [OF distinct_entries_to_cancel [OF wf] pres t [unfolded cancel_for_position_close_internal_def h2]]
  then obtain now where k: "get_entry h' k = Some (set_status now (EntryCancelled now PositionClosed) e)"
    using mem e(1) by blast
  have "\<not> entry_has_order (ao_order_id ao) e'" if e': "get_entry h' k' = Some e'" for k' e'
  proof
    assume has: "entry_has_order (ao_order_id ao) e'"
    show False
    proof (cases "k' \<in> set (map fst (entries_to_cancel symbol h))")
      case True
      then obtain e0 now' where "get_entry h' k' = Some (set_status now' (EntryCancelled now' PositionClosed) e0)"
        using spec pres [OF True] by fastforce
      then show False using e' has by (simp add: entry_has_order_def)
    next
      case False
      then have "get_entry h k' = Some e'" using spec e' by simp
      with only has have "k' = k" by blast
      with False mem show False by simp
    qed
  qed
  then have "find_entry_by_actual_order h' (ao_order_id ao) = None"
    using find_entry_None_iff [of h'] eh_inv_position_close [OF inv, of E symbol w] run by simp
  then show ?thesis
    using k by (auto simp: get_status_def get_entry_def)
qed

lemma cancel_pending_loop_entry:
  "get_entry (snd (cancel_pending_loop now pids h)) k = (case get_entry h k of
     Some e \<Rightarrow> if k \<in> set pids \<and> is_pending e
               then Some (set_status now (EntryCancelled now PrimaryCancelled) e) else Some e
   | None \<Rightarrow> None)"
proof (induction now pids h rule: cancel_pending_loop.induct)
  case (2 now pid pids h)
  have np: "\<not> is_pending (set_status now (EntryCancelled now PrimaryCancelled) e)" for e
    by (simp add: is_pending_def)
  show ?case
  proof (cases "get_entry h pid")
    case None
    with 2 show ?thesis by (auto split: option.splits)
  next
    case (Some e)
    with 2 np show ?thesis
      by (cases "is_pending e"; cases "k = pid"; cases "get_entry h k") (auto split: prod.splits)
  qed
qed (simp split: option.splits)

text \<open>
  Cancelling an entry order marks all of its untriggered exit entries cancelled and touches
  nothing else. It also marks partly triggered ones, whose orders rest at the broker, and calls no
  broker, so such an order is live and no entry tracks it.
\<close>

theorem cancellation_forgets_live_exits:
  assumes inv: "eh_inv h" and k: "k \<in> set (get_placeholders_for_primary h p)"
    and e: "get_entry h k = Some e" "ee_status e = EntryPartiallyTriggered f t aos" "ao \<in> set aos"
    and only: "\<And>k' e'. get_entry h k' = Some e' \<Longrightarrow> entry_has_order (ao_order_id ao) e' \<Longrightarrow> k' = k"
  shows "get_status (snd (handle_cancellation_internal now p h)) k = Some (EntryCancelled now PrimaryCancelled)
    \<and> find_entry_by_actual_order (snd (handle_cancellation_internal now p h)) (ao_order_id ao) = None"
proof -
  let ?h' = "snd (handle_cancellation_internal now p h)"
  have entry: "get_entry ?h' k' = (case get_entry h k' of
      Some x \<Rightarrow> if k' \<in> set (get_placeholders_for_primary h p) \<and> is_pending x
                then Some (set_status now (EntryCancelled now PrimaryCancelled) x) else Some x
    | None \<Rightarrow> None)" for k'
    by (simp add: handle_cancellation_internal_def cancel_pending_loop_entry) (simp add: get_entry_def)
  have pend: "is_pending e" using e(2) by (simp add: is_pending_def)
  have "get_status ?h' k = Some (EntryCancelled now PrimaryCancelled)"
    using entry [of k] k e pend by (simp add: get_status_def get_entry_def)
  moreover have "find_entry_by_actual_order ?h' (ao_order_id ao) = None"
    unfolding find_entry_None_iff [OF eh_inv_handle_cancellation [OF inv]]
  proof (intro allI impI notI)
    fix k' x
    assume x: "get_entry ?h' k' = Some x" and has: "entry_has_order (ao_order_id ao) x"
    have "get_entry h k' = Some x" using x has entry [of k']
      by (auto simp: entry_has_order_def split: option.splits if_splits)
    then have "k' = k" using only has by blast
    with x has entry [of k] k e(1) pend show False by (auto simp: entry_has_order_def)
  qed
  ultimately show ?thesis by blast
qed

lemma filter_keys_iff:
  assumes "eh_inv h"
  shows "k \<in> set (map fst (filter (\<lambda>p. Q (snd p)) (eh_pending h))) \<longleftrightarrow> (\<exists>e. get_entry h k = Some e \<and> Q e)"
  using assms by (force simp: eh_inv_def get_entry_def dm_get_in [symmetric])

lemma failed_info_None: "failed_info e = None \<longleftrightarrow> \<not> is_failed_status (ee_status e)"
  by (cases "ee_status e") (simp_all add: is_failed_status_def failed_info_def)

lemma length_failed_infos:
  "length (List.map_filter failed_info (map snd m)) =
     length (filter (\<lambda>p. is_failed_status (ee_status (snd p))) m)"
proof (induction m)
  case (Cons p m)
  then show ?case
    using failed_info_None [of "snd p"]
    by (cases "failed_info (snd p)") (simp_all add: List.map_filter_simps)
qed (simp add: List.map_filter_simps)

text \<open>
  Clearing failed entries removes exactly the entries in the failed state and reports how many.
\<close>

theorem clear_failed_exact:
  assumes inv: "eh_inv h" and run: "clear_failed_entries_internal h = (n, h')"
  shows "get_entry h' k = (case get_entry h k of
      Some e \<Rightarrow> if is_failed_status (ee_status e) then None else Some e | None \<Rightarrow> None)
    \<and> n = length (get_failed_entries_internal h)"
proof -
  let ?failed = "filter (\<lambda>p. is_failed_status (ee_status (snd p))) (eh_pending h)"
  note mem = filter_keys_iff [OF inv, where Q = "\<lambda>e. is_failed_status (ee_status e)"]
  have h': "get_entry h' k = (if k \<in> set (map fst ?failed) then None else get_entry h k)"
    using run by (auto simp: clear_failed_entries_internal_def Let_def remove_placeholders_entry
        split: if_splits simp del: set_map)
  have "get_entry h' k = (case get_entry h k of
      Some e \<Rightarrow> if is_failed_status (ee_status e) then None else Some e | None \<Rightarrow> None)"
    unfolding h' mem by (auto split: option.splits)
  moreover have "n = length (get_failed_entries_internal h)"
    using run by (auto simp: clear_failed_entries_internal_def Let_def get_failed_entries_internal_def
        length_failed_infos split: if_splits)
  ultimately show ?thesis by blast
qed

text \<open>
  The age cleanup removes every entry older than the time to live, whatever its state: a placed
  leg whose order still rests at the broker is dropped from the handler without any cancellation.
\<close>

theorem cleanup_drops_live_exits:
  assumes inv: "eh_inv h" and run: "cleanup_expired_entries inst h = (n, h')"
  shows "get_entry h' k = (case get_entry h k of
      Some e \<Rightarrow> if inst - ee_created_at e > hc_entry_ttl (eh_config h) then None else Some e | None \<Rightarrow> None)"
proof -
  let ?old = "filter (\<lambda>p. inst - ee_created_at (snd p) > hc_entry_ttl (eh_config h)) (eh_pending h)"
  have pid: "ee_placeholder_id e = k" if "(k, e) \<in> set (eh_pending h)" for k e
    using that inv by (auto simp: eh_inv_def dm_all_def list_all_iff entry_ok_def)
  then have ids: "map (\<lambda>p. ee_placeholder_id (snd p)) ?old = map fst ?old" by auto
  note mem = filter_keys_iff [OF inv, where Q = "\<lambda>e. inst - ee_created_at e > hc_entry_ttl (eh_config h)"]
  have h': "get_entry h' k = (if k \<in> set (map fst ?old) then None else get_entry h k)"
    using run unfolding cleanup_expired_entries_def ids
    by (auto simp: Let_def remove_placeholders_entry split: if_splits simp del: set_map)
  show ?thesis unfolding h' mem by (auto split: option.splits)
qed

end
