(* ===== verification/Gw_Exit_Replace.thy ===== *)
theory Gw_Exit_Replace
  imports Gw_Fill_Replay
begin

text \<open>
  Moving a resting exit leg to a new trigger price (\<open>exit_management/replace.rs\<close>): by the provider's
  modify where it is supported, otherwise by cancelling the order, placing a replacement and, when
  that is rejected, restoring the original.
\<close>

datatype replace_exit_leg_error =
    StillProtected gateway_error
  | Unprotected string gateway_error gateway_error

definition live_exit_leg :: "exit_handler \<Rightarrow> string \<Rightarrow> exit_leg_type \<Rightarrow> exit_entry option" where
  "live_exit_leg h position_id leg = find_map
     (\<lambda>p. let e = snd p in
        if ee_position_id e = Some position_id \<and> ee_order_type e = leg
           \<and> (case ee_status e of EntryPlaced aos \<Rightarrow> True | EntryPartiallyTriggered f t aos \<Rightarrow> True | _ \<Rightarrow> False)
           \<and> list_ex ao_is_active (actual_orders (ee_status e))
        then Some e else None) (eh_pending h)"

definition placed_count :: "exit_handler \<Rightarrow> string \<Rightarrow> nat" where
  "placed_count h pid = (case get_entry h pid of
     Some e \<Rightarrow> length (actual_orders (ee_status e)) | None \<Rightarrow> 0)"

definition modify_request :: "exit_leg_type \<Rightarrow> decimal \<Rightarrow> modify_order_request" where
  "modify_request leg trigger_price = (case leg of
     StopLoss \<Rightarrow> modify_order_request_default\<lparr>mo_stop_price := Some trigger_price\<rparr>
   | TakeProfit \<Rightarrow> modify_order_request_default\<lparr>mo_limit_price := Some trigger_price\<rparr>)"

text \<open>The first order with the given id is replaced; without one the replacement is appended.\<close>

fun replace_order :: "string \<Rightarrow> actual_order \<Rightarrow> actual_order list \<Rightarrow> actual_order list" where
  "replace_order i replacement [] = [replacement]"
| "replace_order i replacement (ao # aos) =
     (if ao_order_id ao = i then replacement # aos else ao # replace_order i replacement aos)"

definition moved_status :: "actual_order list \<Rightarrow> exit_entry_status \<Rightarrow> exit_entry_status" where
  "moved_status orders st = (case st of
     EntryPartiallyTriggered f t aos \<Rightarrow> EntryPartiallyTriggered f t orders
   | EntryFailed m n t aos \<Rightarrow> EntryFailed m n t orders
   | _ \<Rightarrow> EntryPlaced orders)"

definition moved_order :: "utc \<Rightarrow> actual_order \<Rightarrow> string \<Rightarrow> actual_order" where
  "moved_order now previous new_order_id =
     \<lparr>ao_order_id = new_order_id, ao_quantity = remaining_qty previous, ao_placed_at = now,
      ao_status = OrderOpen, ao_leg_type = ao_leg_type previous\<rparr>"

definition record_moved_leg ::
  "utc \<Rightarrow> string \<Rightarrow> actual_order \<Rightarrow> string \<Rightarrow> decimal \<Rightarrow> exit_handler \<Rightarrow> exit_handler" where
  "record_moved_leg now pid previous new_order_id trigger_price h = update_entry pid
     (\<lambda>e. increment_version now
        (e\<lparr>ee_trigger_price := trigger_price,
           ee_status := moved_status (replace_order (ao_order_id previous)
             (moved_order now previous new_order_id) (actual_orders (ee_status e))) (ee_status e)\<rparr>)) h"

definition cancel_and_replace ::
  "'w env \<Rightarrow> string \<Rightarrow> exit_entry \<Rightarrow> actual_order \<Rightarrow> decimal \<Rightarrow> exit_handler \<Rightarrow> 'w
     \<Rightarrow> (replace_exit_leg_error + string) \<times> exit_handler \<times> 'w" where
  "cancel_and_replace E pid e resting new_trigger_price h w =
     (case cancel_order E (ao_order_id resting) w of
        (Inl err, w1) \<Rightarrow> (Inl (StillProtected err), h, w1)
      | (Inr _, w1) \<Rightarrow>
          (let quantity = remaining_qty resting;
               replacement = build_exit_order_request (e\<lparr>ee_trigger_price := new_trigger_price\<rparr>) quantity
                 (placed_count h pid) (ee_position_id e)
           in case submit_order E replacement w1 of
                (Inr handle, w2) \<Rightarrow>
                  (Inr (oh_id handle),
                   record_moved_leg (utc_now E w2) pid resting (oh_id handle) new_trigger_price h, w2)
              | (Inl replace_error, w2) \<Rightarrow>
                  (let restore = build_exit_order_request e quantity (placed_count h pid) (ee_position_id e) in
                   case submit_order E restore w2 of
                     (Inr handle, w3) \<Rightarrow>
                       (Inl (StillProtected (OrderNotModifiable (ao_order_id resting)
                          (''replacement rejected ('' @ error_to_string replace_error @
                           ''); the original exit was restored''))),
                        record_moved_leg (utc_now E w3) pid resting (oh_id handle) (ee_trigger_price e) h, w3)
                   | (Inl restore_error, w3) \<Rightarrow>
                       (Inl (Unprotected (ao_order_id resting) replace_error restore_error),
                        update_entry_to_failed (utc_now E w3) pid (error_to_string restore_error) 0 h, w3))))"

definition move_resting_order ::
  "'w env \<Rightarrow> string \<Rightarrow> exit_entry \<Rightarrow> actual_order \<Rightarrow> decimal \<Rightarrow> exit_handler \<Rightarrow> 'w
     \<Rightarrow> (replace_exit_leg_error + string) \<times> exit_handler \<times> 'w" where
  "move_resting_order E pid e resting new_trigger_price h w =
     (case modify_order E (ao_order_id resting) (modify_request (ee_order_type e) new_trigger_price) w of
        (Inr result, w1) \<Rightarrow>
          (Inr (o_id (mr_order result)),
           record_moved_leg (utc_now E w1) pid resting (o_id (mr_order result)) new_trigger_price h, w1)
      | (Inl err, w1) \<Rightarrow>
          (case err of
             UnsupportedOperation operation provider \<Rightarrow>
               cancel_and_replace E pid e resting new_trigger_price h w1
           | _ \<Rightarrow> (Inl (StillProtected err), h, w1)))"

fun move_orders ::
  "'w env \<Rightarrow> string \<Rightarrow> exit_entry \<Rightarrow> actual_order list \<Rightarrow> decimal \<Rightarrow> exit_handler \<Rightarrow> 'w
     \<Rightarrow> (replace_exit_leg_error + string list) \<times> exit_handler \<times> 'w" where
  "move_orders E pid e [] price h w = (Inr [], h, w)"
| "move_orders E pid e (ao # aos) price h w =
     (case move_resting_order E pid e ao price h w of
        (Inl err, h1, w1) \<Rightarrow> (Inl err, h1, w1)
      | (Inr i, h1, w1) \<Rightarrow>
          (case move_orders E pid e aos price h1 w1 of
             (Inl err, h2, w2) \<Rightarrow> (Inl err, h2, w2)
           | (Inr ids, h2, w2) \<Rightarrow> (Inr (i # ids), h2, w2)))"

definition replace_exit_leg ::
  "'w env \<Rightarrow> string \<Rightarrow> decimal \<Rightarrow> exit_handler \<Rightarrow> 'w
     \<Rightarrow> (replace_exit_leg_error + exit_leg_placement) \<times> exit_handler \<times> 'w" where
  "replace_exit_leg E pid price h w = (case get_entry h pid of
     None \<Rightarrow> (Inl (StillProtected (OrderNotFound pid)), h, w)
   | Some e \<Rightarrow>
       (let resting = filter ao_is_active (actual_orders (ee_status e)) in
        if resting = [] then
          (Inl (StillProtected (OrderNotModifiable pid
             (leg_to_string (ee_order_type e) @ '' leg has no resting order to move''))), h, w)
        else
          (case move_orders E pid e resting price h w of
             (Inl err, h1, w1) \<Rightarrow> (Inl err, h1, w1)
           | (Inr ids, h1, w1) \<Rightarrow> (Inr \<lparr>lp_order_ids = ids, lp_trigger_price = price\<rparr>, h1, w1))))"

subsection \<open>Moves keep the invariant\<close>

lemma replace_order_set: "set (replace_order i ao aos) \<subseteq> insert ao (set aos)"
  by (induction aos) auto

lemma actual_orders_moved [simp]: "actual_orders (moved_status orders st) = orders"
  by (cases st) (simp_all add: moved_status_def)

lemma eh_inv_record_moved [gw_inv]:
  assumes inv: "eh_inv h" and fits: "\<And>e. get_entry h pid = Some e \<Longrightarrow> ao_leg_type ao = ee_order_type e"
  shows "eh_inv (record_moved_leg now pid ao i price h)"
  unfolding record_moved_leg_def
proof (rule eh_inv_update_entry [OF inv])
  fix e
  assume e: "get_entry h pid = Some e" and ok: "entry_ok pid e"
  have "\<forall>x \<in> set (replace_order (ao_order_id ao) (moved_order now ao i) (actual_orders (ee_status e))).
      ao_status x = OrderOpen \<and> ao_leg_type x = ee_order_type e"
    using replace_order_set ok fits [OF e]
    by (fastforce simp: entry_ok_def list_all_iff moved_order_def)
  then show "same_frame e (increment_version now (e\<lparr>ee_trigger_price := price,
        ee_status := moved_status (replace_order (ao_order_id ao) (moved_order now ao i)
          (actual_orders (ee_status e))) (ee_status e)\<rparr>)) \<and>
      entry_ok pid (increment_version now (e\<lparr>ee_trigger_price := price,
        ee_status := moved_status (replace_order (ao_order_id ao) (moved_order now ao i)
          (actual_orders (ee_status e))) (ee_status e)\<rparr>))"
    using ok by (simp add: same_frame_def entry_ok_def list_all_iff)
qed

lemma record_moved_frame: "fill_frame pid h (record_moved_leg now pid ao i price h)"
  unfolding record_moved_leg_def by (rule fill_frame_update) (simp add: same_frame_def)

lemma move_frame:
  "move_resting_order E pid e ao price h w = (res, h', w') \<Longrightarrow> fill_frame pid h h'"
  by (auto simp: move_resting_order_def cancel_and_replace_def Let_def record_moved_frame frame_entry_updates
      split: prod.splits sum.splits gateway_error.splits)

lemma eh_inv_move [gw_inv]:
  assumes inv: "eh_inv h" and fits: "\<And>x. get_entry h pid = Some x \<Longrightarrow> ao_leg_type ao = ee_order_type x"
  shows "eh_inv (fst (snd (move_resting_order E pid e ao price h w)))"
  using eh_inv_record_moved [OF inv fits] eh_inv_to_failed [OF inv] inv
  by (auto simp: move_resting_order_def cancel_and_replace_def Let_def
      split: prod.splits sum.splits gateway_error.splits)

lemma eh_inv_move_orders [gw_inv]:
  "eh_inv h \<Longrightarrow> (\<And>ao x. ao \<in> set aos \<Longrightarrow> get_entry h pid = Some x \<Longrightarrow> ao_leg_type ao = ee_order_type x) \<Longrightarrow>
   eh_inv (fst (snd (move_orders E pid e aos price h w)))"
proof (induction aos arbitrary: h w)
  case (Cons ao aos)
  obtain res h1 w1 where m: "move_resting_order E pid e ao price h w = (res, h1, w1)"
    by (cases "move_resting_order E pid e ao price h w")
  have inv1: "eh_inv h1"
    using eh_inv_move [OF Cons.prems(1), of pid ao E e price w] Cons.prems(2) m by auto
  have "ao_leg_type a = ee_order_type x" if "a \<in> set aos" "get_entry h1 pid = Some x" for a x
    using move_frame [OF m] that Cons.prems(2) [of a]
    by (cases "get_entry h pid") (auto simp: fill_frame_def same_frame_def)
  from Cons.IH [OF inv1 this] m inv1 show ?case
    by (auto split: sum.splits prod.splits) (metis fst_conv snd_conv)+
qed simp

lemma eh_inv_replace [gw_inv]:
  assumes inv: "eh_inv h"
  shows "eh_inv (fst (snd (replace_exit_leg E pid price h w)))"
proof (cases "get_entry h pid")
  case None
  then show ?thesis using inv by (simp add: replace_exit_leg_def)
next
  case (Some e)
  have "entry_ok pid e"
    using inv Some store_inv_entry by (metis eh_inv_iff get_entry_def)
  then have "eh_inv (fst (snd (move_orders E pid e (filter ao_is_active (actual_orders (ee_status e))) price h w)))"
    using Some by (intro eh_inv_move_orders [OF inv]) (auto simp: entry_ok_def list_all_iff)
  then show ?thesis
    using Some inv by (auto simp: replace_exit_leg_def Let_def split: sum.splits prod.splits)
qed

subsection \<open>What a move does\<close>

lemma move_ok:
  "move_resting_order E pid e ao price h w = (Inr i, h', w') \<Longrightarrow>
   \<exists>now. h' = record_moved_leg now pid ao i price h"
  by (auto simp: move_resting_order_def cancel_and_replace_def Let_def
      split: prod.splits sum.splits gateway_error.splits)

lemma replace_order_here:
  "(\<And>x. x \<in> set xs \<Longrightarrow> ao_order_id x \<noteq> ao_order_id ao) \<Longrightarrow>
   replace_order (ao_order_id ao) new (xs @ ao # ys) = xs @ new # ys"
  by (induction xs) auto

text \<open>
  \<open>done\<close> are the orders of the entry that were moved already, \<open>todo\<close> those still to be moved; a
  broker's new order id is the old one or one that the leg does not use.
\<close>

lemma move_orders_spec:
  "move_orders E pid e todo price h w = (Inr ids, h', w') \<Longrightarrow> get_entry h pid = Some x \<Longrightarrow>
   actual_orders (ee_status x) = moved @ todo \<Longrightarrow> distinct (map ao_order_id todo) \<Longrightarrow>
   set (map ao_order_id todo) \<subseteq> S \<Longrightarrow> (\<forall>a \<in> set moved. \<forall>b \<in> set todo. ao_order_id a \<noteq> ao_order_id b) \<Longrightarrow>
   list_all2 (\<lambda>i ao. i = ao_order_id ao \<or> i \<notin> S) ids todo \<Longrightarrow>
   \<exists>x'. get_entry h' pid = Some x' \<and> same_frame x x'
     \<and> map ao_order_id (actual_orders (ee_status x')) = map ao_order_id moved @ ids
     \<and> map ao_quantity (actual_orders (ee_status x')) = map ao_quantity moved @ map remaining_qty todo
     \<and> (todo \<noteq> [] \<longrightarrow> ee_trigger_price x' = price)"
proof (induction todo arbitrary: h w ids x moved)
  case Nil
  then show ?case by auto
next
  case (Cons ao todo)
  obtain i h1 w1 ids1 where m: "move_resting_order E pid e ao price h w = (Inr i, h1, w1)"
    and rest: "move_orders E pid e todo price h1 w1 = (Inr ids1, h', w')" and ids: "ids = i # ids1"
    using Cons.prems(1) by (auto split: prod.splits sum.splits)
  obtain now where h1: "h1 = record_moved_leg now pid ao i price h" using move_ok [OF m] by blast
  define x1 where "x1 = increment_version now (x\<lparr>ee_trigger_price := price, ee_status :=
    moved_status (moved @ moved_order now ao i # todo) (ee_status x)\<rparr>)"
  have x1: "get_entry h1 pid = Some x1"
    using Cons.prems(2,3,6) replace_order_here [of moved ao "moved_order now ao i" todo]
    by (simp add: h1 record_moved_leg_def x1_def)
  have "i = ao_order_id ao \<or> i \<notin> S" using Cons.prems(7) ids by simp
  then have i: "\<forall>b \<in> set todo. i \<noteq> ao_order_id b" using Cons.prems(4,5) by (auto intro: rev_image_eqI)
  have "\<exists>x'. get_entry h' pid = Some x' \<and> same_frame x1 x'
     \<and> map ao_order_id (actual_orders (ee_status x')) = map ao_order_id (moved @ [moved_order now ao i]) @ ids1
     \<and> map ao_quantity (actual_orders (ee_status x')) =
         map ao_quantity (moved @ [moved_order now ao i]) @ map remaining_qty todo
     \<and> (todo \<noteq> [] \<longrightarrow> ee_trigger_price x' = price)"
    using Cons.prems(4,5,6,7) i ids
    by (intro Cons.IH [OF rest x1]) (auto simp: x1_def moved_order_def)
  then obtain x' where x': "get_entry h' pid = Some x'" "same_frame x1 x'"
    "map ao_order_id (actual_orders (ee_status x')) = map ao_order_id (moved @ [moved_order now ao i]) @ ids1"
    "map ao_quantity (actual_orders (ee_status x')) =
       map ao_quantity (moved @ [moved_order now ao i]) @ map remaining_qty todo"
    "todo \<noteq> [] \<longrightarrow> ee_trigger_price x' = price" by blast
  have "ee_trigger_price x' = price"
  proof (cases "todo = []")
    case True
    then have "h' = h1" using rest by simp
    then show ?thesis using x'(1) x1 by (auto simp: x1_def)
  qed (use x'(5) in simp)
  moreover have "same_frame x x1" by (simp add: x1_def same_frame_def)
  ultimately show ?case
    using x' ids same_frame_trans by (auto simp: moved_order_def)
qed


text \<open>The failures of a move of a leg with a single order.\<close>

lemma move_failed:
  assumes "move_resting_order E pid e ao price h w = (Inl (StillProtected err), h', w')"
  shows "h' = h \<or> (\<exists>now i. h' = record_moved_leg now pid ao i (ee_trigger_price e) h)"
  using assms by (auto simp: move_resting_order_def cancel_and_replace_def Let_def
      split: prod.splits sum.splits gateway_error.splits)

text \<open>
  When moving a leg that rests as one order fails and is reported as still protected, the leg
  keeps its trigger price and covers the same quantity as before.
\<close>

theorem failed_move_keeps_single_order_leg:
  assumes inv: "eh_inv h" and e: "get_entry h pid = Some e" "actual_orders (ee_status e) = [ao]"
    and fail: "replace_exit_leg E pid price h w = (Inl (StillProtected err), h', w')"
  shows "\<exists>e'. get_entry h' pid = Some e' \<and> ee_trigger_price e' = ee_trigger_price e
    \<and> leg_coverage h' pid = leg_coverage h pid"
proof -
  have "entry_ok pid e" using inv e store_inv_entry by (metis eh_inv_iff get_entry_def)
  then have ao: "ao_status ao = OrderOpen" "ao_leg_type ao = ee_order_type e"
    using e(2) by (simp_all add: entry_ok_def)
  then have "move_resting_order E pid e ao price h w = (Inl (StillProtected err), h', w')"
    using fail e by (auto simp: replace_exit_leg_def ao_is_active_def split: prod.splits sum.splits)
  from move_failed [OF this] show ?thesis
  proof
    assume "h' = h"
    then show ?thesis using e by simp
  next
    assume "\<exists>now i. h' = record_moved_leg now pid ao i (ee_trigger_price e) h"
    then obtain now i where "h' = record_moved_leg now pid ao i (ee_trigger_price e) h" by blast
    then show ?thesis
      using e ao by (simp add: record_moved_leg_def leg_coverage_def moved_order_def
          calculate_active_coverage_def ao_is_active_def remaining_qty_def)
  qed
qed

subsection \<open>Where a move falls short\<close>

definition is_unsupported :: "gateway_error \<Rightarrow> bool" where
  "is_unsupported err = (case err of UnsupportedOperation operation provider \<Rightarrow> True | _ \<Rightarrow> False)"

text \<open>
  A failed move of a leg that rests as several orders can leave it half moved: when the broker
  modifies the first order and refuses the second, the call fails as still protected, but the entry
  records the new trigger price while its second order still rests at the old one.
\<close>

theorem failed_move_can_be_partial:
  assumes inv: "eh_inv h" and e: "get_entry h pid = Some e" "actual_orders (ee_status e) = [a1, a2]"
    and ids: "ao_order_id a1 \<noteq> ao_order_id a2"
    and first: "modify_order E (ao_order_id a1) (modify_request (ee_order_type e) price) w = (Inr result, w1)"
    and second: "modify_order E (ao_order_id a2) (modify_request (ee_order_type e) price) w1 = (Inl err, w2)"
      "\<not> is_unsupported err"
  shows "\<exists>h' e' a1'. replace_exit_leg E pid price h w = (Inl (StillProtected err), h', w2)
    \<and> get_entry h' pid = Some e' \<and> ee_trigger_price e' = price
    \<and> actual_orders (ee_status e') = [a1', a2]"
proof -
  have "entry_ok pid e" using inv e store_inv_entry by (metis eh_inv_iff get_entry_def)
  then have act: "ao_is_active a1" "ao_is_active a2" using e(2) by (simp_all add: entry_ok_def ao_is_active_def)
  have "move_resting_order E pid e a2 price g w1 = (Inl (StillProtected err), g, w2)" for g
    using second by (cases err) (simp_all add: move_resting_order_def is_unsupported_def)
  then show ?thesis
    using e act first ids by (simp add: replace_exit_leg_def move_resting_order_def [of E pid e a1] record_moved_leg_def)
qed

definition modify_unsupported :: "'w env \<Rightarrow> bool" where
  "modify_unsupported E = (\<forall>i m w. \<exists>operation provider w'.
     modify_order E i m w = (Inl (UnsupportedOperation operation provider), w'))"

lemma move_unsupported:
  assumes "modify_unsupported E"
  shows "\<exists>w1. move_resting_order E pid e ao price h w = cancel_and_replace E pid e ao price h w1"
proof -
  have "\<exists>operation provider w'. modify_order E (ao_order_id ao) (modify_request (ee_order_type e) price) w =
      (Inl (UnsupportedOperation operation provider), w')"
    using assms by (simp add: modify_unsupported_def)
  then show ?thesis by (auto simp: move_resting_order_def)
qed

text \<open>
  When neither the replacement nor the restored original is accepted, the leg is reported as
  unprotected and its entry as failed, and the failure report lists the cancelled order among the
  orders that are still live at the provider.
\<close>

theorem unprotected_leg_lists_cancelled_order:
  assumes inv: "eh_inv h" and e: "get_entry h pid = Some e" "ee_status e = EntryPlaced [ao]"
    and env: "modify_unsupported E" "cancels_accepted E" "\<And>r w. \<exists>err w'. submit_order E r w = (Inl err, w')"
  shows "\<exists>h' w' err1 err2 info. replace_exit_leg E pid price h w =
      (Inl (Unprotected (ao_order_id ao) err1 err2), h', w')
    \<and> info \<in> set (get_failed_entries_internal h') \<and> ao_order_id ao \<in> set (fi_actual_order_ids info)"
proof -
  have "entry_ok pid e" using inv e store_inv_entry by (metis eh_inv_iff get_entry_def)
  then have act: "ao_is_active ao" using e(2) by (simp add: entry_ok_def ao_is_active_def)
  obtain w1 where m: "move_resting_order E pid e ao price h w = cancel_and_replace E pid e ao price h w1"
    using move_unsupported [OF env(1)] by blast
  obtain r w2 where c: "cancel_order E (ao_order_id ao) w1 = (Inr r, w2)"
    using env(2) unfolding cancels_accepted_def by blast
  obtain err1 w3 where s1: "submit_order E (build_exit_order_request (e\<lparr>ee_trigger_price := price\<rparr>)
      (remaining_qty ao) (placed_count h pid) (ee_position_id e)) w2 = (Inl err1, w3)" using env(3) by blast
  obtain err2 w4 where s2: "submit_order E (build_exit_order_request e (remaining_qty ao)
      (placed_count h pid) (ee_position_id e)) w3 = (Inl err2, w4)" using env(3) by blast
  let ?h' = "update_entry_to_failed (utc_now E w4) pid (error_to_string err2) 0 h"
  have run: "replace_exit_leg E pid price h w = (Inl (Unprotected (ao_order_id ao) err1 err2), ?h', w4)"
    using e act m c s1 s2 by (simp add: replace_exit_leg_def cancel_and_replace_def)
  define x where "x = set_status (utc_now E w4) (EntryFailed (error_to_string err2) 0 (utc_now E w4) [ao]) e"
  have "get_entry ?h' pid = Some x"
    using e by (simp add: update_entry_to_failed_def failed_status_def x_def)
  then have "(pid, x) \<in> set (eh_pending ?h')"
    by (simp add: get_entry_def dm_get_SomeD)
  then have "the (failed_info x) \<in> set (get_failed_entries_internal ?h')"
    by (force simp: get_failed_entries_internal_def List.map_filter_def failed_info_def x_def image_iff)
  moreover have "ao_order_id ao \<in> set (fi_actual_order_ids (the (failed_info x)))"
    by (simp add: failed_info_def x_def)
  ultimately show ?thesis using run by blast
qed

end
