(* ===== verification/Gw_Exit_System.thy ===== *)
theory Gw_Exit_System
  imports Gw_Exit_Cancel Gw_Exit_Replace
begin

text \<open>
  The exit handler as a transition system: one step per operation the gateway calls on it, in any
  order and with any arguments, beside a broker whose world changes as the calls go. Registration
  is for an order id that has no entries yet, as order ids and backup ids are fresh.
\<close>

inductive exit_step :: "'w env \<Rightarrow> exit_handler \<times> 'w \<Rightarrow> exit_handler \<times> 'w \<Rightarrow> bool" for E where
  step_register: "register_fresh h p \<Longrightarrow>
    exit_step E (h, w) (snd (register (dec_to_string E) inst now p r h), w)"
| step_register_preemptive: "register_fresh h (''backup:'' @ uuid) \<Longrightarrow>
    exit_step E (h, w) (snd (register_preemptive (dec_to_string E) inst now uuid r h), w)"
| step_activate_backup: "exit_step E (h, w) (snd (activate_backup b p h), w)"
| step_cancel_backup: "exit_step E (h, w) (snd (cancel_backup now b h), w)"
| step_fill: "exit_step E (h, w) (snd (handle_fill_internal E p f t pq posid h w))"
| step_replay: "exit_step E (h, w) (snd (process_buffered_fill E p h w))"
| step_cancel_entry: "exit_step E (h, w) (snd (cancel_entry now pid h), w)"
| step_cancellation: "exit_step E (h, w) (snd (handle_cancellation_internal now p h), w)"
| step_position_close: "exit_step E (h, w) (snd (cancel_for_position_close_internal E symbol h w))"
| step_move: "exit_step E (h, w) (snd (replace_exit_leg E pid price h w))"
| step_clear_failed: "exit_step E (h, w) (snd (clear_failed_entries_internal h), w)"
| step_cleanup: "exit_step E (h, w) (snd (cleanup_expired_entries inst h), w)"
| step_reset_breaker: "exit_step E (h, w) (snd (reset_circuit_breaker inst h), w)"
| step_world: "exit_step E (h, w) (h, w')"

definition exit_start :: "exit_handler \<times> 'w \<Rightarrow> bool" where
  "exit_start s = (\<exists>platform config. fst s = exit_handler_new platform config)"

lemma exit_step_inv: "exit_step E s s' \<Longrightarrow> eh_inv (fst s) \<Longrightarrow> eh_inv (fst s')"
  by (induction rule: exit_step.induct) (simp_all add: gw_inv)

interpretation exits: invariant_system exit_start "exit_step E" "\<lambda>s. eh_inv (fst s)"
  for E :: "'w env"
  by unfold_locales (auto simp: exit_start_def intro: exit_step_inv)

text \<open>What the invariant says to a client of the handler.\<close>

lemma eh_inv_indexed:
  assumes "eh_inv h" "k \<in> set (get_placeholders_for_primary h p)"
  shows "\<exists>e. get_entry h k = Some e \<and> ee_primary_order_id e = p"
proof -
  obtain ids where ids: "dm_get (eh_primary h) p = Some ids" "k \<in> set ids"
    using assms(2) by (cases "dm_get (eh_primary h) p") (auto simp: get_placeholders_for_primary_def)
  then have "index_ok (dm_get (eh_pending h)) p ids"
    using assms(1) by (simp add: eh_inv_iff store_inv_def)
  then show ?thesis
    using ids by (auto simp: index_ok_def list_all_iff get_entry_def split: option.splits)
qed

lemma eh_inv_siblings:
  assumes "eh_inv h" "get_entry h k = Some e" "ee_sibling_id e = Some s" "get_entry h s = Some e'"
  shows "ee_sibling_id e' = Some k \<and> ee_primary_order_id e' = ee_primary_order_id e
    \<and> ee_order_type e' = other_leg (ee_order_type e)"
proof -
  have "sibling_ok (dm_get (eh_pending h)) (dm_get (eh_primary h)) k e" "entry_ok k e" "entry_ok s e'"
    using assms by (auto simp: eh_inv_iff store_inv_def get_entry_def)
  then show ?thesis
    using assms by (auto simp: sibling_ok_def get_entry_def entry_ok_def counterpart_def
        split: option.splits prod.splits)
qed

text \<open>
  C1: However the operations of the exit handler are interleaved, every indexed placeholder has an
  entry of the indexing order, sibling entries point at each other, belong to the same order and
  are its two different legs, every recorded order is resting and of the entry's leg, and the
  buffer of unmatched fills stays within its bound.
\<close>

theorem exit_store_consistent:
  assumes "reachable exit_start (exit_step E) (h, w)"
  shows "(\<forall>p k. k \<in> set (get_placeholders_for_primary h p) \<longrightarrow>
        (\<exists>e. get_entry h k = Some e \<and> ee_primary_order_id e = p))
    \<and> (\<forall>k e s e'. get_entry h k = Some e \<longrightarrow> ee_sibling_id e = Some s \<longrightarrow> get_entry h s = Some e' \<longrightarrow>
        ee_sibling_id e' = Some k \<and> ee_primary_order_id e' = ee_primary_order_id e
        \<and> ee_order_type e' = other_leg (ee_order_type e))
    \<and> (\<forall>k e ao. get_entry h k = Some e \<longrightarrow> ao \<in> set (actual_orders (ee_status e)) \<longrightarrow>
        ao_is_active ao \<and> ao_leg_type ao = ee_order_type e)
    \<and> length (eh_unmatched h) \<le> max_unmatched_fills"
proof -
  have inv: "eh_inv h" using exits.reachable_inv [OF assms] by simp
  then have "ao_is_active ao \<and> ao_leg_type ao = ee_order_type e"
    if "get_entry h k = Some e" "ao \<in> set (actual_orders (ee_status e))" for k e ao
    using that by (auto simp: eh_inv_iff store_inv_def entry_ok_def list_all_iff get_entry_def ao_is_active_def)
  moreover have "length (eh_unmatched h) \<le> max_unmatched_fills" using inv by (simp add: eh_inv_def)
  ultimately show ?thesis
    using eh_inv_indexed [OF inv] eh_inv_siblings [OF inv] by blast
qed

end
