(* ===== verification/Gw_Demo_Broker.thy ===== *)
theory Gw_Demo_Broker
  imports Gw_Adapter "HOL-Library.Code_Target_Nat"
begin

text \<open>
  Concrete brokers on which the properties are evaluated. The world of the demo broker is the list
  of orders submitted so far: the id of an order says its position in that list, its lookup reports
  the submitted quantity, and the clocks read the list's length.
\<close>

definition demo_order :: "string \<Rightarrow> decimal \<Rightarrow> order" where
  "demo_order i q =
     \<lparr>o_id = i, o_client_order_id = None, o_symbol = ''E'', o_side = Sell, o_order_type = Stop,
      o_quantity = q, o_filled_quantity = 0, o_remaining_quantity = q, o_limit_price = None,
      o_stop_price = None, o_stop_loss = None, o_take_profit = None, o_trailing_distance = None,
      o_trailing_type = None, o_average_fill_price = None, o_status = Open,
      o_reject_reason = None, o_position_id = None, o_parent_order_id = None, o_reduce_only = None,
      o_post_only = None, o_hidden = None, o_display_quantity = None, o_oco_group_id = None,
      o_correlation_id = None, o_time_in_force = Gtc, o_created_at = 0, o_updated_at = 0\<rparr>"

definition demo_handle :: "string \<Rightarrow> order_handle" where
  "demo_handle i = \<lparr>oh_id = i, oh_client_order_id = None, oh_correlation_id = None, oh_status = Open\<rparr>"

definition demo_id :: "nat \<Rightarrow> string" where
  "demo_id n = replicate n CHR ''i'' @ ''o''"

definition demo_env :: "order_request list env" where
  "demo_env =
     \<lparr>submit_order = (\<lambda>r w. (Inr (demo_handle (demo_id (length w))), w @ [r])),
      get_order = (\<lambda>i w. if length i \<le> length w
        then (Inr (demo_order i (or_quantity (w ! (length i - 1)))), w) else (Inl (OrderNotFound i), w)),
      get_orders = (\<lambda>q w. (Inr [], w)),
      modify_order = (\<lambda>i m w. (Inr \<lparr>mr_order = demo_order i 1, mr_previous_order_id = None\<rparr>, w)),
      cancel_order = (\<lambda>i w. (Inr \<lparr>cr_success = True, cr_order = demo_order i 1\<rparr>, w)),
      get_positions = (\<lambda>s w. (Inr [], w)),
      close_position_all = (\<lambda>i w. (Inl (PositionNotFound i), w)),
      utc_now = length, instant_now = length, sleep = (\<lambda>d w. w),
      dec_to_string = (\<lambda>d. ''d''), dec_from_str = (\<lambda>s. None), status_debug = (\<lambda>s. ''s'')\<rparr>"

text \<open>Brokers that refuse: every cancellation, every modification, or every submission.\<close>

definition demo_no_cancel :: "order_request list env" where
  "demo_no_cancel = demo_env\<lparr>cancel_order := (\<lambda>i w. (Inl (OrderNotModifiable i ''filled''), w))\<rparr>"

definition demo_no_modify :: "order_request list env" where
  "demo_no_modify = demo_env\<lparr>modify_order := (\<lambda>i m w. (Inl (OrderNotModifiable i ''busy''), w))\<rparr>"

definition demo_modify_first :: "order_request list env" where
  "demo_modify_first = demo_env\<lparr>modify_order := (\<lambda>i m w. if i = ''o''
     then (Inr \<lparr>mr_order = demo_order i 1, mr_previous_order_id = None\<rparr>, w)
     else (Inl (OrderNotModifiable i ''busy''), w))\<rparr>"

definition demo_no_submit :: "order_request list env" where
  "demo_no_submit = demo_env\<lparr>
     submit_order := (\<lambda>r w. (Inl (OrderRejected ''margin'' None None), w)),
     modify_order := (\<lambda>i m w. (Inl (UnsupportedOperation ''modify'' ''demo''), w))\<rparr>"

end
