(* ===== verification/Gw_Exit_Demo.thy ===== *)
theory Gw_Exit_Demo
  imports Gw_Fill_Replay Gw_Exit_System Gw_Demo_Broker
begin

text \<open>
  Concrete states of the exit handler, and the exit properties evaluated on them.
\<close>

text \<open>A new handler, one with both legs registered for order \<open>p\<close>, and what fills make of it.\<close>

definition demo_request :: order_request where
  "demo_request = with_take_profit (with_stop_loss (order_market ''E'' Buy 2) 90) 110"

definition demo_new :: exit_handler where
  "demo_new = exit_handler_new BinanceSpotLive exit_handler_config_default"

abbreviation demo_dts :: "decimal \<Rightarrow> string" where
  "demo_dts \<equiv> (\<lambda>d. ''d'')"

definition demo_registered :: exit_handler where
  "demo_registered = snd (register demo_dts 0 0 ''p'' demo_request demo_new)"

definition demo_fill :: "order_request list env \<Rightarrow> decimal \<Rightarrow> exit_handler \<times> order_request list
    \<Rightarrow> exit_handler \<times> order_request list" where
  "demo_fill E f hw = snd (handle_fill_internal E ''p'' f 2 None None (fst hw) (snd hw))"

definition demo_placed :: exit_handler where
  "demo_placed = fst (demo_fill demo_env 2 (demo_registered, []))"

definition demo_partial :: exit_handler where
  "demo_partial = fst (demo_fill demo_env 1 (demo_registered, []))"

definition demo_split :: exit_handler where
  "demo_split = fst (demo_fill demo_env 2 (demo_fill demo_env 1 (demo_registered, [])))"

definition demo_failed :: exit_handler where
  "demo_failed = fst (demo_fill demo_no_submit 2 (demo_registered, []))"

text \<open>The same states spelled out, as code equations for the evaluations below.\<close>

definition demo_entry :: "exit_leg_type \<Rightarrow> decimal \<Rightarrow> exit_leg_type \<Rightarrow> exit_entry_status \<Rightarrow> utc option
    \<Rightarrow> decimal option \<Rightarrow> nat \<Rightarrow> string \<times> exit_entry" where
  "demo_entry leg price other st upd attempt version = (leg_prefix leg @ ''p'',
     \<lparr>ee_placeholder_id = leg_prefix leg @ ''p'', ee_primary_order_id = ''p'', ee_position_id = None,
      ee_parent_client_order_id = None, ee_order_type = leg, ee_symbol = ''E'', ee_side = Sell,
      ee_trigger_price = price, ee_limit_price = None, ee_quantity = 2, ee_original_quantity = 2,
      ee_status = st, ee_created_at = 0, ee_created_at_utc = 0, ee_updated_at = upd,
      ee_platform = BinanceSpotLive, ee_sibling_id = Some (leg_prefix other @ ''p''),
      ee_last_attempted_fill_qty = attempt, ee_version = version\<rparr>)"

definition demo_resting :: "exit_leg_type \<Rightarrow> string \<Rightarrow> decimal \<Rightarrow> utc \<Rightarrow> actual_order" where
  "demo_resting leg i q placed = \<lparr>ao_order_id = i, ao_quantity = q, ao_placed_at = placed,
     ao_status = OrderOpen, ao_leg_type = leg\<rparr>"

definition demo_state :: "(exit_leg_type \<Rightarrow> exit_entry_status) \<Rightarrow> (exit_leg_type \<Rightarrow> utc option)
    \<Rightarrow> decimal option \<Rightarrow> nat \<Rightarrow> instant list \<Rightarrow> exit_handler" where
  "demo_state st upd attempt version failures = demo_new\<lparr>
     eh_pending := [demo_entry StopLoss 90 TakeProfit (st StopLoss) (upd StopLoss) attempt version,
                    demo_entry TakeProfit 110 StopLoss (st TakeProfit) (upd TakeProfit) attempt version],
     eh_primary := [(''p'', [''exit:sl:p'', ''exit:tp:p''])],
     eh_breaker := (eh_breaker demo_new)\<lparr>eb_recent_failures := failures\<rparr>\<rparr>"

lemma demo_registered_code [code]:
  "demo_registered = demo_state (\<lambda>leg. EntryPending) (\<lambda>leg. None) None 0 []"
  by code_simp

lemma demo_placed_code [code]:
  "demo_placed = demo_state
     (case_exit_leg_type (EntryPlaced [demo_resting StopLoss ''o'' 2 1]) (EntryPlaced [demo_resting TakeProfit ''io'' 2 2]))
     (case_exit_leg_type (Some 1) (Some 2)) (Some 2) 0 []"
  by code_simp

lemma demo_partial_code [code]:
  "demo_partial = demo_state
     (case_exit_leg_type (EntryPartiallyTriggered 1 2 [demo_resting StopLoss ''o'' 1 1])
        (EntryPartiallyTriggered 1 2 [demo_resting TakeProfit ''io'' 1 2]))
     (case_exit_leg_type (Some 1) (Some 2)) (Some 1) 0 []"
  by code_simp

lemma demo_split_code [code]:
  "demo_split = demo_state
     (case_exit_leg_type
        (EntryPlaced [demo_resting StopLoss ''o'' 1 1, demo_resting StopLoss ''iio'' 1 3])
        (EntryPlaced [demo_resting TakeProfit ''io'' 1 2, demo_resting TakeProfit ''iiio'' 1 4]))
     (case_exit_leg_type (Some 3) (Some 4)) (Some 2) 0 []"
  by code_simp

lemma demo_failed_code [code]:
  "demo_failed = demo_state (\<lambda>leg. EntryFailed ''Order rejected: margin'' 4 0 []) (\<lambda>leg. Some 0) (Some 2) 1 [0, 0]"
  by code_simp

lemma demo_inv:
  "eh_inv demo_registered" "eh_inv demo_placed" "eh_inv demo_partial" "eh_inv demo_split" "eh_inv demo_failed"
  by code_simp+

lemma demo_reports: "reports_quantity demo_env"
  by (auto simp: reports_quantity_def demo_env_def demo_handle_def demo_id_def demo_order_def split: if_splits)

lemma demo_accepting: "accepting demo_env"
  by (simp add: accepting_def demo_env_def)

lemma demo_cancels: "cancels_accepted demo_env" "cancels_accepted demo_no_submit" "cancels_rejected demo_no_cancel"
  by (simp_all add: cancels_accepted_def cancels_rejected_def demo_env_def demo_no_submit_def demo_no_cancel_def)

lemma get_entry_all:
  "list_all (\<lambda>p. P (fst p) (snd p)) (eh_pending h) \<Longrightarrow> get_entry h k = Some e \<Longrightarrow> P k e"
  by (auto simp: get_entry_def list_all_iff dest!: dm_get_SomeD)

lemma collapse2: "x = (fst x, snd x)" and collapse3: "y = (fst y, fst (snd y), snd (snd y))"
  and collapse4: "z = (fst z, fst (snd z), fst (snd (snd z)), snd (snd (snd z)))"
  by simp_all

lemma demo_register: "register demo_dts 0 0 ''p'' demo_request demo_new =
    (Inr \<lparr>rl_stop_loss_id = Some ''exit:sl:p'', rl_take_profit_id = Some ''exit:tp:p''\<rparr>, demo_registered)"
  by code_simp

subsection \<open>The properties on the demo states\<close>

theorem repeated_fill_is_noop_witness:
  "\<exists>rs'. handle_fill_internal demo_no_submit ''p'' 1 2 None None demo_placed [] = (rs', demo_placed, [])
    \<and> (\<forall>r \<in> set rs'. \<not> pr_is_success r)"
proof -
  have reg: "get_placeholders_for_primary demo_registered ''p'' \<noteq> []" by code_simp
  show ?thesis unfolding demo_placed_def demo_fill_def fst_conv snd_conv
    by (rule repeated_fill_is_noop [OF reg collapse3]) simp_all
qed


theorem fills_are_covered_witness:
  "leg_coverage (fst (fill_run demo_env ''exit:sl:p'' [1] 2 None demo_registered [])) ''exit:sl:p'' = 1
    \<and> leg_coverage (fst (fill_run demo_env ''exit:sl:p'' [1, 2] 2 None demo_registered [])) ''exit:sl:p'' = 2"
proof -
  have t: "tracks demo_registered ''exit:sl:p'' 0" by code_simp
  have m: "hc_min_exit_order_qty (eh_config demo_registered) = 1 / 1000" by code_simp
  from fills_are_covered [OF demo_accepting demo_reports t, of "[1]" 2 None "[]"] m show ?thesis by simp
qed

theorem registered_exits_are_valid_witness:
  "validate_semantics demo_dts
      (build_exit_order_request (the (get_entry demo_registered ''exit:sl:p'')) 2 0 None) = Inr ()
    \<and> or_side (build_exit_order_request (the (get_entry demo_registered ''exit:sl:p'')) 2 0 None) = Sell"
proof -
  have e: "get_entry demo_registered (generate_placeholder_id StopLoss ''p'') =
      Some (the (get_entry demo_registered ''exit:sl:p''))" by code_simp
  have price: "(case StopLoss of StopLoss \<Rightarrow> or_stop_loss demo_request | TakeProfit \<Rightarrow> or_take_profit demo_request)
      = Some 90" and side: "opposite_side (or_side demo_request) = Sell" by code_simp+
  from registered_exits_are_valid [OF demo_register e price, of demo_dts 2 0 None] side show ?thesis by simp
qed

theorem exit_client_order_id_unique_witness:
  "ee_order_type (the (get_entry demo_registered ''exit:sl:p'')) =
   ee_order_type (the (get_entry demo_placed ''exit:sl:p''))"
proof -
  have "exit_id_seed (the (get_entry demo_registered ''exit:sl:p'')) =
      exit_id_seed (the (get_entry demo_placed ''exit:sl:p''))"
    "exit_client_order_id (the (get_entry demo_registered ''exit:sl:p'')) 1 =
      exit_client_order_id (the (get_entry demo_placed ''exit:sl:p'')) 1" by code_simp+
  from exit_client_order_id_unique [OF this] show ?thesis by simp
qed

theorem early_fill_is_replayed_witness:
  "\<exists>g1 g2 g3. handle_fill_internal demo_env ''p'' 2 2 None None demo_new [] = ([], g1, [])
    \<and> snd (register demo_dts 0 0 ''p'' demo_request g1) = g2
    \<and> snd (process_buffered_fill demo_env ''p'' g2 []) = (g3, snd (demo_fill demo_env 2 (demo_registered, [])))
    \<and> g3 = demo_placed\<lparr>eh_unmatched := eh_unmatched g3\<rparr>"
proof -
  have none: "get_placeholders_for_primary demo_new ''p'' = []" "find_entry_by_actual_order demo_new ''p'' = None"
    by code_simp+
  have run: "handle_fill_internal demo_env ''p'' 2 2 None None demo_registered [] =
      (fst (handle_fill_internal demo_env ''p'' 2 2 None None demo_registered []), demo_placed,
       snd (demo_fill demo_env 2 (demo_registered, [])))"
    by (simp add: demo_placed_def demo_fill_def)
  from early_fill_is_replayed [OF none _ _ demo_register _ run] show ?thesis
    by (auto simp: has_any_def)
qed

theorem racing_fill_processed_once_witness:
  "\<exists>u rs. handle_fill_with (\<lambda>g. snd (register demo_dts 0 0 ''p'' demo_request g)) demo_env ''p'' 2 2 None None
       demo_new [] = (rs, demo_placed\<lparr>eh_unmatched := u\<rparr>, snd (demo_fill demo_env 2 (demo_registered, [])))
    \<and> rs \<noteq> []"
proof -
  have none: "get_placeholders_for_primary demo_new ''p'' = []" "find_entry_by_actual_order demo_new ''p'' = None"
    and inv: "eh_inv demo_new" "register_fresh demo_new ''p''"
    and placed: "fst (handle_fill_internal demo_env ''p'' 2 2 None None demo_registered []) \<noteq> []"
    by code_simp+
  have run: "handle_fill_internal demo_env ''p'' 2 2 None None demo_registered [] =
      (fst (handle_fill_internal demo_env ''p'' 2 2 None None demo_registered []), demo_placed,
       snd (demo_fill demo_env 2 (demo_registered, [])))"
    by (simp add: demo_placed_def demo_fill_def)
  from racing_fill_processed_once [OF inv none _ _ demo_register _ run] placed show ?thesis
    by (auto simp: has_any_def)
qed

lemma demo_find:
  "find_entry_by_actual_order demo_placed ''o'' = Some (''exit:sl:p'', Some ''exit:tp:p'', ''p'')"
  "find_entry_by_actual_order demo_split ''o'' = Some (''exit:sl:p'', Some ''exit:tp:p'', ''p'')"
  by code_simp+

theorem filled_leg_resolves_pair_witness:
  "\<exists>h' w'. handle_fill_internal (traced demo_env) ''o'' 2 2 None None demo_placed ([], []) =
       ([], h', w', [CallCancel ''io''])
    \<and> get_entry h' ''exit:sl:p'' = None \<and> get_entry h' ''exit:tp:p'' = None"
proof -
  have sib: "get_entry demo_placed ''exit:tp:p'' = Some (the (get_entry demo_placed ''exit:tp:p''))"
    and none: "get_placeholders_for_primary demo_placed ''o'' = []"
    and calls: "map (\<lambda>ao. CallCancel (ao_order_id ao)) (filter ao_is_active
      (actual_orders (ee_status (the (get_entry demo_placed ''exit:tp:p''))))) = [CallCancel ''io'']"
    by code_simp+
  from filled_leg_resolves_pair [OF demo_inv(2) demo_find(1) sib none _ _ demo_cancels(1), of 2 2 None None "[]"] calls
  show ?thesis by auto
qed

theorem filled_order_drops_rest_of_leg_witness:
  "\<exists>h' w' tr. handle_fill_internal (traced demo_env) ''o'' 1 1 None None demo_split ([], []) = ([], h', w', tr)
    \<and> CallCancel ''iio'' \<notin> set tr \<and> find_entry_by_actual_order h' ''iio'' = None
    \<and> find_entry_by_actual_order demo_split ''iio'' = Some (''exit:sl:p'', Some ''exit:tp:p'', ''p'')"
proof -
  have sib: "get_entry demo_split ''exit:tp:p'' = Some (the (get_entry demo_split ''exit:tp:p''))"
    and none: "get_placeholders_for_primary demo_split ''o'' = []"
    and others: "list_all (\<lambda>p. fst p \<noteq> ''exit:sl:p'' \<longrightarrow> \<not> entry_has_order ''iio'' (snd p)) (eh_pending demo_split)"
    and rest: "find_entry_by_actual_order demo_split ''iio'' = Some (''exit:sl:p'', Some ''exit:tp:p'', ''p'')"
    by code_simp+
  from filled_order_drops_rest_of_leg [OF demo_inv(4) demo_find(2) sib none _ _ demo_cancels(1),
      where f = 1 and t = 1 and pq = None and posid = None and w = "[]" and rest = "''iio''"]
    get_entry_all [OF others] rest
  show ?thesis by (metis order_refl zero_less_one)
qed


theorem position_close_forgets_uncancelled_witness:
  "find_entry_by_actual_order (fst (snd (cancel_for_position_close_internal demo_no_cancel ''E'' demo_placed []))) ''o'' = None"
proof -
  let ?e = "the (get_entry demo_placed ''exit:sl:p'')"
  let ?ao = "hd (actual_orders (ee_status ?e))"
  have e: "get_entry demo_placed ''exit:sl:p'' = Some ?e" "ee_symbol ?e = ''E''" "ee_status ?e = EntryPlaced [?ao]"
    and others: "list_all (\<lambda>p. entry_has_order (ao_order_id ?ao) (snd p) \<longrightarrow> fst p = ''exit:sl:p'') (eh_pending demo_placed)"
    and o: "ao_order_id ?ao = ''o''" by code_simp+
  have mem: "?ao \<in> set [?ao]" by simp
  from position_close_forgets_uncancelled [OF demo_inv(2) demo_cancels(3) e mem _ collapse3, of "[]"]
    get_entry_all [OF others] o
  show ?thesis by auto
qed

theorem cancellation_forgets_live_exits_witness:
  "find_entry_by_actual_order demo_partial ''o'' \<noteq> None
    \<and> find_entry_by_actual_order (snd (handle_cancellation_internal 9 ''p'' demo_partial)) ''o'' = None"
proof -
  let ?e = "the (get_entry demo_partial ''exit:sl:p'')"
  let ?ao = "hd (actual_orders (ee_status ?e))"
  have k: "''exit:sl:p'' \<in> set (get_placeholders_for_primary demo_partial ''p'')"
    and e: "get_entry demo_partial ''exit:sl:p'' = Some ?e" "ee_status ?e = EntryPartiallyTriggered 1 2 [?ao]"
    and others: "list_all (\<lambda>p. entry_has_order (ao_order_id ?ao) (snd p) \<longrightarrow> fst p = ''exit:sl:p'') (eh_pending demo_partial)"
    and o: "ao_order_id ?ao = ''o''" and live: "find_entry_by_actual_order demo_partial ''o'' \<noteq> None" by code_simp+
  have mem: "?ao \<in> set [?ao]" by simp
  from cancellation_forgets_live_exits [OF demo_inv(3) k e mem, of 9] get_entry_all [OF others] o live
  show ?thesis by auto
qed

theorem clear_failed_exact_witness:
  "get_entry (snd (clear_failed_entries_internal demo_failed)) ''exit:sl:p'' = None
    \<and> fst (clear_failed_entries_internal demo_failed) = 2"
proof -
  have "is_failed_status (ee_status (the (get_entry demo_failed ''exit:sl:p'')))"
    "get_entry demo_failed ''exit:sl:p'' = Some (the (get_entry demo_failed ''exit:sl:p''))"
    "length (get_failed_entries_internal demo_failed) = 2" by code_simp+
  with clear_failed_exact [OF demo_inv(5) collapse2, of "''exit:sl:p''"] show ?thesis
    by (auto split: option.splits)
qed

theorem cleanup_drops_live_exits_witness:
  "get_entry (snd (cleanup_expired_entries (secs 86401) demo_placed)) ''exit:sl:p'' = None
    \<and> actual_orders (ee_status (the (get_entry demo_placed ''exit:sl:p''))) \<noteq> []"
proof -
  let ?e = "the (get_entry demo_placed ''exit:sl:p'')"
  have "get_entry demo_placed ''exit:sl:p'' = Some ?e" "ee_created_at ?e = 0"
    "hc_entry_ttl (eh_config demo_placed) < secs 86401" "actual_orders (ee_status ?e) \<noteq> []" by code_simp+
  with cleanup_drops_live_exits [OF demo_inv(2) collapse2, of "secs 86401" "''exit:sl:p''"] show ?thesis
    by (auto split: option.splits)
qed


theorem failed_move_keeps_single_order_leg_witness:
  "leg_coverage (fst (snd (replace_exit_leg demo_no_modify ''exit:sl:p'' 95 demo_placed []))) ''exit:sl:p'' = 2"
proof -
  let ?e = "the (get_entry demo_placed ''exit:sl:p'')"
  have e: "get_entry demo_placed ''exit:sl:p'' = Some ?e"
      "actual_orders (ee_status ?e) = [hd (actual_orders (ee_status ?e))]"
    and run: "replace_exit_leg demo_no_modify ''exit:sl:p'' 95 demo_placed [] =
      (Inl (StillProtected (OrderNotModifiable ''o'' ''busy'')),
       fst (snd (replace_exit_leg demo_no_modify ''exit:sl:p'' 95 demo_placed [])), [])"
    and cov: "leg_coverage demo_placed ''exit:sl:p'' = 2" by code_simp+
  from failed_move_keeps_single_order_leg [OF demo_inv(2) e run] cov show ?thesis by auto
qed

theorem failed_move_can_be_partial_witness:
  "\<exists>h' e' a1' err w'. replace_exit_leg demo_modify_first ''exit:sl:p'' 95 demo_split [] = (Inl (StillProtected err), h', w')
    \<and> get_entry h' ''exit:sl:p'' = Some e' \<and> ee_trigger_price e' = 95
    \<and> actual_orders (ee_status e') = [a1', actual_orders (ee_status (the (get_entry demo_split ''exit:sl:p''))) ! 1]"
proof -
  let ?e = "the (get_entry demo_split ''exit:sl:p'')"
  let ?a1 = "actual_orders (ee_status ?e) ! 0" and ?a2 = "actual_orders (ee_status ?e) ! 1"
  have e: "get_entry demo_split ''exit:sl:p'' = Some ?e" "actual_orders (ee_status ?e) = [?a1, ?a2]"
    and ids: "ao_order_id ?a1 = ''o''" "ao_order_id ?a2 = ''iio''" by code_simp+
  have m: "ao_order_id ?a1 \<noteq> ao_order_id ?a2"
    "modify_order demo_modify_first (ao_order_id ?a1) (modify_request (ee_order_type ?e) 95) [] =
      (Inr \<lparr>mr_order = demo_order ''o'' 1, mr_previous_order_id = None\<rparr>, [])"
    "modify_order demo_modify_first (ao_order_id ?a2) (modify_request (ee_order_type ?e) 95) [] =
      (Inl (OrderNotModifiable ''iio'' ''busy''), [])"
    unfolding ids by (simp_all add: demo_modify_first_def)
  have "\<not> is_unsupported (OrderNotModifiable ''iio'' ''busy'')" by (simp add: is_unsupported_def)
  from failed_move_can_be_partial [OF demo_inv(4) e m this] show ?thesis by blast
qed

theorem unprotected_leg_lists_cancelled_order_witness:
  "\<exists>h' w' err1 err2 info. replace_exit_leg demo_no_submit ''exit:sl:p'' 95 demo_placed [] =
      (Inl (Unprotected ''o'' err1 err2), h', w')
    \<and> info \<in> set (get_failed_entries_internal h') \<and> ''o'' \<in> set (fi_actual_order_ids info)"
proof -
  let ?e = "the (get_entry demo_placed ''exit:sl:p'')"
  let ?ao = "hd (actual_orders (ee_status ?e))"
  have e: "get_entry demo_placed ''exit:sl:p'' = Some ?e" "ee_status ?e = EntryPlaced [?ao]"
    and o: "ao_order_id ?ao = ''o''" by code_simp+
  have "modify_unsupported demo_no_submit" by (simp add: modify_unsupported_def demo_no_submit_def)
  from unprotected_leg_lists_cancelled_order [OF demo_inv(2) e this demo_cancels(2), of 95 "[]"] o
  show ?thesis by (simp add: demo_no_submit_def)
qed

theorem exit_store_consistent_witness:
  "length (eh_unmatched demo_placed) \<le> max_unmatched_fills
    \<and> (\<exists>e. get_entry demo_placed ''exit:sl:p'' = Some e \<and> ee_primary_order_id e = ''p'')"
proof -
  have "reachable exit_start (exit_step demo_env) (demo_new, [])"
    by (rule reach_init) (auto simp: exit_start_def demo_new_def)
  moreover have "register_fresh demo_new ''p''" by code_simp
  then have "exit_step demo_env (demo_new, []) (demo_registered, [])"
    using step_register [of demo_new "''p''" demo_env "[]" 0 0 demo_request]
    by (simp add: demo_registered_def demo_env_def)
  moreover have "exit_step demo_env (demo_registered, []) (demo_fill demo_env 2 (demo_registered, []))"
    using step_fill [of demo_env demo_registered "[]" "''p''" 2 2 None None] by (simp add: demo_fill_def)
  ultimately have "reachable exit_start (exit_step demo_env) (demo_fill demo_env 2 (demo_registered, []))"
    by (blast intro: reach_step)
  then have run: "reachable exit_start (exit_step demo_env) (demo_placed, snd (demo_fill demo_env 2 (demo_registered, [])))"
    by (simp add: demo_placed_def)
  have "''exit:sl:p'' \<in> set (get_placeholders_for_primary demo_placed ''p'')" by code_simp
  with exit_store_consistent [OF run] show ?thesis by blast
qed

end
