(* ===== verification/Gw_Trailing_Types.thy ===== *)
theory Gw_Trailing_Types
  imports Gw_Adapter
begin

text \<open>
  The vocabulary of the emulated trailing stops (\<open>trailing_stop/types.rs\<close>, \<open>executor.rs\<close>,
  \<open>adapter_executor.rs\<close>): the stop price that trails a peak price, the states of an entry, the
  configuration with its recovery backoff, and the executor that places, moves and cancels a
  stop order through the broker. The decimal product and quotient, which the crate rounds to 28
  digits, are the parameter \<open>dec_ops\<close>.
\<close>

record dec_ops =
  d_mul :: "decimal \<Rightarrow> decimal \<Rightarrow> decimal"
  d_div :: "decimal \<Rightarrow> decimal \<Rightarrow> decimal"

text \<open>
  What the rounding of the crate keeps: a product is monotone in its first factor when the second
  is not negative, factors no greater than one shrink, factors no less than one grow, and the
  hundredth of a value between 0 and 100 is between 0 and 1.
\<close>

definition rounding_ok :: "dec_ops \<Rightarrow> bool" where
  "rounding_ok D = ((\<forall>x y c. 0 \<le> c \<longrightarrow> x \<le> y \<longrightarrow> d_mul D x c \<le> d_mul D y c)
     \<and> (\<forall>x c. 0 \<le> x \<longrightarrow> c \<le> 1 \<longrightarrow> d_mul D x c \<le> x) \<and> (\<forall>x c. 0 \<le> x \<longrightarrow> 1 \<le> c \<longrightarrow> x \<le> d_mul D x c)
     \<and> (\<forall>x. 0 \<le> x \<longrightarrow> x \<le> 100 \<longrightarrow> 0 \<le> d_div D x 100 \<and> d_div D x 100 \<le> 1)
     \<and> (\<forall>x. 0 \<le> x \<longrightarrow> 0 \<le> d_div D x 100))"

definition exact_ops :: dec_ops where
  "exact_ops = \<lparr>d_mul = (*), d_div = (/)\<rparr>"

subsection \<open>Stop prices\<close>

definition min_price_improvement_pct :: decimal where
  "min_price_improvement_pct = 1 / 10"

definition trailing_placeholder_id :: "string \<Rightarrow> string" where
  "trailing_placeholder_id primary_order_id = ''trailing:'' @ primary_order_id"

definition parse_trailing_id :: "string \<Rightarrow> string option" where
  "parse_trailing_id i = strip_prefix i ''trailing:''"

fun calculate_stop_price :: "dec_ops \<Rightarrow> decimal \<Rightarrow> decimal \<Rightarrow> trailing_type \<Rightarrow> side \<Rightarrow> decimal" where
  "calculate_stop_price D peak distance Absolute Sell = peak - distance"
| "calculate_stop_price D peak distance Percent Sell = d_mul D peak (1 - d_div D distance 100)"
| "calculate_stop_price D peak distance Absolute Buy = peak + distance"
| "calculate_stop_price D peak distance Percent Buy = d_mul D peak (1 + d_div D distance 100)"

fun is_peak_improvement :: "decimal \<Rightarrow> decimal \<Rightarrow> side \<Rightarrow> bool" where
  "is_peak_improvement current_peak new_price Sell = (new_price > current_peak)"
| "is_peak_improvement current_peak new_price Buy = (new_price < current_peak)"

definition should_adjust_stop :: "dec_ops \<Rightarrow> decimal \<Rightarrow> decimal \<Rightarrow> bool" where
  "should_adjust_stop D current_stop new_stop =
     (if current_stop = 0 then True
      else d_mul D (d_div D \<bar>new_stop - current_stop\<bar> current_stop) 100 \<ge> min_price_improvement_pct)"

subsection \<open>Entries\<close>

datatype trailing_cancel_reason =
  TrailPrimaryCancelled | TrailPrimaryRejected | TrailUserRequested | TrailPositionClosed | TrailSystemCleanup

fun trailing_reason_to_string :: "trailing_cancel_reason \<Rightarrow> string" where
  "trailing_reason_to_string TrailPrimaryCancelled = ''primary_cancelled''"
| "trailing_reason_to_string TrailPrimaryRejected = ''primary_rejected''"
| "trailing_reason_to_string TrailUserRequested = ''user_requested''"
| "trailing_reason_to_string TrailPositionClosed = ''position_closed''"
| "trailing_reason_to_string TrailSystemCleanup = ''system_cleanup''"

text \<open>
  \<open>TrailTracking peak stop started\<close>, \<open>TrailActive order peak stop adjusted\<close>,
  \<open>TrailTriggered order price time\<close>, \<open>TrailCancelled time reason\<close>, \<open>TrailFailed error retries time\<close>,
  \<open>TrailUnavailable registered reason failures last_attempt\<close>.
\<close>

datatype trailing_status =
    TrailPending
  | TrailTracking decimal decimal utc
  | TrailActive string decimal decimal utc
  | TrailTriggered string decimal utc
  | TrailCancelled utc trailing_cancel_reason
  | TrailFailed string nat utc
  | TrailUnavailable utc string nat "instant option"

definition trail_is_terminal :: "trailing_status \<Rightarrow> bool" where
  "trail_is_terminal st = (case st of TrailTriggered i p t \<Rightarrow> True | TrailCancelled t r \<Rightarrow> True
     | TrailFailed e n t \<Rightarrow> True | _ \<Rightarrow> False)"

definition trail_is_active :: "trailing_status \<Rightarrow> bool" where
  "trail_is_active st = (case st of TrailTracking p s t \<Rightarrow> True | TrailActive i p s t \<Rightarrow> True | _ \<Rightarrow> False)"

definition trail_is_pending :: "trailing_status \<Rightarrow> bool" where
  "trail_is_pending st = (case st of TrailPending \<Rightarrow> True | TrailUnavailable t r n l \<Rightarrow> True | _ \<Rightarrow> False)"

record trailing_entry =
  te_placeholder_id :: string
  te_primary_order_id :: string
  te_symbol :: string
  te_side :: side
  te_quantity :: decimal
  te_trailing_distance :: decimal
  te_trailing_type :: trailing_type
  te_status :: trailing_status
  te_created_at :: instant
  te_created_at_utc :: utc
  te_updated_at :: "utc option"
  te_platform :: trading_platform
  te_version :: nat

definition trailing_entry_new ::
  "instant \<Rightarrow> utc \<Rightarrow> string \<Rightarrow> string \<Rightarrow> side \<Rightarrow> decimal \<Rightarrow> decimal \<Rightarrow> trailing_type \<Rightarrow> trading_platform
     \<Rightarrow> trailing_entry" where
  "trailing_entry_new inst now primary symbol sd quantity distance ttype platform =
     \<lparr>te_placeholder_id = trailing_placeholder_id primary, te_primary_order_id = primary,
      te_symbol = symbol, te_side = sd, te_quantity = quantity, te_trailing_distance = distance,
      te_trailing_type = ttype, te_status = TrailPending, te_created_at = inst,
      te_created_at_utc = now, te_updated_at = None, te_platform = platform, te_version = 0\<rparr>"

definition te_set_status :: "utc \<Rightarrow> trailing_status \<Rightarrow> trailing_entry \<Rightarrow> trailing_entry" where
  "te_set_status now st e = e\<lparr>te_status := st, te_updated_at := Some now, te_version := te_version e + 1\<rparr>"

definition calculate_stop :: "dec_ops \<Rightarrow> trailing_entry \<Rightarrow> decimal \<Rightarrow> decimal" where
  "calculate_stop D e peak = calculate_stop_price D peak (te_trailing_distance e) (te_trailing_type e) (te_side e)"

definition te_is_peak_improvement :: "trailing_entry \<Rightarrow> decimal \<Rightarrow> decimal \<Rightarrow> bool" where
  "te_is_peak_improvement e current_peak new_price = is_peak_improvement current_peak new_price (te_side e)"

definition current_peak :: "trailing_entry \<Rightarrow> decimal option" where
  "current_peak e = (case te_status e of TrailTracking p s t \<Rightarrow> Some p | TrailActive i p s t \<Rightarrow> Some p | _ \<Rightarrow> None)"

definition current_stop_level :: "trailing_entry \<Rightarrow> decimal option" where
  "current_stop_level e = (case te_status e of TrailTracking p s t \<Rightarrow> Some s | TrailActive i p s t \<Rightarrow> Some s | _ \<Rightarrow> None)"

record trailing_config =
  tc_max_pending_entries :: nat
  tc_entry_ttl :: duration
  tc_min_adjustment_threshold_pct :: decimal
  tc_recovery_interval :: duration
  tc_max_recovery_backoff :: duration
  tc_activation_timeout :: duration

definition trailing_config_default :: trailing_config where
  "trailing_config_default =
     \<lparr>tc_max_pending_entries = 10000, tc_entry_ttl = secs 86400,
      tc_min_adjustment_threshold_pct = min_price_improvement_pct, tc_recovery_interval = secs 10,
      tc_max_recovery_backoff = secs 300, tc_activation_timeout = secs 5\<rparr>"

subsection \<open>The executor\<close>

record stop_order_request =
  sr_symbol :: string
  sr_side :: side
  sr_quantity :: decimal
  sr_stop_price :: decimal
  sr_limit_price :: decimal

record modify_stop_request =
  ms_order_id :: string
  ms_symbol :: string
  ms_side :: side
  ms_quantity :: decimal
  ms_new_stop_price :: decimal
  ms_new_limit_price :: decimal

record placed_stop_order =
  ps_order_id :: string
  ps_stop_price :: decimal
  ps_placed_at :: utc

record stop_order_status =
  ss_order_id :: string
  ss_stop_price :: decimal
  ss_is_active :: bool

definition build_stop_order :: "stop_order_request \<Rightarrow> order_request" where
  "build_stop_order r = (order_stop (sr_symbol r) (sr_side r) (sr_quantity r) (sr_stop_price r))\<lparr>or_reduce_only := True\<rparr>"

definition place_stop_order :: "'w env \<Rightarrow> stop_order_request \<Rightarrow> 'w \<Rightarrow> (gateway_error + placed_stop_order) \<times> 'w" where
  "place_stop_order E r w =
     (case submit_order E (build_stop_order r) w of
        (Inl e, w1) \<Rightarrow> (Inl e, w1)
      | (Inr handle, w1) \<Rightarrow>
          (Inr \<lparr>ps_order_id = oh_id handle, ps_stop_price = sr_stop_price r, ps_placed_at = utc_now E w1\<rparr>, w1))"

definition modify_stop_order :: "'w env \<Rightarrow> modify_stop_request \<Rightarrow> 'w \<Rightarrow> (gateway_error + placed_stop_order) \<times> 'w" where
  "modify_stop_order E r w =
     (case cancel_order E (ms_order_id r) w of
        (Inl e, w1) \<Rightarrow> (Inl e, w1)
      | (Inr c, w1) \<Rightarrow>
          if o_status (cr_order c) = Filled then
            (Inl (Internal (''Stop order '' @ ms_order_id r @ '' already filled '' @ em_dash @
               '' trailing stop triggered before modification'') None), w1)
          else
            (case submit_order E (build_stop_order \<lparr>sr_symbol = ms_symbol r, sr_side = ms_side r,
                    sr_quantity = ms_quantity r, sr_stop_price = ms_new_stop_price r,
                    sr_limit_price = ms_new_limit_price r\<rparr>) w1 of
               (Inl e, w2) \<Rightarrow> (Inl e, w2)
             | (Inr handle, w2) \<Rightarrow>
                 (Inr \<lparr>ps_order_id = oh_id handle, ps_stop_price = ms_new_stop_price r,
                       ps_placed_at = utc_now E w2\<rparr>, w2)))"

definition cancel_stop_order :: "'w env \<Rightarrow> string \<Rightarrow> 'w \<Rightarrow> (gateway_error + unit) \<times> 'w" where
  "cancel_stop_order E i w =
     (case cancel_order E i w of (Inl e, w1) \<Rightarrow> (Inl e, w1) | (Inr r, w1) \<Rightarrow> (Inr (), w1))"

definition get_stop_order_status :: "'w env \<Rightarrow> string \<Rightarrow> 'w \<Rightarrow> (gateway_error + stop_order_status) \<times> 'w" where
  "get_stop_order_status E i w =
     (case get_order E i w of
        (Inl e, w1) \<Rightarrow> (Inl e, w1)
      | (Inr ord, w1) \<Rightarrow>
          (Inr \<lparr>ss_order_id = o_id ord,
                ss_stop_price = (case o_stop_price ord of Some p \<Rightarrow> p | None \<Rightarrow> 0),
                ss_is_active = (o_status ord \<in> {Pending, Open, PartiallyFilled})\<rparr>, w1))"

subsection \<open>Lemmas\<close>

lemma exact_rounding: "rounding_ok exact_ops"
proof -
  have "x \<le> x * c" if "0 \<le> x" "1 \<le> c" for x c :: decimal
    using mult_left_mono [OF that(2,1)] by simp
  then show ?thesis
    by (auto simp: rounding_ok_def exact_ops_def intro: mult_right_mono mult_left_le)
qed

lemma rounding_okD:
  assumes "rounding_ok D"
  shows "0 \<le> c \<Longrightarrow> x \<le> y \<Longrightarrow> d_mul D x c \<le> d_mul D y c"
    and "0 \<le> x \<Longrightarrow> c \<le> 1 \<Longrightarrow> d_mul D x c \<le> x" and "0 \<le> x \<Longrightarrow> 1 \<le> c \<Longrightarrow> x \<le> d_mul D x c"
    and "0 \<le> x \<Longrightarrow> 0 \<le> d_div D x 100" and "0 \<le> x \<Longrightarrow> x \<le> 100 \<Longrightarrow> d_div D x 100 \<le> 1"
  using assms by (simp_all add: rounding_ok_def)

lemma parse_trailing_id_roundtrip: "parse_trailing_id (trailing_placeholder_id p) = Some p"
  by (simp add: parse_trailing_id_def trailing_placeholder_id_def)

lemma trailing_placeholder_inject [simp]: "trailing_placeholder_id p = trailing_placeholder_id q \<longleftrightarrow> p = q"
  by (simp add: trailing_placeholder_id_def)

lemma te_set_status_simps [simp]:
  "te_status (te_set_status now st e) = st" "te_placeholder_id (te_set_status now st e) = te_placeholder_id e"
  "te_primary_order_id (te_set_status now st e) = te_primary_order_id e" "te_symbol (te_set_status now st e) = te_symbol e"
  "te_side (te_set_status now st e) = te_side e" "te_quantity (te_set_status now st e) = te_quantity e"
  "te_trailing_distance (te_set_status now st e) = te_trailing_distance e"
  "te_trailing_type (te_set_status now st e) = te_trailing_type e"
  "te_created_at (te_set_status now st e) = te_created_at e" "te_created_at_utc (te_set_status now st e) = te_created_at_utc e"
  "te_platform (te_set_status now st e) = te_platform e" "te_version (te_set_status now st e) = te_version e + 1"
  by (simp_all add: te_set_status_def)

lemma calculate_stop_set_status [simp]: "calculate_stop D (te_set_status now st e) = calculate_stop D e"
  by (simp add: calculate_stop_def fun_eq_iff)

text \<open>A stop rests on the losing side of the peak, and follows it.\<close>

lemma stop_price_side:
  assumes D: "rounding_ok D" and d: "0 < distance" and "0 < peak"
  shows "calculate_stop_price D peak distance ttype Sell \<le> peak"
    and "peak \<le> calculate_stop_price D peak distance ttype Buy"
  using assms rounding_okD(4) [OF D, of distance]
  by (cases ttype; auto intro!: rounding_okD(2,3) [OF D])+

lemma stop_price_mono:
  assumes D: "rounding_ok D" and "0 < distance" "ttype = Percent \<longrightarrow> distance < 100" "p \<le> q"
  shows "calculate_stop_price D p distance ttype sd \<le> calculate_stop_price D q distance ttype sd"
  using assms rounding_okD(4,5) [OF D, of distance]
  by (cases ttype; cases sd) (auto intro!: rounding_okD(1) [OF D])

end
