(* ===== verification/Gw_Trailing.thy ===== *)
theory Gw_Trailing
  imports Gw_Trailing_Types
begin

text \<open>
  The handler of emulated trailing stops (\<open>trailing_stop/handler.rs\<close>). Its state is the entries by
  placeholder id, the index by primary order, the reference counts of the per-symbol tracking
  tasks and the circuit breaker; a symbol has a running task as long as it is in the map of
  tasks. The price source and the quote subscriber are the record \<open>price_feed\<close>, a parameter like
  the broker.
\<close>

record 'w price_feed =
  ensure_subscribed :: "string \<Rightarrow> 'w \<Rightarrow> (gateway_error + unit) \<times> 'w"
  current_price :: "string \<Rightarrow> 'w \<Rightarrow> (gateway_error + decimal) \<times> 'w"
  subscribe :: "string \<Rightarrow> 'w \<Rightarrow> (gateway_error + unit) \<times> 'w"
  first_update :: "string \<Rightarrow> duration \<Rightarrow> 'w \<Rightarrow> decimal option \<times> 'w"
  unsubscribe :: "string \<Rightarrow> 'w \<Rightarrow> (gateway_error + unit) \<times> 'w"

record trailing_handler =
  th_entries :: "(string, trailing_entry) dmap"
  th_by_primary :: "(string, string) dmap"
  th_symbol_tasks :: "(string, nat) dmap"
  th_config :: trailing_config
  th_platform :: trading_platform
  th_breaker :: exit_breaker
  th_self_ref :: bool

definition trailing_handler_new :: "trading_platform \<Rightarrow> trailing_config \<Rightarrow> trailing_handler" where
  "trailing_handler_new platform config =
     \<lparr>th_entries = [], th_by_primary = [], th_symbol_tasks = [], th_config = config,
      th_platform = platform, th_breaker = eb_new 3 (secs 300), th_self_ref = False\<rparr>"

definition trailing_handler_new_arc :: "trading_platform \<Rightarrow> trailing_config \<Rightarrow> trailing_handler" where
  "trailing_handler_new_arc platform config = (trailing_handler_new platform config)\<lparr>th_self_ref := True\<rparr>"

definition is_trailing_placeholder :: "string \<Rightarrow> bool" where
  "is_trailing_placeholder i = starts_with i ''trailing:''"

definition th_get_entry :: "trailing_handler \<Rightarrow> string \<Rightarrow> trailing_entry option" where
  "th_get_entry h pid = dm_get (th_entries h) pid"

definition th_get_status :: "trailing_handler \<Rightarrow> string \<Rightarrow> trailing_status option" where
  "th_get_status h pid = map_option te_status (dm_get (th_entries h) pid)"

definition has_entry_for_primary :: "trailing_handler \<Rightarrow> string \<Rightarrow> bool" where
  "has_entry_for_primary h p = dm_has (th_by_primary h) p"

definition get_placeholder_for_primary :: "trailing_handler \<Rightarrow> string \<Rightarrow> string option" where
  "get_placeholder_for_primary h p = dm_get (th_by_primary h) p"

definition th_breaker_open :: "trailing_handler \<Rightarrow> bool" where
  "th_breaker_open h = eb_is_open (th_breaker h)"

definition th_reset_breaker :: "instant \<Rightarrow> trailing_handler \<Rightarrow> trailing_handler" where
  "th_reset_breaker inst h = h\<lparr>th_breaker := snd (eb_reset inst (th_breaker h))\<rparr>"

definition record_stop_order_failure :: "instant \<Rightarrow> trailing_handler \<Rightarrow> trailing_handler" where
  "record_stop_order_failure inst h = h\<lparr>th_breaker := eb_record_failure inst (th_breaker h)\<rparr>"

text \<open>\<open>entries_by_placeholder.get_mut(pid)\<close> with a change of the entry.\<close>

definition th_update :: "string \<Rightarrow> (trailing_entry \<Rightarrow> trailing_entry) \<Rightarrow> trailing_handler \<Rightarrow> trailing_handler" where
  "th_update pid f h = h\<lparr>th_entries := dm_modify pid f (th_entries h)\<rparr>"

subsection \<open>Placing and adjusting a stop\<close>

definition place_initial_stop ::
  "'w env \<Rightarrow> string \<Rightarrow> string \<Rightarrow> side \<Rightarrow> decimal \<Rightarrow> decimal \<Rightarrow> trailing_handler \<Rightarrow> 'w \<Rightarrow> bool \<times> trailing_handler \<times> 'w" where
  "place_initial_stop E pid symbol sd quantity stop_level h w =
     (if th_breaker_open h then (False, h, w)
      else case place_stop_order E \<lparr>sr_symbol = symbol, sr_side = sd, sr_quantity = quantity,
                   sr_stop_price = stop_level, sr_limit_price = stop_level\<rparr> w of
        (Inr placed, w1) \<Rightarrow>
          (True, th_update pid (\<lambda>e. te_set_status (utc_now E w1) (TrailActive (ps_order_id placed)
             (case current_peak e of Some p \<Rightarrow> p | None \<Rightarrow> stop_level) (ps_stop_price placed) (utc_now E w1)) e) h, w1)
      | (Inl err, w1) \<Rightarrow>
          (False, th_update pid (te_set_status (utc_now E w1) (TrailFailed (error_to_string err) 0 (utc_now E w1)))
             (record_stop_order_failure (instant_now E w1) h), w1))"

definition set_active :: "utc \<Rightarrow> string \<Rightarrow> decimal \<Rightarrow> trailing_entry \<Rightarrow> trailing_entry" where
  "set_active now order_id stop_level e =
     (case te_status e of
        TrailActive i peak stop t \<Rightarrow> te_set_status now (TrailActive order_id peak stop_level now) e
      | _ \<Rightarrow> e)"

definition adjust_stop_order ::
  "'w env \<Rightarrow> string \<Rightarrow> string \<Rightarrow> string \<Rightarrow> decimal \<Rightarrow> side \<Rightarrow> decimal \<Rightarrow> trailing_handler \<Rightarrow> 'w
     \<Rightarrow> (gateway_error + string option) \<times> trailing_handler \<times> 'w" where
  "adjust_stop_order E pid stop_order_id symbol new_stop sd quantity h w =
     (if th_breaker_open h then (Inr None, h, w)
      else case modify_stop_order E \<lparr>ms_order_id = stop_order_id, ms_symbol = symbol, ms_side = sd,
                   ms_quantity = quantity, ms_new_stop_price = new_stop, ms_new_limit_price = new_stop\<rparr> w of
        (Inr placed, w1) \<Rightarrow>
          (Inr (Some (ps_order_id placed)),
           th_update pid (set_active (utc_now E w1) (ps_order_id placed) (ps_stop_price placed)) h, w1)
      | (Inl err, w1) \<Rightarrow>
          (let h1 = record_stop_order_failure (instant_now E w1) h in
           case get_stop_order_status E stop_order_id w1 of
             (Inr st, w2) \<Rightarrow>
               if ss_stop_price st = new_stop then
                 (Inr (Some (ss_order_id st)),
                  th_update pid (set_active (utc_now E w2) (ss_order_id st) (ss_stop_price st)) h1, w2)
               else (Inl err, h1, w2)
           | (Inl verify_err, w2) \<Rightarrow> (Inl err, h1, w2)))"

subsection \<open>Registration\<close>

fun order_type_debug :: "order_type \<Rightarrow> string" where
  "order_type_debug Market = ''Market''"
| "order_type_debug Limit = ''Limit''"
| "order_type_debug Stop = ''Stop''"
| "order_type_debug StopLimit = ''StopLimit''"
| "order_type_debug TrailingStop = ''TrailingStop''"

definition th_register ::
  "(decimal \<Rightarrow> string) \<Rightarrow> instant \<Rightarrow> utc \<Rightarrow> string \<Rightarrow> order_request \<Rightarrow> trailing_handler
     \<Rightarrow> (gateway_error + string) \<times> trailing_handler" where
  "th_register dts inst now primary r h =
     (if or_order_type r \<noteq> TrailingStop then
        (Inl (InvalidRequest (''Expected TrailingStop order, got '' @ order_type_debug (or_order_type r)) None), h)
      else case or_trailing_distance r of
        None \<Rightarrow> (Inl (InvalidRequest ''trailing_distance is required for trailing stop orders'' None), h)
      | Some distance \<Rightarrow>
          (let ttype = (case or_trailing_type r of Some t \<Rightarrow> t | None \<Rightarrow> Percent) in
           if distance \<le> 0 then
             (Inl (InvalidRequest (''trailing_distance must be positive, got '' @ dts distance) None), h)
           else if ttype = Percent \<and> distance \<ge> 100 then
             (Inl (InvalidRequest (''trailing_distance percentage must be less than 100, got '' @ dts distance) None), h)
           else if length (th_entries h) \<ge> tc_max_pending_entries (th_config h) then
             (Inl (Internal (''Resource exhausted: trailing_stop_entries (limit: '' @
                show_nat (tc_max_pending_entries (th_config h)) @ '')'') None), h)
           else
             (let e = trailing_entry_new inst now primary (or_symbol r) (or_side r) (or_quantity r)
                        distance ttype (th_platform h)
              in (Inr (te_placeholder_id e),
                  h\<lparr>th_entries := dm_insert (te_placeholder_id e) e (th_entries h),
                    th_by_primary := dm_insert primary (te_placeholder_id e) (th_by_primary h)\<rparr>))))"

subsection \<open>Tracking\<close>

definition spawn_tracking_task :: "string \<Rightarrow> trailing_handler \<Rightarrow> trailing_handler" where
  "spawn_tracking_task symbol h =
     (if \<not> th_self_ref h then h
      else case dm_get (th_symbol_tasks h) symbol of
        Some n \<Rightarrow> h\<lparr>th_symbol_tasks := dm_insert symbol (n + 1) (th_symbol_tasks h)\<rparr>
      | None \<Rightarrow> h\<lparr>th_symbol_tasks := dm_insert symbol 1 (th_symbol_tasks h)\<rparr>)"

definition decrement_symbol_task :: "string \<Rightarrow> trailing_handler \<Rightarrow> trailing_handler" where
  "decrement_symbol_task symbol h =
     (case dm_get (th_symbol_tasks h) symbol of
        None \<Rightarrow> h
      | Some n \<Rightarrow>
          if n - 1 = 0 then h\<lparr>th_symbol_tasks := dm_remove symbol (th_symbol_tasks h)\<rparr>
          else h\<lparr>th_symbol_tasks := dm_insert symbol (n - 1) (th_symbol_tasks h)\<rparr>)"

text \<open>The price to start from: the cached one, or the first update within the timeout.\<close>

definition starting_price ::
  "'w price_feed \<Rightarrow> trailing_config \<Rightarrow> string \<Rightarrow> 'w \<Rightarrow> (gateway_error + decimal) \<times> 'w" where
  "starting_price P c symbol w =
     (case current_price P symbol w of
        (Inr price, w1) \<Rightarrow>
          (case subscribe P symbol w1 of (Inl e, w2) \<Rightarrow> (Inl e, w2) | (Inr u, w2) \<Rightarrow> (Inr price, w2))
      | (Inl e, w1) \<Rightarrow>
          (case subscribe P symbol w1 of
             (Inl e', w2) \<Rightarrow> (Inl e', w2)
           | (Inr u, w2) \<Rightarrow>
               (case first_update P symbol (tc_activation_timeout c) w2 of
                  (Some price, w3) \<Rightarrow> (Inr price, w3)
                | (None, w3) \<Rightarrow> (Inl (SymbolNotFound symbol), snd (unsubscribe P symbol w3)))))"

definition try_activate_tracking ::
  "'w env \<Rightarrow> 'w price_feed \<Rightarrow> dec_ops \<Rightarrow> trailing_entry \<Rightarrow> trailing_handler \<Rightarrow> 'w
     \<Rightarrow> (gateway_error + trailing_entry) \<times> trailing_handler \<times> 'w" where
  "try_activate_tracking E P D e h w =
     (case starting_price P (th_config h) (te_symbol e) (snd (ensure_subscribed P (te_symbol e) w)) of
        (Inl err, w1) \<Rightarrow> (Inl err, h, w1)
      | (Inr price, w1) \<Rightarrow>
          (Inr (te_set_status (utc_now E w1) (TrailTracking price (calculate_stop D e price) (utc_now E w1)) e),
           spawn_tracking_task (te_symbol e) h, w1))"

definition handle_activation_failure :: "utc \<Rightarrow> trailing_entry \<Rightarrow> gateway_error \<Rightarrow> gateway_error + trailing_entry" where
  "handle_activation_failure now e err =
     (case err of
        UnsupportedOperation operation provider \<Rightarrow>
          Inr (te_set_status now (TrailUnavailable (te_created_at_utc e)
            ''Real-time price tracking not yet implemented'' 0 None) e)
      | SymbolNotFound symbol \<Rightarrow>
          Inr (te_set_status now (TrailUnavailable (te_created_at_utc e)
            (''Price not available for '' @ symbol) 0 None) e)
      | ProviderUnavailable message \<Rightarrow>
          Inr (te_set_status now (TrailUnavailable (te_created_at_utc e)
            (''Price source unavailable: '' @ message) 0 None) e)
      | other \<Rightarrow> Inl other)"

subsection \<open>Cancellation\<close>

definition th_cancel :: "utc \<Rightarrow> string \<Rightarrow> trailing_cancel_reason \<Rightarrow> trailing_handler \<Rightarrow> bool \<times> trailing_handler" where
  "th_cancel now pid reason h =
     (case th_get_entry h pid of
        None \<Rightarrow> (False, h)
      | Some e \<Rightarrow>
          if trail_is_terminal (te_status e) then (False, h)
          else
            (let h1 = th_update pid (te_set_status now (TrailCancelled now reason)) h;
                 h2 = h1\<lparr>th_by_primary := dm_remove (te_primary_order_id e) (th_by_primary h1)\<rparr>
             in (True, decrement_symbol_task (te_symbol e) h2)))"

definition cancel_async ::
  "'w env \<Rightarrow> string \<Rightarrow> trailing_cancel_reason \<Rightarrow> trailing_handler \<Rightarrow> 'w \<Rightarrow> bool \<times> trailing_handler \<times> 'w" where
  "cancel_async E pid reason h w =
     (case th_get_entry h pid of
        None \<Rightarrow> (False, h, w)
      | Some e \<Rightarrow>
          if trail_is_terminal (te_status e) then (False, h, w)
          else
            (let w1 = (case te_status e of
                         TrailActive stop_order_id peak stop t \<Rightarrow> snd (cancel_stop_order E stop_order_id w)
                       | _ \<Rightarrow> w);
                 (b, h1) = th_cancel (utc_now E w1) pid reason h
             in (b, h1, w1)))"

definition on_primary_cancelled :: "utc \<Rightarrow> string \<Rightarrow> trailing_handler \<Rightarrow> bool \<times> trailing_handler" where
  "on_primary_cancelled now p h =
     (case get_placeholder_for_primary h p of None \<Rightarrow> (False, h)
      | Some pid \<Rightarrow> th_cancel now pid TrailPrimaryCancelled h)"

definition on_primary_rejected :: "utc \<Rightarrow> string \<Rightarrow> trailing_handler \<Rightarrow> bool \<times> trailing_handler" where
  "on_primary_rejected now p h =
     (case get_placeholder_for_primary h p of None \<Rightarrow> (False, h)
      | Some pid \<Rightarrow> th_cancel now pid TrailPrimaryRejected h)"

subsection \<open>Fills and prices\<close>

definition on_primary_filled ::
  "'w env \<Rightarrow> 'w price_feed \<Rightarrow> dec_ops \<Rightarrow> string \<Rightarrow> decimal \<Rightarrow> trailing_handler \<Rightarrow> 'w
     \<Rightarrow> (gateway_error + bool) \<times> trailing_handler \<times> 'w" where
  "on_primary_filled E P D p fill_price h w =
     (case get_placeholder_for_primary h p of
        None \<Rightarrow> (Inr False, h, w)
      | Some pid \<Rightarrow>
          (case th_get_entry h pid of
             None \<Rightarrow> (Inr False, h, w)
           | Some e \<Rightarrow>
               if \<not> trail_is_pending (te_status e) then (Inr False, h, w)
               else case try_activate_tracking E P D e h w of
                 (Inr e', h1, w1) \<Rightarrow> (Inr True, h1\<lparr>th_entries := dm_insert pid e' (th_entries h1)\<rparr>, w1)
               | (Inl err, h1, w1) \<Rightarrow>
                   (case handle_activation_failure (utc_now E w1) e err of
                      Inl err' \<Rightarrow> (Inl err', h1, w1)
                    | Inr e' \<Rightarrow> (Inr False, h1\<lparr>th_entries := dm_insert pid e' (th_entries h1)\<rparr>, w1))))"

datatype price_update_action =
    PlaceStop string side decimal decimal decimal
  | AdjustStop string string side decimal decimal decimal
  | UpdateStateOnly decimal decimal

definition price_action :: "dec_ops \<Rightarrow> trailing_entry \<Rightarrow> decimal \<Rightarrow> price_update_action option" where
  "price_action D e price =
     (case te_status e of
        TrailTracking peak stop t \<Rightarrow>
          (let (new_peak, new_stop) = (if te_is_peak_improvement e peak price
                 then (price, calculate_stop D e price) else (peak, stop))
           in Some (PlaceStop (te_symbol e) (te_side e) (te_quantity e) new_stop new_peak))
      | TrailActive stop_order_id peak stop t \<Rightarrow>
          if \<not> te_is_peak_improvement e peak price then None
          else
            (let new_stop = calculate_stop D e price in
             if should_adjust_stop D stop new_stop
             then Some (AdjustStop stop_order_id (te_symbol e) (te_side e) (te_quantity e) new_stop price)
             else Some (UpdateStateOnly price new_stop))
      | _ \<Rightarrow> None)"

text \<open>The state changes of an action that did not go through the executor.\<close>

definition move_tracking :: "dec_ops \<Rightarrow> utc \<Rightarrow> decimal \<Rightarrow> trailing_entry \<Rightarrow> trailing_entry" where
  "move_tracking D now new_peak e =
     (case te_status e of
        TrailTracking peak stop t \<Rightarrow> te_set_status now (TrailTracking new_peak (calculate_stop D e new_peak) t) e
      | _ \<Rightarrow> e)"

definition move_active :: "utc \<Rightarrow> decimal \<Rightarrow> decimal \<Rightarrow> trailing_entry \<Rightarrow> trailing_entry" where
  "move_active now new_peak new_stop e =
     (case te_status e of
        TrailActive i peak stop t \<Rightarrow> te_set_status now (TrailActive i new_peak new_stop t) e
      | _ \<Rightarrow> e)"

definition move_state :: "utc \<Rightarrow> decimal \<Rightarrow> decimal \<Rightarrow> trailing_entry \<Rightarrow> trailing_entry" where
  "move_state now new_peak new_stop e =
     (case te_status e of
        TrailTracking peak stop t \<Rightarrow> te_set_status now (TrailTracking new_peak new_stop t) e
      | TrailActive i peak stop t \<Rightarrow> te_set_status now (TrailActive i new_peak new_stop t) e
      | _ \<Rightarrow> e)"

definition handle_place_stop_action ::
  "'w env \<Rightarrow> dec_ops \<Rightarrow> string \<Rightarrow> string \<Rightarrow> side \<Rightarrow> decimal \<Rightarrow> decimal \<Rightarrow> decimal \<Rightarrow> trailing_handler \<Rightarrow> 'w
     \<Rightarrow> trailing_handler \<times> 'w" where
  "handle_place_stop_action E D pid symbol sd quantity stop_level new_peak h w =
     (case place_initial_stop E pid symbol sd quantity stop_level h w of
        (placed, h1, w1) \<Rightarrow>
          if placed then (h1, w1) else (th_update pid (move_tracking D (utc_now E w1) new_peak) h1, w1))"

fun execute_price_update_action ::
  "'w env \<Rightarrow> dec_ops \<Rightarrow> string \<Rightarrow> price_update_action \<Rightarrow> trailing_handler \<Rightarrow> 'w \<Rightarrow> trailing_handler \<times> 'w" where
  "execute_price_update_action E D pid (PlaceStop symbol sd quantity stop_level new_peak) h w =
     handle_place_stop_action E D pid symbol sd quantity stop_level new_peak h w"
| "execute_price_update_action E D pid (AdjustStop stop_order_id symbol sd quantity new_stop new_peak) h w =
     (case adjust_stop_order E pid stop_order_id symbol new_stop sd quantity h w of
        (Inr None, h1, w1) \<Rightarrow> (th_update pid (move_active (utc_now E w1) new_peak new_stop) h1, w1)
      | (r, h1, w1) \<Rightarrow> (h1, w1))"
| "execute_price_update_action E D pid (UpdateStateOnly new_peak new_stop) h w =
     (th_update pid (move_state (utc_now E w) new_peak new_stop) h, w)"

definition price_update_entry ::
  "'w env \<Rightarrow> dec_ops \<Rightarrow> decimal \<Rightarrow> string \<Rightarrow> trailing_handler \<times> 'w \<Rightarrow> trailing_handler \<times> 'w" where
  "price_update_entry E D price pid hw =
     (case th_get_entry (fst hw) pid of
        None \<Rightarrow> hw
      | Some e \<Rightarrow>
          (case price_action D e price of
             None \<Rightarrow> hw
           | Some action \<Rightarrow> execute_price_update_action E D pid action (fst hw) (snd hw)))"

definition active_on_symbol :: "string \<Rightarrow> trailing_handler \<Rightarrow> string list" where
  "active_on_symbol symbol h = map (\<lambda>p. te_placeholder_id (snd p))
     (filter (\<lambda>p. te_symbol (snd p) = symbol \<and> trail_is_active (te_status (snd p))) (th_entries h))"

definition on_price_update ::
  "'w env \<Rightarrow> dec_ops \<Rightarrow> string \<Rightarrow> decimal \<Rightarrow> trailing_handler \<Rightarrow> 'w \<Rightarrow> trailing_handler \<times> 'w" where
  "on_price_update E D symbol price h w = fold (price_update_entry E D price) (active_on_symbol symbol h) (h, w)"

definition disconnect_entry :: "utc \<Rightarrow> trailing_entry \<Rightarrow> trailing_entry" where
  "disconnect_entry now e = te_set_status now (TrailUnavailable (te_created_at_utc e)
     (case te_status e of
        TrailActive stop_order_id peak stop t \<Rightarrow>
          ''Price source disconnected (stop order '' @ stop_order_id @ '' still active at broker)''
      | _ \<Rightarrow> ''Price source disconnected'') 0 None) e"

definition on_price_source_disconnected :: "utc \<Rightarrow> string \<Rightarrow> trailing_handler \<Rightarrow> trailing_handler" where
  "on_price_source_disconnected now symbol h =
     (let h1 = fold (\<lambda>pid. th_update pid (disconnect_entry now)) (active_on_symbol symbol h) h
      in h1\<lparr>th_symbol_tasks := dm_remove symbol (th_symbol_tasks h1)\<rparr>)"

subsection \<open>Recovery\<close>

definition calculate_recovery_backoff :: "trailing_config \<Rightarrow> nat \<Rightarrow> duration" where
  "calculate_recovery_backoff c failure_count =
     (if failure_count = 0 then 0
      else (let multiplier = 2 ^ min (failure_count - 1) 20;
                product = tc_recovery_interval c * multiplier;
                backoff = (if product \<le> duration_max then product else tc_max_recovery_backoff c)
            in min backoff (tc_max_recovery_backoff c)))"

record recovery_stats =
  rs_attempted :: nat
  rs_recovered :: nat
  rs_expired :: nat
  rs_still_unavailable :: nat
  rs_skipped :: nat

definition in_backoff :: "trailing_config \<Rightarrow> instant \<Rightarrow> trailing_entry \<Rightarrow> bool" where
  "in_backoff c inst e =
     (case te_status e of
        TrailUnavailable t r n (Some attempt) \<Rightarrow> 0 < n \<and> inst - attempt < calculate_recovery_backoff c n
      | _ \<Rightarrow> False)"

definition is_unavailable :: "trailing_status \<Rightarrow> bool" where
  "is_unavailable st = (case st of TrailUnavailable t r n l \<Rightarrow> True | _ \<Rightarrow> False)"

definition note_recovery_failure :: "instant \<Rightarrow> trailing_entry \<Rightarrow> trailing_entry" where
  "note_recovery_failure inst e =
     (case te_status e of
        TrailUnavailable t r n l \<Rightarrow> e\<lparr>te_status := TrailUnavailable t r (min (n + 1) u32_max) (Some inst)\<rparr>
      | _ \<Rightarrow> e)"

definition try_recover_entry ::
  "'w env \<Rightarrow> 'w price_feed \<Rightarrow> dec_ops \<Rightarrow> string \<Rightarrow> recovery_stats \<Rightarrow> trailing_handler \<Rightarrow> 'w
     \<Rightarrow> recovery_stats \<times> trailing_handler \<times> 'w" where
  "try_recover_entry E P D pid stats h w =
     (case th_get_entry h pid of
        None \<Rightarrow> (stats, h, w)
      | Some e \<Rightarrow>
          if instant_now E w - te_created_at e > tc_entry_ttl (th_config h) then
            (stats\<lparr>rs_expired := rs_expired stats + 1\<rparr>,
             th_update pid (te_set_status (utc_now E w) (TrailFailed
               ''Entry TTL expired while waiting for price source'' 0 (utc_now E w))) h, w)
          else if in_backoff (th_config h) (instant_now E w) e then
            (stats\<lparr>rs_skipped := rs_skipped stats + 1\<rparr>, h, w)
          else case try_activate_tracking E P D e h w of
            (Inr e', h1, w1) \<Rightarrow>
              (case th_get_entry h1 pid of
                 None \<Rightarrow> (stats, h1, w1)
               | Some cur \<Rightarrow>
                   if is_unavailable (te_status cur)
                   then (stats\<lparr>rs_recovered := rs_recovered stats + 1\<rparr>,
                         th_update pid (te_set_status (utc_now E w1) (te_status e')) h1, w1)
                   else (stats, h1, w1))
          | (Inl err, h1, w1) \<Rightarrow>
              (stats\<lparr>rs_still_unavailable := rs_still_unavailable stats + 1\<rparr>,
               th_update pid (note_recovery_failure (instant_now E w1)) h1, w1))"

fun recover_entries ::
  "'w env \<Rightarrow> 'w price_feed \<Rightarrow> dec_ops \<Rightarrow> string list \<Rightarrow> recovery_stats \<Rightarrow> trailing_handler \<Rightarrow> 'w
     \<Rightarrow> recovery_stats \<times> trailing_handler \<times> 'w" where
  "recover_entries E P D [] stats h w = (stats, h, w)"
| "recover_entries E P D (pid # pids) stats h w =
     (case try_recover_entry E P D pid stats h w of
        (stats1, h1, w1) \<Rightarrow> recover_entries E P D pids stats1 h1 w1)"

definition retry_unavailable_entries ::
  "'w env \<Rightarrow> 'w price_feed \<Rightarrow> dec_ops \<Rightarrow> trailing_handler \<Rightarrow> 'w \<Rightarrow> recovery_stats \<times> trailing_handler \<times> 'w" where
  "retry_unavailable_entries E P D h w =
     (let pids = map (\<lambda>p. te_placeholder_id (snd p))
                   (filter (\<lambda>p. is_unavailable (te_status (snd p))) (th_entries h))
      in recover_entries E P D pids
           \<lparr>rs_attempted = length pids, rs_recovered = 0, rs_expired = 0, rs_still_unavailable = 0,
            rs_skipped = 0\<rparr> h w)"

subsection \<open>Frames\<close>

text \<open>What every operation but registration keeps of an entry.\<close>

definition same_terms :: "trailing_entry \<Rightarrow> trailing_entry \<Rightarrow> bool" where
  "same_terms e e' = (te_placeholder_id e' = te_placeholder_id e \<and> te_primary_order_id e' = te_primary_order_id e
     \<and> te_symbol e' = te_symbol e \<and> te_side e' = te_side e \<and> te_quantity e' = te_quantity e
     \<and> te_trailing_distance e' = te_trailing_distance e \<and> te_trailing_type e' = te_trailing_type e
     \<and> te_created_at e' = te_created_at e)"

text \<open>
  An operation on one entry: other entries and the index stay, the entry keeps its terms, and an
  entry that is not alive is not touched.
\<close>

definition entry_evolves :: "trailing_entry option \<Rightarrow> trailing_entry option \<Rightarrow> bool" where
  "entry_evolves a b = (case a of None \<Rightarrow> b = None
     | Some e \<Rightarrow> \<exists>e'. b = Some e' \<and> same_terms e e' \<and> (trail_is_terminal (te_status e) \<longrightarrow> e' = e))"

definition touches_only :: "string \<Rightarrow> trailing_handler \<Rightarrow> trailing_handler \<Rightarrow> bool" where
  "touches_only pid h h' = (th_by_primary h' = th_by_primary h \<and> th_config h' = th_config h
     \<and> (\<forall>k. k \<noteq> pid \<longrightarrow> th_get_entry h' k = th_get_entry h k)
     \<and> entry_evolves (th_get_entry h pid) (th_get_entry h' pid)
     \<and> (dm_wf (th_entries h) \<longrightarrow> dm_wf (th_entries h')))"

lemma same_terms_refl [simp]: "same_terms e e"
  by (simp add: same_terms_def)

lemma same_terms_trans: "same_terms a b \<Longrightarrow> same_terms b c \<Longrightarrow> same_terms a c"
  by (simp add: same_terms_def)

lemma same_terms_status [simp]: "same_terms e (te_set_status now st e)"
  by (simp add: same_terms_def)

lemma th_get_entry_update [simp]:
  "th_get_entry (th_update pid f h) k = (if k = pid then map_option f (th_get_entry h k) else th_get_entry h k)"
  by (simp add: th_get_entry_def th_update_def)

lemma th_update_frame [simp]:
  "th_by_primary (th_update pid f h) = th_by_primary h" "th_config (th_update pid f h) = th_config h"
  "th_breaker (th_update pid f h) = th_breaker h" "th_symbol_tasks (th_update pid f h) = th_symbol_tasks h"
  "th_self_ref (th_update pid f h) = th_self_ref h" "th_platform (th_update pid f h) = th_platform h"
  "dm_wf (th_entries h) \<Longrightarrow> dm_wf (th_entries (th_update pid f h))"
  by (simp_all add: th_update_def)

lemma failure_frame [simp]:
  "th_get_entry (record_stop_order_failure inst h) = th_get_entry h"
  "th_by_primary (record_stop_order_failure inst h) = th_by_primary h"
  "th_config (record_stop_order_failure inst h) = th_config h"
  "th_entries (record_stop_order_failure inst h) = th_entries h"
  "th_symbol_tasks (record_stop_order_failure inst h) = th_symbol_tasks h"
  by (simp_all add: record_stop_order_failure_def th_get_entry_def fun_eq_iff)

lemma task_frame [simp]:
  "th_get_entry (spawn_tracking_task symbol h) = th_get_entry h"
  "th_by_primary (spawn_tracking_task symbol h) = th_by_primary h"
  "th_config (spawn_tracking_task symbol h) = th_config h"
  "th_entries (spawn_tracking_task symbol h) = th_entries h"
  "th_get_entry (decrement_symbol_task symbol h) = th_get_entry h"
  "th_by_primary (decrement_symbol_task symbol h) = th_by_primary h"
  "th_config (decrement_symbol_task symbol h) = th_config h"
  "th_entries (decrement_symbol_task symbol h) = th_entries h"
  by (simp_all add: spawn_tracking_task_def decrement_symbol_task_def th_get_entry_def fun_eq_iff split: option.splits)

lemma entry_evolves_refl [simp]: "entry_evolves a a"
  by (simp add: entry_evolves_def split: option.splits)

lemma entry_evolves_None [simp]: "entry_evolves None b \<longleftrightarrow> b = None"
  by (simp add: entry_evolves_def)

lemma entry_evolves_Some [simp]: "entry_evolves (Some e) b \<longleftrightarrow>
    (\<exists>e'. b = Some e' \<and> same_terms e e' \<and> (trail_is_terminal (te_status e) \<longrightarrow> e' = e))"
  by (simp add: entry_evolves_def)

lemma entry_evolves_trans: "entry_evolves a b \<Longrightarrow> entry_evolves b c \<Longrightarrow> entry_evolves a c"
  by (cases a; cases b) (auto intro: same_terms_trans)

lemma touches_refl [simp]: "touches_only pid h h"
  by (simp add: touches_only_def)

lemma touches_update:
  assumes "\<And>e. th_get_entry h pid = Some e \<Longrightarrow> same_terms e (f e) \<and> (trail_is_terminal (te_status e) \<longrightarrow> f e = e)"
  shows "touches_only pid h (th_update pid f h)"
  using assms by (cases "th_get_entry h pid") (auto simp: touches_only_def)

lemma touches_trans:
  assumes "touches_only pid a b" "touches_only pid b c"
  shows "touches_only pid a c"
  using assms by (auto simp: touches_only_def intro: entry_evolves_trans)

lemma touches_then_update:
  assumes "touches_only pid a b" "\<And>e. same_terms e (f e) \<and> (trail_is_terminal (te_status e) \<longrightarrow> f e = e)"
  shows "touches_only pid a (th_update pid f b)"
  using assms by (blast intro: touches_trans touches_update)

lemma touches_failure [simp]: "touches_only pid h (record_stop_order_failure inst h)"
  by (simp add: touches_only_def)

lemma move_terms [simp]:
  "same_terms e (move_tracking D now p e)" "same_terms e (move_active now p q e)" "same_terms e (move_state now p q e)"
  "same_terms e (set_active now i q e)"
  by (simp_all add: move_tracking_def move_active_def move_state_def set_active_def split: trailing_status.splits)

lemma move_terminal [simp]:
  "trail_is_terminal (te_status e) \<Longrightarrow> move_tracking D now p e = e"
  "trail_is_terminal (te_status e) \<Longrightarrow> move_active now p q e = e"
  "trail_is_terminal (te_status e) \<Longrightarrow> move_state now p q e = e"
  "trail_is_terminal (te_status e) \<Longrightarrow> set_active now i q e = e"
  by (simp_all add: trail_is_terminal_def move_tracking_def move_active_def move_state_def set_active_def
      split: trailing_status.splits)

lemma adjust_touches: "touches_only pid h (fst (snd (adjust_stop_order E pid i symbol q sd qty h w)))"
  by (simp add: adjust_stop_order_def Let_def touches_then_update split: prod.splits sum.splits)

lemma place_touches:
  assumes "\<And>e. th_get_entry h pid = Some e \<Longrightarrow> \<not> trail_is_terminal (te_status e)"
  shows "touches_only pid h (fst (snd (place_initial_stop E pid symbol sd qty q h w)))"
proof -
  have "touches_only pid h (th_update pid (\<lambda>e. te_set_status now (st e) e) h)" for now st
    by (rule touches_update) (simp add: assms)
  moreover have "touches_only pid h (th_update pid (te_set_status now st) (record_stop_order_failure inst h))" for now st inst
    by (rule touches_trans [OF touches_failure touches_update]) (simp add: assms)
  ultimately show ?thesis
    by (simp add: place_initial_stop_def split: prod.splits sum.splits)
qed

lemma execute_touches:
  assumes act: "price_action D e price = Some action" and e: "th_get_entry h pid = Some e"
  shows "touches_only pid h (fst (execute_price_update_action E D pid action h w))"
proof (cases action)
  case (PlaceStop symbol sd qty q peak)
  have "\<not> trail_is_terminal (te_status e)"
    using act by (auto simp: price_action_def trail_is_terminal_def split: trailing_status.splits)
  then have "touches_only pid h (fst (snd (place_initial_stop E pid symbol sd qty q h w)))"
    using e by (intro place_touches) simp
  then show ?thesis
    by (auto simp: PlaceStop handle_place_stop_action_def split: prod.splits intro!: touches_then_update)
next
  case (AdjustStop i symbol sd qty q peak)
  then show ?thesis
    using adjust_touches [of pid h E i symbol q sd qty w]
    by (auto split: prod.splits sum.splits option.splits intro!: touches_then_update)
next
  case (UpdateStateOnly p q)
  then show ?thesis by (simp add: touches_update)
qed

lemma price_update_entry_touches: "touches_only pid (fst hw) (fst (price_update_entry E D price pid hw))"
  using execute_touches by (auto simp: price_update_entry_def split: option.splits)

end
