(* ===== verification/Gw_Trailing_Props.thy ===== *)
theory Gw_Trailing_Props
  imports Gw_Trailing
begin

text \<open>
  The trailing stop handler as a transition system with its invariant, what it does with prices,
  and where it falls short.
\<close>

subsection \<open>Evolution of the entries\<close>

text \<open>What all operations but registration have in common.\<close>

definition evolves :: "trailing_handler \<Rightarrow> trailing_handler \<Rightarrow> bool" where
  "evolves h h' = ((\<forall>p k. get_placeholder_for_primary h' p = Some k \<longrightarrow> get_placeholder_for_primary h p = Some k)
     \<and> (\<forall>k. entry_evolves (th_get_entry h k) (th_get_entry h' k))
     \<and> (dm_wf (th_entries h) \<longrightarrow> dm_wf (th_entries h')))"

definition th_inv :: "trailing_handler \<Rightarrow> bool" where
  "th_inv h = (dm_wf (th_entries h)
     \<and> (\<forall>k e. th_get_entry h k = Some e \<longrightarrow> te_placeholder_id e = k
          \<and> k = trailing_placeholder_id (te_primary_order_id e) \<and> 0 < te_trailing_distance e
          \<and> (te_trailing_type e = Percent \<longrightarrow> te_trailing_distance e < 100))
     \<and> (\<forall>p k. get_placeholder_for_primary h p = Some k \<longrightarrow>
          k = trailing_placeholder_id p \<and> th_get_entry h k \<noteq> None))"

lemma evolves_refl [simp]: "evolves h h"
  by (simp add: evolves_def)

lemma evolves_trans: "evolves a b \<Longrightarrow> evolves b c \<Longrightarrow> evolves a c"
  unfolding evolves_def by (blast intro: entry_evolves_trans)

lemma touches_evolves: "touches_only pid h h' \<Longrightarrow> evolves h h'"
  unfolding evolves_def touches_only_def get_placeholder_for_primary_def
  by (metis entry_evolves_refl)

lemma evolves_tasks [simp]:
  "evolves h (spawn_tracking_task symbol h)" "evolves h (decrement_symbol_task symbol h)"
  "evolves h (h\<lparr>th_symbol_tasks := t\<rparr>)" "evolves h (h\<lparr>th_breaker := b\<rparr>)"
  by (simp_all add: evolves_def get_placeholder_for_primary_def) (simp_all add: th_get_entry_def)

lemma evolves_unindex: "evolves h (h\<lparr>th_by_primary := dm_remove p (th_by_primary h)\<rparr>)"
  by (simp add: evolves_def get_placeholder_for_primary_def th_get_entry_def)

lemma evolves_insert:
  "th_get_entry h k = Some e \<Longrightarrow> \<not> trail_is_terminal (te_status e) \<Longrightarrow> same_terms e e' \<Longrightarrow>
   evolves h (h\<lparr>th_entries := dm_insert k e' (th_entries h)\<rparr>)"
  by (auto simp: evolves_def get_placeholder_for_primary_def th_get_entry_def)

lemma evolvesD:
  assumes "evolves h h'"
  shows "th_get_entry h k = Some e \<Longrightarrow>
      \<exists>e'. th_get_entry h' k = Some e' \<and> same_terms e e' \<and> (trail_is_terminal (te_status e) \<longrightarrow> e' = e)"
    and "th_get_entry h' k = Some e' \<Longrightarrow> \<exists>e. th_get_entry h k = Some e \<and> same_terms e e'"
    and "get_placeholder_for_primary h' p = Some k \<Longrightarrow> get_placeholder_for_primary h p = Some k"
    and "dm_wf (th_entries h) \<Longrightarrow> dm_wf (th_entries h')"
proof -
  have ev: "entry_evolves (th_get_entry h k) (th_get_entry h' k)" using assms by (simp add: evolves_def)
  show "th_get_entry h k = Some e \<Longrightarrow>
      \<exists>e'. th_get_entry h' k = Some e' \<and> same_terms e e' \<and> (trail_is_terminal (te_status e) \<longrightarrow> e' = e)"
    using ev by simp
  show "th_get_entry h' k = Some e' \<Longrightarrow> \<exists>e. th_get_entry h k = Some e \<and> same_terms e e'"
    using ev by (cases "th_get_entry h k") auto
qed (use assms in \<open>simp_all add: evolves_def\<close>)

lemma evolves_inv:
  assumes ev: "evolves h h'" and inv: "th_inv h"
  shows "th_inv h'"
  unfolding th_inv_def
proof (intro conjI allI impI)
  show "dm_wf (th_entries h')" using evolvesD(4) [OF ev] inv by (simp add: th_inv_def)
next
  fix p k
  assume "get_placeholder_for_primary h' p = Some k"
  then have "get_placeholder_for_primary h p = Some k" by (rule evolvesD(3) [OF ev])
  then have "k = trailing_placeholder_id p" "th_get_entry h k \<noteq> None"
    using inv by (simp_all add: th_inv_def)
  then show "k = trailing_placeholder_id p" "th_get_entry h' k \<noteq> None"
    using evolvesD(1) [OF ev] by auto
next
  fix k e'
  assume "th_get_entry h' k = Some e'"
  then obtain e where e: "th_get_entry h k = Some e" "same_terms e e'" using evolvesD(2) [OF ev] by blast
  then show "te_placeholder_id e' = k" "k = trailing_placeholder_id (te_primary_order_id e')"
    "0 < te_trailing_distance e'" "te_trailing_type e' = Percent \<Longrightarrow> te_trailing_distance e' < 100"
    using inv by (auto simp: th_inv_def same_terms_def)
qed

lemma evolves_update:
  "(\<And>e. th_get_entry h k = Some e \<Longrightarrow> same_terms e (f e) \<and> (trail_is_terminal (te_status e) \<longrightarrow> f e = e)) \<Longrightarrow>
   evolves h (th_update k f h)"
  by (rule touches_evolves [OF touches_update])

lemma active_listed:
  assumes "th_inv h" "pid \<in> set (active_on_symbol symbol h)"
  shows "\<exists>e. th_get_entry h pid = Some e \<and> trail_is_active (te_status e)"
proof -
  obtain k e where ke: "(k, e) \<in> set (th_entries h)" "te_placeholder_id e = pid" "trail_is_active (te_status e)"
    using assms(2) by (auto simp: active_on_symbol_def)
  then have "th_get_entry h k = Some e"
    using assms(1) dm_get_in [of "th_entries h" k e] by (simp add: th_inv_def th_get_entry_def)
  then show ?thesis using ke assms(1) by (auto simp: th_inv_def)
qed

lemma active_trail_not_terminal: "trail_is_active st \<Longrightarrow> \<not> trail_is_terminal st"
  by (auto simp: trail_is_active_def trail_is_terminal_def split: trailing_status.splits)

lemma evolves_cancel: "evolves h (snd (th_cancel now pid reason h))"
proof (cases "th_get_entry h pid")
  case (Some e)
  show ?thesis
  proof (cases "trail_is_terminal (te_status e)")
    case False
    let ?h1 = "th_update pid (te_set_status now (TrailCancelled now reason)) h"
    let ?h2 = "?h1\<lparr>th_by_primary := dm_remove (te_primary_order_id e) (th_by_primary ?h1)\<rparr>"
    have "evolves h ?h1" using Some False by (intro evolves_update) simp
    then have "evolves h ?h2" using evolves_unindex by (rule evolves_trans)
    then have "evolves h (decrement_symbol_task (te_symbol e) ?h2)"
      using evolves_tasks(2) by (rule evolves_trans)
    then show ?thesis using Some False by (simp add: th_cancel_def)
  qed (simp add: th_cancel_def Some)
qed (simp add: th_cancel_def)

lemma evolves_cancel_async: "evolves h (fst (snd (cancel_async E pid reason h w)))"
  by (auto simp: cancel_async_def Let_def evolves_cancel split: option.splits prod.splits trailing_status.splits)
     (metis evolves_cancel snd_conv)+

lemma evolves_primary:
  "evolves h (snd (on_primary_cancelled now p h))" "evolves h (snd (on_primary_rejected now p h))"
  by (simp_all add: on_primary_cancelled_def on_primary_rejected_def evolves_cancel split: option.splits)

lemma activate_entry:
  assumes "try_activate_tracking E P D e h w = (Inr e', h1, w1)"
  shows "same_terms e e' \<and> h1 = spawn_tracking_task (te_symbol e) h"
  using assms by (auto simp: try_activate_tracking_def split: prod.splits sum.splits)

lemma activate_failed:
  "try_activate_tracking E P D e h w = (Inl err, h1, w1) \<Longrightarrow> h1 = h"
  by (auto simp: try_activate_tracking_def split: prod.splits sum.splits)

lemma activation_failure_terms: "handle_activation_failure now e err = Inr e' \<Longrightarrow> same_terms e e'"
  by (auto simp: handle_activation_failure_def split: gateway_error.splits)

lemma pending_not_terminal: "trail_is_pending st \<Longrightarrow> \<not> trail_is_terminal st"
  by (auto simp: trail_is_pending_def trail_is_terminal_def split: trailing_status.splits)

lemma evolves_filled: "evolves h (fst (snd (on_primary_filled E P D p price h w)))"
proof (cases "get_placeholder_for_primary h p")
  case (Some pid)
  note pid = Some
  show ?thesis
  proof (cases "th_get_entry h pid")
    case (Some e)
    have ins: "evolves h (h1\<lparr>th_entries := dm_insert pid e' (th_entries h1)\<rparr>)"
      if "trail_is_pending (te_status e)" "same_terms e e'" "h1 = h \<or> h1 = spawn_tracking_task (te_symbol e) h" for e' h1
    proof -
      have "th_get_entry h1 pid = Some e" "evolves h h1" using that(3) Some by auto
      then show ?thesis using that(1,2) by (blast intro: evolves_trans evolves_insert dest: pending_not_terminal)
    qed
    obtain r h1 w1 where r: "try_activate_tracking E P D e h w = (r, h1, w1)" by (cases "try_activate_tracking E P D e h w")
    show ?thesis
    proof (cases r)
      case (Inl err)
      then have "h1 = h" using activate_failed [of E P D e h w] r by simp
      then show ?thesis using pid Some r Inl ins
        by (auto simp: on_primary_filled_def dest: activation_failure_terms split: sum.splits)
    next
      case (Inr e')
      then have "same_terms e e'" "h1 = spawn_tracking_task (te_symbol e) h"
        using activate_entry [of E P D e h w] r by simp_all
      then show ?thesis using pid Some r Inr ins [of e' h1] by (simp add: on_primary_filled_def)
    qed
  qed (simp add: on_primary_filled_def pid)
qed (simp add: on_primary_filled_def)

lemma evolves_price_fold:
  "evolves (fst hw) (fst (fold (price_update_entry E D price) pids hw))"
proof (induction pids arbitrary: hw)
  case (Cons pid pids)
  have "evolves (fst hw) (fst (price_update_entry E D price pid hw))"
    by (rule touches_evolves [OF price_update_entry_touches])
  then show ?case using Cons.IH by (simp add: evolves_trans)
qed simp

lemma evolves_price: "evolves h (fst (on_price_update E D symbol price h w))"
  using evolves_price_fold [of "(h, w)"] by (simp add: on_price_update_def)

lemma evolves_disconnect_fold:
  "(\<And>pid e. pid \<in> set pids \<Longrightarrow> th_get_entry h pid = Some e \<Longrightarrow> \<not> trail_is_terminal (te_status e)) \<Longrightarrow>
   evolves h (fold (\<lambda>pid. th_update pid (disconnect_entry now)) pids h)"
proof (induction pids arbitrary: h)
  case (Cons pid pids)
  have "evolves h (th_update pid (disconnect_entry now) h)"
    using Cons.prems by (intro evolves_update) (auto simp: disconnect_entry_def)
  moreover have "evolves (th_update pid (disconnect_entry now) h)
      (fold (\<lambda>pid. th_update pid (disconnect_entry now)) pids (th_update pid (disconnect_entry now) h))"
    using Cons.prems by (intro Cons.IH) (auto simp: disconnect_entry_def trail_is_terminal_def split: if_splits)
  ultimately show ?case by (simp add: evolves_trans)
qed simp

lemma evolves_disconnected:
  assumes "th_inv h"
  shows "evolves h (on_price_source_disconnected now symbol h)"
proof -
  have "evolves h (fold (\<lambda>pid. th_update pid (disconnect_entry now)) (active_on_symbol symbol h) h)"
    using active_listed [OF assms] active_trail_not_terminal by (intro evolves_disconnect_fold) fastforce
  then show ?thesis
    unfolding on_price_source_disconnected_def Let_def using evolves_tasks(3) by (rule evolves_trans)
qed

lemma recover_touches:
  assumes "\<And>e. th_get_entry h pid = Some e \<Longrightarrow> \<not> trail_is_terminal (te_status e)"
  shows "touches_only pid h (fst (snd (try_recover_entry E P D pid stats h w)))"
proof (cases "th_get_entry h pid")
  case (Some e)
  have live: "\<not> trail_is_terminal (te_status e)" using assms Some by simp
  have upd: "touches_only pid h (th_update pid (te_set_status now st) h)" for now st
    using Some live by (intro touches_update) simp
  have spawn: "touches_only pid h (spawn_tracking_task (te_symbol e) h)"
    by (simp add: touches_only_def)
  then have upd': "touches_only pid h (th_update pid (te_set_status now st) (spawn_tracking_task (te_symbol e) h))" for now st
    using Some live by (rule_tac touches_trans [OF _ touches_update]) simp_all
  have note_failure: "touches_only pid h (th_update pid (note_recovery_failure inst) h)" for inst
    using Some live by (intro touches_update)
      (auto simp: note_recovery_failure_def same_terms_def split: trailing_status.splits)
  obtain r h1 w1 where r: "try_activate_tracking E P D e h w = (r, h1, w1)" by (cases "try_activate_tracking E P D e h w")
  show ?thesis
  proof (cases r)
    case (Inl err)
    then have "h1 = h" using activate_failed [of E P D e h w] r by simp
    then show ?thesis using Some r Inl upd note_failure by (simp add: try_recover_entry_def)
  next
    case (Inr e')
    then have "h1 = spawn_tracking_task (te_symbol e) h" using activate_entry [of E P D e h w] r by simp
    then show ?thesis using Some r Inr upd upd' spawn by (simp add: try_recover_entry_def)
  qed
qed (simp add: try_recover_entry_def)

lemma evolves_recover:
  "distinct pids \<Longrightarrow> (\<And>pid e. pid \<in> set pids \<Longrightarrow> th_get_entry h pid = Some e \<Longrightarrow> \<not> trail_is_terminal (te_status e)) \<Longrightarrow>
   evolves h (fst (snd (recover_entries E P D pids stats h w)))"
proof (induction pids arbitrary: stats h w)
  case (Cons pid pids)
  obtain stats1 h1 w1 where r: "try_recover_entry E P D pid stats h w = (stats1, h1, w1)"
    by (cases "try_recover_entry E P D pid stats h w")
  have "touches_only pid h (fst (snd (try_recover_entry E P D pid stats h w)))"
    by (rule recover_touches) (use Cons.prems(2) [of pid] in simp)
  then have t: "touches_only pid h h1" by (simp add: r)
  have "evolves h1 (fst (snd (recover_entries E P D pids stats1 h1 w1)))"
  proof (rule Cons.IH)
    fix k e
    assume k: "k \<in> set pids" "th_get_entry h1 k = Some e"
    then have "th_get_entry h k = Some e"
      using t Cons.prems(1) by (metis distinct.simps(2) touches_only_def)
    then show "\<not> trail_is_terminal (te_status e)"
      using Cons.prems(2) [of k] k(1) by simp
  qed (use Cons.prems in simp)
  then show ?case using touches_evolves [OF t] by (simp add: r evolves_trans)
qed simp

lemma unavailable_keys:
  assumes "th_inv h"
  shows "map (\<lambda>p. te_placeholder_id (snd p)) (filter Q (th_entries h)) = map fst (filter Q (th_entries h))"
proof (rule map_cong [OF refl])
  fix p
  assume "p \<in> set (filter Q (th_entries h))"
  then have "th_get_entry h (fst p) = Some (snd p)"
    using assms dm_get_in [of "th_entries h" "fst p" "snd p"] by (simp add: th_inv_def th_get_entry_def)
  then show "te_placeholder_id (snd p) = fst p" using assms by (simp add: th_inv_def)
qed

lemma evolves_retry:
  assumes inv: "th_inv h"
  shows "evolves h (fst (snd (retry_unavailable_entries E P D h w)))"
  unfolding retry_unavailable_entries_def Let_def unavailable_keys [OF inv]
proof (rule evolves_recover)
  let ?Q = "\<lambda>p. is_unavailable (te_status (snd p))"
  show "distinct (map fst (filter ?Q (th_entries h)))"
    using inv by (simp add: th_inv_def dm_wf_def distinct_map_filter)
  fix pid e
  assume "pid \<in> set (map fst (filter ?Q (th_entries h)))" and e: "th_get_entry h pid = Some e"
  then obtain e' where "(pid, e') \<in> set (th_entries h)" "is_unavailable (te_status e')" by auto
  then have "is_unavailable (te_status e)"
    using inv e dm_get_in [of "th_entries h" pid e'] by (simp add: th_inv_def th_get_entry_def)
  then show "\<not> trail_is_terminal (te_status e)"
    by (auto simp: is_unavailable_def trail_is_terminal_def split: trailing_status.splits)
qed

lemma th_inv_register: "th_inv h \<Longrightarrow> th_inv (snd (th_register dts inst now p r h))"
  by (auto simp: th_register_def Let_def th_inv_def th_get_entry_def get_placeholder_for_primary_def
      trailing_entry_new_def split: option.splits if_splits)

subsection \<open>The handler as a transition system\<close>

inductive trailing_step ::
  "'w env \<Rightarrow> 'w price_feed \<Rightarrow> dec_ops \<Rightarrow> string set \<Rightarrow> trailing_handler \<times> 'w \<Rightarrow> trailing_handler \<times> 'w \<Rightarrow> bool"
  for E P D R where
  trail_register: "p \<in> R \<Longrightarrow> trailing_step E P D R (h, w) (snd (th_register (dec_to_string E) inst now p r h), w)"
| trail_cancel: "trailing_step E P D R (h, w) (snd (th_cancel now pid reason h), w)"
| trail_cancel_async: "trailing_step E P D R (h, w) (snd (cancel_async E pid reason h w))"
| trail_primary_cancelled: "trailing_step E P D R (h, w) (snd (on_primary_cancelled now p h), w)"
| trail_primary_rejected: "trailing_step E P D R (h, w) (snd (on_primary_rejected now p h), w)"
| trail_primary_filled: "trailing_step E P D R (h, w) (snd (on_primary_filled E P D p price h w))"
| trail_price: "trailing_step E P D R (h, w) (on_price_update E D symbol price h w)"
| trail_disconnected: "trailing_step E P D R (h, w) (on_price_source_disconnected now symbol h, w)"
| trail_retry: "trailing_step E P D R (h, w) (snd (retry_unavailable_entries E P D h w))"
| trail_reset: "trailing_step E P D R (h, w) (th_reset_breaker inst h, w)"
| trail_world: "trailing_step E P D R (h, w) (h, w')"

lemma trailing_step_evolves:
  assumes "trailing_step E P D R s s'" "th_inv (fst s)"
  shows "evolves (fst s) (fst s') \<or> (\<exists>dts inst now p r. p \<in> R \<and> fst s' = snd (th_register dts inst now p r (fst s)))"
  using assms
proof (induction rule: trailing_step.induct)
  case (trail_register p h w inst now r)
  then show ?case by (metis fst_conv)
qed (auto simp: evolves_cancel evolves_cancel_async evolves_primary evolves_filled evolves_price
        evolves_disconnected evolves_retry th_reset_breaker_def)

definition trailing_start :: "trailing_handler \<times> 'w \<Rightarrow> bool" where
  "trailing_start s = (\<exists>platform config. fst s = trailing_handler_new_arc platform config)"

interpretation trailing: invariant_system trailing_start "trailing_step E P D R" "\<lambda>s. th_inv (fst s)"
  for E :: "'w env" and P D R
proof
  show "trailing_start s \<Longrightarrow> th_inv (fst s)" for s :: "trailing_handler \<times> 'w"
    by (auto simp: trailing_start_def trailing_handler_new_arc_def trailing_handler_new_def th_inv_def
        th_get_entry_def get_placeholder_for_primary_def dm_wf_def)
  show "th_inv (fst s) \<Longrightarrow> trailing_step E P D R s s' \<Longrightarrow> th_inv (fst s')" for s s'
    using trailing_step_evolves [of E P D R s s'] by (auto intro: evolves_inv th_inv_register)
qed

text \<open>
  C32: Under any sequence of operations every trailing entry is stored under the placeholder id of
  its primary order, its distance is positive and below 100 when it is a percentage, and the index
  by primary order leads to an existing entry of that order.
\<close>

theorem trailing_entries_consistent:
  assumes "reachable trailing_start (trailing_step E P D R) (h, w)"
  shows "(\<forall>k e. th_get_entry h k = Some e \<longrightarrow> te_placeholder_id e = k
        \<and> parse_trailing_id k = Some (te_primary_order_id e) \<and> 0 < te_trailing_distance e
        \<and> (te_trailing_type e = Percent \<longrightarrow> te_trailing_distance e < 100))
    \<and> (\<forall>p k. get_placeholder_for_primary h p = Some k \<longrightarrow>
        (\<exists>e. th_get_entry h k = Some e \<and> te_primary_order_id e = p))"
  using trailing.reachable_inv [OF assms] parse_trailing_id_roundtrip
  by (fastforce simp: th_inv_def)


end
