(* ===== verification/Gw_Trailing_Cases.thy ===== *)
theory Gw_Trailing_Cases
  imports Gw_Trailing_Props
begin

text \<open>
  What a price update does to a handler that tracks one entry: the first price places the stop, and
  the cases in which the stop the handler believes in is not the one that rests at the broker.
\<close>

definition only_entry :: "trailing_handler \<Rightarrow> string \<Rightarrow> trailing_entry \<Rightarrow> bool" where
  "only_entry h pid e = (th_entries h = [(pid, e)] \<and> te_placeholder_id e = pid)"

lemma only_entryD [simp]:
  "only_entry h pid e \<Longrightarrow> th_get_entry h pid = Some e"
  "only_entry h pid e \<Longrightarrow> th_get_status h pid = Some (te_status e)"
  by (simp_all add: only_entry_def th_get_entry_def th_get_status_def)

lemma only_entry_update [simp]:
  "only_entry h pid e \<Longrightarrow> te_placeholder_id (f e) = te_placeholder_id e \<Longrightarrow> only_entry (th_update pid f h) pid (f e)"
  by (simp add: only_entry_def th_update_def dm_modify_def)

lemma only_entry_failure [simp]: "only_entry (record_stop_order_failure inst h) pid e = only_entry h pid e"
  by (simp add: only_entry_def)

lemma only_price_update:
  assumes "only_entry h pid e" "te_symbol e = symbol" "trail_is_active (te_status e)"
  shows "on_price_update E D symbol price h w =
    (case price_action D e price of None \<Rightarrow> (h, w)
     | Some action \<Rightarrow> execute_price_update_action E D pid action h w)"
proof -
  have "active_on_symbol symbol h = [pid]"
    using assms by (simp add: active_on_symbol_def only_entry_def)
  then show ?thesis
    using assms by (simp add: on_price_update_def price_update_entry_def split: option.splits)
qed

lemma only_price_update_off:
  "only_entry h pid e \<Longrightarrow> \<not> trail_is_active (te_status e) \<Longrightarrow> on_price_update E D symbol price h w = (h, w)"
  by (simp add: on_price_update_def active_on_symbol_def only_entry_def)

subsection \<open>The first price\<close>


subsection \<open>Recovery backoff\<close>

text \<open>
  The recovery backoff is bounded by its maximum, never shrinks with more failures, is zero
  only without failures when the interval and the maximum are positive, and doubles with each of
  the first failures until the maximum is reached.
\<close>

theorem recovery_backoff_bounds:
  assumes "n \<le> m"
  shows "calculate_recovery_backoff c m \<le> tc_max_recovery_backoff c
    \<and> calculate_recovery_backoff c n \<le> calculate_recovery_backoff c m
    \<and> (0 < tc_recovery_interval c \<longrightarrow> 0 < tc_max_recovery_backoff c \<longrightarrow>
         (calculate_recovery_backoff c n = 0 \<longleftrightarrow> n = 0))
    \<and> (0 < n \<longrightarrow> n \<le> 21 \<longrightarrow> tc_recovery_interval c * 2 ^ (n - 1) \<le> duration_max \<longrightarrow>
         calculate_recovery_backoff c n = min (tc_recovery_interval c * 2 ^ (n - 1)) (tc_max_recovery_backoff c))"
proof -
  let ?p = "\<lambda>k. tc_recovery_interval c * 2 ^ min (k - 1) 20" and ?M = "tc_max_recovery_backoff c"
  define g where "g x = min (if x \<le> duration_max then x else ?M) ?M" for x
  have g: "calculate_recovery_backoff c k = (if k = 0 then 0 else g (?p k))" for k
    by (simp only: calculate_recovery_backoff_def Let_def g_def)
  have mono: "x \<le> y \<Longrightarrow> g x \<le> g y" and bound: "g x \<le> ?M" and pos: "0 < x \<Longrightarrow> 0 < ?M \<Longrightarrow> 0 < g x"
    and exact: "x \<le> duration_max \<Longrightarrow> g x = min x ?M" for x y
    by (auto simp: g_def)
  have p: "?p n \<le> ?p m" using assms by (intro mult_left_mono power_increasing) auto
  have "calculate_recovery_backoff c m \<le> ?M" by (simp add: g bound)
  moreover have "calculate_recovery_backoff c n \<le> calculate_recovery_backoff c m"
    using assms mono [OF p] by (auto simp: g)
  moreover have "calculate_recovery_backoff c n = 0 \<longleftrightarrow> n = 0" if "0 < tc_recovery_interval c" "0 < ?M"
    using pos [of "?p n"] that by (auto simp: g)
  moreover have "calculate_recovery_backoff c n = min (tc_recovery_interval c * 2 ^ (n - 1)) ?M"
    if "0 < n" "n \<le> 21" "tc_recovery_interval c * 2 ^ (n - 1) \<le> duration_max"
  proof -
    have "min (n - 1) 20 = n - 1" using that(2) by simp
    then show ?thesis using that(1,3) exact [of "?p n"] by (simp add: g)
  qed
  ultimately show ?thesis by blast
qed

subsection \<open>Where the stop goes astray\<close>

definition replaces_accepted :: "'w env \<Rightarrow> bool" where
  "replaces_accepted E = ((\<forall>i w. \<exists>c w'. cancel_order E i w = (Inr c, w') \<and> o_status (cr_order c) \<noteq> Filled)
     \<and> (\<forall>r w. \<exists>handle w'. submit_order E r w = (Inr handle, w')))"

lemma modify_accepted:
  assumes "replaces_accepted E"
  shows "\<exists>j now w'. modify_stop_order E r w = (Inr \<lparr>ps_order_id = j, ps_stop_price = ms_new_stop_price r, ps_placed_at = now\<rparr>, w')"
proof -
  obtain c w1 where "cancel_order E (ms_order_id r) w = (Inr c, w1)" "o_status (cr_order c) \<noteq> Filled"
    using assms unfolding replaces_accepted_def by blast
  moreover obtain handle w2 where "submit_order E (build_stop_order \<lparr>sr_symbol = ms_symbol r, sr_side = ms_side r,
      sr_quantity = ms_quantity r, sr_stop_price = ms_new_stop_price r, sr_limit_price = ms_new_limit_price r\<rparr>) w1
      = (Inr handle, w2)"
    using assms unfolding replaces_accepted_def by blast
  ultimately show ?thesis by (simp add: modify_stop_order_def)
qed

lemma adjust_moves_stop:
  assumes only: "only_entry h pid e" "te_symbol e = symbol" and brk: "\<not> th_breaker_open h"
    and st: "te_status e = TrailActive i peak stop t" and E: "replaces_accepted E"
    and price: "is_peak_improvement peak price (te_side e)" "should_adjust_stop D stop (calculate_stop D e price)"
  shows "\<exists>h' w' e' j t'. on_price_update E D symbol price h w = (h', w') \<and> only_entry h' pid e' \<and> same_terms e e'
    \<and> \<not> th_breaker_open h' \<and> te_status e' = TrailActive j peak (calculate_stop D e price) t'"
proof -
  let ?q = "calculate_stop D e price"
  have act: "price_action D e price = Some (AdjustStop i symbol (te_side e) (te_quantity e) ?q price)"
    using only(2) price by (simp add: price_action_def st te_is_peak_improvement_def Let_def)
  obtain j now w1 where m: "modify_stop_order E \<lparr>ms_order_id = i, ms_symbol = symbol, ms_side = te_side e,
      ms_quantity = te_quantity e, ms_new_stop_price = ?q, ms_new_limit_price = ?q\<rparr> w =
      (Inr \<lparr>ps_order_id = j, ps_stop_price = ?q, ps_placed_at = now\<rparr>, w1)"
    using modify_accepted [OF E] by (metis modify_stop_request.select_convs(5))
  let ?e' = "set_active (utc_now E w1) j ?q e"
  have "on_price_update E D symbol price h w = (th_update pid (set_active (utc_now E w1) j ?q) h, w1)"
    using only brk act m by (simp add: only_price_update st trail_is_active_def adjust_stop_order_def)
  moreover have "only_entry (th_update pid (set_active (utc_now E w1) j ?q) h) pid ?e'"
    using only(1) by (rule only_entry_update) (simp add: set_active_def st)
  moreover have "te_status ?e' = TrailActive j peak ?q (utc_now E w1)" by (simp add: set_active_def st)
  ultimately show ?thesis using brk by (metis move_terms(4) th_breaker_open_def th_update_frame(3))
qed

text \<open>
  A trailing stop can loosen. Adjusting a stop does not record the new peak, so after a price
  rises to \<open>p1\<close> and falls back to \<open>p2\<close>, still above the recorded peak, the stop of a long position
  is moved down from the level of \<open>p1\<close> to the level of \<open>p2\<close>.
\<close>

theorem stop_can_loosen:
  assumes only: "only_entry h pid e" "te_symbol e = symbol" and brk: "\<not> th_breaker_open h"
    and st: "te_status e = TrailActive i peak stop t" and E: "replaces_accepted E"
    and e: "te_side e = Sell" "te_trailing_type e = Absolute"
    and prices: "peak < p2" "p2 < p1" "should_adjust_stop D stop (p1 - te_trailing_distance e)"
      "should_adjust_stop D (p1 - te_trailing_distance e) (p2 - te_trailing_distance e)"
  shows "\<exists>h1 w1 h2 w2 j1 j2 t1 t2. on_price_update E D symbol p1 h w = (h1, w1)
    \<and> th_get_status h1 pid = Some (TrailActive j1 peak (p1 - te_trailing_distance e) t1)
    \<and> on_price_update E D symbol p2 h1 w1 = (h2, w2)
    \<and> th_get_status h2 pid = Some (TrailActive j2 peak (p2 - te_trailing_distance e) t2)
    \<and> p2 - te_trailing_distance e < p1 - te_trailing_distance e"
proof -
  have q: "calculate_stop D e p = p - te_trailing_distance e" for p using e by (simp add: calculate_stop_def)
  have "is_peak_improvement peak p1 (te_side e)" "should_adjust_stop D stop (calculate_stop D e p1)"
    using e prices by (simp_all add: q)
  from adjust_moves_stop [OF only brk st E this, of w] obtain h1 w1 e1 j1 t1
    where s1: "on_price_update E D symbol p1 h w = (h1, w1)" "only_entry h1 pid e1" "same_terms e e1"
      "\<not> th_breaker_open h1" "te_status e1 = TrailActive j1 peak (p1 - te_trailing_distance e) t1"
    unfolding q by blast
  have e1: "te_symbol e1 = symbol" and q1: "calculate_stop D e1 p2 = p2 - te_trailing_distance e"
    using s1(3) only(2) e by (auto simp: same_terms_def calculate_stop_def)
  have "is_peak_improvement peak p2 (te_side e1)"
    "should_adjust_stop D (p1 - te_trailing_distance e) (calculate_stop D e1 p2)"
    using s1(3) e prices by (simp_all add: q1 same_terms_def)
  from adjust_moves_stop [OF s1(2) e1 s1(4,5) E this, of w1] obtain h2 w2 e2 j2 t2
    where s2: "on_price_update E D symbol p2 h1 w1 = (h2, w2)" "only_entry h2 pid e2"
      "te_status e2 = TrailActive j2 peak (p2 - te_trailing_distance e) t2"
    unfolding q1 by blast
  have "th_get_status h1 pid = Some (TrailActive j1 peak (p1 - te_trailing_distance e) t1)"
    "th_get_status h2 pid = Some (TrailActive j2 peak (p2 - te_trailing_distance e) t2)"
    using s1(2,5) s2(2,3) by simp_all
  with s1(1) s2(1) prices(2) show ?thesis by auto
qed

text \<open>Prices that each improve on the last, with every step of the stop below the threshold.\<close>

fun creeping :: "dec_ops \<Rightarrow> trailing_entry \<Rightarrow> decimal \<Rightarrow> decimal \<Rightarrow> decimal list \<Rightarrow> bool" where
  "creeping D e peak stop [] = True"
| "creeping D e peak stop (p # ps) = (is_peak_improvement peak p (te_side e)
     \<and> \<not> should_adjust_stop D stop (calculate_stop D e p) \<and> creeping D e p (calculate_stop D e p) ps)"

fun price_run :: "'w env \<Rightarrow> dec_ops \<Rightarrow> string \<Rightarrow> decimal list \<Rightarrow> trailing_handler \<Rightarrow> 'w \<Rightarrow> trailing_handler \<times> 'w" where
  "price_run E D symbol [] h w = (h, w)"
| "price_run E D symbol (p # ps) h w = (case on_price_update E D symbol p h w of (h1, w1) \<Rightarrow> price_run E D symbol ps h1 w1)"

lemma creep_step:
  assumes "only_entry h pid e" "te_symbol e = symbol" "te_status e = TrailActive i peak stop t"
    and "is_peak_improvement peak q (te_side e)" "\<not> should_adjust_stop D stop (calculate_stop D e q)"
  shows "on_price_update (traced E) D symbol q h (w, []) =
      (th_update pid (move_state (utc_now E w) q (calculate_stop D e q)) h, w, [])"
    and "only_entry (th_update pid (move_state (utc_now E w) q (calculate_stop D e q)) h) pid
      (move_state (utc_now E w) q (calculate_stop D e q) e)"
    and "te_status (move_state (utc_now E w) q (calculate_stop D e q) e) = TrailActive i q (calculate_stop D e q) t"
proof -
  show "te_status (move_state (utc_now E w) q (calculate_stop D e q) e) = TrailActive i q (calculate_stop D e q) t"
    using assms by (simp add: move_state_def)
  show "only_entry (th_update pid (move_state (utc_now E w) q (calculate_stop D e q)) h) pid
      (move_state (utc_now E w) q (calculate_stop D e q) e)"
    using assms(1) by (rule only_entry_update) (simp add: move_state_def assms)
qed (use assms in \<open>simp add: only_price_update price_action_def trail_is_active_def te_is_peak_improvement_def Let_def\<close>)

lemma creeping_cong: "same_terms e e' \<Longrightarrow> creeping D e' peak stop ps = creeping D e peak stop ps"
  by (induction ps arbitrary: peak stop) (auto simp: same_terms_def calculate_stop_def)

text \<open>
  A price that creeps never moves the stop: as long as every single step of the computed stop is
  below the threshold, no matter how far the price gets in total, the broker is not called and the
  order stays where it was placed, while the entry records the computed stop as its level.
\<close>

theorem creeping_price_never_moves_stop:
  assumes "only_entry h pid e" "te_symbol e = symbol" "te_status e = TrailActive i peak stop t"
    and "creeping D e peak stop (ps @ [p])"
  shows "\<exists>h'. price_run (traced E) D symbol (ps @ [p]) h (w, []) = (h', w, [])
    \<and> th_get_status h' pid = Some (TrailActive i p (calculate_stop D e p) t)"
  using assms
proof (induction ps arbitrary: h e peak stop)
  case Nil
  then have "is_peak_improvement peak p (te_side e)" "\<not> should_adjust_stop D stop (calculate_stop D e p)"
    by simp_all
  note step = creep_step [OF Nil(1-3) this, where E = E and w = w]
  show ?case using only_entryD(2) [OF step(2)] by (simp add: step(1,3))
next
  case (Cons q qs)
  let ?e' = "move_state (utc_now E w) q (calculate_stop D e q) e"
  let ?h' = "th_update pid (move_state (utc_now E w) q (calculate_stop D e q)) h"
  have "is_peak_improvement peak q (te_side e)" "\<not> should_adjust_stop D stop (calculate_stop D e q)"
    using Cons.prems(4) by simp_all
  note step = creep_step [OF Cons.prems(1-3) this, where E = E and w = w]
  have same: "same_terms e ?e'" by simp
  have "\<exists>h''. price_run (traced E) D symbol (qs @ [p]) ?h' (w, []) = (h'', w, [])
      \<and> th_get_status h'' pid = Some (TrailActive i p (calculate_stop D ?e' p) t)"
  proof (rule Cons.IH [OF step(2)])
    show "te_symbol ?e' = symbol" using Cons.prems(2) same by (simp add: same_terms_def)
    show "te_status ?e' = TrailActive i q (calculate_stop D e q) t" by (rule step(3))
    show "creeping D ?e' q (calculate_stop D e q) (qs @ [p])"
      using Cons.prems(4) creeping_cong [OF same] by simp
  qed
  moreover have "calculate_stop D ?e' p = calculate_stop D e p" using same by (simp add: same_terms_def calculate_stop_def)
  ultimately show ?case by (simp add: step(1))
qed

text \<open>
  When adjusting a stop cancels the resting order and the broker rejects its replacement, the
  entry stays active with the order that was just cancelled: the position has no stop although
  the entry says it has one.
\<close>

theorem failed_adjust_leaves_dead_stop:
  assumes only: "only_entry h pid e" "te_symbol e = symbol" and brk: "\<not> th_breaker_open h"
    and st: "te_status e = TrailActive i peak stop t"
    and price: "is_peak_improvement peak price (te_side e)" "should_adjust_stop D stop (calculate_stop D e price)"
    and cancelled: "cancel_order E i w = (Inr c, w1)" "o_status (cr_order c) \<noteq> Filled"
    and rejected: "\<And>r. \<exists>err w2. submit_order E r w1 = (Inl err, w2)"
    and old: "\<And>w ord w'. get_order E i w = (Inr ord, w') \<Longrightarrow> o_stop_price ord = Some stop" "stop \<noteq> 0"
    and moved: "calculate_stop D e price \<noteq> stop"
  shows "\<exists>h' w' tr. on_price_update (traced E) D symbol price h (w, []) = (h', w', tr)
    \<and> CallCancel i \<in> set tr \<and> th_get_status h' pid = Some (TrailActive i peak stop t)"
proof -
  let ?q = "calculate_stop D e price"
  let ?m = "\<lparr>ms_order_id = i, ms_symbol = symbol, ms_side = te_side e, ms_quantity = te_quantity e,
    ms_new_stop_price = ?q, ms_new_limit_price = ?q\<rparr>"
  let ?r = "build_stop_order \<lparr>sr_symbol = symbol, sr_side = te_side e, sr_quantity = te_quantity e,
    sr_stop_price = ?q, sr_limit_price = ?q\<rparr>"
  have act: "price_action D e price = Some (AdjustStop i symbol (te_side e) (te_quantity e) ?q price)"
    using only(2) price by (simp add: price_action_def st te_is_peak_improvement_def Let_def)
  obtain err w2 where s: "submit_order E ?r w1 = (Inl err, w2)" using rejected by blast
  have m: "modify_stop_order (traced E) ?m (w, []) = (Inl err, w2, [CallCancel i, CallSubmit ?r])"
    using cancelled s by (simp add: modify_stop_order_def)
  obtain w3 res where g: "get_order E i w2 = (res, w3)" by (cases "get_order E i w2")
  let ?h' = "record_stop_order_failure (instant_now E w2) h"
  have "\<exists>w' tr. adjust_stop_order (traced E) pid i symbol ?q (te_side e) (te_quantity e) h (w, []) =
      (Inl err, ?h', w', tr) \<and> CallCancel i \<in> set tr"
    using brk m g old(1) moved
    by (cases res) (auto simp: adjust_stop_order_def get_stop_order_status_def Let_def)
  then obtain w' tr where a: "adjust_stop_order (traced E) pid i symbol ?q (te_side e) (te_quantity e) h (w, []) =
      (Inl err, ?h', w', tr)" "CallCancel i \<in> set tr" by blast
  have "on_price_update (traced E) D symbol price h (w, []) = (?h', w', tr)"
    using only act a(1) by (simp add: only_price_update st trail_is_active_def)
  moreover have "only_entry ?h' pid e" using only(1) by simp
  ultimately show ?thesis using a(2) st by (metis only_entryD(2))
qed

text \<open>
  Cancelling an entry that is still pending takes away another entry's price feed: the pending
  entry never counted toward the symbol's tracking task, but cancelling it decrements the count,
  and the task of the tracked entry is stopped while that entry stays active.
\<close>

theorem cancelling_pending_stops_tracking:
  assumes a: "th_get_entry h a = Some ea" "te_symbol ea = symbol" "trail_is_active (te_status ea)"
    and b: "th_get_entry h b = Some eb" "te_symbol eb = symbol" "te_status eb = TrailPending"
    and task: "dm_get (th_symbol_tasks h) symbol = Some 1"
  shows "dm_get (th_symbol_tasks (snd (th_cancel now b reason h))) symbol = None
    \<and> th_get_entry (snd (th_cancel now b reason h)) a = Some ea"
proof -
  have "a \<noteq> b" using a b by (auto simp: trail_is_active_def)
  then show ?thesis
    using a b task by (auto simp: th_cancel_def Let_def trail_is_terminal_def decrement_symbol_task_def)
      (simp_all add: th_get_entry_def th_update_def)
qed

text \<open>
  After a disconnect of the price source the entry forgets its stop order. The next recovery
  and the next price place a second stop for the whole quantity, with no other broker call: the
  first order is not cancelled, and the entry knows only the second.
\<close>

theorem reconnect_places_second_stop:
  assumes only: "only_entry h pid e" "te_symbol e = symbol" and brk: "\<not> th_breaker_open h"
    and st: "te_status e = TrailActive i peak stop t"
    and fresh: "instant_now E w - te_created_at e \<le> tc_entry_ttl (th_config h)"
    and feed: "ensure_subscribed P symbol (w, []) = (u, w, [])" "current_price P symbol (w, []) = (Inr p0, w, [])"
      "subscribe P symbol (w, []) = (Inr (), w, [])"
    and h1: "h1 = on_price_source_disconnected now symbol h"
    and h2: "retry_unavailable_entries (traced E) P D h1 (w, []) = (stats, h2, w2)"
    and price: "\<not> is_peak_improvement p0 price (te_side e)"
    and r: "r = (order_stop symbol (te_side e) (te_quantity e) (calculate_stop D e p0))\<lparr>or_reduce_only := True\<rparr>"
    and ok: "submit_order E r w = (Inr handle, w3)"
  shows "\<exists>h3. on_price_update (traced E) D symbol price h2 w2 = (h3, w3, [CallSubmit r])
    \<and> th_get_status h3 pid = Some (TrailActive (oh_id handle) p0 (calculate_stop D e p0) (utc_now E w3))"
proof -
  let ?e1 = "disconnect_entry now e"
  have off: "is_unavailable (te_status ?e1)" "\<not> in_backoff c inst ?e1" "te_created_at ?e1 = te_created_at e"
    "te_symbol ?e1 = symbol" for c inst
    using only(2) by (simp_all add: disconnect_entry_def is_unavailable_def in_backoff_def)
  have o1: "only_entry h1 pid ?e1" and c1: "th_config h1 = th_config h" "th_breaker h1 = th_breaker h"
    using only st by (simp_all add: h1 on_price_source_disconnected_def active_on_symbol_def only_entry_def
        trail_is_active_def Let_def th_update_def dm_modify_def disconnect_entry_def)
  let ?tr = "TrailTracking p0 (calculate_stop D e p0) (utc_now E w)"
  let ?e2 = "te_set_status (utc_now E w) ?tr ?e1"
  have q: "calculate_stop D ?e1 = calculate_stop D e" by (simp add: disconnect_entry_def)
  have "try_activate_tracking (traced E) P D ?e1 h1 (w, []) =
      (Inr ?e2, spawn_tracking_task symbol h1, w, [])"
    using feed off(4) by (simp add: try_activate_tracking_def starting_price_def q)
  moreover have "th_entries (spawn_tracking_task symbol h1) = th_entries h1"
    "th_breaker (spawn_tracking_task symbol h1) = th_breaker h1"
    by (simp_all add: spawn_tracking_task_def split: option.splits)
  ultimately have o2: "only_entry h2 pid ?e2" and w2: "w2 = (w, [])" and b2: "th_breaker h2 = th_breaker h"
    using h2 o1 off fresh c1
    by (auto simp: retry_unavailable_entries_def try_recover_entry_def Let_def only_entry_def th_get_entry_def
        th_update_def dm_modify_def)
  have terms: "te_side ?e2 = te_side e" "te_quantity ?e2 = te_quantity e" "te_symbol ?e2 = symbol"
    using only(2) by (simp_all add: disconnect_entry_def)
  have act: "price_action D ?e2 price = Some (PlaceStop symbol (te_side e) (te_quantity e) (calculate_stop D e p0) p0)"
    using price terms by (simp add: price_action_def te_is_peak_improvement_def)
  have req: "build_stop_order \<lparr>sr_symbol = symbol, sr_side = te_side e, sr_quantity = te_quantity e,
      sr_stop_price = calculate_stop D e p0, sr_limit_price = calculate_stop D e p0\<rparr> = r"
    by (simp add: r build_stop_order_def)
  let ?h3 = "th_update pid (\<lambda>e'. te_set_status (utc_now E w3) (TrailActive (oh_id handle)
      (case current_peak e' of Some p \<Rightarrow> p | None \<Rightarrow> calculate_stop D e p0) (calculate_stop D e p0) (utc_now E w3)) e') h2"
  have "on_price_update (traced E) D symbol price h2 w2 = (?h3, w3, [CallSubmit r])"
    using o2 terms(3) brk act ok req b2 w2 by (simp add: only_price_update trail_is_active_def handle_place_stop_action_def
        place_initial_stop_def place_stop_order_def th_breaker_open_def)
  moreover have "th_get_status ?h3 pid = Some (TrailActive (oh_id handle) p0 (calculate_stop D e p0) (utc_now E w3))"
    using o2 by (simp add: th_get_status_def th_update_def only_entry_def dm_modify_def current_peak_def)
  ultimately show ?thesis by blast
qed

end
