(* ===== verification/Gw_State.thy ===== *)
theory Gw_State
  imports Gw_Models
begin

text \<open>
  The cache of open orders and positions that an adapter's event router keeps
  (\<open>state/mod.rs\<close>): the orders, the positions with an index by symbol, the one-cancels-other
  groups and the first fill recorded for a group. A \<open>HashSet\<close> of order ids is a list without
  duplicates whose order stands for the set's iteration order.
\<close>

record cached_order =
  co_order_id :: string
  co_symbol :: string
  co_side :: side
  co_quantity :: decimal
  co_filled_quantity :: decimal
  co_status :: order_status
  co_position_id :: "string option"
  co_oco_group_id :: "string option"

record cached_position =
  cp_position_id :: string
  cp_symbol :: string
  cp_side :: position_side
  cp_quantity :: decimal

record oco_fill_record =
  of_first_filled_order_id :: string
  of_first_filled_qty :: decimal
  of_symbol :: string
  of_side :: side

record state_manager =
  sm_orders :: "(string, cached_order) dmap"
  sm_positions :: "(string, cached_position) dmap"
  sm_position_by_symbol :: "(string, string) dmap"
  sm_oco_groups :: "(string, string list) dmap"
  sm_oco_fills :: "(string, oco_fill_record) dmap"

definition state_manager_new :: state_manager where
  "state_manager_new = \<lparr>sm_orders = [], sm_positions = [], sm_position_by_symbol = [],
     sm_oco_groups = [], sm_oco_fills = []\<rparr>"

subsection \<open>Orders and groups\<close>

definition hs_insert :: "'a \<Rightarrow> 'a list \<Rightarrow> 'a list" where
  "hs_insert x xs = (if x \<in> set xs then xs else xs @ [x])"

text \<open>\<open>entry(g).or_default().insert(i)\<close>, and the removal that drops a group left empty.\<close>

definition group_insert :: "string \<Rightarrow> string \<Rightarrow> (string, string list) dmap \<Rightarrow> (string, string list) dmap" where
  "group_insert g i m = dm_insert g (hs_insert i (case dm_get m g of Some xs \<Rightarrow> xs | None \<Rightarrow> [])) m"

definition group_remove :: "string \<Rightarrow> string \<Rightarrow> (string, string list) dmap \<Rightarrow> (string, string list) dmap" where
  "group_remove g i m = (case dm_get m g of None \<Rightarrow> m
     | Some xs \<Rightarrow> (let xs' = removeAll i xs in
         if xs' = [] then dm_remove g m else dm_insert g xs' m))"

definition cached_of :: "order \<Rightarrow> cached_order" where
  "cached_of ord = \<lparr>co_order_id = o_id ord, co_symbol = o_symbol ord, co_side = o_side ord,
     co_quantity = o_quantity ord, co_filled_quantity = o_filled_quantity ord,
     co_status = o_status ord, co_position_id = o_position_id ord,
     co_oco_group_id = o_oco_group_id ord\<rparr>"

definition upsert_order :: "order \<Rightarrow> state_manager \<Rightarrow> state_manager" where
  "upsert_order ord s =
     (let s1 = s\<lparr>sm_orders := dm_insert (o_id ord) (cached_of ord) (sm_orders s)\<rparr>;
          s2 = (case dm_get (sm_orders s) (o_id ord) of
                  Some old \<Rightarrow>
                    (case co_oco_group_id old of
                       Some g \<Rightarrow> if co_oco_group_id old \<noteq> o_oco_group_id ord
                         then s1\<lparr>sm_oco_groups := group_remove g (o_id ord) (sm_oco_groups s1)\<rparr> else s1
                     | None \<Rightarrow> s1)
                | None \<Rightarrow> s1)
      in case o_oco_group_id ord of
           Some g \<Rightarrow> s2\<lparr>sm_oco_groups := group_insert g (o_id ord) (sm_oco_groups s2)\<rparr>
         | None \<Rightarrow> s2)"

definition update_order_fill ::
  "string \<Rightarrow> decimal \<Rightarrow> order_status \<Rightarrow> state_manager \<Rightarrow> bool \<times> state_manager" where
  "update_order_fill i filled st s =
     (dm_has (sm_orders s) i,
      s\<lparr>sm_orders := dm_modify i (\<lambda>c. c\<lparr>co_filled_quantity := filled, co_status := st\<rparr>) (sm_orders s)\<rparr>)"

definition remove_order :: "string \<Rightarrow> state_manager \<Rightarrow> bool \<times> state_manager" where
  "remove_order i s =
     (case dm_get (sm_orders s) i of
        None \<Rightarrow> (False, s)
      | Some c \<Rightarrow>
          (let s1 = s\<lparr>sm_orders := dm_remove i (sm_orders s)\<rparr> in
           (True, case co_oco_group_id c of
              Some g \<Rightarrow> s1\<lparr>sm_oco_groups := group_remove g i (sm_oco_groups s1)\<rparr> | None \<Rightarrow> s1)))"

definition sm_get_order :: "state_manager \<Rightarrow> string \<Rightarrow> cached_order option" where
  "sm_get_order s i = dm_get (sm_orders s) i"

definition get_all_order_ids :: "state_manager \<Rightarrow> string list" where
  "get_all_order_ids s = dm_keys (sm_orders s)"

subsection \<open>Positions\<close>

definition cached_position_of :: "position \<Rightarrow> cached_position" where
  "cached_position_of p = \<lparr>cp_position_id = p_id p, cp_symbol = p_symbol p, cp_side = p_side p,
     cp_quantity = p_quantity p\<rparr>"

text \<open>Drop the index entry of a symbol when it belongs to the given position.\<close>

definition unindex_symbol :: "string \<Rightarrow> string \<Rightarrow> state_manager \<Rightarrow> state_manager" where
  "unindex_symbol symbol pid s =
     (if dm_get (sm_position_by_symbol s) symbol = Some pid
      then s\<lparr>sm_position_by_symbol := dm_remove symbol (sm_position_by_symbol s)\<rparr> else s)"

definition upsert_position :: "position \<Rightarrow> state_manager \<Rightarrow> state_manager" where
  "upsert_position p s =
     (let s1 = s\<lparr>sm_positions := dm_insert (p_id p) (cached_position_of p) (sm_positions s)\<rparr>;
          s2 = (case dm_get (sm_positions s) (p_id p) of
                  Some old \<Rightarrow> if cp_symbol old \<noteq> p_symbol p then unindex_symbol (cp_symbol old) (p_id p) s1 else s1
                | None \<Rightarrow> s1)
      in s2\<lparr>sm_position_by_symbol := dm_insert (p_symbol p) (p_id p) (sm_position_by_symbol s2)\<rparr>)"

definition remove_position :: "string \<Rightarrow> state_manager \<Rightarrow> bool \<times> state_manager" where
  "remove_position pid s =
     (case dm_get (sm_positions s) pid of
        None \<Rightarrow> (False, s)
      | Some p \<Rightarrow> (True, unindex_symbol (cp_symbol p) pid (s\<lparr>sm_positions := dm_remove pid (sm_positions s)\<rparr>)))"

definition get_position :: "state_manager \<Rightarrow> string \<Rightarrow> cached_position option" where
  "get_position s pid = dm_get (sm_positions s) pid"

definition get_position_by_symbol :: "state_manager \<Rightarrow> string \<Rightarrow> cached_position option" where
  "get_position_by_symbol s symbol =
     (case dm_get (sm_position_by_symbol s) symbol of Some pid \<Rightarrow> get_position s pid | None \<Rightarrow> None)"

definition sync_from_provider :: "order list \<Rightarrow> position list \<Rightarrow> state_manager \<Rightarrow> state_manager" where
  "sync_from_provider orders positions s =
     fold upsert_position positions (fold upsert_order orders
       (s\<lparr>sm_orders := [], sm_positions := [], sm_position_by_symbol := [], sm_oco_groups := [], sm_oco_fills := []\<rparr>))"

subsection \<open>One-cancels-other groups\<close>

definition add_to_oco_group :: "string \<Rightarrow> string \<Rightarrow> state_manager \<Rightarrow> state_manager" where
  "add_to_oco_group i g s =
     s\<lparr>sm_oco_groups := group_insert g i (sm_oco_groups s),
       sm_orders := dm_modify i (\<lambda>c. c\<lparr>co_oco_group_id := Some g\<rparr>) (sm_orders s)\<rparr>"

definition oco_members :: "state_manager \<Rightarrow> string \<Rightarrow> string list" where
  "oco_members s g = (case dm_get (sm_oco_groups s) g of Some xs \<Rightarrow> xs | None \<Rightarrow> [])"

definition get_oco_siblings :: "state_manager \<Rightarrow> string \<Rightarrow> string \<Rightarrow> string list" where
  "get_oco_siblings s g excluded = filter (\<lambda>i. i \<noteq> excluded) (oco_members s g)"

definition get_oco_group_id :: "state_manager \<Rightarrow> string \<Rightarrow> string option" where
  "get_oco_group_id s i =
     (case sm_get_order s i of
        Some c \<Rightarrow> (case co_oco_group_id c of Some g \<Rightarrow> Some g
          | None \<Rightarrow> find_map (\<lambda>p. if i \<in> set (snd p) then Some (fst p) else None) (sm_oco_groups s))
      | None \<Rightarrow> find_map (\<lambda>p. if i \<in> set (snd p) then Some (fst p) else None) (sm_oco_groups s))"

definition is_in_oco_group :: "state_manager \<Rightarrow> string \<Rightarrow> bool" where
  "is_in_oco_group s i = (case sm_get_order s i of Some c \<Rightarrow> co_oco_group_id c \<noteq> None | None \<Rightarrow> False)"

definition record_oco_fill ::
  "string \<Rightarrow> string \<Rightarrow> decimal \<Rightarrow> string \<Rightarrow> side \<Rightarrow> state_manager \<Rightarrow> oco_fill_record option \<times> state_manager" where
  "record_oco_fill g i qty symbol sd s =
     (case dm_get (sm_oco_fills s) g of
        Some existing \<Rightarrow> (Some existing, s)
      | None \<Rightarrow> (None, s\<lparr>sm_oco_fills := dm_insert g
          \<lparr>of_first_filled_order_id = i, of_first_filled_qty = qty, of_symbol = symbol, of_side = sd\<rparr>
          (sm_oco_fills s)\<rparr>))"

definition clear_oco_fill :: "string \<Rightarrow> state_manager \<Rightarrow> state_manager" where
  "clear_oco_fill g s = s\<lparr>sm_oco_fills := dm_remove g (sm_oco_fills s)\<rparr>"

subsection \<open>Invariants\<close>

text \<open>
  Completeness: no order that carries a group is missing from the group's index, and the symbol
  index leads to a position of that symbol. Exactness: the index holds nothing else.
\<close>

definition in_group :: "state_manager \<Rightarrow> string \<Rightarrow> string \<Rightarrow> bool" where
  "in_group s g i = (\<exists>c. sm_get_order s i = Some c \<and> co_oco_group_id c = Some g)"

definition symbols_ok :: "state_manager \<Rightarrow> bool" where
  "symbols_ok s = (\<forall>symbol pid. dm_get (sm_position_by_symbol s) symbol = Some pid \<longrightarrow>
     (\<exists>p. get_position s pid = Some p \<and> cp_symbol p = symbol))"

definition groups_complete :: "state_manager \<Rightarrow> bool" where
  "groups_complete s = (\<forall>g i. in_group s g i \<longrightarrow> i \<in> set (oco_members s g))"

definition groups_exact :: "state_manager \<Rightarrow> bool" where
  "groups_exact s = (\<forall>g i. i \<in> set (oco_members s g) \<longleftrightarrow> in_group s g i)"

lemma set_hs_insert [simp]: "set (hs_insert x xs) = insert x (set xs)"
  by (auto simp: hs_insert_def)

lemma members_insert [simp]:
  "set (oco_members (s\<lparr>sm_oco_groups := group_insert g i (sm_oco_groups s')\<rparr>) g') =
     (if g' = g then insert i (set (oco_members s' g)) else set (oco_members s' g'))"
  by (auto simp: oco_members_def group_insert_def split: option.splits)

lemma removeAll_Nil_iff: "removeAll x xs = [] \<longleftrightarrow> set xs \<subseteq> {x}"
  by (induction xs) auto

lemma members_remove [simp]:
  "set (oco_members (s\<lparr>sm_oco_groups := group_remove g i (sm_oco_groups s')\<rparr>) g') =
     (if g' = g then set (oco_members s' g) - {i} else set (oco_members s' g'))"
  by (auto simp: oco_members_def group_remove_def Let_def removeAll_Nil_iff split: option.splits)

lemma members_frame [simp]:
  "oco_members (sm_orders_update f s) = oco_members s"
  "oco_members (sm_positions_update f' s) = oco_members s"
  "oco_members (sm_position_by_symbol_update f'' s) = oco_members s"
  "oco_members (sm_oco_fills_update f''' s) = oco_members s"
  by (simp_all add: oco_members_def fun_eq_iff)

lemma in_group_frame [simp]:
  "in_group (sm_oco_groups_update f1 s) = in_group s"
  "in_group (sm_positions_update f' s) = in_group s"
  "in_group (sm_position_by_symbol_update f'' s) = in_group s"
  "in_group (sm_oco_fills_update f''' s) = in_group s"
  by (simp_all add: in_group_def sm_get_order_def fun_eq_iff)

lemma in_group_upsert [simp]:
  "in_group (upsert_order ord s) g i = (if i = o_id ord then o_oco_group_id ord = Some g else in_group s g i)"
  by (auto simp: upsert_order_def Let_def in_group_def sm_get_order_def cached_of_def split: option.splits)

lemma members_upsert:
  "set (oco_members (upsert_order ord s) g) =
     (if o_oco_group_id ord = Some g then insert (o_id ord) (set (oco_members s g))
      else if in_group s g (o_id ord) then set (oco_members s g) - {o_id ord} else set (oco_members s g))"
  by (auto simp: upsert_order_def Let_def in_group_def sm_get_order_def split: option.splits)

lemma in_group_remove [simp]: "in_group (snd (remove_order i s)) g j \<longleftrightarrow> j \<noteq> i \<and> in_group s g j"
  by (auto simp: remove_order_def Let_def in_group_def sm_get_order_def split: option.splits)

lemma members_remove_order:
  "set (oco_members (snd (remove_order i s)) g) =
     (if in_group s g i then set (oco_members s g) - {i} else set (oco_members s g))"
  by (auto simp: remove_order_def Let_def in_group_def sm_get_order_def split: option.splits)

lemma in_group_fill [simp]: "in_group (snd (update_order_fill i q st s)) = in_group s"
  by (auto simp: update_order_fill_def in_group_def sm_get_order_def fun_eq_iff)

lemma members_fill [simp]: "oco_members (snd (update_order_fill i q st s)) = oco_members s"
  by (simp add: update_order_fill_def)

lemma position_frame [simp]:
  "oco_members (upsert_position p s) = oco_members s" "in_group (upsert_position p s) = in_group s"
  "oco_members (snd (remove_position pid s)) = oco_members s" "in_group (snd (remove_position pid s)) = in_group s"
  by (auto simp: upsert_position_def remove_position_def unindex_symbol_def Let_def split: option.splits)

lemma record_frame [simp]:
  "oco_members (snd (record_oco_fill g i q symbol sd s)) = oco_members s"
  "in_group (snd (record_oco_fill g i q symbol sd s)) = in_group s"
  "oco_members (clear_oco_fill g s) = oco_members s" "in_group (clear_oco_fill g s) = in_group s"
  by (simp_all add: record_oco_fill_def clear_oco_fill_def split: option.splits)

lemma in_group_add [simp]:
  "in_group (add_to_oco_group i g s) g' j \<longleftrightarrow>
     (if j = i \<and> sm_get_order s i \<noteq> None then g' = g else in_group s g' j)"
  by (auto simp: add_to_oco_group_def in_group_def sm_get_order_def)

lemma members_add [simp]:
  "set (oco_members (add_to_oco_group i g s) g') =
     (if g' = g then insert i (set (oco_members s g)) else set (oco_members s g'))"
proof -
  have "oco_members (add_to_oco_group i g s) = oco_members (s\<lparr>sm_oco_groups := group_insert g i (sm_oco_groups s)\<rparr>)"
    by (simp add: add_to_oco_group_def oco_members_def fun_eq_iff)
  then show ?thesis by simp
qed

lemma symbols_frame [simp]:
  "symbols_ok (sm_orders_update f s) = symbols_ok s" "symbols_ok (sm_oco_groups_update f1 s) = symbols_ok s"
  "symbols_ok (sm_oco_fills_update f2 s) = symbols_ok s"
  by (simp_all add: symbols_ok_def get_position_def)

lemma symbols_order_ops [simp]:
  "symbols_ok (upsert_order ord s) = symbols_ok s" "symbols_ok (snd (update_order_fill i q st s)) = symbols_ok s"
  "symbols_ok (snd (remove_order i s)) = symbols_ok s" "symbols_ok (add_to_oco_group i g s) = symbols_ok s"
  "symbols_ok (snd (record_oco_fill g i q symbol sd s)) = symbols_ok s" "symbols_ok (clear_oco_fill g s) = symbols_ok s"
  by (simp_all add: upsert_order_def update_order_fill_def remove_order_def add_to_oco_group_def
      record_oco_fill_def clear_oco_fill_def Let_def split: option.splits)

lemma by_symbol_upsert:
  "dm_get (sm_position_by_symbol (upsert_position p s)) symbol =
     (if symbol = p_symbol p then Some (p_id p)
      else case get_position s (p_id p) of
        Some old \<Rightarrow> if cp_symbol old = symbol \<and> dm_get (sm_position_by_symbol s) symbol = Some (p_id p)
          then None else dm_get (sm_position_by_symbol s) symbol
      | None \<Rightarrow> dm_get (sm_position_by_symbol s) symbol)"
  by (auto simp: upsert_position_def unindex_symbol_def Let_def get_position_def split: option.splits)

lemma get_position_upsert [simp]:
  "get_position (upsert_position p s) pid = (if pid = p_id p then Some (cached_position_of p) else get_position s pid)"
  by (auto simp: upsert_position_def unindex_symbol_def Let_def get_position_def split: option.splits)

lemma symbols_upsert_position [gw_inv]: "symbols_ok s \<Longrightarrow> symbols_ok (upsert_position p s)"
  unfolding symbols_ok_def by_symbol_upsert get_position_upsert
  by (fastforce simp: cached_position_of_def split: option.splits if_splits)

lemma symbols_remove_position [gw_inv]:
  assumes ok: "symbols_ok s"
  shows "symbols_ok (snd (remove_position pid s))"
proof (cases "dm_get (sm_positions s) pid")
  case None
  then show ?thesis using ok by (simp add: remove_position_def)
next
  case (Some p)
  show ?thesis
    unfolding symbols_ok_def
  proof (intro allI impI)
    fix symbol q
    assume "dm_get (sm_position_by_symbol (snd (remove_position pid s))) symbol = Some q"
    then have q: "dm_get (sm_position_by_symbol s) symbol = Some q" and other: "symbol = cp_symbol p \<longrightarrow> q \<noteq> pid"
      using Some by (auto simp: remove_position_def unindex_symbol_def split: if_splits)
    then obtain x where x: "get_position s q = Some x" "cp_symbol x = symbol"
      using ok by (auto simp: symbols_ok_def)
    then have "q \<noteq> pid" using Some other by (auto simp: get_position_def)
    then show "\<exists>x. get_position (snd (remove_position pid s)) q = Some x \<and> cp_symbol x = symbol"
      using x Some by (simp add: remove_position_def unindex_symbol_def get_position_def)
  qed
qed

lemma exact_upsert [gw_inv]: "groups_exact s \<Longrightarrow> groups_exact (upsert_order ord s)"
  unfolding groups_exact_def members_upsert in_group_upsert by auto

lemma exact_remove [gw_inv]: "groups_exact s \<Longrightarrow> groups_exact (snd (remove_order i s))"
  unfolding groups_exact_def members_remove_order in_group_remove by auto

lemma exact_position [simp]: "groups_exact (upsert_position p s) = groups_exact s"
  by (simp add: groups_exact_def)

lemma sync_inv:
  "groups_exact (sync_from_provider orders positions s)" "symbols_ok (sync_from_provider orders positions s)"
proof -
  let ?s = "s\<lparr>sm_orders := [], sm_positions := [], sm_position_by_symbol := [], sm_oco_groups := [], sm_oco_fills := []\<rparr>"
  have "groups_exact (fold upsert_order orders t) \<and> symbols_ok (fold upsert_order orders t)"
    if "groups_exact t" "symbols_ok t" for t
    using that by (induction orders arbitrary: t) (simp_all add: exact_upsert)
  moreover have "groups_exact (fold upsert_position positions t) \<and> symbols_ok (fold upsert_position positions t)"
    if "groups_exact t" "symbols_ok t" for t
    using that by (induction positions arbitrary: t) (simp_all add: symbols_upsert_position)
  moreover have "groups_exact ?s" "symbols_ok ?s"
    by (simp_all add: groups_exact_def oco_members_def in_group_def sm_get_order_def symbols_ok_def)
  ultimately show "groups_exact (sync_from_provider orders positions s)" "symbols_ok (sync_from_provider orders positions s)"
    by (simp_all add: sync_from_provider_def)
qed

subsection \<open>The cache as a transition system\<close>

text \<open>What the router and the adapters do to the cache; the last rule is the adapters' only.\<close>

inductive cache_step :: "state_manager \<Rightarrow> state_manager \<Rightarrow> bool" where
  cache_upsert: "cache_step s (upsert_order ord s)"
| cache_fill: "cache_step s (snd (update_order_fill i q st s))"
| cache_remove: "cache_step s (snd (remove_order i s))"
| cache_position: "cache_step s (upsert_position p s)"
| cache_closed: "cache_step s (snd (remove_position pid s))"
| cache_sync: "cache_step s (sync_from_provider orders positions s)"
| cache_record: "cache_step s (snd (record_oco_fill g i q symbol sd s))"
| cache_clear: "cache_step s (clear_oco_fill g s)"

inductive submit_step :: "state_manager \<Rightarrow> state_manager \<Rightarrow> bool" where
  submit_event: "cache_step s s' \<Longrightarrow> submit_step s s'"
| submit_group: "submit_step s (add_to_oco_group i g s)"

lemma new_inv: "groups_exact state_manager_new" "symbols_ok state_manager_new"
  by (simp_all add: groups_exact_def oco_members_def in_group_def sm_get_order_def symbols_ok_def state_manager_new_def)

interpretation mirror: invariant_system "\<lambda>s. s = state_manager_new" cache_step "\<lambda>s. groups_exact s \<and> symbols_ok s"
proof
  show "s = state_manager_new \<Longrightarrow> groups_exact s \<and> symbols_ok s" for s using new_inv by simp
  show "groups_exact s \<and> symbols_ok s \<Longrightarrow> cache_step s s' \<Longrightarrow> groups_exact s' \<and> symbols_ok s'" for s s'
    by (erule cache_step.cases)
       (auto simp: sync_inv intro: exact_upsert exact_remove symbols_upsert_position symbols_remove_position,
        simp_all add: groups_exact_def)
qed

lemma complete_step: "cache_step s s' \<Longrightarrow> groups_complete s \<Longrightarrow> groups_complete s'"
proof (induction rule: cache_step.induct)
  case (cache_sync s orders positions)
  then show ?case using sync_inv(1) [of orders positions s] by (simp add: groups_exact_def groups_complete_def)
qed (auto simp: groups_complete_def members_upsert members_remove_order)

interpretation submitted: invariant_system "\<lambda>s. s = state_manager_new" submit_step groups_complete
proof
  show "s = state_manager_new \<Longrightarrow> groups_complete s" for s
    using new_inv by (simp add: groups_exact_def groups_complete_def)
  show "groups_complete s \<Longrightarrow> submit_step s s' \<Longrightarrow> groups_complete s'" for s s'
    by (erule submit_step.cases) (auto simp: complete_step, auto simp: groups_complete_def)
qed

text \<open>
  C35: Fed by provider events only, the cache answers exactly: the siblings of an order in a group
  are the other cached orders that carry the group, and a lookup by symbol finds a cached
  position of that symbol.
\<close>

theorem cache_answers_exactly:
  assumes "reachable (\<lambda>s. s = state_manager_new) cache_step s"
  shows "set (get_oco_siblings s g x) =
      {i. i \<noteq> x \<and> (\<exists>c. sm_get_order s i = Some c \<and> co_oco_group_id c = Some g)}
    \<and> (\<forall>symbol pid. dm_get (sm_position_by_symbol s) symbol = Some pid \<longrightarrow>
         (\<exists>p. get_position_by_symbol s symbol = Some p \<and> get_position s pid = Some p \<and> cp_symbol p = symbol))"
  using mirror.reachable_inv [OF assms]
  by (auto simp: groups_exact_def symbols_ok_def in_group_def get_oco_siblings_def get_position_by_symbol_def)

lemma get_order_upsert [simp]:
  "sm_get_order (upsert_order ord s) i = (if i = o_id ord then Some (cached_of ord) else sm_get_order s i)"
  by (auto simp: upsert_order_def Let_def sm_get_order_def split: option.splits)

lemma get_order_fold:
  "sm_get_order (fold upsert_order orders s) i =
     (case find (\<lambda>ord. o_id ord = i) (rev orders) of Some ord \<Rightarrow> Some (cached_of ord) | None \<Rightarrow> sm_get_order s i)"
proof (induction orders rule: rev_induct)
  case (snoc ord orders)
  then show ?case by (auto split: option.splits)
qed simp

lemma orders_fold_position [simp]: "sm_orders (fold upsert_position positions s) = sm_orders s"
  by (induction positions arbitrary: s)
     (simp_all add: upsert_position_def unindex_symbol_def Let_def split: option.splits)

text \<open>
  Synchronising replaces the cache: an order is cached if and only if the provider listed it,
  as the provider listed it last, and the groups are those of the listed orders, whatever was
  cached before.
\<close>

theorem sync_replaces_cache:
  "sm_get_order (sync_from_provider orders positions s) i =
     map_option cached_of (find (\<lambda>ord. o_id ord = i) (rev orders))
   \<and> set (get_oco_siblings (sync_from_provider orders positions s) g x) =
     {i. i \<noteq> x \<and> (\<exists>ord. find (\<lambda>ord. o_id ord = i) (rev orders) = Some ord \<and> o_oco_group_id ord = Some g)}"
proof -
  have orders: "sm_get_order (sync_from_provider orders positions s) i =
      map_option cached_of (find (\<lambda>ord. o_id ord = i) (rev orders))" for i
    by (simp add: sync_from_provider_def sm_get_order_def) (simp add: get_order_fold [unfolded sm_get_order_def] split: option.splits)
  then show ?thesis
    using sync_inv(1) [of orders positions s]
    by (auto simp: groups_exact_def get_oco_siblings_def in_group_def cached_of_def)
qed

end
