(* ===== verification/Gw_Trailing_Demo.thy ===== *)
theory Gw_Trailing_Demo
  imports Gw_Trailing_Cases Gw_State Gw_Demo_Broker
begin

text \<open>
  Concrete states of the cache and of the trailing stop handler, and their properties evaluated
  on them.
\<close>

definition demo_trailing :: "trailing_status \<Rightarrow> trailing_entry" where
  "demo_trailing st = (trailing_entry_new 0 0 ''p'' ''E'' Sell 2 10 Absolute BinanceSpotLive)\<lparr>te_status := st\<rparr>"

definition demo_trailing_handler :: "trailing_status \<Rightarrow> trailing_handler" where
  "demo_trailing_handler st = (trailing_handler_new_arc BinanceSpotLive trailing_config_default)
     \<lparr>th_entries := [(''trailing:p'', demo_trailing st)], th_by_primary := [(''p'', ''trailing:p'')]\<rparr>"

lemma demo_only: "only_entry (demo_trailing_handler st) ''trailing:p'' (demo_trailing st)"
  by (simp add: only_entry_def demo_trailing_handler_def demo_trailing_def trailing_entry_new_def trailing_placeholder_id_def)

lemma demo_trailing_simps [simp]:
  "te_symbol (demo_trailing st) = ''E''" "te_side (demo_trailing st) = Sell" "te_quantity (demo_trailing st) = 2"
  "te_trailing_distance (demo_trailing st) = 10" "te_trailing_type (demo_trailing st) = Absolute"
  "te_status (demo_trailing st) = st" "te_created_at (demo_trailing st) = 0"
  "\<not> th_breaker_open (demo_trailing_handler st)" "th_config (demo_trailing_handler st) = trailing_config_default"
  by (simp_all add: demo_trailing_def trailing_entry_new_def demo_trailing_handler_def trailing_handler_new_arc_def
      trailing_handler_new_def th_breaker_open_def eb_new_def eb_is_open_def)

lemma demo_stop [simp]: "calculate_stop D (demo_trailing st) p = p - 10"
  by (simp add: calculate_stop_def)

theorem cache_answers_exactly_witness:
  "set (get_oco_siblings (upsert_order ((demo_order ''a'' 1)\<lparr>o_oco_group_id := Some ''g''\<rparr>) state_manager_new) ''g'' ''b'') = {''a''}"
proof -
  let ?ord = "(demo_order ''a'' 1)\<lparr>o_oco_group_id := Some ''g''\<rparr>"
  have "reachable (\<lambda>s. s = state_manager_new) cache_step (upsert_order ?ord state_manager_new)"
    by (rule reach_step [OF reach_init]) (rule refl, rule cache_upsert)
  note siblings = cache_answers_exactly [OF this, of "''g''" "''b''", THEN conjunct1]
  have none: "sm_get_order state_manager_new i = None" for i
    by (simp add: sm_get_order_def state_manager_new_def)
  have "{i. i \<noteq> ''b'' \<and> (\<exists>c. sm_get_order (upsert_order ?ord state_manager_new) i = Some c
      \<and> co_oco_group_id c = Some ''g'')} = {''a''}"
    by (auto simp: none cached_of_def demo_order_def split: if_splits)
  with siblings show ?thesis by (rule trans)
qed


theorem recovery_backoff_bounds_witness:
  "calculate_recovery_backoff trailing_config_default 3 = secs 40
   \<and> calculate_recovery_backoff trailing_config_default 2 \<le> calculate_recovery_backoff trailing_config_default 3"
  using recovery_backoff_bounds [of 2 3 trailing_config_default] recovery_backoff_bounds [of 3 3 trailing_config_default]
  by (simp add: trailing_config_default_def secs_def duration_max_def u64_max_def)

theorem stop_can_loosen_witness:
  "\<exists>h1 w1 h2 w2 j1 j2 t1 t2.
      on_price_update demo_env exact_ops ''E'' 120 (demo_trailing_handler (TrailActive ''o'' 100 90 0)) [] = (h1, w1)
    \<and> th_get_status h1 ''trailing:p'' = Some (TrailActive j1 100 110 t1)
    \<and> on_price_update demo_env exact_ops ''E'' 115 h1 w1 = (h2, w2)
    \<and> th_get_status h2 ''trailing:p'' = Some (TrailActive j2 100 105 t2)"
  using stop_can_loosen [OF demo_only [of "TrailActive ''o'' 100 90 0"], of "''E''" "''o''" 100 90 0 demo_env 115 120 exact_ops "[]"]
  by (auto simp: demo_env_def demo_order_def replaces_accepted_def should_adjust_stop_def exact_ops_def min_price_improvement_pct_def)

theorem creeping_price_never_moves_stop_witness:
  "\<exists>h'. price_run (traced demo_env) exact_ops ''E'' [100 + 1 / 20, 100 + 1 / 10] (demo_trailing_handler (TrailActive ''o'' 100 90 0)) ([], []) = (h', [], [])
    \<and> th_get_status h' ''trailing:p'' = Some (TrailActive ''o'' (100 + 1 / 10) (90 + 1 / 10) 0)"
  using creeping_price_never_moves_stop [OF demo_only [of "TrailActive ''o'' 100 90 0"], of "''E''" "''o''" 100 90 0 exact_ops
      "[100 + 1 / 20]" "100 + 1 / 10" demo_env "[]"]
  by (simp add: should_adjust_stop_def exact_ops_def min_price_improvement_pct_def)

definition demo_resting_stop :: "order_request list env" where
  "demo_resting_stop = demo_env\<lparr>submit_order := (\<lambda>r w. (Inl (OrderRejected ''margin'' None None), w)),
     get_order := (\<lambda>i w. (Inr ((demo_order i 2)\<lparr>o_stop_price := Some 90\<rparr>), w))\<rparr>"

theorem failed_adjust_leaves_dead_stop_witness:
  "\<exists>h' w' tr. on_price_update (traced demo_resting_stop) exact_ops ''E'' 120 (demo_trailing_handler (TrailActive ''o'' 100 90 0)) ([], []) = (h', w', tr)
    \<and> CallCancel ''o'' \<in> set tr \<and> th_get_status h' ''trailing:p'' = Some (TrailActive ''o'' 100 90 0)"
  by (rule failed_adjust_leaves_dead_stop [OF demo_only, where c = "\<lparr>cr_success = True, cr_order = demo_order ''o'' 1\<rparr>"])
     (auto simp: demo_resting_stop_def demo_env_def demo_order_def should_adjust_stop_def exact_ops_def min_price_improvement_pct_def)

theorem cancelling_pending_stops_tracking_witness:
  "let h = (demo_trailing_handler (TrailActive ''o'' 100 90 0))\<lparr>th_entries := [(''trailing:p'', demo_trailing (TrailActive ''o'' 100 90 0)),
         (''trailing:q'', demo_trailing TrailPending)], th_symbol_tasks := [(''E'', 1)]\<rparr>
   in dm_get (th_symbol_tasks (snd (th_cancel 0 ''trailing:q'' TrailUserRequested h))) ''E'' = None
    \<and> th_get_entry (snd (th_cancel 0 ''trailing:q'' TrailUserRequested h)) ''trailing:p'' =
        Some (demo_trailing (TrailActive ''o'' 100 90 0))"
  unfolding Let_def
  by (rule cancelling_pending_stops_tracking [where symbol = "''E''" and eb = "demo_trailing TrailPending"])
     (simp_all add: th_get_entry_def trail_is_active_def)

definition demo_feed :: "'w price_feed" where
  "demo_feed = \<lparr>ensure_subscribed = (\<lambda>s w. (Inr (), w)), current_price = (\<lambda>s w. (Inr 105, w)),
     subscribe = (\<lambda>s w. (Inr (), w)), first_update = (\<lambda>s d w. (None, w)), unsubscribe = (\<lambda>s w. (Inr (), w))\<rparr>"

theorem reconnect_places_second_stop_witness:
  "let h = demo_trailing_handler (TrailActive ''x'' 100 90 0); h1 = on_price_source_disconnected 0 ''E'' h;
       (stats, h2, w2) = retry_unavailable_entries (traced demo_env) demo_feed exact_ops h1 ([], []);
       r = (order_stop ''E'' Sell 2 95)\<lparr>or_reduce_only := True\<rparr>
   in \<exists>h3. on_price_update (traced demo_env) exact_ops ''E'' 105 h2 w2 = (h3, [r], [CallSubmit r])
      \<and> th_get_status h3 ''trailing:p'' = Some (TrailActive ''o'' 105 95 1)"
proof -
  let ?h1 = "on_price_source_disconnected 0 ''E'' (demo_trailing_handler (TrailActive ''x'' 100 90 0))"
  obtain stats h2 w2 where run: "retry_unavailable_entries (traced demo_env) demo_feed exact_ops ?h1 ([], []) = (stats, h2, w2)"
    by (metis prod_cases3)
  show ?thesis
    using reconnect_places_second_stop [OF demo_only [of "TrailActive ''x'' 100 90 0"], of "''E''" "''x''" 100 90 0 demo_env "[]"
        demo_feed "Inr ()" 105 ?h1 0 exact_ops stats h2 w2 105 "(order_stop ''E'' Sell 2 95)\<lparr>or_reduce_only := True\<rparr>"
        "demo_handle ''o''" "[(order_stop ''E'' Sell 2 95)\<lparr>or_reduce_only := True\<rparr>]"] run
    by (simp add: Let_def demo_feed_def demo_env_def demo_id_def demo_handle_def)
qed

lemma demo_cancelled_inv: "th_inv (demo_trailing_handler (TrailCancelled 0 TrailUserRequested))"
  by (auto simp: th_inv_def demo_trailing_handler_def demo_trailing_def trailing_entry_new_def dm_wf_def th_get_entry_def
      get_placeholder_for_primary_def trailing_placeholder_id_def)


theorem trailing_entries_consistent_witness:
  "let h = snd (th_register (dec_to_string demo_env) 0 0 ''p'' ((order_stop ''E'' Sell 2 95)\<lparr>or_order_type := TrailingStop,
         or_trailing_distance := Some 10\<rparr>) (trailing_handler_new_arc BinanceSpotLive trailing_config_default))
   in \<exists>e. th_get_entry h ''trailing:p'' = Some e \<and> te_primary_order_id e = ''p''"
proof -
  let ?n = "trailing_handler_new_arc BinanceSpotLive trailing_config_default"
  let ?r = "(order_stop ''E'' Sell 2 95)\<lparr>or_order_type := TrailingStop, or_trailing_distance := Some 10\<rparr>"
  let ?h = "snd (th_register (dec_to_string demo_env) 0 0 ''p'' ?r ?n)"
  have reach: "reachable trailing_start (trailing_step demo_env demo_feed exact_ops UNIV) (?h, [])"
  proof (rule reachable.intros(2))
    show "reachable trailing_start (trailing_step demo_env demo_feed exact_ops UNIV) (?n, [])"
      by (rule reachable.intros(1)) (auto simp: trailing_start_def)
    show "trailing_step demo_env demo_feed exact_ops UNIV (?n, []) (?h, [])"
      by (rule trail_register) simp
  qed
  have "get_placeholder_for_primary ?h ''p'' = Some ''trailing:p''"
    by (simp add: th_register_def trailing_handler_new_arc_def trailing_handler_new_def Let_def trailing_config_default_def
        get_placeholder_for_primary_def trailing_entry_new_def trailing_placeholder_id_def order_stop_def)
  then show ?thesis
    unfolding Let_def by (rule trailing_entries_consistent [OF reach, THEN conjunct2, rule_format])
qed

end
