(* ===== verification/Gw_Messages.thy ===== *)
theory Gw_Messages
  imports Gw_Models
begin

text \<open>
  The messages of the strategy websocket (\<open>websocket/messages.rs\<close>) and the market data they carry
  (\<open>models/bar.rs\<close>, \<open>quote.rs\<close>, \<open>trade.rs\<close>, \<open>account.rs\<close>): event kinds, the message type with
  its constructors, the names under which events are subscribed, and the context that travels
  with internal events. A constructor that stamps the current time takes it as an argument.
\<close>

subsection \<open>Market data\<close>

datatype timeframe =
    OneMinute | TwoMinutes | FiveMinutes | TenMinutes | FifteenMinutes | ThirtyMinutes
  | OneHour | TwoHours | FourHours | TwelveHours | OneDay | OneWeek

fun duration_secs :: "timeframe \<Rightarrow> nat" where
  "duration_secs OneMinute = 60"
| "duration_secs TwoMinutes = 120"
| "duration_secs FiveMinutes = 300"
| "duration_secs TenMinutes = 600"
| "duration_secs FifteenMinutes = 900"
| "duration_secs ThirtyMinutes = 1800"
| "duration_secs OneHour = 3600"
| "duration_secs TwoHours = 7200"
| "duration_secs FourHours = 14400"
| "duration_secs TwelveHours = 43200"
| "duration_secs OneDay = 86400"
| "duration_secs OneWeek = 604800"

fun timeframe_as_str :: "timeframe \<Rightarrow> string" where
  "timeframe_as_str OneMinute = ''1m''"
| "timeframe_as_str TwoMinutes = ''2m''"
| "timeframe_as_str FiveMinutes = ''5m''"
| "timeframe_as_str TenMinutes = ''10m''"
| "timeframe_as_str FifteenMinutes = ''15m''"
| "timeframe_as_str ThirtyMinutes = ''30m''"
| "timeframe_as_str OneHour = ''1h''"
| "timeframe_as_str TwoHours = ''2h''"
| "timeframe_as_str FourHours = ''4h''"
| "timeframe_as_str TwelveHours = ''12h''"
| "timeframe_as_str OneDay = ''1d''"
| "timeframe_as_str OneWeek = ''1w''"

definition timeframe_from_str :: "string \<Rightarrow> string + timeframe" where
  "timeframe_from_str s =
     (if s = ''1m'' then Inr OneMinute
      else if s = ''2m'' then Inr TwoMinutes
      else if s = ''5m'' then Inr FiveMinutes
      else if s = ''10m'' then Inr TenMinutes
      else if s = ''15m'' then Inr FifteenMinutes
      else if s = ''30m'' then Inr ThirtyMinutes
      else if s = ''1h'' then Inr OneHour
      else if s = ''2h'' then Inr TwoHours
      else if s = ''4h'' then Inr FourHours
      else if s = ''12h'' then Inr TwelveHours
      else if s = ''1d'' then Inr OneDay
      else if s = ''1w'' then Inr OneWeek
      else Inl (''Invalid timeframe: '' @ [CHR 0x27] @ s @ [CHR 0x27] @ ''. Valid: 1m, 2m, 5m, 10m, 15m, 30m, 1h, 2h, 4h, 12h, 1d, 1w''))"

record bar =
  bar_symbol :: string
  bar_provider :: string
  bar_timeframe :: timeframe
  bar_timestamp :: utc
  bar_open :: decimal
  bar_high :: decimal
  bar_low :: decimal
  bar_close :: decimal
  bar_volume :: decimal

record quote =
  q_symbol :: string
  q_provider :: string
  q_bid :: decimal
  q_bid_size :: "decimal option"
  q_ask :: decimal
  q_ask_size :: "decimal option"
  q_last :: decimal
  q_volume :: "decimal option"
  q_timestamp :: utc

record trade =
  t_id :: string
  t_order_id :: string
  t_symbol :: string
  t_side :: side
  t_quantity :: decimal
  t_price :: decimal
  t_commission :: decimal
  t_commission_currency :: string
  t_is_maker :: "bool option"
  t_timestamp :: utc

record account =
  acc_balance :: decimal
  acc_equity :: decimal
  acc_margin_used :: decimal
  acc_margin_available :: decimal
  acc_unrealized_pnl :: decimal
  acc_currency :: string

subsection \<open>Kinds of events\<close>

datatype order_event_type =
    EvOrderCreated | EvOrderModified | EvOrderCancelled | EvOrderRejected | EvOrderFilled
  | EvOrderPartiallyFilled | EvOrderExpired | EvBracketOrderCreated | EvBracketOrderModified

fun metric_label :: "order_event_type \<Rightarrow> string" where
  "metric_label EvOrderCreated = ''created''"
| "metric_label EvOrderModified = ''modified''"
| "metric_label EvOrderCancelled = ''cancelled''"
| "metric_label EvOrderRejected = ''rejected''"
| "metric_label EvOrderFilled = ''filled''"
| "metric_label EvOrderPartiallyFilled = ''partially_filled''"
| "metric_label EvOrderExpired = ''expired''"
| "metric_label EvBracketOrderCreated = ''bracket_created''"
| "metric_label EvBracketOrderModified = ''bracket_modified''"

datatype position_event_type = EvPositionOpened | EvPositionModified | EvPositionClosed

datatype account_event_type = EvBalanceUpdated | EvMarginWarning | EvMarginCall

datatype connection_event_type =
  EvConnected | EvDisconnecting | EvReconnecting | EvBrokerDisconnected | EvBrokerReconnected | EvBrokerConnectionFailed

datatype data_staleness_event_type = EvStale | EvFresh

datatype rate_limit_event_type = EvRateLimitWarning | EvRateLimitHit

datatype trade_event_type = EvTradeFilled

datatype ws_error_code =
  WsInvalidMessage | WsInternalError | WsPositionUnprotected | WsLiquidation | WsOcoDoubleExit

subsection \<open>Messages\<close>

text \<open>
  The fields are in the order of the source. Timestamps of an acknowledgement and of a close are
  plain numbers there.
\<close>

datatype ws_message =
    WsPong
  | WsEventAck string "string list" nat
  | WsPing utc
  | WsOrder order_event_type order "string option" utc
  | WsPosition position_event_type position utc
  | WsAccount account_event_type account utc
  | WsCandle bar utc
  | WsQuoteData quote utc
  | WsTrade trade_event_type trade utc
  | WsFinancing string decimal utc
  | WsConnection connection_event_type "string option" "string option" "nat option" utc
  | WsDataStaleness data_staleness_event_type "string list" "utc option" "string option" utc
  | WsRateLimit rate_limit_event_type nat utc utc
  | WsError ws_error_code string "json option" utc
  | WsBacktestComplete "string option" utc
  | WsClose nat string

definition ws_error :: "utc \<Rightarrow> ws_error_code \<Rightarrow> string \<Rightarrow> ws_message" where
  "ws_error now code message = WsError code message None now"

definition error_with_details :: "utc \<Rightarrow> ws_error_code \<Rightarrow> string \<Rightarrow> json \<Rightarrow> ws_message" where
  "error_with_details now code message details = WsError code message (Some details) now"

definition is_client_message :: "ws_message \<Rightarrow> bool" where
  "is_client_message m = (case m of WsPong \<Rightarrow> True | WsEventAck i es t \<Rightarrow> True | _ \<Rightarrow> False)"

definition is_server_message :: "ws_message \<Rightarrow> bool" where
  "is_server_message m = (\<not> is_client_message m)"

definition broker_disconnected :: "utc \<Rightarrow> trading_platform \<Rightarrow> ws_message" where
  "broker_disconnected now platform = WsConnection EvBrokerDisconnected None (Some (header_value platform)) None now"

text \<open>\<open>as_millis\<close> of a duration, kept in 64 bits.\<close>

definition millis_u64 :: "duration \<Rightarrow> nat" where
  "millis_u64 d = (if d div 1000000 \<le> u64_max then d div 1000000 else u64_max)"

definition broker_reconnected :: "utc \<Rightarrow> trading_platform \<Rightarrow> duration \<Rightarrow> ws_message" where
  "broker_reconnected now platform gap =
     WsConnection EvBrokerReconnected None (Some (header_value platform)) (Some (millis_u64 gap)) now"

definition broker_connection_failed :: "utc \<Rightarrow> trading_platform \<Rightarrow> ws_message" where
  "broker_connection_failed now platform =
     WsConnection EvBrokerConnectionFailed None (Some (header_value platform)) None now"

definition data_stale :: "utc \<Rightarrow> trading_platform \<Rightarrow> string list \<Rightarrow> ws_message" where
  "data_stale now platform symbols =
     WsDataStaleness EvStale symbols (Some now) (Some (header_value platform)) now"

definition data_fresh :: "utc \<Rightarrow> trading_platform \<Rightarrow> string \<Rightarrow> utc \<Rightarrow> ws_message" where
  "data_fresh now platform symbol stale_since =
     WsDataStaleness EvFresh [symbol] (Some stale_since) (Some (header_value platform)) now"

definition backtest_complete :: "utc \<Rightarrow> trading_platform \<Rightarrow> ws_message" where
  "backtest_complete now platform = WsBacktestComplete (Some (header_value platform)) now"

subsection \<open>Names of subscribed events\<close>

datatype event =
  EventCandle timeframe | EventQuote | EventOptionGreeks | EventOrderUpdate | EventPositionUpdate
  | EventAccountUpdate | EventTradeUpdate

datatype event_parse_error = InvalidEvent string | InvalidTimeframe string

fun event_to_string :: "event \<Rightarrow> string" where
  "event_to_string (EventCandle tf) = ''candle_'' @ timeframe_as_str tf"
| "event_to_string EventQuote = ''quote''"
| "event_to_string EventOptionGreeks = ''option_greeks''"
| "event_to_string EventOrderUpdate = ''order_update''"
| "event_to_string EventPositionUpdate = ''position_update''"
| "event_to_string EventAccountUpdate = ''account_update''"
| "event_to_string EventTradeUpdate = ''trade_update''"

definition event_from_str :: "string \<Rightarrow> event_parse_error + event" where
  "event_from_str s =
     (case strip_prefix s ''candle_'' of
        Some timeframe_str \<Rightarrow>
          (case timeframe_from_str timeframe_str of
             Inl err \<Rightarrow> Inl (InvalidTimeframe timeframe_str)
           | Inr tf \<Rightarrow> Inr (EventCandle tf))
      | None \<Rightarrow>
          if s = ''quote'' then Inr EventQuote
          else if s = ''option_greeks'' then Inr EventOptionGreeks
          else if s = ''order_update'' then Inr EventOrderUpdate
          else if s = ''position_update'' then Inr EventPositionUpdate
          else if s = ''account_update'' then Inr EventAccountUpdate
          else if s = ''trade_update'' then Inr EventTradeUpdate
          else Inl (InvalidEvent s))"

record instrument_subscription =
  is_platform :: trading_platform
  is_instrument :: string
  is_events :: "string list"

subsection \<open>Context of internal events\<close>

record order_context =
  oc_position_qty :: "decimal option"
  oc_last_fill_qty :: "decimal option"
  oc_sl_tp_type :: "string option"
  oc_primary_order_id :: "string option"
  oc_placeholder_id :: "string option"
  oc_was_placed :: "bool option"
  oc_cancel_reason :: "string option"
  oc_cancelled_by :: "string option"

definition order_context_new :: order_context where
  "order_context_new = \<lparr>oc_position_qty = None, oc_last_fill_qty = None, oc_sl_tp_type = None,
     oc_primary_order_id = None, oc_placeholder_id = None, oc_was_placed = None,
     oc_cancel_reason = None, oc_cancelled_by = None\<rparr>"

definition with_position_qty :: "order_context \<Rightarrow> decimal \<Rightarrow> order_context" where
  "with_position_qty c qty = c\<lparr>oc_position_qty := Some qty\<rparr>"

definition with_last_fill_qty :: "order_context \<Rightarrow> decimal \<Rightarrow> order_context" where
  "with_last_fill_qty c qty = c\<lparr>oc_last_fill_qty := Some qty\<rparr>"

record internal_trading_event =
  ie_message :: ws_message
  ie_context :: "order_context option"
  ie_platform :: trading_platform

definition internal_event_new :: "ws_message \<Rightarrow> trading_platform \<Rightarrow> internal_trading_event" where
  "internal_event_new m platform = \<lparr>ie_message = m, ie_context = None, ie_platform = platform\<rparr>"

definition internal_event_with_context ::
  "ws_message \<Rightarrow> order_context \<Rightarrow> trading_platform \<Rightarrow> internal_trading_event" where
  "internal_event_with_context m c platform = \<lparr>ie_message = m, ie_context = Some c, ie_platform = platform\<rparr>"

definition synthetic_order ::
  "utc \<Rightarrow> string \<Rightarrow> string \<Rightarrow> side \<Rightarrow> order_status \<Rightarrow> decimal \<Rightarrow> decimal \<Rightarrow> order" where
  "synthetic_order now i symbol sd status quantity filled_quantity =
     \<lparr>o_id = i, o_client_order_id = None, o_symbol = symbol, o_side = sd, o_order_type = Market,
      o_quantity = quantity, o_filled_quantity = filled_quantity,
      o_remaining_quantity = max (quantity - filled_quantity) 0, o_limit_price = None,
      o_stop_price = None, o_stop_loss = None, o_take_profit = None, o_trailing_distance = None,
      o_trailing_type = None, o_average_fill_price = None, o_status = status,
      o_reject_reason = None, o_position_id = None, o_parent_order_id = None, o_reduce_only = None,
      o_post_only = None, o_hidden = None, o_display_quantity = None, o_oco_group_id = None,
      o_correlation_id = None, o_time_in_force = Gtc, o_created_at = now, o_updated_at = now\<rparr>"

subsection \<open>Round trips\<close>

lemma timeframe_roundtrip [simp]: "timeframe_from_str (timeframe_as_str tf) = Inr tf"
  by (cases tf) (simp_all add: timeframe_from_str_def)

lemma timeframe_from_str_sound: "timeframe_from_str s = Inr tf \<Longrightarrow> s = timeframe_as_str tf"
  by (auto simp: timeframe_from_str_def split: if_splits)

lemma candle_prefix [simp]: "strip_prefix (''candle_'' @ s) ''candle_'' = Some s"
  by (rule strip_prefix_append)

text \<open>
  C28: The names of subscribed events and the events correspond one to one: parsing the printed
  name of an event gives the event back, every name that parses is the printed name of its event,
  and a name that is no candle name and no printed name is reported back unchanged.
\<close>

theorem event_names_roundtrip:
  "event_from_str (event_to_string ev) = Inr ev
   \<and> (event_from_str s = Inr ev \<longleftrightarrow> s = event_to_string ev)
   \<and> (event_from_str s = Inl (InvalidEvent s) \<longleftrightarrow> strip_prefix s ''candle_'' = None \<and> (\<forall>ev. s \<noteq> event_to_string ev))"
proof -
  have rt: "event_from_str (event_to_string ev) = Inr ev" for ev
    by (cases ev) (simp_all add: event_from_str_def)
  have sound: "event_from_str s = Inr ev \<Longrightarrow> s = event_to_string ev"
    by (auto simp: event_from_str_def dest!: strip_prefix_SomeD timeframe_from_str_sound
        split: option.splits sum.splits if_splits)
  have unknown: "event_from_str s = Inl (InvalidEvent s)"
    if "strip_prefix s ''candle_'' = None" "\<forall>ev. s \<noteq> event_to_string ev"
    using that(2) [rule_format, of EventQuote] that(2) [rule_format, of EventOptionGreeks]
      that(2) [rule_format, of EventOrderUpdate] that(2) [rule_format, of EventPositionUpdate]
      that(2) [rule_format, of EventAccountUpdate] that(2) [rule_format, of EventTradeUpdate] that(1)
    by (simp add: event_from_str_def)
  have known: "strip_prefix s ''candle_'' = None" if "event_from_str s = Inl (InvalidEvent s)"
    using that by (auto simp: event_from_str_def split: option.splits sum.splits)
  show ?thesis using rt sound unknown known by (auto simp: rt)
qed

end
