(* ===== verification/Gw_Ack.thy ===== *)
theory Gw_Ack
  imports Gw_Messages
begin

text \<open>
  Acknowledgements of events. The bridge to the simulation engine (\<open>tektii/src/ack_bridge.rs\<close>)
  holds every engine event back until it was delivered to the strategy and acknowledged by it,
  in either order, and releases exactly the ids an acknowledgement names. It is proved to refine
  a machine of three sets. The generic manager (\<open>core/src/websocket/ack.rs\<close>) tracks whole
  connections.
\<close>

subsection \<open>The bridge\<close>

record pending_event =
  pe_id :: string
  pe_sent :: bool
  pe_acked :: bool

text \<open>
  \<open>ab_sent\<close> is what went through the channel to the engine, oldest batch first; \<open>ab_open\<close> says
  that the receiving end of the channel still exists.
\<close>

record ack_bridge =
  ab_queue :: "pending_event list"
  ab_sent :: "string list list"
  ab_open :: bool

definition ack_bridge_create :: ack_bridge where
  "ack_bridge_create = \<lparr>ab_queue = [], ab_sent = [], ab_open = True\<rparr>"

definition engine_send :: "string list \<Rightarrow> ack_bridge \<Rightarrow> ack_bridge" where
  "engine_send ids b = (if ab_open b then b\<lparr>ab_sent := ab_sent b @ [ids]\<rparr> else b)"

text \<open>\<open>iter().position(|event| event.id == id)\<close> with an access to, or a removal of, that element.\<close>

definition pe_lookup :: "string \<Rightarrow> pending_event list \<Rightarrow> pending_event option" where
  "pe_lookup i q = find (\<lambda>e. pe_id e = i) q"

fun pe_change :: "string \<Rightarrow> (pending_event \<Rightarrow> pending_event) \<Rightarrow> pending_event list \<Rightarrow> pending_event list" where
  "pe_change i f [] = []"
| "pe_change i f (e # q) = (if pe_id e = i then f e # q else e # pe_change i f q)"

fun pe_drop :: "string \<Rightarrow> pending_event list \<Rightarrow> pending_event list" where
  "pe_drop i [] = []"
| "pe_drop i (e # q) = (if pe_id e = i then q else e # pe_drop i q)"

definition register_pending :: "string \<Rightarrow> ack_bridge \<Rightarrow> ack_bridge" where
  "register_pending i b = b\<lparr>ab_queue := ab_queue b @ [\<lparr>pe_id = i, pe_sent = False, pe_acked = False\<rparr>]\<rparr>"

fun mark_sent_loop :: "string list \<Rightarrow> pending_event list \<Rightarrow> string list \<Rightarrow> pending_event list \<times> string list" where
  "mark_sent_loop [] q released = (q, released)"
| "mark_sent_loop (i # ids) q released =
     (case pe_lookup i q of
        None \<Rightarrow> mark_sent_loop ids q released
      | Some e \<Rightarrow>
          if pe_acked e then mark_sent_loop ids (pe_drop i q) (released @ [i])
          else mark_sent_loop ids (pe_change i (\<lambda>e. e\<lparr>pe_sent := True\<rparr>) q) released)"

definition release :: "pending_event list \<times> string list \<Rightarrow> ack_bridge \<Rightarrow> ack_bridge" where
  "release r b = (if snd r = [] then b\<lparr>ab_queue := fst r\<rparr> else engine_send (snd r) (b\<lparr>ab_queue := fst r\<rparr>))"

definition mark_sent :: "string list \<Rightarrow> ack_bridge \<Rightarrow> ack_bridge" where
  "mark_sent ids b = (if ids = [] then b else release (mark_sent_loop ids (ab_queue b) []) b)"

fun strategy_ack_loop :: "string list \<Rightarrow> pending_event list \<Rightarrow> string list \<Rightarrow> pending_event list \<times> string list" where
  "strategy_ack_loop [] q released = (q, released)"
| "strategy_ack_loop (i # ids) q released =
     (case pe_lookup i q of
        None \<Rightarrow> strategy_ack_loop ids q released
      | Some e \<Rightarrow>
          if pe_sent e then strategy_ack_loop ids (pe_drop i q) (released @ [i])
          else strategy_ack_loop ids (pe_change i (\<lambda>e. e\<lparr>pe_acked := True\<rparr>) q) released)"

definition handle_strategy_ack :: "string list \<Rightarrow> ack_bridge \<Rightarrow> ack_bridge" where
  "handle_strategy_ack ids b = (if ids = [] then b else release (strategy_ack_loop ids (ab_queue b) []) b)"

definition immediate_ack :: "string \<Rightarrow> ack_bridge \<Rightarrow> ack_bridge" where
  "immediate_ack i b = engine_send [i] b"

text \<open>The operations of the bridge as the registry and the engine connection call them.\<close>

datatype ack_op = OpRegister string | OpSent "string list" | OpAck "string list" | OpImmediate string

fun bridge_op :: "ack_op \<Rightarrow> ack_bridge \<Rightarrow> ack_bridge" where
  "bridge_op (OpRegister i) b = register_pending i b"
| "bridge_op (OpSent ids) b = mark_sent ids b"
| "bridge_op (OpAck ids) b = handle_strategy_ack ids b"
| "bridge_op (OpImmediate i) b = immediate_ack i b"

subsection \<open>The specification\<close>

text \<open>
  An engine event is registered, delivered and acknowledged; an unknown id is ignored. The ids
  forwarded to the engine are those that are both delivered and acknowledged, and those
  that were acknowledged immediately. The engine numbers its events, so an id is introduced once.
\<close>

record ack_spec =
  as_registered :: "string set"
  as_delivered :: "string set"
  as_acked :: "string set"
  as_immediate :: "string set"

definition ack_spec_init :: ack_spec where
  "ack_spec_init = \<lparr>as_registered = {}, as_delivered = {}, as_acked = {}, as_immediate = {}\<rparr>"

definition as_forwarded :: "ack_spec \<Rightarrow> string set" where
  "as_forwarded a = as_delivered a \<inter> as_acked a \<union> as_immediate a"

fun spec_op :: "ack_op \<Rightarrow> ack_spec \<Rightarrow> ack_spec" where
  "spec_op (OpRegister i) a = a\<lparr>as_registered := insert i (as_registered a)\<rparr>"
| "spec_op (OpSent ids) a = a\<lparr>as_delivered := as_delivered a \<union> set ids \<inter> as_registered a\<rparr>"
| "spec_op (OpAck ids) a = a\<lparr>as_acked := as_acked a \<union> set ids \<inter> as_registered a\<rparr>"
| "spec_op (OpImmediate i) a = a\<lparr>as_immediate := insert i (as_immediate a)\<rparr>"

fun new_id :: "ack_op \<Rightarrow> ack_spec \<Rightarrow> bool" where
  "new_id (OpRegister i) a = (i \<notin> as_registered a \<union> as_immediate a)"
| "new_id (OpImmediate i) a = (i \<notin> as_registered a \<union> as_immediate a)"
| "new_id (OpSent ids) a = True"
| "new_id (OpAck ids) a = True"

definition bridge_implements :: "ack_bridge \<Rightarrow> ack_spec \<Rightarrow> bool" where
  "bridge_implements b a = (ab_open b
     \<and> distinct (map pe_id (ab_queue b)) \<and> distinct (concat (ab_sent b))
     \<and> as_delivered a \<subseteq> as_registered a \<and> as_acked a \<subseteq> as_registered a
     \<and> as_registered a \<inter> as_immediate a = {}
     \<and> set (map pe_id (ab_queue b)) = as_registered a - as_delivered a \<inter> as_acked a
     \<and> (\<forall>e \<in> set (ab_queue b). pe_sent e = (pe_id e \<in> as_delivered a) \<and> pe_acked e = (pe_id e \<in> as_acked a))
     \<and> set (concat (ab_sent b)) = as_forwarded a)"

subsection \<open>The loops\<close>

lemma pe_lookup_Some: "pe_lookup i q = Some e \<Longrightarrow> e \<in> set q \<and> pe_id e = i"
  by (auto simp: pe_lookup_def find_Some_iff)

lemma pe_lookup_None: "pe_lookup i q = None \<longleftrightarrow> i \<notin> set (map pe_id q)"
  by (auto simp: pe_lookup_def find_None_iff)

lemma pe_drop_filter: "distinct (map pe_id q) \<Longrightarrow> pe_drop i q = filter (\<lambda>e. pe_id e \<noteq> i) q"
  by (induction q) (auto simp: image_iff intro!: filter_True [symmetric])

lemma pe_change_map: "distinct (map pe_id q) \<Longrightarrow> pe_change i f q = map (\<lambda>e. if pe_id e = i then f e else e) q"
  by (induction q) (auto simp: image_iff intro!: map_idI [symmetric])

text \<open>
  Both loops set one flag of the named events and release where the other flag is set: \<open>D\<close> and
  \<open>A\<close> are the ids whose flags are set.
\<close>

definition flags_are :: "string set \<Rightarrow> string set \<Rightarrow> pending_event list \<Rightarrow> bool" where
  "flags_are D A q = (distinct (map pe_id q) \<and> set (map pe_id q) \<inter> (D \<inter> A) = {}
     \<and> (\<forall>e \<in> set q. pe_sent e = (pe_id e \<in> D) \<and> pe_acked e = (pe_id e \<in> A)))"

definition released_exactly ::
  "string set \<Rightarrow> string set \<Rightarrow> pending_event list \<Rightarrow> string list \<Rightarrow> pending_event list \<times> string list \<Rightarrow> bool" where
  "released_exactly D A q rel r = (flags_are D A (fst r)
     \<and> set (map pe_id (fst r)) = set (map pe_id q) - D \<inter> A
     \<and> (\<exists>new. snd r = rel @ new \<and> distinct new \<and> set new = set (map pe_id q) \<inter> (D \<inter> A)))"

lemma released_one:
  assumes "released_exactly D A (filter (\<lambda>e. pe_id e \<noteq> i) q) (rel @ [i]) r" "i \<in> D \<inter> A" "i \<in> set (map pe_id q)"
  shows "released_exactly D A q rel r"
proof -
  obtain new where new: "snd r = (rel @ [i]) @ new" "distinct new"
      "set new = set (map pe_id (filter (\<lambda>e. pe_id e \<noteq> i) q)) \<inter> (D \<inter> A)"
    using assms(1) by (auto simp: released_exactly_def)
  then have "snd r = rel @ (i # new)" "distinct (i # new)" "set (i # new) = set (map pe_id q) \<inter> (D \<inter> A)"
    using assms(2,3) by auto
  moreover have "set (map pe_id (fst r)) = set (map pe_id q) - D \<inter> A" "flags_are D A (fst r)"
    using assms by (auto simp: released_exactly_def)
  ultimately show ?thesis unfolding released_exactly_def by blast
qed

lemma released_same_ids:
  "released_exactly D A q' rel r \<Longrightarrow> map pe_id q' = map pe_id q \<Longrightarrow> released_exactly D A q rel r"
  by (simp add: released_exactly_def)

lemma flag_step_drop: "flags_are D A q \<Longrightarrow> flags_are (insert i D) A (filter (\<lambda>e. pe_id e \<noteq> i) q)"
    "flags_are D A q \<Longrightarrow> flags_are D (insert i A) (filter (\<lambda>e. pe_id e \<noteq> i) q)"
  by (auto simp: flags_are_def distinct_map_filter)

lemma flag_ids [simp]:
  "map pe_id (map (\<lambda>e. if pe_id e = i then e\<lparr>pe_sent := b\<rparr> else e) q) = map pe_id q"
  "map pe_id (map (\<lambda>e. if pe_id e = i then e\<lparr>pe_acked := b\<rparr> else e) q) = map pe_id q"
  by simp_all

lemma flag_step_set:
  "flags_are D A q \<Longrightarrow> i \<notin> A \<Longrightarrow> flags_are (insert i D) A (map (\<lambda>e. if pe_id e = i then e\<lparr>pe_sent := True\<rparr> else e) q)"
  "flags_are D A q \<Longrightarrow> i \<notin> D \<Longrightarrow> flags_are D (insert i A) (map (\<lambda>e. if pe_id e = i then e\<lparr>pe_acked := True\<rparr> else e) q)"
  unfolding flags_are_def flag_ids by auto

lemma mark_sent_loop_spec:
  "flags_are D A q \<Longrightarrow> released_exactly (D \<union> set ids) A q rel (mark_sent_loop ids q rel)"
proof (induction ids arbitrary: D q rel)
  case Nil
  then show ?case by (auto simp: released_exactly_def flags_are_def)
next
  case (Cons i ids)
  have dist: "distinct (map pe_id q)" using Cons.prems by (simp add: flags_are_def)
  have D: "insert i D \<union> set ids = D \<union> set (i # ids)" by auto
  consider (unknown) "pe_lookup i q = None" | (acked) e where "pe_lookup i q = Some e" "pe_acked e"
    | (waiting) e where "pe_lookup i q = Some e" "\<not> pe_acked e" by (cases "pe_lookup i q") auto
  then show ?case
  proof cases
    case unknown
    then have "flags_are (insert i D) A q" using Cons.prems by (auto simp: flags_are_def pe_lookup_None)
    from Cons.IH [OF this, of rel] show ?thesis using unknown by (simp add: D)
  next
    case acked
    with Cons.prems have "i \<in> A" "i \<in> set (map pe_id q)" by (auto simp: flags_are_def dest!: pe_lookup_Some)
    then have "released_exactly (insert i D \<union> set ids) A q rel
        (mark_sent_loop ids (filter (\<lambda>e. pe_id e \<noteq> i) q) (rel @ [i]))"
      using released_one [OF Cons.IH [OF flag_step_drop(1) [OF Cons.prems, of i], of "rel @ [i]"]] by simp
    then show ?thesis using acked by (simp add: D pe_drop_filter [OF dist])
  next
    case waiting
    with Cons.prems have "i \<notin> A" by (auto simp: flags_are_def dest!: pe_lookup_Some)
    with Cons.prems have "flags_are (insert i D) A (pe_change i (\<lambda>e. e\<lparr>pe_sent := True\<rparr>) q)"
      unfolding pe_change_map [OF dist] by (rule flag_step_set)
    from released_same_ids [OF Cons.IH [OF this, of rel], of q] show ?thesis
      using waiting by (simp add: D pe_change_map [OF dist])
  qed
qed

lemma strategy_ack_loop_spec:
  "flags_are D A q \<Longrightarrow> released_exactly D (A \<union> set ids) q rel (strategy_ack_loop ids q rel)"
proof (induction ids arbitrary: A q rel)
  case Nil
  then show ?case by (auto simp: released_exactly_def flags_are_def)
next
  case (Cons i ids)
  have dist: "distinct (map pe_id q)" using Cons.prems by (simp add: flags_are_def)
  have A: "insert i A \<union> set ids = A \<union> set (i # ids)" by auto
  consider (unknown) "pe_lookup i q = None" | (sent) e where "pe_lookup i q = Some e" "pe_sent e"
    | (waiting) e where "pe_lookup i q = Some e" "\<not> pe_sent e" by (cases "pe_lookup i q") auto
  then show ?case
  proof cases
    case unknown
    then have "flags_are D (insert i A) q" using Cons.prems by (auto simp: flags_are_def pe_lookup_None)
    from Cons.IH [OF this, of rel] show ?thesis using unknown by (simp add: A)
  next
    case sent
    with Cons.prems have "i \<in> D" "i \<in> set (map pe_id q)" by (auto simp: flags_are_def dest!: pe_lookup_Some)
    then have "released_exactly D (insert i A \<union> set ids) q rel
        (strategy_ack_loop ids (filter (\<lambda>e. pe_id e \<noteq> i) q) (rel @ [i]))"
      using released_one [OF Cons.IH [OF flag_step_drop(2) [OF Cons.prems, of i], of "rel @ [i]"]] by simp
    then show ?thesis using sent by (simp add: A pe_drop_filter [OF dist])
  next
    case waiting
    with Cons.prems have "i \<notin> D" by (auto simp: flags_are_def dest!: pe_lookup_Some)
    with Cons.prems have "flags_are D (insert i A) (pe_change i (\<lambda>e. e\<lparr>pe_acked := True\<rparr>) q)"
      unfolding pe_change_map [OF dist] by (rule flag_step_set)
    from released_same_ids [OF Cons.IH [OF this, of rel], of q] show ?thesis
      using waiting by (simp add: A pe_change_map [OF dist])
  qed
qed

subsection \<open>Refinement\<close>

lemma released_implements:
  assumes "bridge_implements b a" "released_exactly (as_delivered a') (as_acked a') (ab_queue b) [] r"
    and "as_registered a' = as_registered a" "as_immediate a' = as_immediate a"
    and "as_delivered a \<subseteq> as_delivered a'" "as_delivered a' \<subseteq> as_registered a"
    and "as_acked a \<subseteq> as_acked a'" "as_acked a' \<subseteq> as_registered a"
  shows "bridge_implements (release r b) a'"
proof -
  let ?q = "ab_queue b" and ?DA = "as_delivered a' \<inter> as_acked a'"
  have b: "ab_open b" "distinct (concat (ab_sent b))" "set (map pe_id ?q) = as_registered a - as_delivered a \<inter> as_acked a"
    "set (concat (ab_sent b)) = as_forwarded a" "as_registered a \<inter> as_immediate a = {}"
    using assms(1) by (simp_all add: bridge_implements_def)
  obtain new where r: "snd r = new" "distinct new" "set new = set (map pe_id ?q) \<inter> ?DA"
    "flags_are (as_delivered a') (as_acked a') (fst r)" "set (map pe_id (fst r)) = set (map pe_id ?q) - ?DA"
    using assms(2) by (auto simp: released_exactly_def)
  have sent: "concat (ab_sent (release r b)) = concat (ab_sent b) @ new" and frame: "ab_queue (release r b) = fst r" "ab_open (release r b)"
    using b(1) r(1) by (auto simp: release_def engine_send_def)
  have fresh: "set new \<inter> set (concat (ab_sent b)) = {}"
    using r(3) b(3,4,5) assms(5-8) by (auto simp: as_forwarded_def)
  have fwd: "set (concat (ab_sent b)) \<union> set new = as_forwarded a'"
    using r(3) b(3,4) assms(4-8) by (auto simp: as_forwarded_def)
  have dist: "distinct (concat (ab_sent b) @ new)" using b(2) r(2) fresh by auto
  have ids: "set (map pe_id (fst r)) = as_registered a' - ?DA" using r(5) b(3) assms(3-8) by blast
  show ?thesis unfolding bridge_implements_def sent frame(1)
    using frame(2) dist ids fwd r(4) assms(3-8) b(5) by (simp add: flags_are_def)
qed

lemma implements_flags: "bridge_implements b a \<Longrightarrow> flags_are (as_delivered a) (as_acked a) (ab_queue b)"
  by (auto simp: bridge_implements_def flags_are_def)

lemma released_queue_only:
  assumes "released_exactly D A q rel r" "set (map pe_id q) \<inter> D = set (map pe_id q) \<inter> D'" "set (map pe_id q) \<inter> A = set (map pe_id q) \<inter> A'"
  shows "released_exactly D' A' q rel r"
proof -
  have r: "flags_are D A (fst r)" "set (map pe_id (fst r)) \<subseteq> set (map pe_id q)"
    using assms(1) by (auto simp: released_exactly_def)
  have same: "pe_id e \<in> D \<longleftrightarrow> pe_id e \<in> D'" "pe_id e \<in> A \<longleftrightarrow> pe_id e \<in> A'" if "e \<in> set (fst r)" for e
  proof -
    have "pe_id e \<in> set (map pe_id q)" using that r(2) by auto
    then show "pe_id e \<in> D \<longleftrightarrow> pe_id e \<in> D'" "pe_id e \<in> A \<longleftrightarrow> pe_id e \<in> A'" using assms(2,3) by blast+
  qed
  then have "flags_are D' A' (fst r)" using r(1) unfolding flags_are_def by fastforce
  moreover have "set (map pe_id q) \<inter> (D \<inter> A) = set (map pe_id q) \<inter> (D' \<inter> A')" using assms(2,3) by blast
  moreover from this have "set (map pe_id q) - D \<inter> A = set (map pe_id q) - D' \<inter> A'" by blast
  ultimately show ?thesis using assms(1) unfolding released_exactly_def by simp
qed

interpretation bridge: refinement bridge_op spec_op new_id bridge_implements
proof
  fix b a x assume rel: "bridge_implements b a" and ok: "new_id x a"
  have reg: "set (map pe_id (ab_queue b)) \<subseteq> as_registered a" using rel by (auto simp: bridge_implements_def)
  show "bridge_implements (bridge_op x b) (spec_op x a)"
  proof (cases x)
    case (OpRegister i)
    then show ?thesis using rel ok
      by (auto simp: bridge_implements_def register_pending_def as_forwarded_def)
  next
    case (OpSent ids)
    have "released_exactly (as_delivered a \<union> set ids \<inter> as_registered a) (as_acked a) (ab_queue b) []
        (mark_sent_loop ids (ab_queue b) [])"
      by (rule released_queue_only [OF mark_sent_loop_spec [OF implements_flags [OF rel]]]) (use reg in auto)
    then have "bridge_implements (release (mark_sent_loop ids (ab_queue b) []) b) (spec_op x a)"
      using rel by (intro released_implements [OF rel]) (auto simp: OpSent bridge_implements_def)
    then show ?thesis using rel by (cases "ids = []") (auto simp: OpSent mark_sent_def)
  next
    case (OpAck ids)
    have "released_exactly (as_delivered a) (as_acked a \<union> set ids \<inter> as_registered a) (ab_queue b) []
        (strategy_ack_loop ids (ab_queue b) [])"
      by (rule released_queue_only [OF strategy_ack_loop_spec [OF implements_flags [OF rel]]]) (use reg in auto)
    then have "bridge_implements (release (strategy_ack_loop ids (ab_queue b) []) b) (spec_op x a)"
      using rel by (intro released_implements [OF rel]) (auto simp: OpAck bridge_implements_def)
    then show ?thesis using rel by (cases "ids = []") (auto simp: OpAck handle_strategy_ack_def)
  next
    case (OpImmediate i)
    then show ?thesis using rel ok
      by (auto simp: bridge_implements_def immediate_ack_def engine_send_def as_forwarded_def)
  qed
qed

lemma bridge_starts: "bridge_implements ack_bridge_create ack_spec_init"
  by (simp add: bridge_implements_def ack_bridge_create_def ack_spec_init_def as_forwarded_def)

lemmas bridge_run = bridge.run_refines [OF bridge_starts, unfolded bridge_implements_def]

text \<open>
  C11: The acknowledgement bridge implements its specification: after any operations in which the
  engine's ids are introduced once, the ids forwarded to the engine are, each exactly once, those
  that were both delivered and acknowledged after their registration, in either order, and those
  acknowledged immediately; the other registered ids are still pending. Unknown ids release nothing.
\<close>

theorem ack_bridge_refines:
  assumes "allowed_run new_id spec_op ops ack_spec_init"
  shows "let b = fold bridge_op ops ack_bridge_create; a = fold spec_op ops ack_spec_init in
    distinct (concat (ab_sent b)) \<and> set (concat (ab_sent b)) = as_forwarded a
    \<and> distinct (map pe_id (ab_queue b))
    \<and> set (map pe_id (ab_queue b)) = as_registered a - as_delivered a \<inter> as_acked a"
  using bridge_run [OF assms] by (simp add: Let_def)

lemma spec_grows:
  "as_registered a \<subseteq> as_registered (fold spec_op ops a)" "as_delivered a \<subseteq> as_delivered (fold spec_op ops a)"
  "as_acked a \<subseteq> as_acked (fold spec_op ops a)"
proof (induction ops arbitrary: a)
  case (Cons x ops)
  { case 1 then show ?case using Cons.IH(1) [of "spec_op x a"] by (cases x) auto }
  { case 2 then show ?case using Cons.IH(2) [of "spec_op x a"] by (cases x) auto }
  { case 3 then show ?case using Cons.IH(3) [of "spec_op x a"] by (cases x) auto }
qed simp_all

lemma spec_delivers:
  "i \<in> as_registered a \<Longrightarrow> OpSent ids \<in> set ops \<Longrightarrow> i \<in> set ids \<Longrightarrow> i \<in> as_delivered (fold spec_op ops a)"
proof (induction ops arbitrary: a)
  case (Cons x ops)
  show ?case
  proof (cases "x = OpSent ids")
    case True
    then have "i \<in> as_delivered (spec_op x a)" using Cons.prems by simp
    then show ?thesis using spec_grows(2) [of "spec_op x a" ops] by auto
  next
    case False
    moreover have "i \<in> as_registered (spec_op x a)" using Cons.prems(1) by (cases x) auto
    ultimately show ?thesis using Cons by simp
  qed
qed simp

lemma spec_acks:
  "i \<in> as_registered a \<Longrightarrow> OpAck ids \<in> set ops \<Longrightarrow> i \<in> set ids \<Longrightarrow> i \<in> as_acked (fold spec_op ops a)"
proof (induction ops arbitrary: a)
  case (Cons x ops)
  show ?case
  proof (cases "x = OpAck ids")
    case True
    then have "i \<in> as_acked (spec_op x a)" using Cons.prems by simp
    then show ?thesis using spec_grows(3) [of "spec_op x a" ops] by auto
  next
    case False
    moreover have "i \<in> as_registered (spec_op x a)" using Cons.prems(1) by (cases x) auto
    ultimately show ?thesis using Cons by simp
  qed
qed simp

text \<open>
  C21: No event wedges another: an event that is registered and afterwards delivered and
  acknowledged, in whichever order and whatever happens to other events, is forwarded to the engine.
\<close>

theorem acked_event_is_released:
  assumes "allowed_run new_id spec_op (before @ OpRegister i # after) ack_spec_init"
    and "OpSent sent \<in> set after" "i \<in> set sent" and "OpAck acked \<in> set after" "i \<in> set acked"
  shows "i \<in> set (concat (ab_sent (fold bridge_op (before @ OpRegister i # after) ack_bridge_create)))"
proof -
  let ?a = "spec_op (OpRegister i) (fold spec_op before ack_spec_init)"
  have "i \<in> as_registered ?a" by simp
  from spec_delivers [OF this assms(2,3)] spec_acks [OF this assms(4,5)]
  have "i \<in> as_forwarded (fold spec_op (before @ OpRegister i # after) ack_spec_init)"
    by (simp add: as_forwarded_def)
  then show ?thesis using bridge_run [OF assms(1)] by blast
qed

subsection \<open>The manager\<close>

record event_ack_message =
  ea_correlation_id :: string
  ea_events_processed :: "string list"
  ea_timestamp :: nat

datatype websocket_error =
    ConnectionFailed string | InvalidAck string | AckTimeout string | ConnectionClosed string
  | ConnectionNotFound string | MessageError string | ProviderErrorWs string | PermanentAuthError string
  | ConfigErrorWs string | SendError string | ReceiveError string | InvalidInput string
  | SerializationFailed string | OtherWs string

text \<open>
  \<open>am_queue\<close> is the unbounded channel of acknowledgements; \<open>am_receiver\<close> says that its receiver
  is not taken by a waiter.
\<close>

record ack_manager =
  am_pending :: "(string, string list) dmap"
  am_queue :: "event_ack_message list"
  am_receiver :: bool

definition ack_manager_new :: ack_manager where
  "ack_manager_new = \<lparr>am_pending = [], am_queue = [], am_receiver = True\<rparr>"

definition am_register_pending :: "string \<Rightarrow> string list \<Rightarrow> ack_manager \<Rightarrow> ack_manager" where
  "am_register_pending conn ids m = m\<lparr>am_pending := dm_insert conn ids (am_pending m)\<rparr>"

definition mark_acknowledged_internal :: "string list \<Rightarrow> ack_manager \<Rightarrow> ack_manager" where
  "mark_acknowledged_internal ids m =
     m\<lparr>am_pending := filter (\<lambda>p. \<not> list_all (\<lambda>i. i \<in> set (snd p)) ids) (am_pending m)\<rparr>"

definition mark_acknowledged :: "event_ack_message \<Rightarrow> ack_manager \<Rightarrow> ack_manager" where
  "mark_acknowledged ack m =
     (let m1 = mark_acknowledged_internal (ea_events_processed ack) m in m1\<lparr>am_queue := am_queue m1 @ [ack]\<rparr>)"

text \<open>
  Waiting takes the receiver and then the head of the queue; when the queue is still empty at the
  end of the timeout it fails. The queue is the one at the end of the wait.
\<close>

definition wait_for_ack :: "string list \<Rightarrow> string \<Rightarrow> ack_manager \<Rightarrow> (websocket_error + event_ack_message) \<times> ack_manager" where
  "wait_for_ack expected timeout_debug m =
     (if \<not> am_receiver m then (Inl (OtherWs ''ACK receiver already taken''), m)
      else case am_queue m of
        [] \<Rightarrow> (Inl (AckTimeout (''No ACK received within '' @ timeout_debug)), m)
      | ack # rest \<Rightarrow>
          (let m1 = m\<lparr>am_queue := rest\<rparr> in
           if list_all (\<lambda>i. i \<in> set (ea_events_processed ack)) expected
           then (Inr ack, mark_acknowledged_internal (ea_events_processed ack) m1)
           else (Inl (InvalidAck (''ACK doesn'' @ [CHR 0x27] @ ''t match expected events'')), m1)))"

definition am_pending_count :: "ack_manager \<Rightarrow> nat" where
  "am_pending_count m = sum_list (map (\<lambda>p. length (snd p)) (am_pending m))"

definition clear_connection :: "string \<Rightarrow> ack_manager \<Rightarrow> ack_manager" where
  "clear_connection conn m = m\<lparr>am_pending := dm_remove conn (am_pending m)\<rparr>"

definition extract_correlation_ids :: "ws_message list \<Rightarrow> string list" where
  "extract_correlation_ids ms = List.map_filter (\<lambda>m. case m of
     WsOrder e ord p t \<Rightarrow> Some (o_id ord) | WsPosition e p t \<Rightarrow> Some (p_id p) | _ \<Rightarrow> None) ms"

text \<open>
  The manager clears a whole connection as soon as everything acknowledged is among its pending
  ids: one acknowledged event clears the others, an acknowledgement that also names another
  event clears nothing, and an empty one clears every connection.
\<close>

lemma dm_get_filter_acked:
  "dm_wf xs \<Longrightarrow> dm_get (filter (\<lambda>p. \<not> list_all (\<lambda>i. i \<in> set (snd p)) ids) xs) conn =
     (case dm_get xs conn of Some pending \<Rightarrow> if set ids \<subseteq> set pending then None else Some pending | None \<Rightarrow> None)"
proof (induction xs)
  case (Cons p xs)
  then have wf: "dm_wf xs" "dm_get xs (fst p) = None"
    by (auto simp: dm_wf_def dm_get_def map_of_eq_None_iff)
  have "list_all (\<lambda>i. i \<in> set b) ids = (set ids \<subseteq> set b)" for b by (auto simp: list_all_iff)
  then show ?case using Cons.IH [OF wf(1)] wf(2) by (cases p) auto
qed simp

lemma manager_clears_on_partial_ack:
  assumes "dm_wf (am_pending m)" "dm_get (am_pending m) conn = Some pending"
  shows "dm_get (am_pending (mark_acknowledged_internal ids m)) conn = (if set ids \<subseteq> set pending then None else Some pending)"
  using assms by (simp add: mark_acknowledged_internal_def dm_get_filter_acked)

end
