(* ===== verification/Gw_Reconnect.thy ===== *)
theory Gw_Reconnect
  imports Gw_Ack
begin

text \<open>
  Broker connections: the reconnection state machine with its exponential backoff
  (\<open>websocket/reconnection.rs\<close>), the staleness of instruments during a gap
  (\<open>websocket/staleness.rs\<close>), the store of correlation ids (\<open>correlation.rs\<close>) and the loop of
  the provider registry that reconnects a lost stream (\<open>websocket/registry.rs\<close>). The clock, the
  provider and the shutdown signal are the record \<open>link\<close>.
\<close>

subsection \<open>Backoff\<close>

record reconnection_config =
  rc_initial_backoff :: duration
  rc_max_backoff :: duration
  rc_max_retry_duration :: duration

definition reconnection_config_default :: reconnection_config where
  "reconnection_config_default = \<lparr>rc_initial_backoff = millis 1000, rc_max_backoff = secs 60,
     rc_max_retry_duration = secs 300\<rparr>"

datatype reconnection_state = Idle | Retrying | GaveUp

record reconnection_handler =
  rh_config :: reconnection_config
  rh_state :: reconnection_state
  rh_attempt_count :: nat
  rh_disconnected_at :: "instant option"

definition reconnection_handler_new :: "reconnection_config \<Rightarrow> reconnection_handler" where
  "reconnection_handler_new c = \<lparr>rh_config = c, rh_state = Idle, rh_attempt_count = 0, rh_disconnected_at = None\<rparr>"

definition on_disconnect :: "instant \<Rightarrow> reconnection_handler \<Rightarrow> reconnection_handler" where
  "on_disconnect now h = h\<lparr>rh_state := Retrying, rh_attempt_count := 0, rh_disconnected_at := Some now\<rparr>"

text \<open>The delay before attempt number \<open>n\<close>, in milliseconds: capped, and with its jitter.\<close>

definition capped_ms :: "reconnection_config \<Rightarrow> nat \<Rightarrow> nat" where
  "capped_ms c n = min (min (millis_u64 (rc_initial_backoff c) * 2 ^ min n 6) u64_max) (millis_u64 (rc_max_backoff c))"

definition jitter_ms :: "nat \<Rightarrow> nat \<Rightarrow> nat" where
  "jitter_ms nanos capped = (if capped > 0 then nanos mod max (capped div 4) 1 else 0)"

definition next_backoff ::
  "instant \<Rightarrow> nat \<Rightarrow> reconnection_handler \<Rightarrow> duration option \<times> reconnection_handler" where
  "next_backoff now nanos h =
     (if rh_state h \<noteq> Retrying then (None, h)
      else if (case rh_disconnected_at h of Some t \<Rightarrow> now - t \<ge> rc_max_retry_duration (rh_config h) | None \<Rightarrow> False)
      then (None, h)
      else
        (let capped = capped_ms (rh_config h) (rh_attempt_count h);
             delay = (capped + jitter_ms nanos capped) mod 2 ^ 64
         in (Some (millis delay), h\<lparr>rh_attempt_count := (rh_attempt_count h + 1) mod 2 ^ 32\<rparr>)))"

definition gap_duration :: "instant \<Rightarrow> reconnection_handler \<Rightarrow> duration option" where
  "gap_duration now h = map_option (\<lambda>t. now - t) (rh_disconnected_at h)"

definition rh_reset :: "reconnection_handler \<Rightarrow> reconnection_handler" where
  "rh_reset h = h\<lparr>rh_state := Idle, rh_attempt_count := 0, rh_disconnected_at := None\<rparr>"

definition on_reconnect_success :: "instant \<Rightarrow> reconnection_handler \<Rightarrow> duration \<times> reconnection_handler" where
  "on_reconnect_success now h = ((case gap_duration now h of Some g \<Rightarrow> g | None \<Rightarrow> 0), rh_reset h)"

definition on_gave_up :: "reconnection_handler \<Rightarrow> reconnection_handler" where
  "on_gave_up h = h\<lparr>rh_state := GaveUp\<rparr>"

subsection \<open>Staleness\<close>

type_synonym staleness_tracker = "(string, instant \<times> utc) dmap"

definition mark_all_stale :: "instant \<Rightarrow> utc \<Rightarrow> string list \<Rightarrow> staleness_tracker \<Rightarrow> staleness_tracker" where
  "mark_all_stale inst now symbols st = fold (\<lambda>s. dm_insert s (inst, now)) symbols st"

definition mark_fresh :: "string \<Rightarrow> staleness_tracker \<Rightarrow> utc option \<times> staleness_tracker" where
  "mark_fresh symbol st = (map_option snd (dm_get st symbol), dm_remove symbol st)"

definition is_stale :: "staleness_tracker \<Rightarrow> string \<Rightarrow> bool" where
  "is_stale st symbol = dm_has st symbol"

definition stale_instruments :: "staleness_tracker \<Rightarrow> string list" where
  "stale_instruments st = dm_keys st"

definition stale_instruments_with_times :: "staleness_tracker \<Rightarrow> (string \<times> utc) list" where
  "stale_instruments_with_times st = map (\<lambda>(s, i, t). (s, t)) st"

definition maybe_clear_staleness :: "ws_message \<Rightarrow> staleness_tracker \<Rightarrow> (string \<times> utc) option \<times> staleness_tracker" where
  "maybe_clear_staleness ev st =
     (case (case ev of WsCandle b t \<Rightarrow> Some (bar_symbol b) | WsQuoteData q t \<Rightarrow> Some (q_symbol q)
            | WsTrade e tr t \<Rightarrow> Some (t_symbol tr) | _ \<Rightarrow> None) of
        None \<Rightarrow> (None, st)
      | Some symbol \<Rightarrow>
          (case mark_fresh symbol st of (since, st1) \<Rightarrow> (map_option (\<lambda>t. (symbol, t)) since, st1)))"

subsection \<open>Correlation ids\<close>

type_synonym correlation_store = "(string, string) dmap"

definition corr_store :: "string \<Rightarrow> string \<Rightarrow> correlation_store \<Rightarrow> correlation_store" where
  "corr_store i c s = dm_insert i c s"

definition corr_get :: "correlation_store \<Rightarrow> string \<Rightarrow> string option" where
  "corr_get s i = dm_get s i"

definition corr_remove :: "string \<Rightarrow> correlation_store \<Rightarrow> string option \<times> correlation_store" where
  "corr_remove i s = (dm_get s i, dm_remove i s)"

subsection \<open>Reconnecting a stream\<close>

record 'w link =
  lk_now :: "'w \<Rightarrow> instant"
  lk_utc :: "'w \<Rightarrow> utc"
  lk_nanos :: "'w \<Rightarrow> nat"
  lk_sleep :: "duration \<Rightarrow> 'w \<Rightarrow> 'w"
  lk_cancelled :: "'w \<Rightarrow> bool"
  lk_reconnect :: "'w \<Rightarrow> (websocket_error + unit) option \<times> 'w"

datatype reconnect_result = Reconnected duration | ConnectionGivenUp | AuthRefused | ProviderGone | ShutDown

text \<open>
  The inner loop of the provider task, with the messages it broadcasts. Reconciliation after a
  reconnect is the router's and is not part of this loop. One unit of fuel is one attempt.
\<close>

fun reconnect_loop ::
  "nat \<Rightarrow> 'w link \<Rightarrow> trading_platform \<Rightarrow> reconnection_handler \<Rightarrow> 'w
     \<Rightarrow> (reconnect_result \<times> ws_message list \<times> reconnection_handler \<times> 'w) option" where
  "reconnect_loop 0 L platform h w = None"
| "reconnect_loop (Suc fuel) L platform h w =
     (case next_backoff (lk_now L w) (lk_nanos L w) h of
        (None, h1) \<Rightarrow> Some (ConnectionGivenUp, [broker_connection_failed (lk_utc L w) platform], on_gave_up h1, w)
      | (Some delay, h1) \<Rightarrow>
          (let w1 = lk_sleep L delay w in
           if lk_cancelled L w1 then Some (ShutDown, [], h1, w1)
           else case lk_reconnect L w1 of
             (Some (Inr u), w2) \<Rightarrow>
               (case on_reconnect_success (lk_now L w2) h1 of
                  (gap, h2) \<Rightarrow> Some (Reconnected gap, [broker_reconnected (lk_utc L w2) platform gap], h2, w2))
           | (Some (Inl e), w2) \<Rightarrow>
               (case e of
                  PermanentAuthError m \<Rightarrow> Some (AuthRefused, [broker_connection_failed (lk_utc L w2) platform], h1, w2)
                | _ \<Rightarrow> reconnect_loop fuel L platform h1 w2)
           | (None, w2) \<Rightarrow> Some (ProviderGone, [], h1, w2)))"

definition reconnect_stream ::
  "nat \<Rightarrow> 'w link \<Rightarrow> trading_platform \<Rightarrow> reconnection_config \<Rightarrow> 'w
     \<Rightarrow> (reconnect_result \<times> ws_message list \<times> reconnection_handler \<times> 'w) option" where
  "reconnect_stream fuel L platform c w =
     reconnect_loop fuel L platform (on_disconnect (lk_now L w) (reconnection_handler_new c)) w"

text \<open>Clocks run forward, and a sleep takes at least as long as asked.\<close>

definition clock_runs :: "'w link \<Rightarrow> bool" where
  "clock_runs L = ((\<forall>d w. lk_now L w + d \<le> lk_now L (lk_sleep L d w)) \<and> (\<forall>w. lk_now L w \<le> lk_now L (snd (lk_reconnect L w))))"

definition shortest_delay :: "reconnection_config \<Rightarrow> duration" where
  "shortest_delay c = millis (min (millis_u64 (rc_initial_backoff c)) (millis_u64 (rc_max_backoff c)))"

lemma millis_u64_le: "millis_u64 d \<le> u64_max"
  by (simp add: millis_u64_def)

lemma capped_lower: "min (millis_u64 (rc_initial_backoff c)) (millis_u64 (rc_max_backoff c)) \<le> capped_ms c n"
proof -
  have "millis_u64 (rc_initial_backoff c) \<le> millis_u64 (rc_initial_backoff c) * 2 ^ min n 6" by simp
  then show ?thesis using millis_u64_le [of "rc_initial_backoff c"] unfolding capped_ms_def by linarith
qed

lemma capped_upper: "capped_ms c n \<le> millis_u64 (rc_max_backoff c)"
  by (simp add: capped_ms_def)

lemma jitter_upper: "jitter_ms nanos x \<le> x div 4"
  by (cases "x div 4 = 0") (auto simp: jitter_ms_def max_def intro: less_imp_le mod_less_divisor)

text \<open>
  A delay is never shorter than the smaller of the initial and the maximal backoff and never longer
  than the maximal backoff and a quarter, and the capped delay never shrinks from one attempt to
  the next. The sum must fit in 64 bits.
\<close>

lemma delay_bounds:
  assumes "next_backoff now nanos h = (Some d, h')"
    and "millis_u64 (rc_max_backoff (rh_config h)) + millis_u64 (rc_max_backoff (rh_config h)) div 4 < 2 ^ 64"
  shows "shortest_delay (rh_config h) \<le> d
    \<and> d \<le> millis (millis_u64 (rc_max_backoff (rh_config h)) + millis_u64 (rc_max_backoff (rh_config h)) div 4)
    \<and> capped_ms (rh_config h) n \<le> capped_ms (rh_config h) (n + 1)"
proof -
  let ?c = "capped_ms (rh_config h) (rh_attempt_count h)" and ?m = "millis_u64 (rc_max_backoff (rh_config h))"
  have le: "?c + jitter_ms nanos ?c \<le> ?m + ?m div 4"
    using capped_upper [of "rh_config h" "rh_attempt_count h"] jitter_upper [of nanos ?c] div_le_mono [of ?c ?m 4] by linarith
  then have "(?c + jitter_ms nanos ?c) mod 2 ^ 64 = ?c + jitter_ms nanos ?c" using assms(2) by simp
  then have d: "d = millis (?c + jitter_ms nanos ?c)"
    using assms(1) by (auto simp: next_backoff_def Let_def split: if_splits)
  have "min n 6 \<le> min (n + 1) 6" by simp
  then have "(2::nat) ^ min n 6 \<le> 2 ^ min (n + 1) 6" by (rule power_increasing) simp
  then have "millis_u64 (rc_initial_backoff (rh_config h)) * 2 ^ min n 6 \<le> millis_u64 (rc_initial_backoff (rh_config h)) * 2 ^ min (n + 1) 6"
    by (rule mult_le_mono2)
  then have "capped_ms (rh_config h) n \<le> capped_ms (rh_config h) (n + 1)"
    unfolding capped_ms_def by linarith
  then show ?thesis
    using d le capped_lower [of "rh_config h" "rh_attempt_count h"] by (auto simp: shortest_delay_def millis_def)
qed

lemma reconnect_loop_ends:
  assumes "clock_runs L" "rh_state h = Retrying" "rh_disconnected_at h = Some t" "rh_config h = c"
    and "millis_u64 (rc_max_backoff c) + millis_u64 (rc_max_backoff c) div 4 < 2 ^ 64"
    and "0 < shortest_delay c" "rc_max_retry_duration c \<le> (lk_now L w - t) + fuel * shortest_delay c" "t \<le> lk_now L w"
  shows "reconnect_loop (Suc fuel) L platform h w \<noteq> None"
  using assms
proof (induction fuel arbitrary: h w)
  case 0
  then show ?case by (simp add: next_backoff_def)
next
  case (Suc fuel)
  show ?case
  proof (cases "next_backoff (lk_now L w) (lk_nanos L w) h")
    case (Pair r h1)
    show ?thesis
    proof (cases r)
      case None
      with Pair show ?thesis by simp
    next
      case (Some d)
      with Pair have step: "next_backoff (lk_now L w) (lk_nanos L w) h = (Some d, h1)" by simp
      obtain res w2 where rec: "lk_reconnect L (lk_sleep L d w) = (res, w2)" by (cases "lk_reconnect L (lk_sleep L d w)")
      have h1: "rh_state h1 = Retrying" "rh_disconnected_at h1 = Some t" "rh_config h1 = c"
        using step Suc.prems(2-4) by (auto simp: next_backoff_def Let_def split: if_splits)
      have "shortest_delay c \<le> d" using delay_bounds [OF step, of 0] Suc.prems(4,5) by simp
      moreover have "lk_now L w + d \<le> lk_now L w2"
        using Suc.prems(1) rec by (metis clock_runs_def le_trans snd_conv)
      ultimately have later: "rc_max_retry_duration c \<le> (lk_now L w2 - t) + fuel * shortest_delay c" "t \<le> lk_now L w2"
        using Suc.prems(7,8) by auto
      from Suc.IH [OF Suc.prems(1) h1 Suc.prems(5,6) later]
      have "reconnect_loop (Suc fuel) L platform h1 w2 \<noteq> None" .
      then show ?thesis using step rec
        by (simp add: Let_def del: reconnect_loop.simps(2) split: option.splits sum.splits websocket_error.splits prod.splits)
           (simp add: Let_def split: option.splits sum.splits websocket_error.splits prod.splits)
    qed
  qed
qed

text \<open>
  C26: Reconnecting a lost stream always ends: when clocks run forward and the backoff is not zero,
  the loop reconnects, is refused, is shut down or gives up after at most as many attempts as the
  shortest delay fits into the maximal retry duration, and two more.
\<close>

theorem reconnect_ends:
  assumes "clock_runs L" "0 < shortest_delay c"
    and "millis_u64 (rc_max_backoff c) + millis_u64 (rc_max_backoff c) div 4 < 2 ^ 64"
  shows "\<exists>r. reconnect_stream (rc_max_retry_duration c div shortest_delay c + 2) L platform c w = Some r"
proof -
  let ?h = "on_disconnect (lk_now L w) (reconnection_handler_new c)" and ?n = "rc_max_retry_duration c div shortest_delay c"
  have "rc_max_retry_duration c < shortest_delay c + shortest_delay c * ?n"
    using dividend_less_times_div [OF assms(2), of "rc_max_retry_duration c"] by (simp add: mult.commute)
  then have "rc_max_retry_duration c \<le> lk_now L w - lk_now L w + (?n + 1) * shortest_delay c"
    by (simp add: add_mult_distrib mult.commute)
  from reconnect_loop_ends [OF assms(1) _ _ _ assms(3) assms(2) this, of ?h platform]
  have "reconnect_loop (Suc (?n + 1)) L platform ?h w \<noteq> None"
    by (simp add: on_disconnect_def reconnection_handler_new_def)
  then show ?thesis by (simp add: reconnect_stream_def)
qed

end
