(* ===== verification/Gw_Retry.thy ===== *)
theory Gw_Retry
  imports Gw_Error
begin

text \<open>
  Retries of HTTP calls (\<open>http/retry.rs\<close>). \<open>scale\<close> is the floating point computation of the delay,
  \<open>(base_ms as f64 * multiplier.powi(attempt)) as u64\<close>; what the delay is capped at does not depend on it.
\<close>

record retry_config =
  rt_max_retries :: nat
  rt_initial_delay :: duration
  rt_max_delay :: duration

definition retry_config_default :: retry_config where
  "retry_config_default = \<lparr>rt_max_retries = 3, rt_initial_delay = millis 100, rt_max_delay = secs 10\<rparr>"

definition retry_config_new :: "nat \<Rightarrow> retry_config" where
  "retry_config_new max_retries = retry_config_default\<lparr>rt_max_retries := max_retries\<rparr>"

definition delay_for_attempt :: "(nat \<Rightarrow> nat \<Rightarrow> nat) \<Rightarrow> retry_config \<Rightarrow> nat \<Rightarrow> duration" where
  "delay_for_attempt scale c attempt =
     min (millis (scale (rt_initial_delay c div 1000000) attempt)) (rt_max_delay c)"

definition retry_delay :: "(nat \<Rightarrow> nat \<Rightarrow> nat) \<Rightarrow> retry_config \<Rightarrow> nat \<Rightarrow> gateway_error \<Rightarrow> duration" where
  "retry_delay scale c attempt err =
     (case err of
        RateLimited (Some seconds) r \<Rightarrow> min (secs seconds) (rt_max_delay c)
      | _ \<Rightarrow> delay_for_attempt scale c attempt)"

text \<open>\<open>for attempt in 0..=max_retries\<close>: \<open>left\<close> attempts remain. The operation and the sleep change the world.\<close>

fun retry_loop ::
  "(nat \<Rightarrow> nat \<Rightarrow> nat) \<Rightarrow> retry_config \<Rightarrow> (duration \<Rightarrow> 'w \<Rightarrow> 'w) \<Rightarrow> ('w \<Rightarrow> (gateway_error + 'a) \<times> 'w)
     \<Rightarrow> nat \<Rightarrow> nat \<Rightarrow> gateway_error option \<Rightarrow> 'w \<Rightarrow> (gateway_error + 'a) \<times> 'w" where
  "retry_loop scale c sl operation attempt 0 last_error w =
     (Inl (case last_error of Some e \<Rightarrow> e | None \<Rightarrow> Internal ''Retry logic error'' None), w)"
| "retry_loop scale c sl operation attempt (Suc left) last_error w =
     (case operation w of
        (Inr result, w1) \<Rightarrow> (Inr result, w1)
      | (Inl err, w1) \<Rightarrow>
          if is_retryable err \<and> \<not> attempt \<ge> rt_max_retries c
          then retry_loop scale c sl operation (attempt + 1) left (Some err) (sl (retry_delay scale c attempt err) w1)
          else (Inl err, w1))"

definition retry_with_backoff ::
  "(nat \<Rightarrow> nat \<Rightarrow> nat) \<Rightarrow> retry_config \<Rightarrow> (duration \<Rightarrow> 'w \<Rightarrow> 'w) \<Rightarrow> ('w \<Rightarrow> (gateway_error + 'a) \<times> 'w)
     \<Rightarrow> 'w \<Rightarrow> (gateway_error + 'a) \<times> 'w" where
  "retry_with_backoff scale c sl operation w = retry_loop scale c sl operation 0 (rt_max_retries c + 1) None w"

text \<open>The same run with a log of the delays slept.\<close>

definition logged_sleep :: "(duration \<Rightarrow> 'w \<Rightarrow> 'w) \<Rightarrow> duration \<Rightarrow> 'w \<times> duration list \<Rightarrow> 'w \<times> duration list" where
  "logged_sleep sl d w = (sl d (fst w), snd w @ [d])"

definition unlogged :: "('w \<Rightarrow> (gateway_error + 'a) \<times> 'w) \<Rightarrow> 'w \<times> duration list \<Rightarrow> (gateway_error + 'a) \<times> 'w \<times> duration list" where
  "unlogged operation w = (case operation (fst w) of (r, w1) \<Rightarrow> (r, w1, snd w))"

lemma logged_simps [simp]:
  "logged_sleep sl d (w, ds) = (sl d w, ds @ [d])"
  "operation w = (r, w1) \<Longrightarrow> unlogged operation (w, ds) = (r, w1, ds)"
  by (simp_all add: logged_sleep_def unlogged_def)

lemma retry_delay_le: "retry_delay scale c attempt err \<le> rt_max_delay c"
  by (simp add: retry_delay_def delay_for_attempt_def split: gateway_error.splits option.splits)

lemma retry_loop_spec:
  assumes "retry_loop scale c (logged_sleep sl) (unlogged operation) attempt left last_error (w, ds) = (r, w', ds')"
    and "attempt + left = rt_max_retries c + 1" "0 < left"
  shows "\<exists>new. ds' = ds @ new \<and> length new < left \<and> (\<forall>d \<in> set new. d \<le> rt_max_delay c)
    \<and> (\<exists>w1. operation w1 = (r, w'))
    \<and> (\<forall>e. r = Inl e \<longrightarrow> \<not> is_retryable e \<or> length new = left - 1)"
  using assms
proof (induction left arbitrary: attempt last_error w ds)
  case (Suc left)
  obtain res w1 where op: "operation w = (res, w1)" by (cases "operation w")
  show ?case
  proof (cases "\<exists>err. res = Inl err \<and> is_retryable err \<and> \<not> attempt \<ge> rt_max_retries c")
    case True
    then obtain err where err: "res = Inl err" "is_retryable err" "attempt < rt_max_retries c" by auto
    let ?d = "retry_delay scale c attempt err"
    have "retry_loop scale c (logged_sleep sl) (unlogged operation) (attempt + 1) left (Some err) (sl ?d w1, ds @ [?d]) = (r, w', ds')"
      using Suc.prems(1) op err by simp
    moreover have "0 < left" using Suc.prems(2) err(3) by simp
    ultimately obtain new where "ds' = (ds @ [?d]) @ new" "length new < left" "\<forall>d \<in> set new. d \<le> rt_max_delay c"
      "\<exists>w1. operation w1 = (r, w')" "\<forall>e. r = Inl e \<longrightarrow> \<not> is_retryable e \<or> length new = left - 1"
      using Suc.IH [of "attempt + 1" "Some err" "sl ?d w1" "ds @ [?d]"] Suc.prems(2) by auto
    then show ?thesis using retry_delay_le [of scale c attempt err] by (intro exI [of _ "?d # new"]) auto
  next
    case False
    then have "r = res" "w' = w1" "ds' = ds"
      using Suc.prems(1) op by (auto split: sum.splits if_splits)
    then show ?thesis using op False Suc.prems(2) by auto
  qed
qed simp

text \<open>
  C27: A retried call returns what some attempt returned: it sleeps at most as often as retries are
  configured, never longer than the maximal delay, and reports a retryable error only after all
  retries; the loop's internal fallback error is never produced by the loop itself.
\<close>

theorem retry_returns_attempt:
  assumes "retry_with_backoff scale c (logged_sleep sl) (unlogged operation) (w, []) = (r, w', delays)"
  shows "length delays \<le> rt_max_retries c \<and> list_all (\<lambda>d. d \<le> rt_max_delay c) delays
    \<and> (\<exists>w1. operation w1 = (r, w'))
    \<and> (case r of Inl e \<Rightarrow> is_retryable e \<longrightarrow> length delays = rt_max_retries c | Inr v \<Rightarrow> True)"
  using retry_loop_spec [OF assms [unfolded retry_with_backoff_def]] by (auto simp: list_all_iff split: sum.splits)

end
