(* ===== verification/Gw_Events_Demo.thy ===== *)
theory Gw_Events_Demo
  imports Gw_Ack Gw_Reconnect Gw_Retry Gw_Demo_Broker
begin

text \<open>
  The properties of the acknowledgement bridge, of the reconnection and of the retries, evaluated
  on concrete runs.
\<close>

definition demo_ops :: "ack_op list" where
  "demo_ops = [OpRegister ''a'', OpRegister ''b'', OpAck [''b''], OpSent [''b'', ''a''], OpImmediate ''c'']"

theorem ack_bridge_refines_witness:
  "set (concat (ab_sent (fold bridge_op demo_ops ack_bridge_create))) = {''b'', ''c''}
    \<and> set (map pe_id (ab_queue (fold bridge_op demo_ops ack_bridge_create))) = {''a''}"
proof -
  have ok: "allowed_run new_id spec_op demo_ops ack_spec_init" by (simp add: demo_ops_def ack_spec_init_def)
  show ?thesis
    using ack_bridge_refines [OF ok] by (auto simp: Let_def demo_ops_def ack_spec_init_def as_forwarded_def)
qed

theorem acked_event_is_released_witness:
  "''b'' \<in> set (concat (ab_sent (fold bridge_op [OpRegister ''a'', OpRegister ''b'', OpAck [''b''], OpSent [''b'', ''a'']] ack_bridge_create)))"
  using acked_event_is_released [of "[OpRegister ''a'']" "''b''" "[OpAck [''b''], OpSent [''b'', ''a'']]" "[''b'', ''a'']" "[''b'']"]
  by (simp add: ack_spec_init_def)

text \<open>A link whose clock is its world and that never reconnects.\<close>

definition dead_link :: "nat link" where
  "dead_link = \<lparr>lk_now = (\<lambda>w. w), lk_utc = (\<lambda>w. w), lk_nanos = (\<lambda>w. 0), lk_sleep = (\<lambda>d w. w + d),
     lk_cancelled = (\<lambda>w. False), lk_reconnect = (\<lambda>w. (Some (Inl (ConnectionFailed ''down'')), w + 1))\<rparr>"

theorem reconnect_ends_witness:
  "\<exists>r. reconnect_stream (rc_max_retry_duration reconnection_config_default div shortest_delay reconnection_config_default + 2)
     dead_link AlpacaLive reconnection_config_default 0 = Some r"
proof (rule reconnect_ends)
  show "clock_runs dead_link" by (simp add: clock_runs_def dead_link_def)
  show "0 < shortest_delay reconnection_config_default" by code_simp
  show "millis_u64 (rc_max_backoff reconnection_config_default) + millis_u64 (rc_max_backoff reconnection_config_default) div 4 < 2 ^ 64"
    by code_simp
qed

text \<open>An operation that is refused twice for its rate and then answers.\<close>

definition flaky :: "nat \<Rightarrow> (gateway_error + nat) \<times> nat" where
  "flaky w = (if w < 2 then Inl (RateLimited (Some 1) None) else Inr 7, w + 1)"

definition flaky_run :: "(gateway_error + nat) \<times> nat \<times> duration list" where
  "flaky_run = retry_with_backoff (\<lambda>b a. b * 2 ^ a) retry_config_default (logged_sleep (\<lambda>d w. w)) (unlogged flaky) (0, [])"

theorem retry_returns_attempt_witness:
  "flaky_run = (Inr 7, 3, [secs 1, secs 1]) \<and> list_all (\<lambda>d. d \<le> secs 10) [secs 1, secs 1]"
proof -
  have run: "flaky_run = (Inr 7, 3, [secs 1, secs 1])" by code_simp
  show ?thesis
    using retry_returns_attempt [OF run [unfolded flaky_run_def]] run by (simp add: retry_config_default_def)
qed

end
