(* ===== verification/Gw_Router.thy ===== *)
theory Gw_Router
  imports Gw_Exit_System Gw_State Gw_Trailing_Props Gw_Messages
begin

text \<open>
  The event router (\<open>events/router.rs\<close>): every event of a broker goes through it. It updates the
  state cache, lets the exit handler place exits for a fill, activates or cancels the trailing stop,
  cancels the other orders of a one-cancels-other group, and then tells the strategies. Its state
  is that of the components it drives, the messages it has sent to its broadcast channel, and its
  counters. The broker and the clock are \<open>E\<close>, the price feed is \<open>P\<close>. Logging and metrics are left out.
\<close>

record router =
  er_state :: state_manager
  er_exit :: exit_handler
  er_trailing :: "trailing_handler option"
  er_platform :: trading_platform
  er_broadcast_enabled :: bool
  er_adapter :: bool
  er_receivers :: nat
  er_sent :: "ws_message list"
  er_order_events :: nat
  er_position_events :: nat
  er_fills_routed :: nat
  er_critical_dropped :: nat
  er_reconciling :: bool

text \<open>
  \<open>EventRouter::new\<close>: no adapter and no trailing stop handler yet; \<open>receivers\<close> is the number of
  receivers of the broadcast channel it is given.
\<close>

definition router_new :: "state_manager \<Rightarrow> exit_handler \<Rightarrow> nat \<Rightarrow> trading_platform \<Rightarrow> router" where
  "router_new s h receivers platform =
     \<lparr>er_state = s, er_exit = h, er_trailing = None, er_platform = platform, er_broadcast_enabled = True,
      er_adapter = False, er_receivers = receivers, er_sent = [], er_order_events = 0,
      er_position_events = 0, er_fills_routed = 0, er_critical_dropped = 0, er_reconciling = False\<rparr>"

definition set_adapter :: "router \<Rightarrow> (unit + unit) \<times> router" where
  "set_adapter r = (if er_adapter r then (Inl (), r) else (Inr (), r\<lparr>er_adapter := True\<rparr>))"

definition set_trailing_stop_handler :: "trailing_handler \<Rightarrow> router \<Rightarrow> (unit + unit) \<times> router" where
  "set_trailing_stop_handler th r =
     (case er_trailing r of Some t \<Rightarrow> (Inl (), r) | None \<Rightarrow> (Inr (), r\<lparr>er_trailing := Some th\<rparr>))"

text \<open>\<open>broadcaster.send\<close>: an error when nobody receives.\<close>

definition er_send :: "ws_message \<Rightarrow> router \<Rightarrow> bool \<times> router" where
  "er_send m r = (if er_receivers r = 0 then (False, r) else (True, r\<lparr>er_sent := er_sent r @ [m]\<rparr>))"

text \<open>A notification that must not be lost: when it is, it is counted.\<close>

definition send_critical :: "ws_message \<Rightarrow> router \<Rightarrow> router" where
  "send_critical m r =
     (case er_send m r of (ok, r1) \<Rightarrow> if ok then r1 else r1\<lparr>er_critical_dropped := er_critical_dropped r1 + 1\<rparr>)"

subsection \<open>Order events\<close>

definition update_state_for_order_event :: "order_event_type \<Rightarrow> order \<Rightarrow> router \<Rightarrow> router" where
  "update_state_for_order_event ev ord r = r\<lparr>er_state := (case ev of
     EvOrderCreated \<Rightarrow> upsert_order ord (er_state r)
   | EvOrderModified \<Rightarrow> upsert_order ord (er_state r)
   | EvBracketOrderCreated \<Rightarrow> upsert_order ord (er_state r)
   | EvBracketOrderModified \<Rightarrow> upsert_order ord (er_state r)
   | EvOrderPartiallyFilled \<Rightarrow> snd (update_order_fill (o_id ord) (o_filled_quantity ord) (o_status ord) (er_state r))
   | EvOrderFilled \<Rightarrow> snd (remove_order (o_id ord) (er_state r))
   | EvOrderCancelled \<Rightarrow> snd (remove_order (o_id ord) (er_state r))
   | EvOrderRejected \<Rightarrow> snd (remove_order (o_id ord) (er_state r))
   | EvOrderExpired \<Rightarrow> snd (remove_order (o_id ord) (er_state r)))\<rparr>"

definition is_fill_event :: "order_event_type \<Rightarrow> bool" where
  "is_fill_event ev = (ev \<in> {EvOrderFilled, EvOrderPartiallyFilled})"

fun leg_debug :: "exit_leg_type \<Rightarrow> string" where
  "leg_debug StopLoss = ''StopLoss''"
| "leg_debug TakeProfit = ''TakeProfit''"

fun side_debug :: "side \<Rightarrow> string" where
  "side_debug Buy = ''Buy''"
| "side_debug Sell = ''Sell''"

definition failed_exit_json :: "exit_leg_type \<Rightarrow> string \<Rightarrow> string list \<Rightarrow> json" where
  "failed_exit_json leg err ids =
     JObject [(''type'', JString (leg_debug leg)), (''error'', JString err), (''actual_order_ids'', JArray (map JString ids))]"

text \<open>The exits of a fill that are reported: failed ones, and those the circuit breaker deferred.\<close>

definition failed_exit :: "placement_result \<Rightarrow> json option" where
  "failed_exit pr =
     (case pr_outcome pr of
        PlacementFailed err n \<Rightarrow> Some (failed_exit_json (pr_order_type pr) err [])
      | Deferred reason \<Rightarrow>
          if contains reason ''Circuit breaker'' then Some (failed_exit_json (pr_order_type pr) reason []) else None
      | _ \<Rightarrow> None)"

definition unprotected_message :: "utc \<Rightarrow> order \<Rightarrow> json list \<Rightarrow> bool \<Rightarrow> ws_message" where
  "unprotected_message now ord failed_exits breaker_open =
     error_with_details now WsPositionUnprotected
       (''Exit order placement failed for '' @ o_symbol ord @ '' '' @ em_dash @ '' position may be unprotected'')
       (JObject [(''order_id'', JString (o_id ord)), (''symbol'', JString (o_symbol ord)),
                 (''failed_exits'', JArray failed_exits), (''circuit_breaker_open'', JBool breaker_open)])"

definition broadcast_unprotected_position_if_needed :: "utc \<Rightarrow> order \<Rightarrow> placement_result list \<Rightarrow> router \<Rightarrow> router" where
  "broadcast_unprotected_position_if_needed now ord results r =
     (let failed_exits = List.map_filter failed_exit results in
      if results = [] \<or> failed_exits = [] then r
      else send_critical (unprotected_message now ord failed_exits (is_circuit_breaker_open_internal (er_exit r))) r)"

definition route_fill_to_exit_handler :: "'w env \<Rightarrow> order \<Rightarrow> router \<Rightarrow> 'w \<Rightarrow> router \<times> 'w" where
  "route_fill_to_exit_handler E ord r w =
     (case handle_fill_internal E (o_id ord) (o_filled_quantity ord) (o_quantity ord) None (o_position_id ord)
             (er_exit r) w of
        (results, h1, w1) \<Rightarrow>
          (let r1 = broadcast_unprotected_position_if_needed (utc_now E w1) ord results (r\<lparr>er_exit := h1\<rparr>)
           in (r1\<lparr>er_fills_routed := er_fills_routed r1 + 1\<rparr>, w1)))"

definition route_trailing_stop_event ::
  "'w env \<Rightarrow> 'w price_feed \<Rightarrow> dec_ops \<Rightarrow> order_event_type \<Rightarrow> order \<Rightarrow> router \<Rightarrow> 'w \<Rightarrow> router \<times> 'w" where
  "route_trailing_stop_event E P D ev ord r w =
     (case er_trailing r of
        None \<Rightarrow> (r, w)
      | Some th \<Rightarrow>
          (case ev of
             EvOrderFilled \<Rightarrow>
               (case on_primary_filled E P D (o_id ord)
                       (case o_average_fill_price ord of Some p \<Rightarrow> p | None \<Rightarrow> 0) th w of
                  (res, th1, w1) \<Rightarrow> (r\<lparr>er_trailing := Some th1\<rparr>, w1))
           | EvOrderCancelled \<Rightarrow> (r\<lparr>er_trailing := Some (snd (on_primary_cancelled (utc_now E w) (o_id ord) th))\<rparr>, w)
           | EvOrderRejected \<Rightarrow> (r\<lparr>er_trailing := Some (snd (on_primary_rejected (utc_now E w) (o_id ord) th))\<rparr>, w)
           | _ \<Rightarrow> (r, w)))"

definition double_exit_message ::
  "(decimal \<Rightarrow> string) \<Rightarrow> utc \<Rightarrow> string \<Rightarrow> oco_fill_record \<Rightarrow> order \<Rightarrow> decimal \<Rightarrow> ws_message" where
  "double_exit_message dts now g first second total_exit_qty =
     error_with_details now WsOcoDoubleExit
       (''OCO double-exit on '' @ o_symbol second @ '': both SL and TP filled (total exit qty: '' @ dts total_exit_qty @ '')'')
       (JObject [(''oco_group_id'', JString g), (''symbol'', JString (o_symbol second)),
          (''first_fill'', JObject [(''order_id'', JString (of_first_filled_order_id first)),
             (''quantity'', JString (dts (of_first_filled_qty first))), (''side'', JString (side_debug (of_side first)))]),
          (''second_fill'', JObject [(''order_id'', JString (o_id second)),
             (''quantity'', JString (dts (o_filled_quantity second))), (''side'', JString (side_debug (o_side second)))]),
          (''total_exit_quantity'', JString (dts total_exit_qty))])"

definition broadcast_oco_double_exit ::
  "(decimal \<Rightarrow> string) \<Rightarrow> utc \<Rightarrow> string \<Rightarrow> oco_fill_record \<Rightarrow> order \<Rightarrow> decimal \<Rightarrow> router \<Rightarrow> router" where
  "broadcast_oco_double_exit dts now g first second total_exit_qty r =
     send_critical (double_exit_message dts now g first second total_exit_qty) r"

text \<open>The answers to the cancellations are only logged.\<close>

fun cancel_siblings :: "'w env \<Rightarrow> string list \<Rightarrow> 'w \<Rightarrow> 'w" where
  "cancel_siblings E [] w = w"
| "cancel_siblings E (i # ids) w = cancel_siblings E ids (snd (cancel_order E i w))"

definition cancel_oco_siblings :: "'w env \<Rightarrow> order \<Rightarrow> router \<Rightarrow> 'w \<Rightarrow> router \<times> 'w" where
  "cancel_oco_siblings E ord r w =
     (case (case o_oco_group_id ord of Some g \<Rightarrow> Some g | None \<Rightarrow> get_oco_group_id (er_state r) (o_id ord)) of
        None \<Rightarrow> (r, w)
      | Some g \<Rightarrow>
          (case record_oco_fill g (o_id ord) (o_filled_quantity ord) (o_symbol ord) (o_side ord) (er_state r) of
             (Some previous, s1) \<Rightarrow>
               (broadcast_oco_double_exit (dec_to_string E) (utc_now E w) g previous ord
                  (of_first_filled_qty previous + o_filled_quantity ord) (r\<lparr>er_state := s1\<rparr>), w)
           | (None, s1) \<Rightarrow>
               (r\<lparr>er_state := s1\<rparr>, cancel_siblings E (get_oco_siblings s1 g (o_id ord)) w)))"

definition broadcast_order_event :: "utc \<Rightarrow> order_event_type \<Rightarrow> order \<Rightarrow> string option \<Rightarrow> router \<Rightarrow> router" where
  "broadcast_order_event now ev ord parent r =
     (if \<not> er_broadcast_enabled r \<or> er_receivers r = 0 then r else snd (er_send (WsOrder ev ord parent now) r))"

definition handle_order_event ::
  "'w env \<Rightarrow> 'w price_feed \<Rightarrow> dec_ops \<Rightarrow> order_event_type \<Rightarrow> order \<Rightarrow> string option \<Rightarrow> router \<Rightarrow> 'w \<Rightarrow> router \<times> 'w" where
  "handle_order_event E P D ev ord parent r w =
     (let r1 = update_state_for_order_event ev ord r;
          (r2, w2) = (if is_fill_event ev \<and> er_adapter r1 then route_fill_to_exit_handler E ord r1 w else (r1, w));
          (r3, w3) = route_trailing_stop_event E P D ev ord r2 w2;
          (r4, w4) = (if ev \<in> {EvOrderFilled, EvOrderRejected} \<and> er_adapter r3 then cancel_oco_siblings E ord r3 w3 else (r3, w3));
          r5 = broadcast_order_event (utc_now E w4) ev ord parent r4
      in (r5\<lparr>er_order_events := er_order_events r5 + 1\<rparr>, w4))"

definition handle_order_cancelled :: "'w env \<Rightarrow> order \<Rightarrow> router \<Rightarrow> 'w \<Rightarrow> router \<times> 'w" where
  "handle_order_cancelled E ord r w =
     (let r1 = r\<lparr>er_state := snd (remove_order (o_id ord) (er_state r))\<rparr>;
          r2 = (if has_pending_for_primary (er_exit r1) (o_id ord)
                then r1\<lparr>er_exit := snd (handle_cancellation (utc_now E w) (o_id ord) (er_exit r1))\<rparr> else r1);
          r3 = broadcast_order_event (utc_now E w) EvOrderCancelled ord None r2
      in (r3\<lparr>er_order_events := er_order_events r3 + 1\<rparr>, w))"

subsection \<open>Position events\<close>

definition broadcast_position_event :: "utc \<Rightarrow> position_event_type \<Rightarrow> position \<Rightarrow> router \<Rightarrow> router" where
  "broadcast_position_event now ev p r =
     (if \<not> er_broadcast_enabled r \<or> er_receivers r = 0 then r else snd (er_send (WsPosition ev p now) r))"

definition handle_position_event :: "'w env \<Rightarrow> position_event_type \<Rightarrow> position \<Rightarrow> router \<Rightarrow> 'w \<Rightarrow> router \<times> 'w" where
  "handle_position_event E ev p r w =
     (let (r1, w1) = (case ev of
            EvPositionOpened \<Rightarrow> (r\<lparr>er_state := upsert_position p (er_state r)\<rparr>, w)
          | EvPositionModified \<Rightarrow> (r\<lparr>er_state := upsert_position p (er_state r)\<rparr>, w)
          | EvPositionClosed \<Rightarrow>
              (let r0 = r\<lparr>er_state := snd (remove_position (p_id p) (er_state r))\<rparr> in
               if er_adapter r0 then
                 (case cancel_for_position_close E (p_symbol p) (er_exit r0) w of
                    (cancelled, h1, w1) \<Rightarrow> (r0\<lparr>er_exit := h1\<rparr>, w1))
               else (r0, w)));
          r2 = broadcast_position_event (utc_now E w1) ev p r1
      in (r2\<lparr>er_position_events := er_position_events r2 + 1\<rparr>, w1))"

text \<open>The kind of position event for a net quantity after a fill, against the cached quantity.\<close>

definition synthesized_event :: "decimal \<Rightarrow> decimal \<Rightarrow> position_event_type option" where
  "synthesized_event previous_qty qty =
     (if previous_qty = 0 \<and> qty \<noteq> 0 then Some EvPositionOpened
      else if previous_qty \<noteq> 0 \<and> qty = 0 then Some EvPositionClosed
      else if previous_qty \<noteq> 0 \<and> qty \<noteq> 0 \<and> previous_qty \<noteq> qty then Some EvPositionModified
      else None)"

definition synthesized_position :: "utc \<Rightarrow> order \<Rightarrow> decimal \<Rightarrow> cached_position option \<Rightarrow> position" where
  "synthesized_position now ord position_qty previous =
     \<lparr>p_id = o_symbol ord @ ''_position'', p_symbol = o_symbol ord,
      p_side = (if position_qty > 0 then Long else if position_qty < 0 then Short
                else (case previous of Some p \<Rightarrow> cp_side p | None \<Rightarrow> Long)),
      p_quantity = \<bar>position_qty\<bar>,
      p_average_entry_price = (case o_average_fill_price ord of Some p \<Rightarrow> p | None \<Rightarrow> 0),
      p_current_price = 0, p_unrealized_pnl = 0, p_realized_pnl = 0, p_margin_mode = None,
      p_leverage = None, p_liquidation_price = None, p_opened_at = now, p_updated_at = now\<rparr>"

definition synthesize_position_from_fill :: "'w env \<Rightarrow> order \<Rightarrow> decimal \<Rightarrow> router \<Rightarrow> 'w \<Rightarrow> router \<times> 'w" where
  "synthesize_position_from_fill E ord position_qty r w =
     (let previous = get_position_by_symbol (er_state r) (o_symbol ord);
          previous_qty = (case previous of Some p \<Rightarrow> cp_quantity p | None \<Rightarrow> 0)
      in case synthesized_event previous_qty \<bar>position_qty\<bar> of
        None \<Rightarrow> (r, w)
      | Some ev \<Rightarrow> handle_position_event E ev (synthesized_position (utc_now E w) ord position_qty previous) r w)"

subsection \<open>Reconciliation\<close>

definition handle_connection_event :: "utc \<Rightarrow> connection_event_type \<Rightarrow> string option \<Rightarrow> router \<Rightarrow> router" where
  "handle_connection_event now ev err r =
     (if \<not> er_broadcast_enabled r then r else snd (er_send (WsConnection ev err None None now) r))"

definition detect_status_change :: "order_status option \<Rightarrow> decimal \<Rightarrow> order \<Rightarrow> order_event_type option" where
  "detect_status_change cached_status cached_filled_qty ord =
     (case o_status ord of
        Filled \<Rightarrow> if cached_status \<noteq> Some Filled then Some EvOrderFilled else None
      | Cancelled \<Rightarrow> if cached_status \<noteq> Some Cancelled then Some EvOrderCancelled else None
      | Rejected \<Rightarrow> if cached_status \<noteq> Some Rejected then Some EvOrderRejected else None
      | Expired \<Rightarrow> if cached_status \<noteq> Some Expired then Some EvOrderExpired else None
      | PartiallyFilled \<Rightarrow> if o_filled_quantity ord > cached_filled_qty then Some EvOrderPartiallyFilled else None
      | _ \<Rightarrow> None)"

text \<open>
  What the query of one cached order brought: its id, the cached status and quantity, and the
  answer, or none when the query timed out.
\<close>

type_synonym fetched = "string \<times> order_status option \<times> decimal \<times> (gateway_error + order) option"

text \<open>
  The queries run concurrently; \<open>late\<close> says which of them time out. Their results are processed in
  the order in which they complete, which \<open>arrange\<close> stands for.
\<close>

fun fetch_orders :: "'w env \<Rightarrow> (string \<Rightarrow> bool) \<Rightarrow> state_manager \<Rightarrow> string list \<Rightarrow> 'w \<Rightarrow> fetched list \<times> 'w" where
  "fetch_orders E late s [] w = ([], w)"
| "fetch_orders E late s (i # ids) w =
     (case get_order E i w of
        (res, w1) \<Rightarrow>
          (case fetch_orders E late s ids w1 of
             (fs, w2) \<Rightarrow>
               ((i, map_option co_status (sm_get_order s i),
                 (case sm_get_order s i of Some c \<Rightarrow> co_filled_quantity c | None \<Rightarrow> 0),
                 (if late i then None else Some res)) # fs, w2)))"

definition reconcile_order :: "'w env \<Rightarrow> fetched \<Rightarrow> router \<times> 'w \<Rightarrow> router \<times> 'w" where
  "reconcile_order E f rw =
     (case f of (i, cached_status, cached_filled_qty, res) \<Rightarrow> (case rw of (r, w) \<Rightarrow>
        (case res of
           None \<Rightarrow> (r, w)
         | Some (Inr ord) \<Rightarrow>
             (case detect_status_change cached_status cached_filled_qty ord of
                None \<Rightarrow> (r, w)
              | Some ev \<Rightarrow>
                  (let r1 = update_state_for_order_event ev ord r;
                       (r2, w2) = (if is_fill_event ev then route_fill_to_exit_handler E ord r1 w else (r1, w));
                       r3 = broadcast_order_event (utc_now E w2) ev ord None r2
                   in (r3\<lparr>er_order_events := er_order_events r3 + 1\<rparr>, w2)))
         | Some (Inl (OrderNotFound x)) \<Rightarrow> (r\<lparr>er_state := snd (remove_order i (er_state r))\<rparr>, w)
         | Some (Inl e) \<Rightarrow> (r, w))))"

definition rebroadcast_message :: "utc \<Rightarrow> string \<Rightarrow> failed_exit_info list \<Rightarrow> bool \<Rightarrow> ws_message" where
  "rebroadcast_message now primary infos breaker_open =
     error_with_details now WsPositionUnprotected
       (''Exit order placement failed for '' @ fi_symbol (hd infos) @ '' '' @ em_dash @
        '' position may be unprotected (re-broadcast on reconnect)'')
       (JObject [(''order_id'', JString primary), (''symbol'', JString (fi_symbol (hd infos))),
          (''failed_exits'', JArray (map (\<lambda>i. failed_exit_json (fi_order_type i) (fi_error i) (fi_actual_order_ids i)) infos)),
          (''circuit_breaker_open'', JBool breaker_open), (''rebroadcast'', JBool True)])"

text \<open>The failed entries grouped by primary order, as the hash map of the source holds them.\<close>

definition group_by_primary :: "failed_exit_info list \<Rightarrow> (string, failed_exit_info list) dmap" where
  "group_by_primary infos = fold (\<lambda>i m. dm_extend (fi_primary_order_id i) [i] m) infos []"

definition rebroadcast_unprotected_positions :: "utc \<Rightarrow> failed_exit_info list \<Rightarrow> router \<Rightarrow> router" where
  "rebroadcast_unprotected_positions now infos r =
     fold (\<lambda>(primary, es). send_critical (rebroadcast_message now primary es (is_circuit_breaker_open_internal (er_exit r))))
       (group_by_primary infos) r"

definition open_orders_query :: order_query where
  "open_orders_query = order_query_default\<lparr>oq_status := Some [Open, PartiallyFilled, Pending]\<rparr>"

definition sync_state_from_provider :: "order list \<Rightarrow> position list \<Rightarrow> router \<Rightarrow> router" where
  "sync_state_from_provider orders positions r = r\<lparr>er_state := sync_from_provider orders positions (er_state r)\<rparr>"

definition finish_reconciliation :: "'w env \<Rightarrow> order list \<Rightarrow> position list \<Rightarrow> router \<Rightarrow> 'w \<Rightarrow> router" where
  "finish_reconciliation E orders positions r w =
     (let r1 = sync_state_from_provider orders positions r;
          failed = get_failed_entries_internal (er_exit r1);
          r2 = (if failed = [] then r1
                else (let r' = rebroadcast_unprotected_positions (utc_now E w) failed r1
                      in r'\<lparr>er_exit := snd (clear_failed_entries_internal (er_exit r'))\<rparr>))
      in handle_connection_event (utc_now E w) EvConnected None r2)"

definition reconcile_after_reconnect ::
  "'w env \<Rightarrow> (string \<Rightarrow> bool) \<Rightarrow> (fetched list \<Rightarrow> fetched list) \<Rightarrow> router \<Rightarrow> 'w \<Rightarrow> router \<times> 'w" where
  "reconcile_after_reconnect E late arrange r w =
     (if er_reconciling r \<or> \<not> er_adapter r then (r, w)
      else case fetch_orders E late (er_state r) (get_all_order_ids (er_state r)) w of
        (fs, w1) \<Rightarrow>
          (case fold (reconcile_order E) (arrange fs) (r, w1) of
             (r2, w2) \<Rightarrow>
               (case get_orders E open_orders_query w2 of
                  (Inl e, w3) \<Rightarrow> (r2, w3)
                | (Inr orders, w3) \<Rightarrow>
                    (case get_positions E None w3 of
                       (Inl e, w4) \<Rightarrow> (r2, w4)
                     | (Inr positions, w4) \<Rightarrow> (finish_reconciliation E orders positions r2 w4, w4)))))"

end
