(* ===== verification/Gw_Router_Props.thy ===== *)
theory Gw_Router_Props
  imports Gw_Router
begin

text \<open>
  What the router does to the components it drives. Every handler of the router is a sequence of
  the components' own operations, so their invariants carry over to the gateway as a whole; the
  message of an event goes out last, after the cache, the exits and the group orders were dealt with.
\<close>

subsection \<open>The router drives its components\<close>

text \<open>The receivers of the broadcast channel are fixed; without any, nothing is sent.\<close>

definition keeps_channel :: "router \<Rightarrow> router \<Rightarrow> bool" where
  "keeps_channel r r' = (er_receivers r' = er_receivers r \<and> (er_receivers r = 0 \<longrightarrow> er_sent r' = er_sent r))"

definition same_components :: "router \<Rightarrow> router \<Rightarrow> bool" where
  "same_components r r' = (er_state r' = er_state r \<and> er_exit r' = er_exit r \<and> er_trailing r' = er_trailing r
     \<and> keeps_channel r r')"

fun trailing_driven ::
  "'w env \<Rightarrow> 'w price_feed \<Rightarrow> dec_ops \<Rightarrow> trailing_handler option \<times> 'w \<Rightarrow> trailing_handler option \<times> 'w \<Rightarrow> bool" where
  "trailing_driven E P D (Some t, w) (Some t', w') = (trailing_step E P D {})\<^sup>*\<^sup>* (t, w) (t', w')"
| "trailing_driven E P D (None, w) (None, w') = True"
| "trailing_driven E P D (t, w) (t', w') = False"

definition drives :: "'w env \<Rightarrow> 'w price_feed \<Rightarrow> dec_ops \<Rightarrow> router \<times> 'w \<Rightarrow> router \<times> 'w \<Rightarrow> bool" where
  "drives E P D rw rw' = (cache_step\<^sup>*\<^sup>* (er_state (fst rw)) (er_state (fst rw'))
     \<and> (exit_step E)\<^sup>*\<^sup>* (er_exit (fst rw), snd rw) (er_exit (fst rw'), snd rw')
     \<and> trailing_driven E P D (er_trailing (fst rw), snd rw) (er_trailing (fst rw'), snd rw')
     \<and> keeps_channel (fst rw) (fst rw'))"

lemma trailing_driven_same: "trailing_driven E P D (t, w) (t, w')"
  by (cases t) (auto intro: trail_world)

lemma trailing_driven_trans:
  "trailing_driven E P D (t1, w1) (t2, w2) \<Longrightarrow> trailing_driven E P D (t2, w2) (t3, w3) \<Longrightarrow> trailing_driven E P D (t1, w1) (t3, w3)"
  by (cases t1; cases t2; cases t3) (auto intro: rtranclp_trans)

lemma keeps_channel_trans: "keeps_channel a b \<Longrightarrow> keeps_channel b c \<Longrightarrow> keeps_channel a c"
  by (simp add: keeps_channel_def)

lemma keeps_channel_updates [simp]:
  "keeps_channel r r" "keeps_channel (er_state_update f r) r' = keeps_channel r r'"
  "keeps_channel (er_exit_update f2 r) r' = keeps_channel r r'" "keeps_channel (er_trailing_update f3 r) r' = keeps_channel r r'"
  by (simp_all add: keeps_channel_def)

lemma drives_trans [trans]: "drives E P D a b \<Longrightarrow> drives E P D b c \<Longrightarrow> drives E P D a c"
  unfolding drives_def by (blast intro: rtranclp_trans trailing_driven_trans keeps_channel_trans)

lemma drives_same: "same_components r r' \<Longrightarrow> drives E P D (r, w) (r', w')"
  by (auto simp: drives_def same_components_def trailing_driven_same intro: step_world)

lemma drives_state:
  "cache_step (er_state r) s \<Longrightarrow> same_components (r\<lparr>er_state := s\<rparr>) r' \<Longrightarrow> drives E P D (r, w) (r', w')"
  by (auto simp: drives_def same_components_def trailing_driven_same intro: step_world)

lemma drives_exit:
  "exit_step E (er_exit r, w) (h, w') \<Longrightarrow> same_components (r\<lparr>er_exit := h\<rparr>) r' \<Longrightarrow> drives E P D (r, w) (r', w')"
  by (auto simp: drives_def same_components_def trailing_driven_same)

lemma drives_trailing:
  "er_trailing r = Some t \<Longrightarrow> trailing_step E P D {} (t, w) (t', w') \<Longrightarrow> same_components (r\<lparr>er_trailing := Some t'\<rparr>) r' \<Longrightarrow>
   drives E P D (r, w) (r', w')"
  by (auto simp: drives_def same_components_def intro: step_world)

lemma same_refl [simp]: "same_components r r"
  by (simp add: same_components_def)

lemma drives_cache: "cache_step (er_state r) s \<Longrightarrow> drives E P D (r, w) (r\<lparr>er_state := s\<rparr>, w')"
  by (rule drives_state [OF _ same_refl])

lemma same_send [simp]: "same_components r (snd (er_send m r))" "same_components r (send_critical m r)"
  by (simp_all add: same_components_def keeps_channel_def er_send_def send_critical_def)

lemma same_trans: "same_components a b \<Longrightarrow> same_components b c \<Longrightarrow> same_components a c"
  by (simp add: same_components_def keeps_channel_def)

lemma same_counts [simp]:
  "same_components a (er_order_events_update f b) = same_components a b"
  "same_components a (er_position_events_update f b) = same_components a b"
  "same_components a (er_fills_routed_update f b) = same_components a b"
  by (simp_all add: same_components_def keeps_channel_def)

lemma same_broadcasts [simp]:
  "same_components r (broadcast_order_event now ev ord parent r)"
  "same_components r (broadcast_position_event now pev p r)"
  "same_components r (handle_connection_event now cev err r)"
  "same_components r (broadcast_unprotected_position_if_needed now ord results r)"
  "same_components r (broadcast_oco_double_exit dts now g first second q r)"
  by (simp_all add: broadcast_order_event_def broadcast_position_event_def handle_connection_event_def
      broadcast_unprotected_position_if_needed_def broadcast_oco_double_exit_def Let_def)

lemma same_rebroadcast [simp]: "same_components r (rebroadcast_unprotected_positions now infos r)"
proof -
  have "same_components r (fold (\<lambda>(primary, es). send_critical (m primary es)) xs r')" if "same_components r r'" for m xs r'
    using that
  proof (induction xs arbitrary: r')
    case (Cons x xs)
    show ?case using Cons.IH [OF same_trans [OF Cons.prems same_send(2)]] by (simp add: case_prod_beta)
  qed simp
  from this [OF same_refl] show ?thesis by (simp add: rebroadcast_unprotected_positions_def)
qed

lemma update_state_drives: "drives E P D (r, w) (update_state_for_order_event ev ord r, w)"
  by (cases ev) (auto simp: update_state_for_order_event_def intro: drives_cache cache_upsert cache_fill cache_remove)

lemma route_fill_drives: "drives E P D (r, w) (route_fill_to_exit_handler E ord r w)"
proof -
  obtain results h1 w1 where f: "handle_fill_internal E (o_id ord) (o_filled_quantity ord) (o_quantity ord) None (o_position_id ord)
      (er_exit r) w = (results, h1, w1)" by (metis prod_cases3)
  have "exit_step E (er_exit r, w) (h1, w1)" using step_fill [of E "er_exit r" w] f by (metis snd_conv)
  then show ?thesis by (auto simp: route_fill_to_exit_handler_def f Let_def intro!: drives_exit)
qed

lemma route_trailing_drives: "drives E P D (r, w) (route_trailing_stop_event E P D ev ord r w)"
proof (cases "er_trailing r")
  case None
  then show ?thesis by (simp add: route_trailing_stop_event_def drives_same)
next
  case (Some t)
  have "drives E P D (r, w) (r\<lparr>er_trailing := Some t'\<rparr>, w')" if "trailing_step E P D {} (t, w) (t', w')" for t' w'
    using drives_trailing [OF Some that] by simp
  moreover have "trailing_step E P D {} (t, w) (fst (snd (on_primary_filled E P D p price t w)), snd (snd (on_primary_filled E P D p price t w)))" for p price
    using trail_primary_filled [of E P D "{}" t w p price] by simp
  ultimately show ?thesis
    by (cases ev) (auto simp: route_trailing_stop_event_def Some drives_same trail_primary_cancelled trail_primary_rejected
        split: prod.splits, metis fst_conv snd_conv)
qed

lemma cancel_oco_drives: "drives E P D (r, w) (cancel_oco_siblings E ord r w)"
proof -
  have "drives E P D (r, w) (r', w')"
    if "record_oco_fill g (o_id ord) (o_filled_quantity ord) (o_symbol ord) (o_side ord) (er_state r) = (x, s1)"
      "same_components (r\<lparr>er_state := s1\<rparr>) r'" for g x s1 r' w'
    using that cache_record [of "er_state r" g "o_id ord" "o_filled_quantity ord" "o_symbol ord" "o_side ord"]
    by (auto intro: drives_state)
  then show ?thesis
    by (auto simp: cancel_oco_siblings_def drives_same split: option.splits prod.splits)
qed

definition told_order :: "utc \<Rightarrow> order_event_type \<Rightarrow> order \<Rightarrow> string option \<Rightarrow> router \<Rightarrow> router" where
  "told_order now ev ord parent r =
     (let r1 = broadcast_order_event now ev ord parent r in r1\<lparr>er_order_events := er_order_events r1 + 1\<rparr>)"

lemma handle_order_event_stages:
  obtains r2 w2 r3 w3 r4 w4 where
    "(if is_fill_event ev \<and> er_adapter (update_state_for_order_event ev ord r)
      then route_fill_to_exit_handler E ord (update_state_for_order_event ev ord r) w
      else (update_state_for_order_event ev ord r, w)) = (r2, w2)"
    "route_trailing_stop_event E P D ev ord r2 w2 = (r3, w3)"
    "(if ev \<in> {EvOrderFilled, EvOrderRejected} \<and> er_adapter r3 then cancel_oco_siblings E ord r3 w3 else (r3, w3)) = (r4, w4)"
    "handle_order_event E P D ev ord parent r w = (told_order (utc_now E w4) ev ord parent r4, w4)"
proof -
  let ?r1 = "update_state_for_order_event ev ord r"
  obtain r2 w2 where s2: "(if is_fill_event ev \<and> er_adapter ?r1 then route_fill_to_exit_handler E ord ?r1 w else (?r1, w)) = (r2, w2)"
    by (metis surj_pair)
  obtain r3 w3 where s3: "route_trailing_stop_event E P D ev ord r2 w2 = (r3, w3)" by (metis surj_pair)
  obtain r4 w4 where s4: "(if ev \<in> {EvOrderFilled, EvOrderRejected} \<and> er_adapter r3 then cancel_oco_siblings E ord r3 w3 else (r3, w3)) = (r4, w4)"
    by (metis surj_pair)
  have "handle_order_event E P D ev ord parent r w = (told_order (utc_now E w4) ev ord parent r4, w4)"
    unfolding handle_order_event_def told_order_def Let_def s2 prod.case s3 s4 by simp
  with s2 s3 s4 show thesis by (rule that)
qed

lemma order_event_drives: "drives E P D (r, w) (handle_order_event E P D ev ord parent r w)"
proof -
  let ?r1 = "update_state_for_order_event ev ord r"
  obtain r2 w2 r3 w3 r4 w4 where s2: "(if is_fill_event ev \<and> er_adapter ?r1 then route_fill_to_exit_handler E ord ?r1 w else (?r1, w)) = (r2, w2)"
    and s3: "route_trailing_stop_event E P D ev ord r2 w2 = (r3, w3)"
    and s4: "(if ev \<in> {EvOrderFilled, EvOrderRejected} \<and> er_adapter r3 then cancel_oco_siblings E ord r3 w3 else (r3, w3)) = (r4, w4)"
    and fin: "handle_order_event E P D ev ord parent r w = (told_order (utc_now E w4) ev ord parent r4, w4)"
    by (rule handle_order_event_stages)
  have "drives E P D (r, w) (?r1, w)" by (rule update_state_drives)
  also have "drives E P D (?r1, w) (r2, w2)" using s2 route_fill_drives [of E P D ?r1 w ord] by (auto simp: drives_same split: if_splits)
  also have "drives E P D (r2, w2) (r3, w3)" using route_trailing_drives [of E P D r2 w2 ev ord] s3 by simp
  also have "drives E P D (r3, w3) (r4, w4)" using s4 cancel_oco_drives [of E P D r3 w3 ord] by (auto simp: drives_same split: if_splits)
  also have "drives E P D (r4, w4) (handle_order_event E P D ev ord parent r w)"
    unfolding fin told_order_def Let_def by (rule drives_same) simp
  finally show ?thesis .
qed

lemma order_cancelled_drives: "drives E P D (r, w) (handle_order_cancelled E ord r w)"
proof -
  let ?r1 = "r\<lparr>er_state := snd (remove_order (o_id ord) (er_state r))\<rparr>"
  let ?r2 = "if has_pending_for_primary (er_exit ?r1) (o_id ord)
    then ?r1\<lparr>er_exit := snd (handle_cancellation (utc_now E w) (o_id ord) (er_exit ?r1))\<rparr> else ?r1"
  have "drives E P D (r, w) (?r1, w)" by (rule drives_cache [OF cache_remove])
  also have "drives E P D (?r1, w) (?r2, w)"
    using drives_exit [OF step_cancellation [of E "er_exit ?r1" w "utc_now E w" "o_id ord"]]
    by (simp add: drives_same handle_cancellation_def split: prod.splits)
  also have "drives E P D (?r2, w) (handle_order_cancelled E ord r w)"
    unfolding handle_order_cancelled_def Let_def by (rule drives_same) simp
  finally show ?thesis .
qed

lemma position_event_drives: "drives E P D (r, w) (handle_position_event E ev p r w)"
proof -
  have pos: "drives E P D (r, w) (r', w)" if "same_components (r\<lparr>er_state := upsert_position p (er_state r)\<rparr>) r'" for r'
    using that by (rule drives_state [OF cache_position])
  let ?r0 = "r\<lparr>er_state := snd (remove_position (p_id p) (er_state r))\<rparr>"
  have removed: "drives E P D (r, w) (r', w)" if "same_components ?r0 r'" for r'
    using that by (rule drives_state [OF cache_closed])
  obtain c h1 w1 where close: "cancel_for_position_close E (p_symbol p) (er_exit ?r0) w = (c, h1, w1)" by (metis prod_cases3)
  then have "exit_step E (er_exit ?r0, w) (h1, w1)"
    using step_position_close [of E "er_exit ?r0" w "p_symbol p"] by (auto simp: cancel_for_position_close_def split: prod.splits)
  then have closed: "drives E P D (r, w) (r', w1)" if "same_components (?r0\<lparr>er_exit := h1\<rparr>) r'" for r'
    using drives_trans [OF removed drives_exit [OF _ that]] by simp
  show ?thesis
    using close by (cases ev) (auto simp: handle_position_event_def Let_def intro: pos removed closed)
qed

lemma synthesize_drives: "drives E P D (r, w) (synthesize_position_from_fill E ord qty r w)"
  by (simp add: synthesize_position_from_fill_def Let_def position_event_drives drives_same split: option.splits)

lemma reconcile_order_drives: "drives E P D rw (reconcile_order E f rw)"
proof -
  obtain i cs cq res r w where f: "f = (i, cs, cq, res)" and rw: "rw = (r, w)" by (metis surj_pair)
  have change: "drives E P D (r, w) (let r1 = update_state_for_order_event ev ord r;
        (r2, w2) = (if is_fill_event ev then route_fill_to_exit_handler E ord r1 w else (r1, w));
        r3 = broadcast_order_event (utc_now E w2) ev ord None r2
      in (r3\<lparr>er_order_events := er_order_events r3 + 1\<rparr>, w2))" for ev ord
  proof -
    let ?r1 = "update_state_for_order_event ev ord r"
    obtain r2 w2 where s2: "(if is_fill_event ev then route_fill_to_exit_handler E ord ?r1 w else (?r1, w)) = (r2, w2)"
      by (metis surj_pair)
    have "drives E P D (r, w) (?r1, w)" by (rule update_state_drives)
    also have "drives E P D (?r1, w) (r2, w2)"
      using s2 route_fill_drives [of E P D ?r1 w ord] by (auto simp: drives_same split: if_splits)
    finally show ?thesis unfolding Let_def s2 prod.case by (rule drives_trans) (rule drives_same, simp)
  qed
  have gone: "drives E P D (r, w) (r\<lparr>er_state := snd (remove_order i (er_state r))\<rparr>, w)"
    by (rule drives_cache [OF cache_remove])
  show ?thesis unfolding f rw
    by (auto simp add: reconcile_order_def drives_same gone change [simplified]
        split: option.split sum.split gateway_error.split)
qed

lemma reconcile_fold_drives: "drives E P D rw (fold (reconcile_order E) fs rw)"
proof (induction fs arbitrary: rw)
  case Nil
  show ?case by (cases rw) (simp add: drives_same)
next
  case (Cons f fs)
  then show ?case using drives_trans [OF reconcile_order_drives] by (metis fold_simps(2))
qed

lemma finish_drives: "drives E P D (r, w) (finish_reconciliation E orders positions r w, w)"
proof -
  let ?r1 = "sync_state_from_provider orders positions r" and ?failed = "get_failed_entries_internal (er_exit r)"
  let ?r' = "rebroadcast_unprotected_positions (utc_now E w) ?failed ?r1"
  let ?r2 = "if ?failed = [] then ?r1 else ?r'\<lparr>er_exit := snd (clear_failed_entries_internal (er_exit ?r'))\<rparr>"
  have eq: "er_exit ?r1 = er_exit r" by (simp add: sync_state_from_provider_def)
  have "drives E P D (r, w) (?r1, w)"
    unfolding sync_state_from_provider_def by (rule drives_cache [OF cache_sync])
  also have "drives E P D (?r1, w) (?r', w)" by (rule drives_same) simp
  also have "drives E P D (?r', w) (?r2, w)"
  proof (cases "?failed = []")
    case True
    then show ?thesis by (simp add: rebroadcast_unprotected_positions_def group_by_primary_def drives_same)
  next
    case False
    then show ?thesis using drives_exit [OF step_clear_failed same_refl] by simp
  qed
  also have "drives E P D (?r2, w) (finish_reconciliation E orders positions r w, w)"
    unfolding finish_reconciliation_def Let_def eq by (rule drives_same) simp
  finally show ?thesis .
qed

lemma reconcile_drives: "drives E P D (r, w) (reconcile_after_reconnect E late arrange r w)"
proof -
  obtain fs w1 where f: "fetch_orders E late (er_state r) (get_all_order_ids (er_state r)) w = (fs, w1)" by (metis surj_pair)
  obtain r2 w2 where g: "fold (reconcile_order E) (arrange fs) (r, w1) = (r2, w2)" by (metis surj_pair)
  have "drives E P D (r, w) (r, w1)" by (simp add: drives_same)
  also have "drives E P D (r, w1) (r2, w2)" using reconcile_fold_drives [of E P D "(r, w1)" "arrange fs"] g by simp
  finally have r2: "drives E P D (r, w) (r2, w2)" .
  have world: "drives E P D (r, w) (r2, w')" for w' using drives_trans [OF r2 drives_same [OF same_refl]] .
  have fin: "drives E P D (r, w) (finish_reconciliation E orders positions r2 w', w')" for orders positions w'
    using drives_trans [OF world finish_drives] .
  show ?thesis
    by (auto simp: reconcile_after_reconnect_def f g drives_same world fin split: prod.splits sum.splits)
qed

subsection \<open>The gateway as a whole\<close>

text \<open>
  The steps of a gateway with one router: what the provider reports, what the routes of the API do
  to the exit handler and to the trailing stops, and what an adapter notes in the cache when it
  submits an order of a group.
\<close>

inductive gateway_step ::
  "'w env \<Rightarrow> 'w price_feed \<Rightarrow> dec_ops \<Rightarrow> string set \<Rightarrow> router \<times> 'w \<Rightarrow> router \<times> 'w \<Rightarrow> bool" for E P D R where
  gateway_order: "gateway_step E P D R (r, w) (handle_order_event E P D ev ord parent r w)"
| gateway_cancelled: "gateway_step E P D R (r, w) (handle_order_cancelled E ord r w)"
| gateway_position: "gateway_step E P D R (r, w) (handle_position_event E pev p r w)"
| gateway_synthesize: "gateway_step E P D R (r, w) (synthesize_position_from_fill E ord qty r w)"
| gateway_reconcile: "gateway_step E P D R (r, w) (reconcile_after_reconnect E late arrange r w)"
| gateway_connection: "gateway_step E P D R (r, w) (handle_connection_event now cev err r, w)"
| gateway_adapter: "gateway_step E P D R (r, w) (snd (set_adapter r), w)"
| gateway_trailing_handler: "trailing_start (t, w) \<Longrightarrow> gateway_step E P D R (r, w) (snd (set_trailing_stop_handler t r), w)"
| gateway_exit: "exit_step E (er_exit r, w) (h, w') \<Longrightarrow> gateway_step E P D R (r, w) (r\<lparr>er_exit := h\<rparr>, w')"
| gateway_trailing: "er_trailing r = Some t \<Longrightarrow> trailing_step E P D R (t, w) (t', w') \<Longrightarrow>
    gateway_step E P D R (r, w) (r\<lparr>er_trailing := Some t'\<rparr>, w')"
| gateway_group: "gateway_step E P D R (r, w) (r\<lparr>er_state := add_to_oco_group i g (er_state r)\<rparr>, w)"

definition gateway_start :: "router \<times> 'w \<Rightarrow> bool" where
  "gateway_start s = (\<exists>platform config receivers.
     fst s = router_new state_manager_new (exit_handler_new platform config) receivers platform)"

definition gateway_ok :: "router \<Rightarrow> bool" where
  "gateway_ok r = (groups_complete (er_state r) \<and> symbols_ok (er_state r) \<and> eh_inv (er_exit r)
     \<and> (case er_trailing r of None \<Rightarrow> True | Some t \<Rightarrow> th_inv t))"

lemma symbols_step: "cache_step s s' \<Longrightarrow> symbols_ok s \<Longrightarrow> symbols_ok s'"
  by (erule cache_step.cases) (auto simp: sync_inv intro: symbols_upsert_position symbols_remove_position)

lemma cache_steps_ok: "cache_step\<^sup>*\<^sup>* s s' \<Longrightarrow> groups_complete s \<and> symbols_ok s \<Longrightarrow> groups_complete s' \<and> symbols_ok s'"
  by (induction rule: rtranclp_induct) (auto intro: complete_step symbols_step)

lemma drives_ok:
  assumes "drives E P D s s'" "gateway_ok (fst s)"
  shows "gateway_ok (fst s')"
proof -
  have "groups_complete (er_state (fst s')) \<and> symbols_ok (er_state (fst s'))"
    using assms cache_steps_ok by (auto simp: drives_def gateway_ok_def)
  moreover have "eh_inv (er_exit (fst s'))"
    using assms exits.inv_steps by (fastforce simp: drives_def gateway_ok_def)
  moreover have "case er_trailing (fst s') of None \<Rightarrow> True | Some t \<Rightarrow> th_inv t"
    using assms trailing.inv_steps [where E = E and P = P and D = D and R = "{}"]
    by (cases "er_trailing (fst s)"; cases "er_trailing (fst s')") (fastforce simp: drives_def gateway_ok_def)+
  ultimately show ?thesis by (simp add: gateway_ok_def)
qed

lemma gateway_step_ok:
  assumes "gateway_step E P D R s s'" "gateway_ok (fst s)"
  shows "gateway_ok (fst s')"
  using assms
proof (induction rule: gateway_step.induct)
  case (gateway_trailing_handler t w r)
  then show ?case
    using trailing.inv_init [of "(t, w)"] by (auto simp: set_trailing_stop_handler_def gateway_ok_def split: option.splits)
next
  case (gateway_exit r w h w')
  then show ?case using exits.inv_step [of "(er_exit r, w)" E "(h, w')"] by (simp add: gateway_ok_def)
next
  case (gateway_trailing r t w t' w')
  then show ?case using trailing.inv_step [of "(t, w)" E P D R "(t', w')"] by (simp add: gateway_ok_def)
next
  case (gateway_group r w i g)
  then show ?case
    using submitted.inv_step [OF _ submit_group] by (simp add: gateway_ok_def symbols_ok_def get_position_def add_to_oco_group_def)
next
  case (gateway_adapter r w)
  then show ?case by (simp add: set_adapter_def gateway_ok_def)
next
  case (gateway_connection r w now cev err)
  then show ?case using drives_ok [OF drives_same, of r] by fastforce
qed (blast intro: drives_ok order_event_drives order_cancelled_drives position_event_drives synthesize_drives reconcile_drives)+

interpretation gateway: invariant_system gateway_start "gateway_step E P D R" "\<lambda>s. gateway_ok (fst s)"
  for E :: "'w env" and P D R
proof
  show "gateway_start s \<Longrightarrow> gateway_ok (fst s)" for s :: "router \<times> 'w"
    using submitted.inv_init new_inv
    by (auto simp: gateway_start_def gateway_ok_def router_new_def exits.inv_init [of "(exit_handler_new p c, w)" for p c w, simplified] exit_start_def)
qed (rule gateway_step_ok)


subsection \<open>What is told, and when\<close>

text \<open>\<open>tells r ms r'\<close>: between the two states the router sent \<open>ms\<close> and lost nothing.\<close>

definition tells :: "router \<Rightarrow> ws_message list \<Rightarrow> router \<Rightarrow> bool" where
  "tells r ms r' = (er_sent r' = er_sent r @ ms \<and> er_receivers r' = er_receivers r \<and> er_adapter r' = er_adapter r
     \<and> er_broadcast_enabled r' = er_broadcast_enabled r \<and> er_critical_dropped r' = er_critical_dropped r)"

definition is_alert :: "ws_message \<Rightarrow> bool" where
  "is_alert m = (case m of WsError code msg details t \<Rightarrow> code \<in> {WsPositionUnprotected, WsOcoDoubleExit} | _ \<Rightarrow> False)"

lemma tells_trans: "tells r ms r1 \<Longrightarrow> tells r1 ms' r2 \<Longrightarrow> tells r (ms @ ms') r2"
  by (simp add: tells_def)

lemma tells_refl [simp]: "tells r [] r"
  by (simp add: tells_def)

lemma tells_updates [simp]:
  "tells r ms (er_state_update f r') = tells r ms r'" "tells r ms (er_exit_update f2 r') = tells r ms r'"
  "tells r ms (er_trailing_update f3 r') = tells r ms r'" "tells r ms (er_order_events_update f4 r') = tells r ms r'"
  "tells r ms (er_fills_routed_update f4 r') = tells r ms r'"
  "tells (er_state_update f r) ms r' = tells r ms r'" "tells (er_exit_update f2 r) ms r' = tells r ms r'"
  by (simp_all add: tells_def)

lemma tells_critical [simp]: "0 < er_receivers r \<Longrightarrow> tells r [m] (send_critical m r)"
  by (simp add: tells_def send_critical_def er_send_def)

lemma alert_messages [simp]:
  "is_alert (unprotected_message now ord xs b)" "is_alert (double_exit_message dts now g a ord q)"
  "is_alert (rebroadcast_message now primary infos b)" "\<not> is_alert (WsOrder ev ord parent t)"
  by (simp_all add: is_alert_def unprotected_message_def double_exit_message_def rebroadcast_message_def error_with_details_def)

definition alerting :: "router \<Rightarrow> router \<Rightarrow> bool" where
  "alerting r r' = (\<exists>ms. tells r ms r' \<and> list_all is_alert ms \<and> length ms \<le> 1)"

lemma alerting_none: "tells r [] r' \<Longrightarrow> alerting r r'"
  unfolding alerting_def by (rule exI [of _ "[]"]) simp

lemma alerting_one: "0 < er_receivers r \<Longrightarrow> is_alert m \<Longrightarrow> alerting r (send_critical m r)"
  unfolding alerting_def by (rule exI [of _ "[m]"]) simp

lemma alerting_state [simp]: "alerting (er_state_update f r) r' = alerting r r'" "alerting (er_exit_update f2 r) r' = alerting r r'"
  "alerting r (er_fills_routed_update f3 r') = alerting r r'"
  by (simp_all add: alerting_def)

lemma tells_unprotected:
  assumes "0 < er_receivers r"
  shows "alerting r (broadcast_unprotected_position_if_needed now ord results r)"
  using assms by (auto simp: broadcast_unprotected_position_if_needed_def Let_def intro: alerting_none alerting_one)

lemma tells_route_fill:
  assumes "0 < er_receivers r" "route_fill_to_exit_handler E ord r w = (r', w')"
  shows "alerting r r'"
  using assms tells_unprotected [of "r\<lparr>er_exit := h\<rparr>" for h]
  by (auto simp: route_fill_to_exit_handler_def Let_def split: prod.splits)

lemma tells_trailing: "route_trailing_stop_event E P D ev ord r w = (r', w') \<Longrightarrow> tells r [] r'"
  by (auto simp: route_trailing_stop_event_def split: option.splits order_event_type.splits prod.splits)

lemma tells_oco:
  assumes "0 < er_receivers r" "cancel_oco_siblings E ord r w = (r', w')"
  shows "alerting r r'"
  using assms alerting_one [of "r\<lparr>er_state := s\<rparr>" for s]
  by (auto simp: cancel_oco_siblings_def broadcast_oco_double_exit_def alerting_none split: option.splits prod.splits)

lemma tells_update_state [simp]: "tells r [] (update_state_for_order_event ev ord r)"
  by (simp add: update_state_for_order_event_def)

text \<open>
  C10: An order event is told to the strategies exactly once and last: before it go at most two
  alerts, about a position left unprotected and about a second exit of a group, and only for a fill
  or a rejection. Nothing is lost while somebody receives.
\<close>

theorem order_event_told_last:
  assumes "0 < er_receivers r" "er_broadcast_enabled r"
    and run: "handle_order_event E P D ev ord parent r w = (r', w')"
  shows "\<exists>alerts. tells r (alerts @ [WsOrder ev ord parent (utc_now E w')]) r' \<and> list_all is_alert alerts
    \<and> length alerts \<le> 2 \<and> (ev \<notin> {EvOrderFilled, EvOrderPartiallyFilled, EvOrderRejected} \<longrightarrow> alerts = [])"
proof -
  let ?r1 = "update_state_for_order_event ev ord r"
  obtain r2 w2 r3 w3 r4 w4 where s2: "(if is_fill_event ev \<and> er_adapter ?r1 then route_fill_to_exit_handler E ord ?r1 w else (?r1, w)) = (r2, w2)"
    and s3: "route_trailing_stop_event E P D ev ord r2 w2 = (r3, w3)"
    and s4: "(if ev \<in> {EvOrderFilled, EvOrderRejected} \<and> er_adapter r3 then cancel_oco_siblings E ord r3 w3 else (r3, w3)) = (r4, w4)"
    and fin: "handle_order_event E P D ev ord parent r w = (told_order (utc_now E w4) ev ord parent r4, w4)"
    by (rule handle_order_event_stages)
  have t1: "tells r [] ?r1" by simp
  then have "0 < er_receivers ?r1" using assms(1) by (simp add: tells_def)
  then obtain a where a: "tells ?r1 a r2" "list_all is_alert a" "length a \<le> 1" "is_fill_event ev \<or> a = []"
    using s2 tells_route_fill [of ?r1 E ord w r2 w2]
    by (cases "is_fill_event ev \<and> er_adapter ?r1") (auto simp: alerting_def intro: that [of "[]"])
  have t3: "tells r a r3" using tells_trans [OF tells_trans [OF t1 a(1)] tells_trailing [OF s3]] by simp
  then have "0 < er_receivers r3" using assms(1) by (simp add: tells_def)
  then obtain b where b: "tells r3 b r4" "list_all is_alert b" "length b \<le> 1" "ev \<in> {EvOrderFilled, EvOrderRejected} \<or> b = []"
    using s4 tells_oco [of r3 E ord w3 r4 w4]
    by (cases "ev \<in> {EvOrderFilled, EvOrderRejected} \<and> er_adapter r3") (auto simp: alerting_def intro: that [of "[]"])
  have t4: "tells r (a @ b) r4" using tells_trans [OF t3 b(1)] .
  have r': "r' = told_order (utc_now E w4) ev ord parent r4" "w' = w4" using run fin by auto
  have "tells r ((a @ b) @ [WsOrder ev ord parent (utc_now E w4)]) r'"
    using t4 assms(1,2) by (simp add: r' told_order_def Let_def broadcast_order_event_def tells_def er_send_def)
  moreover have "list_all is_alert (a @ b)" "length (a @ b) \<le> 2" using a b by simp_all
  moreover have "ev \<notin> {EvOrderFilled, EvOrderPartiallyFilled, EvOrderRejected} \<longrightarrow> a @ b = []"
    using a(4) b(4) by (auto simp: is_fill_event_def)
  ultimately show ?thesis using r'(2) by blast
qed

subsection \<open>Groups\<close>

lemma cancel_siblings_calls:
  "snd (cancel_siblings (traced E) ids (w, tr)) = tr @ map CallCancel ids"
  by (induction ids arbitrary: w tr) (auto split: prod.splits)

text \<open>
  C12: The first order of a group that fills has every other order of the group cancelled, and nothing
  else is asked of the broker. When another order of the group fills afterwards no order is
  cancelled any more: one alert names both orders and the total quantity.
\<close>

theorem group_fill_cancels_siblings_once:
  assumes groups: "o_oco_group_id first = Some g" "o_oco_group_id second = Some g"
    and fresh: "dm_get (sm_oco_fills (er_state r)) g = None" and receivers: "0 < er_receivers r"
    and run: "cancel_oco_siblings (traced E) first r (w, []) = (r1, (w1, calls))"
    and run2: "cancel_oco_siblings (traced E) second r1 (w1, []) = (r2, (w2, calls2))"
  shows "calls = map CallCancel (get_oco_siblings (er_state r) g (o_id first)) \<and> er_sent r1 = er_sent r
    \<and> calls2 = [] \<and> er_sent r2 = er_sent r1 @ [double_exit_message (dec_to_string E) (utc_now E w1) g
        \<lparr>of_first_filled_order_id = o_id first, of_first_filled_qty = o_filled_quantity first,
         of_symbol = o_symbol first, of_side = o_side first\<rparr> second (o_filled_quantity first + o_filled_quantity second)]"
proof -
  let ?fill = "\<lparr>of_first_filled_order_id = o_id first, of_first_filled_qty = o_filled_quantity first,
    of_symbol = o_symbol first, of_side = o_side first\<rparr>"
  let ?s1 = "(er_state r)\<lparr>sm_oco_fills := dm_insert g ?fill (sm_oco_fills (er_state r))\<rparr>"
  have sib: "get_oco_siblings ?s1 g (o_id first) = get_oco_siblings (er_state r) g (o_id first)"
    by (simp add: get_oco_siblings_def oco_members_def)
  have r1: "r1 = r\<lparr>er_state := ?s1\<rparr>" and c: "(w1, calls) = cancel_siblings (traced E) (get_oco_siblings ?s1 g (o_id first)) (w, [])"
    using run fresh by (simp_all add: cancel_oco_siblings_def groups record_oco_fill_def)
  have "calls = map CallCancel (get_oco_siblings (er_state r) g (o_id first))"
    using arg_cong [OF c, of snd] by (simp add: cancel_siblings_calls sib)
  moreover have "r2 = send_critical (double_exit_message (dec_to_string E) (utc_now E w1) g ?fill second
      (o_filled_quantity first + o_filled_quantity second)) r1" "calls2 = []"
    using run2 by (auto simp: cancel_oco_siblings_def groups record_oco_fill_def r1 broadcast_oco_double_exit_def)
  ultimately show ?thesis using receivers by (simp add: r1 send_critical_def er_send_def)
qed

text \<open>
  The lookup of the group in the cache, meant for providers that do not report it, comes after
  the order was removed from the cache together with its membership. So when an order is filled
  whose event carries no group, the orders of the group it has in the cache are not cancelled.
\<close>

theorem unreported_group_is_not_cancelled:
  assumes exact: "groups_exact (er_state r)" and none: "o_oco_group_id ord = None"
    and distinct: "dm_wf (sm_oco_groups (er_state r))"
    and r1: "r1 = update_state_for_order_event EvOrderFilled ord r"
  shows "cancel_oco_siblings E ord r1 w = (r1, w)"
proof -
  let ?s = "er_state r1"
  have s: "?s = snd (remove_order (o_id ord) (er_state r))" by (simp add: r1 update_state_for_order_event_def)
  have gone: "sm_get_order ?s (o_id ord) = None"
    by (simp add: s remove_order_def sm_get_order_def Let_def split: option.splits)
  have "groups_exact ?s" unfolding s by (rule exact_remove [OF exact])
  then have members: "o_id ord \<notin> set (oco_members ?s g)" for g using gone by (simp add: groups_exact_def in_group_def)
  have wf: "dm_wf (sm_oco_groups ?s)"
    using distinct by (simp add: s remove_order_def group_remove_def Let_def split: option.splits)
  have "o_id ord \<notin> set (snd p)" if "p \<in> set (sm_oco_groups ?s)" for p
    using members [of "fst p"] dm_get_in [OF wf, of "fst p" "snd p"] that by (simp add: oco_members_def)
  then have "get_oco_group_id ?s (o_id ord) = None" by (auto simp: get_oco_group_id_def gone find_map_None)
  then show ?thesis by (simp add: cancel_oco_siblings_def none)
qed

subsection \<open>Reconciliation\<close>

text \<open>What is told while the cached orders are looked at: order events and alerts.\<close>

definition routine :: "ws_message \<Rightarrow> bool" where
  "routine m = (is_alert m \<or> (\<exists>ev ord parent t. m = WsOrder ev ord parent t))"

definition tells_routine :: "router \<Rightarrow> router \<Rightarrow> bool" where
  "tells_routine r r' = (\<exists>ms. tells r ms r' \<and> list_all routine ms)"

lemma routine_refl [simp]: "tells_routine r r"
  unfolding tells_routine_def by (rule exI [of _ "[]"]) simp

lemma routine_trans: "tells_routine r r1 \<Longrightarrow> tells_routine r1 r2 \<Longrightarrow> tells_routine r r2"
  unfolding tells_routine_def by (meson tells_trans list_all_append)

lemma routine_alerting: "alerting r r' \<Longrightarrow> tells_routine r r'"
  by (auto simp: alerting_def tells_routine_def routine_def list_all_iff)

lemma routine_updates [simp]:
  "tells_routine r (er_state_update f r') = tells_routine r r'" "tells_routine r (er_exit_update f2 r') = tells_routine r r'"
  "tells_routine r (er_order_events_update f4 r') = tells_routine r r'"
  by (simp_all add: tells_routine_def)

lemma routine_broadcast: "tells_routine r (broadcast_order_event now ev ord parent r)"
proof -
  have "tells r [WsOrder ev ord parent now] (snd (er_send (WsOrder ev ord parent now) r))" if "0 < er_receivers r"
    using that by (simp add: tells_def er_send_def)
  then show ?thesis
    by (cases "\<not> er_broadcast_enabled r \<or> er_receivers r = 0")
       (auto simp: broadcast_order_event_def tells_routine_def routine_def intro!: exI [of _ "[WsOrder ev ord parent now]"]
         simp: exI [of _ "[]"])
qed

lemma routine_receivers: "tells_routine r r' \<Longrightarrow> er_receivers r' = er_receivers r \<and> er_broadcast_enabled r' = er_broadcast_enabled r"
  by (auto simp: tells_routine_def tells_def)

lemma routine_reconcile_order:
  assumes "0 < er_receivers r"
  shows "tells_routine r (fst (reconcile_order E f (r, w)))"
proof -
  have "tells_routine r (fst (let r1 = update_state_for_order_event ev ord r;
        (r2, w2) = (if is_fill_event ev then route_fill_to_exit_handler E ord r1 w else (r1, w));
        r3 = broadcast_order_event (utc_now E w2) ev ord None r2
      in (r3\<lparr>er_order_events := er_order_events r3 + 1\<rparr>, w2)))" for ev ord
  proof -
    let ?r1 = "update_state_for_order_event ev ord r"
    obtain r2 w2 where s2: "(if is_fill_event ev then route_fill_to_exit_handler E ord ?r1 w else (?r1, w)) = (r2, w2)"
      by (metis surj_pair)
    have r1: "tells_routine r ?r1" by (rule routine_alerting [OF alerting_none]) simp
    then have "0 < er_receivers ?r1" using assms routine_receivers by auto
    then have "tells_routine ?r1 r2"
      using s2 tells_route_fill [of ?r1 E ord w r2 w2] by (auto intro: routine_alerting split: if_splits)
    with r1 have "tells_routine r (broadcast_order_event (utc_now E w2) ev ord None r2)"
      by (blast intro: routine_trans routine_broadcast)
    then show ?thesis unfolding Let_def s2 prod.case by simp
  qed
  then show ?thesis
    by (cases f) (auto simp: reconcile_order_def split: option.split sum.split gateway_error.split)
qed

lemma routine_reconcile_fold:
  "0 < er_receivers r \<Longrightarrow> fold (reconcile_order E) fs (r, w) = (r', w') \<Longrightarrow> tells_routine r r'"
proof (induction fs arbitrary: r w)
  case (Cons f fs)
  obtain r1 w1 where f: "reconcile_order E f (r, w) = (r1, w1)" by (metis surj_pair)
  then have r1: "tells_routine r r1" using routine_reconcile_order [OF Cons.prems(1), of E f w] by simp
  then have "tells_routine r1 r'" using Cons routine_receivers [OF r1] f by simp
  with r1 show ?case by (rule routine_trans)
qed simp

lemma routine_rebroadcast: "0 < er_receivers r \<Longrightarrow> tells_routine r (rebroadcast_unprotected_positions now infos r)"
proof -
  assume "0 < er_receivers r"
  then have "tells_routine r (fold (\<lambda>(primary, es). send_critical (rebroadcast_message now primary es b)) xs r)" for b xs
  proof (induction xs arbitrary: r)
    case (Cons x xs)
    have r1: "tells_routine r (send_critical (rebroadcast_message now (fst x) (snd x) b) r)"
      by (rule routine_alerting [OF alerting_one]) (simp_all add: Cons.prems)
    then show ?case
      using Cons.IH [of "send_critical (rebroadcast_message now (fst x) (snd x) b) r"] routine_receivers [OF r1] Cons.prems
      by (auto simp: case_prod_beta intro: routine_trans)
  qed simp
  then show ?thesis by (simp add: rebroadcast_unprotected_positions_def)
qed

lemma finish_tells:
  assumes "0 < er_receivers r" "er_broadcast_enabled r"
  shows "\<exists>ms. list_all routine ms
    \<and> er_sent (finish_reconciliation E orders positions r w) = er_sent r @ ms @ [WsConnection EvConnected None None None (utc_now E w)]
    \<and> er_state (finish_reconciliation E orders positions r w) = sync_from_provider orders positions (er_state r)"
proof -
  let ?r1 = "sync_state_from_provider orders positions r" and ?failed = "get_failed_entries_internal (er_exit r)"
  let ?r' = "rebroadcast_unprotected_positions (utc_now E w) ?failed ?r1"
  let ?r2 = "if ?failed = [] then ?r1 else ?r'\<lparr>er_exit := snd (clear_failed_entries_internal (er_exit ?r'))\<rparr>"
  have eq: "er_exit ?r1 = er_exit r" by (simp add: sync_state_from_provider_def)
  have "tells_routine ?r1 ?r2"
    using routine_rebroadcast [of ?r1] assms(1) by (simp add: sync_state_from_provider_def)
  then obtain ms where ms: "tells ?r1 ms ?r2" "list_all routine ms" by (auto simp: tells_routine_def)
  have st: "er_state ?r2 = sync_from_provider orders positions (er_state r)"
    using same_rebroadcast [of ?r1] by (auto simp: same_components_def sync_state_from_provider_def)
  have "finish_reconciliation E orders positions r w = handle_connection_event (utc_now E w) EvConnected None ?r2"
    unfolding finish_reconciliation_def Let_def eq ..
  moreover have "er_sent ?r2 = er_sent r @ ms" "0 < er_receivers ?r2" "er_broadcast_enabled ?r2"
    using ms(1) assms by (simp_all only: tells_def) (simp_all add: sync_state_from_provider_def)
  ultimately show ?thesis using ms(2) st by (auto simp: handle_connection_event_def er_send_def)
qed


subsection \<open>The channel the gateway is wired with\<close>

text \<open>
  The start-up code (\<open>src/main.rs\<close>) makes the broadcast channel of a router and drops its receiver
  at once, and no code subscribes to the channel afterwards.
\<close>

definition wired_router :: "trading_platform \<Rightarrow> exit_handler_config \<Rightarrow> router" where
  "wired_router platform config = router_new state_manager_new (exit_handler_new platform config) 0 platform"

lemma drives_channel: "drives E P D s s' \<Longrightarrow> keeps_channel (fst s) (fst s')"
  by (simp add: drives_def)

lemmas router_channel =
  order_event_drives [THEN drives_channel, unfolded fst_conv] order_cancelled_drives [THEN drives_channel, unfolded fst_conv]
  position_event_drives [THEN drives_channel, unfolded fst_conv] synthesize_drives [THEN drives_channel, unfolded fst_conv]
  reconcile_drives [THEN drives_channel, unfolded fst_conv]

lemma gateway_step_channel: "gateway_step E P D R s s' \<Longrightarrow> keeps_channel (fst s) (fst s')"
proof (induction rule: gateway_step.induct)
  case (gateway_connection r w now cev err)
  show ?case using same_broadcasts(3) [of r now cev err] by (simp add: same_components_def)
qed (simp_all add: router_channel, simp_all add: keeps_channel_def set_adapter_def set_trailing_stop_handler_def split: option.split)

interpretation unheard: invariant_system "\<lambda>s. \<exists>platform config. fst s = wired_router platform config" "gateway_step E P D R"
  "\<lambda>s. er_receivers (fst s) = 0 \<and> er_sent (fst s) = []"
  for E :: "'w env" and P D R
  by unfold_locales (auto simp: wired_router_def router_new_def keeps_channel_def dest: gateway_step_channel)

text \<open>
  Wired as the start-up code does it, the router's messages reach nobody: whatever happens, no
  message is ever sent, and an alert about an unprotected position or a second exit of a group is
  only counted as dropped.
\<close>

theorem router_messages_reach_nobody:
  assumes "reachable (\<lambda>s. \<exists>platform config. fst s = wired_router platform config) (gateway_step E P D R) (r, w)"
  shows "er_sent r = [] \<and> send_critical m r = r\<lparr>er_critical_dropped := er_critical_dropped r + 1\<rparr>"
  using unheard.reachable_inv [OF assms] by (simp add: send_critical_def er_send_def)

end
