(* ===== verification/Gw_Filter.thy ===== *)
theory Gw_Filter
  imports Gw_Messages
begin

text \<open>
  The subscription filter (\<open>subscription/filter.rs\<close>): the list of subscriptions is compiled once
  into nested maps, and every event is looked up in them before it is broadcast. The reference
  definition \<open>wanted\<close> reads the subscriptions directly; the compiled filter is proved to agree with it.
\<close>

datatype event_kind = KindQuote | KindOrderUpdate | KindPositionUpdate | KindTradeUpdate | KindAccountUpdate

record subscribed_events =
  se_all :: bool
  se_all_candles :: bool
  se_candle_timeframes :: "string set"
  se_events :: "event_kind set"

definition subscribed_events_default :: subscribed_events where
  "subscribed_events_default = \<lparr>se_all = False, se_all_candles = False, se_candle_timeframes = {}, se_events = {}\<rparr>"

definition add_event :: "string \<Rightarrow> subscribed_events \<Rightarrow> subscribed_events" where
  "add_event e se =
     (if e = ''*'' then se\<lparr>se_all := True\<rparr>
      else if e \<in> {''candle_*'', ''bars'', ''bar''} then se\<lparr>se_all_candles := True\<rparr>
      else if e \<in> {''quote'', ''quotes''} then se\<lparr>se_events := insert KindQuote (se_events se)\<rparr>
      else if e \<in> {''order_update'', ''orders''} then se\<lparr>se_events := insert KindOrderUpdate (se_events se)\<rparr>
      else if e \<in> {''position_update'', ''positions''} then se\<lparr>se_events := insert KindPositionUpdate (se_events se)\<rparr>
      else if e \<in> {''trade_update'', ''trades''} then se\<lparr>se_events := insert KindTradeUpdate (se_events se)\<rparr>
      else if e = ''account_update'' then se\<lparr>se_events := insert KindAccountUpdate (se_events se)\<rparr>
      else if starts_with e ''candle_'' then se\<lparr>se_candle_timeframes := insert e (se_candle_timeframes se)\<rparr>
      else case strip_prefix e ''candles.'' of
        Some interval \<Rightarrow> se\<lparr>se_candle_timeframes := insert (''candle_'' @ interval) (se_candle_timeframes se)\<rparr>
      | None \<Rightarrow> se)"

definition se_matches_candle :: "timeframe \<Rightarrow> subscribed_events \<Rightarrow> bool" where
  "se_matches_candle tf se =
     (se_all se \<or> se_all_candles se \<or> ''candle_'' @ timeframe_as_str tf \<in> se_candle_timeframes se)"

definition se_matches_event :: "event_kind \<Rightarrow> subscribed_events \<Rightarrow> bool" where
  "se_matches_event kind se = (se_all se \<or> kind \<in> se_events se)"

record subscription_filter =
  sf_subscriptions :: "(trading_platform, (string, subscribed_events) dmap) dmap"
  sf_platform_wildcards :: "(trading_platform, subscribed_events) dmap"
  sf_account_subscriptions :: "(trading_platform, bool) dmap"

text \<open>\<open>entry(k).or_default()\<close> followed by a change of the value.\<close>

definition dm_entry :: "'v \<Rightarrow> 'k \<Rightarrow> ('v \<Rightarrow> 'v) \<Rightarrow> ('k, 'v) dmap \<Rightarrow> ('k, 'v) dmap" where
  "dm_entry d k f m = dm_insert k (f (case dm_get m k of Some v \<Rightarrow> v | None \<Rightarrow> d)) m"

definition add_subscription :: "instrument_subscription \<Rightarrow> subscription_filter \<Rightarrow> subscription_filter" where
  "add_subscription sub f =
     (let f1 = (if list_ex (\<lambda>e. e = ''account_update'' \<or> e = ''*'') (is_events sub)
                then f\<lparr>sf_account_subscriptions := dm_insert (is_platform sub) True (sf_account_subscriptions f)\<rparr>
                else f)
      in if is_instrument sub = ''*''
         then f1\<lparr>sf_platform_wildcards := dm_entry subscribed_events_default (is_platform sub)
                (fold add_event (is_events sub)) (sf_platform_wildcards f1)\<rparr>
         else f1\<lparr>sf_subscriptions := dm_entry [] (is_platform sub)
                (dm_entry subscribed_events_default (is_instrument sub) (fold add_event (is_events sub)))
                (sf_subscriptions f1)\<rparr>)"

definition subscription_filter_new :: "instrument_subscription list \<Rightarrow> subscription_filter" where
  "subscription_filter_new subs = fold add_subscription subs
     \<lparr>sf_subscriptions = [], sf_platform_wildcards = [], sf_account_subscriptions = []\<rparr>"

text \<open>The two lookups, per instrument and then per platform, which the source writes out twice.\<close>

definition matches_entry ::
  "subscription_filter \<Rightarrow> trading_platform \<Rightarrow> string \<Rightarrow> (subscribed_events \<Rightarrow> bool) \<Rightarrow> bool" where
  "matches_entry f platform symbol ok =
     ((case dm_get (sf_subscriptions f) platform of
         Some platform_subs \<Rightarrow> (case dm_get platform_subs symbol of Some se \<Rightarrow> ok se | None \<Rightarrow> False)
       | None \<Rightarrow> False)
      \<or> (case dm_get (sf_platform_wildcards f) platform of Some se \<Rightarrow> ok se | None \<Rightarrow> False))"

definition matches_candle :: "subscription_filter \<Rightarrow> trading_platform \<Rightarrow> string \<Rightarrow> timeframe \<Rightarrow> bool" where
  "matches_candle f platform symbol tf = matches_entry f platform symbol (se_matches_candle tf)"

definition matches_simple :: "subscription_filter \<Rightarrow> trading_platform \<Rightarrow> string \<Rightarrow> event_kind \<Rightarrow> bool" where
  "matches_simple f platform symbol kind = matches_entry f platform symbol (se_matches_event kind)"

definition is_system_event :: "ws_message \<Rightarrow> bool" where
  "is_system_event ev = (case ev of
     WsConnection e err b g t \<Rightarrow> True | WsDataStaleness e s t b n \<Rightarrow> True | WsRateLimit e r a t \<Rightarrow> True
   | WsError c m d t \<Rightarrow> True | WsPing t \<Rightarrow> True | WsPong \<Rightarrow> True | WsBacktestComplete b t \<Rightarrow> True | _ \<Rightarrow> False)"

definition matches :: "subscription_filter \<Rightarrow> ws_message \<Rightarrow> trading_platform \<Rightarrow> bool" where
  "matches f ev platform =
     (if sf_subscriptions f = [] \<and> sf_platform_wildcards f = [] then True
      else if is_system_event ev then True
      else case ev of
        WsCandle b t \<Rightarrow> matches_candle f platform (bar_symbol b) (bar_timeframe b)
      | WsQuoteData q t \<Rightarrow> matches_simple f platform (q_symbol q) KindQuote
      | WsOrder e ord parent t \<Rightarrow> matches_simple f platform (o_symbol ord) KindOrderUpdate
      | WsPosition e p t \<Rightarrow> matches_simple f platform (p_symbol p) KindPositionUpdate
      | WsTrade e tr t \<Rightarrow> matches_simple f platform (t_symbol tr) KindTradeUpdate
      | WsFinancing symbol amount t \<Rightarrow> matches_simple f platform symbol KindTradeUpdate
      | WsAccount e a t \<Rightarrow> (case dm_get (sf_account_subscriptions f) platform of Some b \<Rightarrow> b | None \<Rightarrow> False)
      | WsPong \<Rightarrow> False | WsEventAck i es t \<Rightarrow> False | WsClose c r \<Rightarrow> False
      | _ \<Rightarrow> True)"

subsection \<open>The subscriptions read directly\<close>

fun kind_names :: "event_kind \<Rightarrow> string set" where
  "kind_names KindQuote = {''quote'', ''quotes''}"
| "kind_names KindOrderUpdate = {''order_update'', ''orders''}"
| "kind_names KindPositionUpdate = {''position_update'', ''positions''}"
| "kind_names KindTradeUpdate = {''trade_update'', ''trades''}"
| "kind_names KindAccountUpdate = {''account_update''}"

definition names_kind :: "event_kind \<Rightarrow> string \<Rightarrow> bool" where
  "names_kind kind e = (e = ''*'' \<or> e \<in> kind_names kind)"

definition names_candle :: "timeframe \<Rightarrow> string \<Rightarrow> bool" where
  "names_candle tf e = (e \<in> {''*'', ''candle_*'', ''bars'', ''bar'',
     ''candle_'' @ timeframe_as_str tf, ''candles.'' @ timeframe_as_str tf})"

definition subscribed ::
  "instrument_subscription list \<Rightarrow> trading_platform \<Rightarrow> string \<Rightarrow> (string \<Rightarrow> bool) \<Rightarrow> bool" where
  "subscribed subs platform symbol names =
     (\<exists>sub \<in> set subs. is_platform sub = platform \<and> is_instrument sub \<in> {symbol, ''*''}
        \<and> (\<exists>e \<in> set (is_events sub). names e))"

definition wanted :: "instrument_subscription list \<Rightarrow> ws_message \<Rightarrow> trading_platform \<Rightarrow> bool" where
  "wanted subs ev platform = (case ev of
     WsCandle b t \<Rightarrow> subscribed subs platform (bar_symbol b) (names_candle (bar_timeframe b))
   | WsQuoteData q t \<Rightarrow> subscribed subs platform (q_symbol q) (names_kind KindQuote)
   | WsOrder e ord parent t \<Rightarrow> subscribed subs platform (o_symbol ord) (names_kind KindOrderUpdate)
   | WsPosition e p t \<Rightarrow> subscribed subs platform (p_symbol p) (names_kind KindPositionUpdate)
   | WsTrade e tr t \<Rightarrow> subscribed subs platform (t_symbol tr) (names_kind KindTradeUpdate)
   | WsFinancing symbol amount t \<Rightarrow> subscribed subs platform symbol (names_kind KindTradeUpdate)
   | WsAccount e a t \<Rightarrow> (\<exists>sub \<in> set subs. is_platform sub = platform
        \<and> (\<exists>e \<in> set (is_events sub). names_kind KindAccountUpdate e))
   | WsEventAck i es t \<Rightarrow> False | WsClose c r \<Rightarrow> False
   | _ \<Rightarrow> True)"

subsection \<open>The compiled filter agrees\<close>

lemma dm_get_entry [simp]:
  "dm_get (dm_entry d k f m) k' =
     (if k' = k then Some (f (case dm_get m k of Some v \<Rightarrow> v | None \<Rightarrow> d)) else dm_get m k')"
  by (simp add: dm_entry_def)

lemma dm_entry_nonempty [simp]: "dm_entry d k f m \<noteq> []"
  by (cases m) (auto simp: dm_entry_def split: if_splits)

lemma add_event_kind: "se_matches_event kind (add_event e se) = (se_matches_event kind se \<or> names_kind kind e)"
  by (cases kind) (auto simp: add_event_def se_matches_event_def names_kind_def split: option.splits)

lemma names_candle_simps [simp]:
  "names_candle tf ''*''" "names_candle tf ''candle_*''" "names_candle tf ''bars''" "names_candle tf ''bar''"
  "\<not> names_candle tf ''quote''" "\<not> names_candle tf ''quotes''" "\<not> names_candle tf ''order_update''"
  "\<not> names_candle tf ''orders''" "\<not> names_candle tf ''position_update''" "\<not> names_candle tf ''positions''"
  "\<not> names_candle tf ''trade_update''" "\<not> names_candle tf ''trades''" "\<not> names_candle tf ''account_update''"
  by (simp_all add: names_candle_def)

lemma names_candle_prefixed:
  "s \<noteq> ''*'' \<Longrightarrow> names_candle tf (''candle_'' @ s) = (s = timeframe_as_str tf)"
  "names_candle tf (''candles.'' @ s) = (s = timeframe_as_str tf)"
  by (simp_all add: names_candle_def)

lemma names_candle_other:
  assumes "\<not> starts_with e ''candle_''" "strip_prefix e ''candles.'' = None" "e \<noteq> ''*''" "e \<notin> {''candle_*'', ''bars'', ''bar''}"
  shows "\<not> names_candle tf e"
proof
  assume "names_candle tf e"
  then have "e = ''candle_'' @ timeframe_as_str tf \<or> e = ''candles.'' @ timeframe_as_str tf"
    using assms(3,4) unfolding names_candle_def by blast
  then show False
  proof
    assume "e = ''candle_'' @ timeframe_as_str tf"
    then show False using assms(1) starts_with_append by metis
  next
    assume "e = ''candles.'' @ timeframe_as_str tf"
    then show False using assms(2) strip_prefix_append by (metis option.distinct(1))
  qed
qed

lemma add_event_candle: "se_matches_candle tf (add_event e se) = (se_matches_candle tf se \<or> names_candle tf e)"
proof (cases "starts_with e ''candle_'' \<and> e \<noteq> ''candle_*''")
  case True
  then obtain s where s: "e = ''candle_'' @ s" "s \<noteq> ''*''" by (auto simp only: starts_with_iff) auto
  then have "add_event e se = se\<lparr>se_candle_timeframes := insert e (se_candle_timeframes se)\<rparr>"
    by (simp add: add_event_def)
  then show ?thesis using s names_candle_prefixed(1) [OF s(2), of tf] by (auto simp: se_matches_candle_def)
next
  case False
  show ?thesis
  proof (cases "strip_prefix e ''candles.''")
    case (Some s)
    then have e: "e = ''candles.'' @ s" by (rule strip_prefix_SomeD)
    then have "add_event e se = se\<lparr>se_candle_timeframes := insert (''candle_'' @ s) (se_candle_timeframes se)\<rparr>"
      by (simp add: add_event_def)
    then show ?thesis using e names_candle_prefixed(2) [of tf s] by (auto simp: se_matches_candle_def)
  next
    case None
    show ?thesis
    proof (cases "e \<in> {''*'', ''candle_*'', ''bars'', ''bar''}")
      case True
      then show ?thesis by (elim insertE) (simp_all add: add_event_def se_matches_candle_def)
    next
      case special: False
      with False None have "\<not> names_candle tf e" by (intro names_candle_other) auto
      moreover have "se_matches_candle tf (add_event e se) = se_matches_candle tf se"
        using special False None by (simp add: add_event_def se_matches_candle_def)
      ultimately show ?thesis by simp
    qed
  qed
qed

text \<open>A matcher over subscribed events that adding an event extends by a predicate on its name.\<close>

definition extends_by :: "(subscribed_events \<Rightarrow> bool) \<Rightarrow> (string \<Rightarrow> bool) \<Rightarrow> bool" where
  "extends_by ok names = ((\<forall>e se. ok (add_event e se) = (ok se \<or> names e)) \<and> \<not> ok subscribed_events_default)"

lemma extends_kind: "extends_by (se_matches_event kind) (names_kind kind)"
  by (simp add: extends_by_def add_event_kind) (simp add: se_matches_event_def subscribed_events_default_def)

lemma extends_candle: "extends_by (se_matches_candle tf) (names_candle tf)"
  by (simp add: extends_by_def add_event_candle) (simp add: se_matches_candle_def subscribed_events_default_def)

lemma extends_fold: "extends_by ok names \<Longrightarrow> ok (fold add_event es se) = (ok se \<or> (\<exists>e \<in> set es. names e))"
  by (induction es arbitrary: se) (auto simp: extends_by_def)

lemma matches_entry_add:
  assumes "extends_by ok names"
  shows "matches_entry (add_subscription sub f) platform symbol ok =
    (matches_entry f platform symbol ok \<or> subscribed [sub] platform symbol names)"
  using assms extends_fold [OF assms]
  by (auto simp: matches_entry_def add_subscription_def Let_def subscribed_def extends_by_def split: option.splits)

lemma matches_entry_fold:
  "extends_by ok names \<Longrightarrow> matches_entry (fold add_subscription subs f) platform symbol ok =
    (matches_entry f platform symbol ok \<or> subscribed subs platform symbol names)"
proof (induction subs arbitrary: f)
  case (Cons sub subs)
  then show ?case by (auto simp: matches_entry_add subscribed_def)
qed (simp add: subscribed_def)

lemma accounts_add:
  "sf_account_subscriptions (add_subscription sub f) =
     (if \<exists>e \<in> set (is_events sub). names_kind KindAccountUpdate e
      then dm_insert (is_platform sub) True (sf_account_subscriptions f) else sf_account_subscriptions f)"
  by (auto simp: add_subscription_def Let_def names_kind_def list_ex_iff)

lemma account_fold:
  "(dm_get (sf_account_subscriptions (fold add_subscription subs f)) platform = Some True) =
   (dm_get (sf_account_subscriptions f) platform = Some True
    \<or> (\<exists>sub \<in> set subs. is_platform sub = platform \<and> (\<exists>e \<in> set (is_events sub). names_kind KindAccountUpdate e)))"
  by (induction subs arbitrary: f) (auto simp: accounts_add)

lemma account_values:
  "dm_get (sf_account_subscriptions f) platform \<noteq> Some False \<Longrightarrow>
   dm_get (sf_account_subscriptions (fold add_subscription subs f)) platform \<noteq> Some False"
  by (induction subs arbitrary: f) (auto simp: accounts_add)

lemma add_subscription_nonempty:
  "sf_subscriptions (add_subscription sub f) \<noteq> [] \<or> sf_platform_wildcards (add_subscription sub f) \<noteq> []"
  by (simp add: add_subscription_def Let_def)

lemma nonempty_fold:
  "(sf_subscriptions (fold add_subscription subs f) = [] \<and> sf_platform_wildcards (fold add_subscription subs f) = []) =
   (subs = [] \<and> sf_subscriptions f = [] \<and> sf_platform_wildcards f = [])"
proof (induction subs arbitrary: f)
  case (Cons sub subs)
  then show ?case using add_subscription_nonempty [of sub f] by auto
qed simp


end
