(* ===== verification/Gw_Connections.thy ===== *)
theory Gw_Connections
  imports Gw_Messages
begin

text \<open>
  The connections of the strategies (\<open>websocket/connection.rs\<close>) and the price source that feeds the
  trailing stops from the quotes of a provider (\<open>trailing_stop/ws_price_source.rs\<close>). A connection's
  bounded channel is its capacity and the frames waiting in it; the task that writes them to the
  socket takes them from the front.
\<close>

subsection \<open>Connections\<close>

type_synonym frame = "ws_message \<times> string option"

record frame_channel =
  ch_capacity :: nat
  ch_queue :: "frame list"
  ch_closed :: bool

record ws_connection =
  wc_id :: string
  wc_sender :: frame_channel
  wc_addr :: string
  wc_last_activity :: instant
  wc_connected_at :: instant

definition ws_connection_new :: "string \<Rightarrow> frame_channel \<Rightarrow> string \<Rightarrow> instant \<Rightarrow> ws_connection" where
  "ws_connection_new uuid sender addr now =
     \<lparr>wc_id = uuid, wc_sender = sender, wc_addr = addr, wc_last_activity = now, wc_connected_at = now\<rparr>"

definition wc_update_activity :: "instant \<Rightarrow> ws_connection \<Rightarrow> ws_connection" where
  "wc_update_activity now c = c\<lparr>wc_last_activity := now\<rparr>"

definition wc_is_stale :: "instant \<Rightarrow> duration \<Rightarrow> ws_connection \<Rightarrow> bool" where
  "wc_is_stale now timeout c = (now - wc_last_activity c > timeout)"

definition wc_send :: "ws_message \<Rightarrow> string option \<Rightarrow> ws_connection \<Rightarrow> (string + unit) \<times> ws_connection" where
  "wc_send message event_id c =
     (let ch = wc_sender c in
      if ch_closed ch then (Inl (''Connection '' @ wc_id c @ '' channel closed''), c)
      else if ch_capacity ch \<le> length (ch_queue ch) then
        (Inl (''Connection '' @ wc_id c @ '' channel full '' @ em_dash @ '' slow consumer''), c)
      else (Inr (), c\<lparr>wc_sender := ch\<lparr>ch_queue := ch_queue ch @ [(message, event_id)]\<rparr>\<rparr>))"

text \<open>The manager: the connections by id.\<close>

type_synonym connection_manager = "(string, ws_connection) dmap"

definition add_connection :: "ws_connection \<Rightarrow> connection_manager \<Rightarrow> connection_manager" where
  "add_connection c m = dm_insert (wc_id c) c m"

definition remove_connection :: "string \<Rightarrow> connection_manager \<Rightarrow> connection_manager" where
  "remove_connection i m = dm_remove i m"

text \<open>A failed send is only logged.\<close>

definition broadcast :: "ws_message \<Rightarrow> connection_manager \<Rightarrow> connection_manager" where
  "broadcast message m = map (\<lambda>(i, c). (i, snd (wc_send message None c))) m"

definition send_to :: "string \<Rightarrow> ws_message \<Rightarrow> string option \<Rightarrow> connection_manager \<Rightarrow> (string + unit) \<times> connection_manager" where
  "send_to i message event_id m =
     (case dm_get m i of
        None \<Rightarrow> (Inl (''Connection '' @ i @ '' not found''), m)
      | Some c \<Rightarrow>
          (case wc_send message event_id c of
             (Inl e, c1) \<Rightarrow> (Inl (''Failed to send message: '' @ e), dm_insert i c1 m)
           | (Inr u, c1) \<Rightarrow> (Inr u, dm_insert i c1 m)))"

definition connection_count :: "connection_manager \<Rightarrow> nat" where
  "connection_count m = length m"

definition cm_update_activity :: "string \<Rightarrow> instant \<Rightarrow> connection_manager \<Rightarrow> connection_manager" where
  "cm_update_activity i now m = dm_modify i (wc_update_activity now) m"

definition get_connection_duration :: "connection_manager \<Rightarrow> string \<Rightarrow> instant \<Rightarrow> duration option" where
  "get_connection_duration m i now = map_option (\<lambda>c. now - wc_connected_at c) (dm_get m i)"

text \<open>The two messages of a shutdown; between them the gateway pauses for half a second.\<close>

definition broadcast_shutdown :: "utc \<Rightarrow> connection_manager \<Rightarrow> connection_manager" where
  "broadcast_shutdown now m =
     (if connection_count m = 0 then m
      else broadcast (WsClose 1001 ''Gateway shutting down'')
             (broadcast (WsConnection EvDisconnecting None None None now) m))"

text \<open>What the sending task of a connection takes next.\<close>

definition take_frame :: "ws_connection \<Rightarrow> frame option \<times> ws_connection" where
  "take_frame c =
     (case ch_queue (wc_sender c) of
        [] \<Rightarrow> (None, c)
      | f # fs \<Rightarrow> (Some f, c\<lparr>wc_sender := (wc_sender c)\<lparr>ch_queue := fs\<rparr>\<rparr>))"

definition frames_of :: "connection_manager \<Rightarrow> string \<Rightarrow> frame list" where
  "frames_of m i = (case dm_get m i of Some c \<Rightarrow> ch_queue (wc_sender c) | None \<Rightarrow> [])"

definition has_room :: "connection_manager \<Rightarrow> string \<Rightarrow> bool" where
  "has_room m i = (case dm_get m i of
     Some c \<Rightarrow> \<not> ch_closed (wc_sender c) \<and> length (ch_queue (wc_sender c)) < ch_capacity (wc_sender c) | None \<Rightarrow> False)"

lemma dm_get_broadcast: "dm_get (broadcast message m) i = map_option (\<lambda>c. snd (wc_send message None c)) (dm_get m i)"
  by (induction m) (auto simp: broadcast_def dm_get_def)

lemma frames_broadcast:
  "frames_of (broadcast message m) i = (if has_room m i then frames_of m i @ [(message, None)] else frames_of m i)"
  by (auto simp: frames_of_def has_room_def dm_get_broadcast wc_send_def Let_def split: option.splits)

lemma send_to_iff: "(\<exists>u. fst (send_to i message eid m) = Inr u) \<longleftrightarrow> has_room m i"
  by (auto simp: send_to_def has_room_def wc_send_def Let_def split: option.splits)

lemma frames_send_to:
  "frames_of (snd (send_to i message eid m)) j =
     (if j = i \<and> has_room m i then frames_of m i @ [(message, eid)] else frames_of m j)"
  by (auto simp: send_to_def frames_of_def has_room_def wc_send_def Let_def split: option.splits)

lemma room_send_to: "j \<noteq> i \<Longrightarrow> has_room (snd (send_to i message eid m)) j = has_room m j"
  by (auto simp: send_to_def has_room_def wc_send_def Let_def split: option.splits)

lemma keys_broadcast: "dm_keys (broadcast message m) = dm_keys m"
  by (simp add: broadcast_def dm_keys_def case_prod_beta)

lemma keys_send_to: "set (dm_keys (snd (send_to i message eid m))) = set (dm_keys m)"
  by (auto simp: send_to_def wc_send_def Let_def set_dm_keys split: option.splits if_splits)

subsection \<open>Prices for the trailing stops\<close>

record price_update =
  pu_symbol :: string
  pu_price :: decimal
  pu_timestamp_ms :: nat

text \<open>A broadcast channel of one symbol: its receivers, and the updates sent to them.\<close>

record price_channel =
  pc_receivers :: nat
  pc_sent :: "price_update list"

record price_source =
  ps_channels :: "(string, price_channel) dmap"
  ps_latest_prices :: "(string, decimal \<times> nat) dmap"
  ps_channel_capacity :: nat

definition price_source_with_capacity :: "nat \<Rightarrow> price_source" where
  "price_source_with_capacity n = \<lparr>ps_channels = [], ps_latest_prices = [], ps_channel_capacity = n\<rparr>"

definition price_source_new :: price_source where
  "price_source_new = price_source_with_capacity 128"

definition handle_quote :: "string \<Rightarrow> decimal \<Rightarrow> nat \<Rightarrow> price_source \<Rightarrow> price_source" where
  "handle_quote symbol price ts ps =
     (let ps1 = ps\<lparr>ps_latest_prices := dm_insert symbol (price, ts) (ps_latest_prices ps)\<rparr> in
      case dm_get (ps_channels ps1) symbol of
        None \<Rightarrow> ps1
      | Some ch \<Rightarrow>
          if pc_receivers ch = 0 then ps1\<lparr>ps_channels := dm_remove symbol (ps_channels ps1)\<rparr>
          else ps1\<lparr>ps_channels := dm_insert symbol
            (ch\<lparr>pc_sent := pc_sent ch @ [\<lparr>pu_symbol = symbol, pu_price = price, pu_timestamp_ms = ts\<rparr>]\<rparr>) (ps_channels ps1)\<rparr>)"

definition active_symbol_count :: "price_source \<Rightarrow> nat" where
  "active_symbol_count ps = length (ps_channels ps)"

definition cached_price_count :: "price_source \<Rightarrow> nat" where
  "cached_price_count ps = length (ps_latest_prices ps)"

definition ps_subscribe :: "string \<Rightarrow> price_source \<Rightarrow> price_source" where
  "ps_subscribe symbol ps = ps\<lparr>ps_channels := dm_insert symbol
     (case dm_get (ps_channels ps) symbol of
        Some ch \<Rightarrow> ch\<lparr>pc_receivers := pc_receivers ch + 1\<rparr>
      | None \<Rightarrow> \<lparr>pc_receivers = 1, pc_sent = []\<rparr>) (ps_channels ps)\<rparr>"

definition ps_unsubscribe :: "string \<Rightarrow> price_source \<Rightarrow> price_source" where
  "ps_unsubscribe symbol ps = ps"

definition ps_current_price :: "price_source \<Rightarrow> string \<Rightarrow> gateway_error + decimal" where
  "ps_current_price ps symbol =
     (case dm_get (ps_latest_prices ps) symbol of Some p \<Rightarrow> Inr (fst p) | None \<Rightarrow> Inl (SymbolNotFound symbol))"

text \<open>
  The task between a symbol's channel and one subscriber: each result of \<open>recv\<close>, together with
  whether the subscriber's channel is closed then. A full subscriber misses the update.
\<close>

datatype received = GotUpdate price_update | LaggedBy nat | SenderGone

fun bridge_broadcast_to_mpsc :: "nat \<Rightarrow> (received \<times> bool) list \<Rightarrow> price_update list \<Rightarrow> bool \<times> price_update list" where
  "bridge_broadcast_to_mpsc capacity [] queue = (True, queue)"
| "bridge_broadcast_to_mpsc capacity ((GotUpdate u, shut) # rest) queue =
     (if shut then (False, queue)
      else bridge_broadcast_to_mpsc capacity rest (if length queue < capacity then queue @ [u] else queue))"
| "bridge_broadcast_to_mpsc capacity ((LaggedBy n, shut) # rest) queue = bridge_broadcast_to_mpsc capacity rest queue"
| "bridge_broadcast_to_mpsc capacity ((SenderGone, shut) # rest) queue = (False, queue)"

lemma current_price_after_quote:
  "ps_current_price (handle_quote symbol price ts ps) s = (if s = symbol then Inr price else ps_current_price ps s)"
  by (auto simp: handle_quote_def ps_current_price_def Let_def split: option.splits)

end
