(* ===== verification/Gw_Registry.thy ===== *)
theory Gw_Registry
  imports Gw_Router_Props Gw_Filter Gw_Reconnect Gw_Connections
begin

text \<open>
  The provider registry (\<open>websocket/registry.rs\<close>): what happens to one event of a broker's stream,
  from the stream to the strategies, when a stream ends, and the task that derives position events
  from fills. \<open>E\<close>, \<open>P\<close> and \<open>native_parent\<close> give, for each platform, its broker, its price feed
  and the adapter's answer to \<open>parent_order_id_for\<close>; \<open>provider_subscribe\<close> is the provider's own.
\<close>

subsection \<open>State\<close>

record shared_provider =
  sp_symbols :: "string list"
  sp_event_types :: "string list"
  sp_staleness :: staleness_tracker
  sp_filters_upstream :: bool
  sp_supports_reconnection :: bool
  sp_completes :: bool

record registry =
  rg_providers :: "(trading_platform, shared_provider) dmap"
  rg_strategies :: "string list"
  rg_connections :: connection_manager
  rg_routers :: "(trading_platform, router) dmap"
  rg_adapters :: "trading_platform list"
  rg_internal :: "internal_trading_event list"
  rg_filter :: subscription_filter
  rg_bridge :: "ack_bridge option"
  rg_reconnection :: reconnection_config
  rg_correlation :: correlation_store
  rg_price_source :: "price_source option"
  rg_strategy_connected :: bool

definition registry_new :: "connection_manager \<Rightarrow> subscription_filter \<Rightarrow> reconnection_config \<Rightarrow> correlation_store \<Rightarrow> registry" where
  "registry_new m f c s =
     \<lparr>rg_providers = [], rg_strategies = [], rg_connections = m, rg_routers = [], rg_adapters = [], rg_internal = [],
      rg_filter = f, rg_bridge = None, rg_reconnection = c, rg_correlation = s, rg_price_source = None,
      rg_strategy_connected = False\<rparr>"

definition set_price_source :: "price_source \<Rightarrow> registry \<Rightarrow> registry" where
  "set_price_source ps rg = rg\<lparr>rg_price_source := Some ps\<rparr>"

definition register_provider :: "trading_platform \<Rightarrow> shared_provider \<Rightarrow> registry \<Rightarrow> (websocket_error + unit) \<times> registry" where
  "register_provider platform sp rg =
     (if dm_get (rg_providers rg) platform \<noteq> None
      then (Inl (ConfigErrorWs (''Platform '' @ header_value platform @ '' is already registered'')), rg)
      else (Inr (), rg\<lparr>rg_providers := dm_insert platform (sp\<lparr>sp_staleness := []\<rparr>) (rg_providers rg)\<rparr>))"

definition register_event_router :: "trading_platform \<Rightarrow> router \<Rightarrow> registry \<Rightarrow> (websocket_error + unit) \<times> registry" where
  "register_event_router platform r rg =
     (case set_adapter r of
        (Inl u, r1) \<Rightarrow> (Inl (ConfigErrorWs (''EventRouter adapter already set for platform '' @ header_value platform @
           '' '' @ em_dash @ '' double registration is a bug'')), rg)
      | (Inr u, r1) \<Rightarrow> (Inr (), rg\<lparr>rg_routers := dm_insert platform r1 (rg_routers rg),
                                    rg_adapters := hs_insert platform (rg_adapters rg)\<rparr>))"

definition set_tektii_ack_bridge :: "ack_bridge \<Rightarrow> registry \<Rightarrow> registry" where
  "set_tektii_ack_bridge b rg = rg\<lparr>rg_bridge := Some b\<rparr>"

definition rg_handle_strategy_ack :: "string list \<Rightarrow> registry \<Rightarrow> registry" where
  "rg_handle_strategy_ack ids rg = rg\<lparr>rg_bridge := map_option (handle_strategy_ack ids) (rg_bridge rg)\<rparr>"

definition register_strategy_connection :: "string \<Rightarrow> registry \<Rightarrow> registry" where
  "register_strategy_connection i rg = rg\<lparr>rg_strategies := hs_insert i (rg_strategies rg), rg_strategy_connected := True\<rparr>"

definition unregister_strategy_connection :: "string \<Rightarrow> registry \<Rightarrow> registry" where
  "unregister_strategy_connection i rg = rg\<lparr>rg_strategies := removeAll i (rg_strategies rg)\<rparr>"

definition connected_strategy_count :: "registry \<Rightarrow> nat" where
  "connected_strategy_count rg = length (rg_strategies rg)"

definition connected_platforms :: "registry \<Rightarrow> trading_platform list" where
  "connected_platforms rg = dm_keys (rg_providers rg)"

definition are_all_platforms_connected :: "registry \<Rightarrow> trading_platform list \<Rightarrow> bool" where
  "are_all_platforms_connected rg required = list_all (\<lambda>p. dm_get (rg_providers rg) p \<noteq> None) required"

definition get_staleness :: "registry \<Rightarrow> trading_platform \<Rightarrow> string list option" where
  "get_staleness rg platform = map_option (\<lambda>p. stale_instruments (sp_staleness p)) (dm_get (rg_providers rg) platform)"

definition get_staleness_with_times :: "registry \<Rightarrow> trading_platform \<Rightarrow> (string \<times> utc) list option" where
  "get_staleness_with_times rg platform =
     map_option (\<lambda>p. stale_instruments_with_times (sp_staleness p)) (dm_get (rg_providers rg) platform)"

text \<open>
  A quote subscription for a symbol: the first provider that has it or accepts it. The providers
  are tried in the order of the map.
\<close>

definition has_quotes :: "string \<Rightarrow> shared_provider \<Rightarrow> bool" where
  "has_quotes symbol sp = (symbol \<in> set (sp_symbols sp) \<and> ''quote'' \<in> set (sp_event_types sp))"

definition note_quotes :: "string \<Rightarrow> shared_provider \<Rightarrow> shared_provider" where
  "note_quotes symbol sp = sp\<lparr>
     sp_symbols := (if symbol \<in> set (sp_symbols sp) then sp_symbols sp else sp_symbols sp @ [symbol]),
     sp_event_types := (if ''quote'' \<in> set (sp_event_types sp) then sp_event_types sp else sp_event_types sp @ [''quote''])\<rparr>"

fun subscribe_first ::
  "(trading_platform \<Rightarrow> string list \<Rightarrow> string list \<Rightarrow> 'w \<Rightarrow> (websocket_error + unit) \<times> 'w) \<Rightarrow> string
     \<Rightarrow> (trading_platform, shared_provider) dmap \<Rightarrow> 'w \<Rightarrow> (trading_platform, shared_provider) dmap \<times> 'w" where
  "subscribe_first provider_subscribe symbol [] w = ([], w)"
| "subscribe_first provider_subscribe symbol ((platform, sp) # rest) w =
     (if has_quotes symbol sp then ((platform, sp) # rest, w)
      else case provider_subscribe platform [symbol] [''quote''] w of
        (Inl e, w1) \<Rightarrow> (case subscribe_first provider_subscribe symbol rest w1 of (rest1, w2) \<Rightarrow> ((platform, sp) # rest1, w2))
      | (Inr u, w1) \<Rightarrow> ((platform, note_quotes symbol sp) # rest, w1))"

definition ensure_quote_subscription ::
  "(trading_platform \<Rightarrow> string list \<Rightarrow> string list \<Rightarrow> 'w \<Rightarrow> (websocket_error + unit) \<times> 'w) \<Rightarrow> string
     \<Rightarrow> registry \<Rightarrow> 'w \<Rightarrow> registry \<times> 'w" where
  "ensure_quote_subscription provider_subscribe symbol rg w =
     (case subscribe_first provider_subscribe symbol (rg_providers rg) w of (ps, w1) \<Rightarrow> (rg\<lparr>rg_providers := ps\<rparr>, w1))"

subsection \<open>One event of a provider\<close>

type_synonym 'w native_parent = "string \<Rightarrow> order_status \<Rightarrow> 'w \<Rightarrow> string option \<times> 'w"

definition route_event_through_router ::
  "(trading_platform \<Rightarrow> 'w env) \<Rightarrow> (trading_platform \<Rightarrow> 'w price_feed) \<Rightarrow> dec_ops \<Rightarrow> (trading_platform \<Rightarrow> 'w native_parent)
     \<Rightarrow> ws_message \<Rightarrow> trading_platform \<Rightarrow> registry \<Rightarrow> 'w \<Rightarrow> string option \<times> registry \<times> 'w" where
  "route_event_through_router E P D native_parent ev platform rg w =
     (case dm_get (rg_routers rg) platform of
        None \<Rightarrow> (None, rg, w)
      | Some r \<Rightarrow>
          (case ev of
             WsOrder oev ord parent t \<Rightarrow>
               (let tracked = parent_order_id_for (er_exit r) (o_id ord);
                    (parent1, w1) = (case tracked of
                       Some p \<Rightarrow> (Some p, w)
                     | None \<Rightarrow> if platform \<in> set (rg_adapters rg) then native_parent platform (o_id ord) (o_status ord) w
                               else (None, w));
                    (r1, w2) = handle_order_event (E platform) (P platform) D oev ord parent r w1
                in (parent1, rg\<lparr>rg_routers := dm_insert platform r1 (rg_routers rg)\<rparr>, w2))
           | WsPosition pev pos t \<Rightarrow>
               (case handle_position_event (E platform) pev pos r w of
                  (r1, w1) \<Rightarrow> (None, rg\<lparr>rg_routers := dm_insert platform r1 (rg_routers rg)\<rparr>, w1))
           | _ \<Rightarrow> (None, rg, w)))"

text \<open>The market data side: the symbol is fresh again, and the price goes to the trailing stops.\<close>

definition provider_staleness :: "registry \<Rightarrow> trading_platform \<Rightarrow> staleness_tracker" where
  "provider_staleness rg platform = (case dm_get (rg_providers rg) platform of Some sp \<Rightarrow> sp_staleness sp | None \<Rightarrow> [])"

definition note_fresh :: "utc \<Rightarrow> ws_message \<Rightarrow> trading_platform \<Rightarrow> registry \<Rightarrow> registry" where
  "note_fresh now ev platform rg =
     (case maybe_clear_staleness ev (provider_staleness rg platform) of
        (cleared, st) \<Rightarrow>
          (let rg1 = rg\<lparr>rg_providers := dm_modify platform (\<lambda>sp. sp\<lparr>sp_staleness := st\<rparr>) (rg_providers rg)\<rparr> in
           case cleared of
             None \<Rightarrow> rg1
           | Some (symbol, since) \<Rightarrow>
               rg1\<lparr>rg_connections := broadcast (data_fresh now platform symbol since) (rg_connections rg1)\<rparr>))"

definition note_quote :: "ws_message \<Rightarrow> registry \<Rightarrow> registry" where
  "note_quote ev rg =
     (case ev of
        WsQuoteData q t \<Rightarrow> rg\<lparr>rg_price_source := map_option (handle_quote (q_symbol q) (q_last q) (t div 1000000)) (rg_price_source rg)\<rparr>
      | _ \<Rightarrow> rg)"

text \<open>An order event gets its correlation id and the entry order it exits; a final one ends the correlation.\<close>

definition enrich :: "string option \<Rightarrow> ws_message \<Rightarrow> registry \<Rightarrow> ws_message \<times> registry" where
  "enrich tracked ev rg =
     (case ev of
        WsOrder oev ord parent t \<Rightarrow>
          (let parent1 = (case parent of Some p \<Rightarrow> Some p | None \<Rightarrow> tracked);
               ord1 = ord\<lparr>o_correlation_id := corr_get (rg_correlation rg) (o_id ord), o_parent_order_id := parent1\<rparr>;
               rg1 = (if oev \<in> {EvOrderFilled, EvOrderRejected, EvOrderCancelled, EvOrderExpired}
                      then rg\<lparr>rg_correlation := snd (corr_remove (o_id ord) (rg_correlation rg))\<rparr> else rg)
           in (WsOrder oev ord1 parent1 t, rg1))
      | _ \<Rightarrow> (ev, rg))"

fun deliver :: "string list \<Rightarrow> ws_message \<Rightarrow> string option \<Rightarrow> connection_manager \<Rightarrow> bool \<Rightarrow> bool \<times> connection_manager" where
  "deliver [] ev eid m any = (any, m)"
| "deliver (i # ids) ev eid m any =
     (case send_to i ev eid m of
        (Inr u, m1) \<Rightarrow> deliver ids ev eid m1 True
      | (Inl e, m1) \<Rightarrow> deliver ids ev eid m1 any)"

definition passes :: "registry \<Rightarrow> ws_message \<Rightarrow> trading_platform \<Rightarrow> bool" where
  "passes rg ev platform =
     ((case dm_get (rg_providers rg) platform of Some sp \<Rightarrow> sp_filters_upstream sp | None \<Rightarrow> False)
      \<or> matches (rg_filter rg) ev platform)"

definition deliver_event :: "ws_message \<Rightarrow> string option \<Rightarrow> trading_platform \<Rightarrow> registry \<Rightarrow> registry" where
  "deliver_event ev eid platform rg =
     (let (delivered, rg1) = (if passes rg ev platform
            then (case deliver (rg_strategies rg) ev eid (rg_connections rg) False of
                    (any, m) \<Rightarrow> (any, rg\<lparr>rg_connections := m\<rparr>))
            else (True, rg))
      in case eid of
        Some i \<Rightarrow> if delivered then rg1\<lparr>rg_bridge := map_option (mark_sent [i]) (rg_bridge rg1)\<rparr> else rg1
      | None \<Rightarrow> rg1)"

definition note_internal :: "ws_message \<Rightarrow> trading_platform \<Rightarrow> registry \<Rightarrow> registry" where
  "note_internal ev platform rg =
     (case ev of
        WsOrder oev ord parent t \<Rightarrow>
          if oev \<in> {EvOrderFilled, EvOrderPartiallyFilled, EvOrderCancelled}
          then rg\<lparr>rg_internal := rg_internal rg @ [internal_event_new ev platform]\<rparr> else rg
      | _ \<Rightarrow> rg)"

definition is_backtest_complete :: "ws_message \<Rightarrow> bool" where
  "is_backtest_complete ev = (case ev of WsBacktestComplete b t \<Rightarrow> True | _ \<Rightarrow> False)"

text \<open>The body of the receiving loop. The flag is whether the end of a backtest was relayed.\<close>

definition provider_event ::
  "(trading_platform \<Rightarrow> 'w env) \<Rightarrow> (trading_platform \<Rightarrow> 'w price_feed) \<Rightarrow> dec_ops \<Rightarrow> (trading_platform \<Rightarrow> 'w native_parent)
     \<Rightarrow> trading_platform \<Rightarrow> ws_message \<Rightarrow> string option \<Rightarrow> bool \<times> registry \<Rightarrow> 'w \<Rightarrow> (bool \<times> registry) \<times> 'w" where
  "provider_event E P D native_parent platform ev eid s w =
     (case s of (relayed, rg) \<Rightarrow>
       (let relayed1 = (relayed \<or> is_backtest_complete ev);
            rg1 = note_quote ev (note_fresh (utc_now (E platform) w) ev platform rg);
            (tracked, rg2, w1) = route_event_through_router E P D native_parent ev platform rg1 w;
            (ev1, rg3) = enrich tracked ev rg2
        in ((relayed1, note_internal ev1 platform (deliver_event ev1 eid platform rg3)), w1)))"

subsection \<open>The end of a stream\<close>

text \<open>What is told when a stream ends; the result is whether the task goes on to reconnect.\<close>

definition stream_ended :: "utc \<Rightarrow> instant \<Rightarrow> trading_platform \<Rightarrow> bool \<times> registry \<Rightarrow> bool \<times> registry" where
  "stream_ended now inst platform s =
     (case s of (relayed, rg) \<Rightarrow>
       (case dm_get (rg_providers rg) platform of
          None \<Rightarrow> (False, rg)
        | Some sp \<Rightarrow>
            if \<not> sp_supports_reconnection sp then
              (if relayed then (False, rg)
               else (False, rg\<lparr>rg_connections := broadcast
                 (if sp_completes sp then backtest_complete now platform else broker_disconnected now platform) (rg_connections rg)\<rparr>))
            else
              (let rg1 = rg\<lparr>rg_connections := broadcast (broker_disconnected now platform) (rg_connections rg),
                            rg_providers := dm_modify platform
                              (\<lambda>sp. sp\<lparr>sp_staleness := mark_all_stale inst now (sp_symbols sp) (sp_staleness sp)\<rparr>) (rg_providers rg)\<rparr>
               in (True, if sp_symbols sp = [] then rg1
                         else rg1\<lparr>rg_connections := broadcast (data_stale now platform (sp_symbols sp)) (rg_connections rg1)\<rparr>))))"

definition rg_reconcile ::
  "(trading_platform \<Rightarrow> 'w env) \<Rightarrow> (string \<Rightarrow> bool) \<Rightarrow> (fetched list \<Rightarrow> fetched list) \<Rightarrow> trading_platform \<Rightarrow> registry \<Rightarrow> 'w \<Rightarrow> registry \<times> 'w" where
  "rg_reconcile E late arrange platform rg w =
     (case dm_get (rg_routers rg) platform of
        None \<Rightarrow> (rg, w)
      | Some r \<Rightarrow> (case reconcile_after_reconnect (E platform) late arrange r w of
                     (r1, w1) \<Rightarrow> (rg\<lparr>rg_routers := dm_insert platform r1 (rg_routers rg)\<rparr>, w1)))"

definition disconnect_shared_provider ::
  "(trading_platform \<Rightarrow> 'w \<Rightarrow> (websocket_error + unit) \<times> 'w) \<Rightarrow> trading_platform \<Rightarrow> registry \<Rightarrow> 'w
     \<Rightarrow> (websocket_error + unit) \<times> registry \<times> 'w" where
  "disconnect_shared_provider disconnect platform rg w =
     (case dm_get (rg_providers rg) platform of
        None \<Rightarrow> (Inl (ConnectionNotFound (''Shared provider for platform '' @ [CHR 0x27] @ header_value platform @ [CHR 0x27] @ '' not found'')), rg, w)
      | Some sp \<Rightarrow>
          (case disconnect platform w of (res, w1) \<Rightarrow> (res, rg\<lparr>rg_providers := dm_remove platform (rg_providers rg)\<rparr>, w1)))"

subsection \<open>Positions from fills\<close>

definition signed_position :: "cached_position option \<Rightarrow> decimal" where
  "signed_position p = (case p of Some c \<Rightarrow> if cp_side c = Short then - cp_quantity c else cp_quantity c | None \<Rightarrow> 0)"

definition calculate_position_qty_from_fill :: "router \<Rightarrow> order \<Rightarrow> decimal option \<Rightarrow> decimal" where
  "calculate_position_qty_from_fill r ord last_fill_qty =
     (let previous_qty = signed_position (get_position_by_symbol (er_state r) (o_symbol ord));
          fill_delta = (case last_fill_qty of Some q \<Rightarrow> q | None \<Rightarrow> o_filled_quantity ord)
      in case o_side ord of Buy \<Rightarrow> previous_qty + fill_delta | Sell \<Rightarrow> previous_qty - fill_delta)"

text \<open>One internal event taken by the task that derives positions.\<close>

definition synthesis_event ::
  "(trading_platform \<Rightarrow> 'w env) \<Rightarrow> (string \<Rightarrow> bool) \<Rightarrow> (fetched list \<Rightarrow> fetched list) \<Rightarrow> internal_trading_event \<Rightarrow> registry \<Rightarrow> 'w \<Rightarrow> registry \<times> 'w" where
  "synthesis_event E late arrange ie rg w =
     (case ie_message ie of
        WsConnection cev err b gap t \<Rightarrow> if cev = EvConnected then rg_reconcile E late arrange (ie_platform ie) rg w else (rg, w)
      | WsOrder oev ord parent t \<Rightarrow>
          if oev \<notin> {EvOrderFilled, EvOrderPartiallyFilled} then (rg, w)
          else (case dm_get (rg_routers rg) (ie_platform ie) of
                  None \<Rightarrow> (rg, w)
                | Some r \<Rightarrow>
                    (let position_qty = (case Option.bind (ie_context ie) oc_position_qty of
                           Some q \<Rightarrow> q
                         | None \<Rightarrow> calculate_position_qty_from_fill r ord (Option.bind (ie_context ie) oc_last_fill_qty))
                     in case synthesize_position_from_fill (E (ie_platform ie)) ord position_qty r w of
                       (r1, w1) \<Rightarrow> (rg\<lparr>rg_routers := dm_insert (ie_platform ie) r1 (rg_routers rg)\<rparr>, w1)))
      | _ \<Rightarrow> (rg, w))"

end
