(* ===== verification/Gw_Registry_Props.thy ===== *)
theory Gw_Registry_Props
  imports Gw_Registry
begin

text \<open>
  What the registry guarantees: which strategies get an event and when the engine's event counts as
  sent, what a slow strategy misses, and how positions are derived from fills.
\<close>

subsection \<open>Delivery\<close>

lemma deliver_frames:
  assumes "distinct ids" "deliver ids ev eid m any = (any', m')"
  shows "any' = (any \<or> (\<exists>i \<in> set ids. has_room m i))
    \<and> (\<forall>j. frames_of m' j = (if j \<in> set ids \<and> has_room m j then frames_of m j @ [(ev, eid)] else frames_of m j))
    \<and> set (dm_keys m') = set (dm_keys m)"
  using assms
proof (induction ids ev eid m any rule: deliver.induct)
  case (2 i ids ev eid m any)
  obtain res m1 where s: "send_to i ev eid m = (res, m1)" by (metis surj_pair)
  have room: "has_room m1 j = has_room m j" if "j \<in> set ids" for j
    using that "2.prems"(1) room_send_to [of j i ev eid m] s by auto
  have sent: "frames_of m1 j = (if j = i \<and> has_room m i then frames_of m i @ [(ev, eid)] else frames_of m j)" for j
    using frames_send_to [of i ev eid m j] s by simp
  have keys: "set (dm_keys m1) = set (dm_keys m)" using keys_send_to [of i ev eid m] s by simp
  have ok: "(\<exists>u. res = Inr u) = has_room m i" using send_to_iff [of i ev eid m] s by simp
  have ih: "any' = (any1 \<or> (\<exists>i \<in> set ids. has_room m1 i))
      \<and> (\<forall>j. frames_of m' j = (if j \<in> set ids \<and> has_room m1 j then frames_of m1 j @ [(ev, eid)] else frames_of m1 j))
      \<and> set (dm_keys m') = set (dm_keys m1)" if "any1 = (any \<or> has_room m i)" for any1
    using "2.IH" "2.prems" s ok that by (cases res) auto
  show ?case using ih [OF refl] "2.prems"(1) room sent keys by auto
qed simp

lemma deliver_event_connections:
  assumes "distinct (rg_strategies rg)"
  shows "frames_of (rg_connections (deliver_event ev eid platform rg)) j =
      (if passes rg ev platform \<and> j \<in> set (rg_strategies rg) \<and> has_room (rg_connections rg) j
       then frames_of (rg_connections rg) j @ [(ev, eid)] else frames_of (rg_connections rg) j)
    \<and> set (dm_keys (rg_connections (deliver_event ev eid platform rg))) = set (dm_keys (rg_connections rg))
    \<and> rg_strategies (deliver_event ev eid platform rg) = rg_strategies rg
    \<and> rg_bridge (deliver_event ev eid platform rg) =
        (case eid of
           Some i \<Rightarrow> if passes rg ev platform \<longrightarrow> (\<exists>c \<in> set (rg_strategies rg). has_room (rg_connections rg) c)
                     then map_option (mark_sent [i]) (rg_bridge rg) else rg_bridge rg
         | None \<Rightarrow> rg_bridge rg)"
proof -
  obtain any m where d: "deliver (rg_strategies rg) ev eid (rg_connections rg) False = (any, m)" by (metis surj_pair)
  show ?thesis
    using deliver_frames [OF assms d] by (auto simp: deliver_event_def Let_def d split: option.splits)
qed

text \<open>
  C17: An event that passes the filter is appended once to the channel of every connected strategy
  that has room, and to no other. The engine's event is marked as sent exactly when some strategy
  got it or the filter declined it, so that a strategy's acknowledgement never releases an event that
  was lost.
\<close>

theorem engine_event_marked_iff_delivered:
  assumes "distinct (rg_strategies rg)" and "rg_bridge rg = Some b"
  shows "frames_of (rg_connections (deliver_event ev (Some i) platform rg)) c =
      (if passes rg ev platform \<and> c \<in> set (rg_strategies rg) \<and> has_room (rg_connections rg) c
       then frames_of (rg_connections rg) c @ [(ev, Some i)] else frames_of (rg_connections rg) c)
    \<and> rg_bridge (deliver_event ev (Some i) platform rg) =
      Some (if passes rg ev platform \<and> (\<forall>c \<in> set (rg_strategies rg). \<not> has_room (rg_connections rg) c) then b else mark_sent [i] b)"
  using deliver_event_connections [OF assms(1), of ev "Some i" platform c] assms(2) by auto

text \<open>
  A strategy whose channel is full misses the event but stays connected and registered: later
  events reach it again once it has caught up, with a hole in its stream.
\<close>

theorem slow_strategy_misses_event_and_stays:
  assumes "distinct (rg_strategies rg)" and "c \<in> set (rg_strategies rg)"
    and full: "dm_get (rg_connections rg) c = Some conn" "ch_capacity (wc_sender conn) \<le> length (ch_queue (wc_sender conn))"
  shows "frames_of (rg_connections (deliver_event ev eid platform rg)) c = ch_queue (wc_sender conn)
    \<and> c \<in> set (rg_strategies (deliver_event ev eid platform rg))
    \<and> c \<in> set (dm_keys (rg_connections (deliver_event ev eid platform rg)))"
proof -
  have "\<not> has_room (rg_connections rg) c" using full by (simp add: has_room_def)
  moreover have "c \<in> set (dm_keys (rg_connections rg))" using full(1) by (simp add: set_dm_keys)
  ultimately show ?thesis
    using deliver_event_connections [OF assms(1), of ev eid platform c] assms(2) full(1) by (simp add: frames_of_def)
qed

subsection \<open>Quote subscriptions\<close>

text \<open>
  A provider subscribed to one symbol and, for another symbol, to quotes, passes for subscribed to the
  quotes of the first: no request is made.
\<close>

lemma quote_subscription_confuses_symbols:
  assumes "rg_providers rg = [(platform, sp)]" "symbol \<in> set (sp_symbols sp)" "''quote'' \<in> set (sp_event_types sp)"
  shows "ensure_quote_subscription provider_subscribe symbol rg w = (rg, w)"
  using assms by (simp add: ensure_quote_subscription_def has_quotes_def)

subsection \<open>Positions from fills\<close>

definition fill_event :: "order_event_type \<Rightarrow> order \<Rightarrow> utc \<Rightarrow> trading_platform \<Rightarrow> internal_trading_event" where
  "fill_event oev ord t platform = internal_event_new (WsOrder oev ord None t) platform"

lemma handle_position_state:
  "ev \<noteq> EvPositionClosed \<Longrightarrow> er_state (fst (handle_position_event E ev p r w)) = upsert_position p (er_state r)"
proof -
  assume ev: "ev \<noteq> EvPositionClosed"
  have "er_state (broadcast_position_event now ev p r') = er_state r'" for now r'
    using same_broadcasts(2) by (simp add: same_components_def)
  then show ?thesis using ev by (cases ev) (simp_all add: handle_position_event_def Let_def)
qed

lemma by_symbol_after_upsert: "get_position_by_symbol (upsert_position p s) (p_symbol p) = Some (cached_position_of p)"
  by (simp add: get_position_by_symbol_def by_symbol_upsert)

lemma synthesized_change: "q \<noteq> 0 \<Longrightarrow> a \<noteq> \<bar>q\<bar> \<Longrightarrow> \<exists>ev. synthesized_event a \<bar>q\<bar> = Some ev \<and> ev \<noteq> EvPositionClosed"
  by (cases "a = 0") (simp_all add: synthesized_event_def)

lemma synthesized_cached:
  assumes "q \<noteq> 0" "(case get_position_by_symbol (er_state r) (o_symbol ord) of Some p \<Rightarrow> cp_quantity p | None \<Rightarrow> 0) \<noteq> \<bar>q\<bar>"
  shows "\<exists>p. get_position_by_symbol (er_state (fst (synthesize_position_from_fill E ord q r w))) (o_symbol ord) = Some p
    \<and> signed_position (Some p) = q"
proof -
  let ?previous = "get_position_by_symbol (er_state r) (o_symbol ord)"
  let ?pos = "synthesized_position (utc_now E w) ord q ?previous"
  obtain ev where ev: "synthesized_event (case ?previous of Some p \<Rightarrow> cp_quantity p | None \<Rightarrow> 0) \<bar>q\<bar> = Some ev" "ev \<noteq> EvPositionClosed"
    using synthesized_change [OF assms] by blast
  have st: "er_state (fst (synthesize_position_from_fill E ord q r w)) = upsert_position ?pos (er_state r)"
    using handle_position_state [OF ev(2)] by (simp add: synthesize_position_from_fill_def ev(1) Let_def)
  have "p_symbol ?pos = o_symbol ord" by (simp add: synthesized_position_def)
  then show ?thesis
    using by_symbol_after_upsert [of ?pos "er_state r"] assms(1)
    by (auto simp: st cached_position_of_def signed_position_def synthesized_position_def)
qed

lemma synthesis_fill:
  assumes "dm_get (rg_routers rg) platform = Some r" "oev \<in> {EvOrderFilled, EvOrderPartiallyFilled}"
  shows "dm_get (rg_routers (fst (synthesis_event E late arrange (fill_event oev ord t platform) rg w))) platform =
    Some (fst (synthesize_position_from_fill (E platform) ord (calculate_position_qty_from_fill r ord None) r w))"
  using assms by (auto simp: synthesis_event_def fill_event_def internal_event_new_def Let_def split: prod.splits)

text \<open>
  An order that is filled in two steps is counted twice: the internal event carries no size of the
  last fill, so the whole filled quantity is added at each step. From a flat position a buy filled to
  \<open>f1\<close> and then to \<open>f2\<close> leaves a cached position of \<open>f1 + f2\<close>.
\<close>

theorem partial_fills_counted_twice:
  assumes r: "dm_get (rg_routers rg) platform = Some r" and flat: "get_position_by_symbol (er_state r) symbol = None"
    and o1: "o_symbol ord1 = symbol" "o_side ord1 = Buy" "o_filled_quantity ord1 = f1"
    and o2: "o_symbol ord2 = symbol" "o_side ord2 = Buy" "o_filled_quantity ord2 = f2"
    and f: "0 < f1" "f1 < f2"
    and run1: "synthesis_event E late arrange (fill_event EvOrderPartiallyFilled ord1 t1 platform) rg w = (rg1, w1)"
    and run2: "synthesis_event E late arrange (fill_event EvOrderFilled ord2 t2 platform) rg1 w1 = (rg2, w2)"
  shows "\<exists>r2 p. dm_get (rg_routers rg2) platform = Some r2
    \<and> get_position_by_symbol (er_state r2) symbol = Some p \<and> signed_position (Some p) = f1 + f2"
proof -
  have q1: "calculate_position_qty_from_fill r ord1 None = f1"
    using o1 flat by (simp add: calculate_position_qty_from_fill_def signed_position_def)
  define r1 where "r1 = fst (synthesize_position_from_fill (E platform) ord1 f1 r w)"
  have r1: "dm_get (rg_routers rg1) platform = Some r1"
    using synthesis_fill [OF r, of EvOrderPartiallyFilled E late arrange ord1 t1 w] run1 q1 by (simp add: r1_def)
  obtain p1 where p1: "get_position_by_symbol (er_state r1) symbol = Some p1" "signed_position (Some p1) = f1"
    using synthesized_cached [of f1 r ord1 "E platform" w] o1(1) flat f(1) by (auto simp: r1_def)
  have q2: "calculate_position_qty_from_fill r1 ord2 None = f1 + f2"
    using o2 p1 by (simp add: calculate_position_qty_from_fill_def)
  have "cp_quantity p1 \<noteq> \<bar>f1 + f2\<bar>"
    using p1(2) f by (auto simp: signed_position_def split: if_splits)
  then obtain p where "get_position_by_symbol (er_state (fst (synthesize_position_from_fill (E platform) ord2 (f1 + f2) r1 w1))) symbol = Some p"
      "signed_position (Some p) = f1 + f2"
    using synthesized_cached [of "f1 + f2" r1 ord2 "E platform" w1] o2(1) p1(1) f by auto
  moreover have "dm_get (rg_routers rg2) platform = Some (fst (synthesize_position_from_fill (E platform) ord2 (f1 + f2) r1 w1))"
    using synthesis_fill [OF r1, of EvOrderFilled E late arrange ord2 t2 w1] run2 q2 by simp
  ultimately show ?thesis by blast
qed

text \<open>
  The event of a closing fill names the position \<open>symbol_position\<close>. A cached position that came
  from the broker under an id of its own stays cached and found by its symbol after the fill
  that closed it.
\<close>

theorem closing_fill_keeps_broker_position:
  assumes "get_position_by_symbol (er_state r) (o_symbol ord) = Some p" "cp_quantity p \<noteq> 0"
    and own: "get_position (er_state r) (o_symbol ord @ ''_position'') = None"
  shows "get_position_by_symbol (er_state (fst (synthesize_position_from_fill E ord 0 r w))) (o_symbol ord) = Some p"
proof -
  let ?pos = "synthesized_position (utc_now E w) ord 0 (Some p)"
  have gone: "snd (remove_position (p_id ?pos) (er_state r)) = er_state r"
    using own by (simp add: remove_position_def synthesized_position_def get_position_def)
  have b: "er_state (broadcast_position_event now pev p' r') = er_state r'" for now pev p' r'
    using same_broadcasts(2) by (simp add: same_components_def)
  have "er_state (fst (handle_position_event E EvPositionClosed ?pos r w)) = er_state r"
    by (auto simp: handle_position_event_def Let_def gone b split: prod.splits)
  then show ?thesis
    using assms(1,2) by (simp add: synthesize_position_from_fill_def synthesized_event_def)
qed

end
