(* ===== verification/Gw_Server.thy ===== *)
theory Gw_Server
  imports Gw_Registry_Props
begin

text \<open>
  The strategy's side of the gateway (\<open>websocket/server.rs\<close>), the adapters' answer from the links
  of native brackets, the registry of exit handlers (\<open>exit_management/registry.rs\<close>) and
  the state written down at a shutdown (\<open>shutdown.rs\<close>). Sockets, files and JSON text are left out.
\<close>

subsection \<open>A strategy's connection\<close>

definition ws_client_channel_capacity :: nat where
  "ws_client_channel_capacity = 1024"

text \<open>The platforms whose data is stale are reported to a new connection.\<close>

definition stale_snapshot :: "utc \<Rightarrow> trading_platform \<Rightarrow> (string \<times> utc) list \<Rightarrow> ws_message" where
  "stale_snapshot now platform stale =
     WsDataStaleness EvStale (map fst stale) (Some (fold min (map snd (tl stale)) (snd (hd stale))))
       (Some (header_value platform)) now"

definition send_snapshot :: "utc \<Rightarrow> string \<Rightarrow> trading_platform \<Rightarrow> registry \<Rightarrow> registry" where
  "send_snapshot now conn_id platform rg =
     (case get_staleness_with_times rg platform of
        None \<Rightarrow> rg
      | Some stale \<Rightarrow>
          if stale = [] then rg
          else rg\<lparr>rg_connections := snd (send_to conn_id (stale_snapshot now platform stale) None (rg_connections rg))\<rparr>)"

definition open_connection :: "utc \<Rightarrow> instant \<Rightarrow> string \<Rightarrow> string \<Rightarrow> registry \<Rightarrow> registry" where
  "open_connection now inst conn_id addr rg =
     (let sender = \<lparr>ch_capacity = ws_client_channel_capacity, ch_queue = [], ch_closed = False\<rparr>;
          rg1 = rg\<lparr>rg_connections := add_connection (ws_connection_new conn_id sender addr inst) (rg_connections rg)\<rparr>;
          rg2 = register_strategy_connection conn_id rg1
      in fold (send_snapshot now conn_id) (connected_platforms rg2) rg2)"

definition close_connection :: "string \<Rightarrow> registry \<Rightarrow> registry" where
  "close_connection conn_id rg =
     (let rg1 = unregister_strategy_connection conn_id rg
      in rg1\<lparr>rg_connections := remove_connection conn_id (rg_connections rg1)\<rparr>)"

text \<open>A parsed message of a strategy; anything but an acknowledgement is only logged.\<close>

definition handle_ws_message :: "ws_message \<Rightarrow> registry \<Rightarrow> registry" where
  "handle_ws_message msg rg = (case msg of WsEventAck i ids t \<Rightarrow> rg_handle_strategy_ack ids rg | _ \<Rightarrow> rg)"

lemma snapshot_strategies [simp]: "rg_strategies (send_snapshot now i p rg) = rg_strategies rg"
  by (simp add: send_snapshot_def split: option.splits)

lemma snapshot_keys: "set (dm_keys (rg_connections (send_snapshot now i p rg))) = set (dm_keys (rg_connections rg))"
  by (simp add: send_snapshot_def keys_send_to split: option.splits)

text \<open>Every strategy has a connection, and none is listed twice.\<close>

definition connections_ok :: "registry \<Rightarrow> bool" where
  "connections_ok rg = (distinct (rg_strategies rg) \<and> set (rg_strategies rg) = set (dm_keys (rg_connections rg)))"

lemma fold_snapshot_ok: "connections_ok (fold (send_snapshot now i) ps rg) = connections_ok rg"
  by (induction ps arbitrary: rg) (simp_all add: connections_ok_def snapshot_keys)

lemma open_connection_ok: "connections_ok rg \<Longrightarrow> connections_ok (open_connection now inst i addr rg)"
  unfolding open_connection_def Let_def fold_snapshot_ok
  by (auto simp: connections_ok_def register_strategy_connection_def
      add_connection_def ws_connection_new_def dm_keys_insert hs_insert_def)

lemma close_connection_ok: "connections_ok rg \<Longrightarrow> connections_ok (close_connection i rg)"
  by (auto simp: close_connection_def Let_def connections_ok_def unregister_strategy_connection_def remove_connection_def
      set_dm_keys dm_get_remove distinct_removeAll)

lemma deliver_event_ok: "connections_ok rg \<Longrightarrow> connections_ok (deliver_event ev eid platform rg)"
  using deliver_event_connections [of rg ev eid platform] by (auto simp: connections_ok_def)

subsection \<open>Links of native brackets\<close>

text \<open>The answer of the adapters that read native brackets; a final order ends its link.\<close>

definition bracket_parent :: "string \<Rightarrow> order_status \<Rightarrow> bracket_links \<Rightarrow> string option \<times> bracket_links" where
  "bracket_parent order_id status l =
     (bl_parent_of l order_id, if order_status_is_terminal status then bl_release order_id l else l)"

lemma bracket_parent_final:
  "bracket_parent i st (bl_record i p l) = (Some p, if order_status_is_terminal st then bl_release i (bl_record i p l) else bl_record i p l)"
  "order_status_is_terminal st \<Longrightarrow> bl_parent_of (snd (bracket_parent i st l)) j = (if j = i then None else bl_parent_of l j)"
  by (auto simp: bracket_parent_def bl_record_def bl_parent_of_def bl_release_def dm_get_remove)

subsection \<open>The exit handlers of all platforms\<close>

type_synonym exit_registry = "(trading_platform, exit_handler) dmap"

definition xr_register :: "trading_platform \<Rightarrow> exit_handler \<Rightarrow> exit_registry \<Rightarrow> exit_registry" where
  "xr_register platform h x = dm_insert platform h x"

definition xr_get :: "exit_registry \<Rightarrow> trading_platform \<Rightarrow> exit_handler option" where
  "xr_get x platform = dm_get x platform"

definition total_pending_count :: "exit_registry \<Rightarrow> nat" where
  "total_pending_count x = sum_list (map (\<lambda>p. pending_count (snd p)) x)"

definition primary_orders_count :: "exit_handler \<Rightarrow> nat" where
  "primary_orders_count h = length (eh_primary h)"

definition total_primary_orders_count :: "exit_registry \<Rightarrow> nat" where
  "total_primary_orders_count x = sum_list (map (\<lambda>p. primary_orders_count (snd p)) x)"

subsection \<open>Shutdown\<close>

record exit_state_entry =
  se_placeholder_id :: string
  se_primary_order_id :: string
  se_symbol :: string
  se_side :: side
  se_order_type :: exit_leg_type
  se_trigger_price :: decimal
  se_limit_price :: "decimal option"
  se_quantity :: decimal
  se_original_quantity :: decimal
  se_status :: string
  se_platform :: trading_platform
  se_actual_order_ids :: "string list"
  se_created_at :: utc
  se_updated_at :: "utc option"

fun reason_debug :: "cancellation_reason \<Rightarrow> string" where
  "reason_debug PrimaryCancelled = ''PrimaryCancelled''"
| "reason_debug PrimaryRejected = ''PrimaryRejected''"
| "reason_debug SiblingFilled = ''SiblingFilled''"
| "reason_debug UserRequested = ''UserRequested''"
| "reason_debug PositionClosed = ''PositionClosed''"
| "reason_debug SystemCleanup = ''SystemCleanup''"
| "reason_debug OcoSucceeded = ''OcoSucceeded''"

fun status_string :: "exit_entry_status \<Rightarrow> string" where
  "status_string EntryPending = ''pending''"
| "status_string (EntryPartiallyTriggered f t aos) = ''partially_triggered''"
| "status_string (EntryPlaced aos) = ''placed''"
| "status_string (EntryFailed e n t aos) = ''failed: '' @ e"
| "status_string (EntryCancelled t reason) = ''cancelled: '' @ reason_debug reason"
| "status_string (EntryExpired t) = ''expired''"

definition from_exit_entry :: "exit_entry \<Rightarrow> exit_state_entry" where
  "from_exit_entry e =
     \<lparr>se_placeholder_id = ee_placeholder_id e, se_primary_order_id = ee_primary_order_id e, se_symbol = ee_symbol e,
      se_side = ee_side e, se_order_type = ee_order_type e, se_trigger_price = ee_trigger_price e,
      se_limit_price = ee_limit_price e, se_quantity = ee_quantity e, se_original_quantity = ee_original_quantity e,
      se_status = status_string (ee_status e), se_platform = ee_platform e,
      se_actual_order_ids = map ao_order_id (actual_orders (ee_status e)),
      se_created_at = ee_created_at_utc e, se_updated_at = ee_updated_at e\<rparr>"

text \<open>The snapshot, or none when there is nothing to write.\<close>

definition exit_state_snapshot :: "utc \<Rightarrow> exit_registry \<Rightarrow> (utc \<times> exit_state_entry list) option" where
  "exit_state_snapshot now x =
     (let entries = concat (map (\<lambda>p. map from_exit_entry (get_non_terminal_entries (snd p))) x)
      in if entries = [] then None else Some (now, entries))"

text \<open>
  Every entry that still has orders at the broker, or none yet, is in the snapshot, and the entries of
  the snapshot list exactly the orders recorded for them.
\<close>

lemma snapshot_complete:
  assumes "(platform, h) \<in> set x" "get_entry h k = Some e" "actual_orders (ee_status e) \<noteq> [] \<or> ee_status e = EntryPending"
  shows "\<exists>entries. exit_state_snapshot now x = Some (now, entries) \<and> from_exit_entry e \<in> set entries"
proof -
  have "(k, e) \<in> set (eh_pending h)" using assms(2) by (simp add: get_entry_def dm_get_SomeD)
  then have "e \<in> set (get_non_terminal_entries h)"
    using assms(3) by (cases "ee_status e") (force simp: get_non_terminal_entries_def)+
  then have "from_exit_entry e \<in> set (concat (map (\<lambda>p. map from_exit_entry (get_non_terminal_entries (snd p))) x))"
    using assms(1) by force
  then show ?thesis unfolding exit_state_snapshot_def Let_def by (metis empty_iff empty_set)
qed

end
