(* ===== verification/Gw_Gateway_Demo.thy ===== *)
theory Gw_Gateway_Demo
  imports Gw_Server Gw_Trailing_Demo
begin

text \<open>The properties of the router and of the registry, evaluated on concrete events.\<close>

definition demo_router :: router where
  "demo_router = (router_new state_manager_new (exit_handler_new BinanceSpotLive exit_handler_config_default) 1 BinanceSpotLive)
     \<lparr>er_adapter := True\<rparr>"

definition grouped :: "string \<Rightarrow> order" where
  "grouped i = (demo_order i 2)\<lparr>o_oco_group_id := Some ''g'', o_filled_quantity := 2\<rparr>"

definition demo_created :: "router \<times> order_request list" where
  "demo_created = handle_order_event demo_env demo_feed exact_ops EvOrderCreated (grouped ''a'') None demo_router []"


theorem order_event_told_last_witness:
  "er_sent (fst demo_created) = [WsOrder EvOrderCreated (grouped ''a'') None (utc_now demo_env (snd demo_created))]"
proof -
  have pre: "0 < er_receivers demo_router" "er_broadcast_enabled demo_router" "er_sent demo_router = []" by code_simp+
  have "handle_order_event demo_env demo_feed exact_ops EvOrderCreated (grouped ''a'') None demo_router [] =
      (fst demo_created, snd demo_created)"
    by (simp add: demo_created_def)
  from order_event_told_last [OF pre(1,2) this] show ?thesis by (simp add: tells_def pre(3))
qed

definition demo_group :: router where
  "demo_group = demo_router\<lparr>er_state := upsert_order (grouped ''b'') (upsert_order (grouped ''a'') state_manager_new)\<rparr>"

theorem group_fill_cancels_siblings_once_witness:
  "\<exists>r1 w1 r2 w2 m. cancel_oco_siblings (traced demo_env) (grouped ''a'') demo_group ([], []) = (r1, w1, [CallCancel ''b''])
    \<and> cancel_oco_siblings (traced demo_env) (grouped ''b'') r1 (w1, []) = (r2, w2, [])
    \<and> er_sent r2 = [m] \<and> is_alert m"
proof -
  obtain r1 w1 c1 where a: "cancel_oco_siblings (traced demo_env) (grouped ''a'') demo_group ([], []) = (r1, w1, c1)"
    by (metis prod_cases3)
  obtain r2 w2 c2 where b: "cancel_oco_siblings (traced demo_env) (grouped ''b'') r1 (w1, []) = (r2, w2, c2)"
    by (metis prod_cases3)
  have g: "o_oco_group_id (grouped i) = Some ''g''" for i by (simp add: grouped_def)
  have fresh: "dm_get (sm_oco_fills (er_state demo_group)) ''g'' = None" by code_simp
  have recv: "0 < er_receivers demo_group" and none: "er_sent demo_group = []" by code_simp+
  have sib: "get_oco_siblings (er_state demo_group) ''g'' (o_id (grouped ''a'')) = [''b'']" by code_simp
  show ?thesis
    using group_fill_cancels_siblings_once [OF g g fresh recv a b] a b none sib by simp
qed

theorem unreported_group_is_not_cancelled_witness:
  "cancel_oco_siblings demo_env (demo_order ''a'' 2) (update_state_for_order_event EvOrderFilled (demo_order ''a'' 2) demo_group) [] =
      (update_state_for_order_event EvOrderFilled (demo_order ''a'' 2) demo_group, [])
    \<and> get_oco_siblings (er_state demo_group) ''g'' ''a'' = [''b'']"
proof -
  have exact: "groups_exact (er_state demo_group)"
    unfolding demo_group_def by (simp add: exact_upsert new_inv(1))
  have wf: "dm_wf (sm_oco_groups (er_state demo_group))" by code_simp
  have none: "o_oco_group_id (demo_order ''a'' 2) = None" by (simp add: demo_order_def)
  have sib: "get_oco_siblings (er_state demo_group) ''g'' ''a'' = [''b'']" by code_simp
  show ?thesis
    using sib by (rule conjI [OF unreported_group_is_not_cancelled [OF exact none wf refl]])
qed

definition demo_reconciled :: "router \<times> order_request list" where
  "demo_reconciled = reconcile_after_reconnect demo_env (\<lambda>i. False) (\<lambda>fs. fs) demo_router []"


theorem router_messages_reach_nobody_witness:
  "er_sent (fst (handle_connection_event 0 EvConnected None (wired_router SaxoLive exit_handler_config_default), [])) = []"
proof -
  let ?r0 = "wired_router SaxoLive exit_handler_config_default"
  have "reachable (\<lambda>s. \<exists>platform config. fst s = wired_router platform config) (gateway_step demo_env demo_feed exact_ops {}) (?r0, [])"
    by (rule reach_init) auto
  moreover have "gateway_step demo_env demo_feed exact_ops {} (?r0, []) (handle_connection_event 0 EvConnected None ?r0, [])"
    by (rule gateway_connection)
  ultimately have "reachable (\<lambda>s. \<exists>platform config. fst s = wired_router platform config) (gateway_step demo_env demo_feed exact_ops {})
      (handle_connection_event 0 EvConnected None ?r0, [])"
    by (rule reach_step)
  from router_messages_reach_nobody [OF this] show ?thesis by simp
qed

subsection \<open>The registry\<close>

definition demo_conn :: "nat \<Rightarrow> string \<Rightarrow> ws_connection" where
  "demo_conn n i = ws_connection_new i \<lparr>ch_capacity = n, ch_queue = [], ch_closed = False\<rparr> ''addr'' 0"

definition demo_registry :: registry where
  "demo_registry = (registry_new [(''fast'', demo_conn 8 ''fast''), (''slow'', demo_conn 0 ''slow'')]
      (subscription_filter_new []) reconnection_config_default [])
     \<lparr>rg_strategies := [''slow'', ''fast''], rg_bridge := Some (register_pending ''e'' ack_bridge_create),
      rg_routers := [(BinanceSpotLive, demo_router)], rg_adapters := [BinanceSpotLive]\<rparr>"

definition demo_ping :: ws_message where
  "demo_ping = WsPing 0"

theorem engine_event_marked_iff_delivered_witness:
  "frames_of (rg_connections (deliver_event demo_ping (Some ''e'') BinanceSpotLive demo_registry)) ''fast'' = [(demo_ping, Some ''e'')]
    \<and> rg_bridge (deliver_event demo_ping (Some ''e'') BinanceSpotLive demo_registry) =
        Some (mark_sent [''e''] (register_pending ''e'' ack_bridge_create))"
proof -
  have d: "distinct (rg_strategies demo_registry)" by code_simp
  have b: "rg_bridge demo_registry = Some (register_pending ''e'' ack_bridge_create)" by (simp add: demo_registry_def)
  have "passes demo_registry demo_ping BinanceSpotLive" "''fast'' \<in> set (rg_strategies demo_registry)"
    "has_room (rg_connections demo_registry) ''fast''" "frames_of (rg_connections demo_registry) ''fast'' = []" by code_simp+
  then show ?thesis using engine_event_marked_iff_delivered [OF d b, of demo_ping "''e''" BinanceSpotLive "''fast''"] by auto
qed

theorem slow_strategy_misses_event_and_stays_witness:
  "frames_of (rg_connections (deliver_event demo_ping None BinanceSpotLive demo_registry)) ''slow'' = []
    \<and> ''slow'' \<in> set (rg_strategies (deliver_event demo_ping None BinanceSpotLive demo_registry))"
proof -
  have "distinct (rg_strategies demo_registry)" "''slow'' \<in> set (rg_strategies demo_registry)" by code_simp+
  moreover have "dm_get (rg_connections demo_registry) ''slow'' = Some (demo_conn 0 ''slow'')" by code_simp
  moreover have "ch_capacity (wc_sender (demo_conn 0 ''slow'')) \<le> length (ch_queue (wc_sender (demo_conn 0 ''slow'')))" by code_simp
  ultimately show ?thesis
    using slow_strategy_misses_event_and_stays [of demo_registry "''slow''" "demo_conn 0 ''slow''" demo_ping None BinanceSpotLive]
    by (simp add: demo_conn_def ws_connection_new_def)
qed

definition bought :: "decimal \<Rightarrow> order" where
  "bought q = (demo_order ''a'' 2)\<lparr>o_side := Buy, o_filled_quantity := q\<rparr>"

theorem partial_fills_counted_twice_witness:
  "\<exists>rg1 w1 rg2 w2 r2 p.
      synthesis_event (\<lambda>p. demo_env) (\<lambda>i. False) (\<lambda>fs. fs) (fill_event EvOrderPartiallyFilled (bought 1) 0 BinanceSpotLive) demo_registry [] = (rg1, w1)
    \<and> synthesis_event (\<lambda>p. demo_env) (\<lambda>i. False) (\<lambda>fs. fs) (fill_event EvOrderFilled (bought 2) 0 BinanceSpotLive) rg1 w1 = (rg2, w2)
    \<and> dm_get (rg_routers rg2) BinanceSpotLive = Some r2
    \<and> get_position_by_symbol (er_state r2) ''E'' = Some p \<and> signed_position (Some p) = 3"
proof -
  let ?step = "\<lambda>ev q. synthesis_event (\<lambda>p. demo_env) (\<lambda>i. False) (\<lambda>fs. fs) (fill_event ev (bought q) 0 BinanceSpotLive)"
  obtain rg1 w1 where run1: "?step EvOrderPartiallyFilled 1 demo_registry [] = (rg1, w1)" by (metis surj_pair)
  obtain rg2 w2 where run2: "?step EvOrderFilled 2 rg1 w1 = (rg2, w2)" by (metis surj_pair)
  have r: "dm_get (rg_routers demo_registry) BinanceSpotLive = Some demo_router" by (simp add: demo_registry_def)
  have flat: "get_position_by_symbol (er_state demo_router) ''E'' = None" by code_simp
  have "\<exists>r2 p. dm_get (rg_routers rg2) BinanceSpotLive = Some r2
      \<and> get_position_by_symbol (er_state r2) ''E'' = Some p \<and> signed_position (Some p) = 1 + 2"
    by (rule partial_fills_counted_twice [OF r flat _ _ _ _ _ _ _ _ run1 run2]) (simp_all add: bought_def demo_order_def)
  then show ?thesis using run1 run2 by auto
qed

definition broker_position :: position where
  "broker_position = (synthesized_position 0 (bought 2) 2 None)\<lparr>p_id := ''E_LONG''\<rparr>"

theorem closing_fill_keeps_broker_position_witness:
  "get_position_by_symbol (er_state (fst (synthesize_position_from_fill demo_env (demo_order ''c'' 2) 0
      (demo_router\<lparr>er_state := upsert_position broker_position state_manager_new\<rparr>) []))) ''E'' =
    Some (cached_position_of broker_position)"
proof -
  let ?r = "demo_router\<lparr>er_state := upsert_position broker_position state_manager_new\<rparr>"
  have sym: "o_symbol (demo_order ''c'' 2) = ''E''" by (simp add: demo_order_def)
  have "get_position_by_symbol (er_state ?r) (o_symbol (demo_order ''c'' 2)) = Some (cached_position_of broker_position)"
    "cp_quantity (cached_position_of broker_position) \<noteq> 0"
    "get_position (er_state ?r) (o_symbol (demo_order ''c'' 2) @ ''_position'') = None" by code_simp+
  from closing_fill_keeps_broker_position [OF this, of demo_env "[]"] show ?thesis unfolding sym .
qed

end
