(* ===== verification/Gw_Mock.thy ===== *)
theory Gw_Mock
  imports Gw_Trailing_Types Gw_Messages
begin

text \<open>
  The mock broker (\<open>crates/mock/src/adapter.rs\<close>, \<open>price.rs\<close>): orders, positions and trades in
  memory, fills that happen half a second after the submission in one or two tranches, and synthetic
  prices. Its world is the state of the broker with the clock, the events it sent, the fills that are
  scheduled, and the numbers of ids and of random steps drawn so far. What the source draws from
  outside is in \<open>mock_source\<close>: the fresh ids, the factors of the random walk and the volumes,
  the decimal operations and their text form, and the configured ratio of the first tranche.
\<close>

record mock_source =
  mk_uuid :: "nat \<Rightarrow> string"
  mk_walk :: "nat \<Rightarrow> decimal"
  mk_volume :: "nat \<Rightarrow> decimal"
  mk_ops :: dec_ops
  mk_to_string :: "decimal \<Rightarrow> string"
  mk_from_str :: "string \<Rightarrow> decimal option"
  mk_status_debug :: "exit_entry_status \<Rightarrow> string"
  mk_ratio :: "decimal option"

record scheduled_fill =
  sf_order_id :: string
  sf_symbol :: string
  sf_side :: side
  sf_quantity :: decimal
  sf_order_type :: order_type
  sf_limit_price :: "decimal option"
  sf_stop_price :: "decimal option"
  sf_remainder :: "decimal option"

text \<open>\<open>sf_remainder\<close> is set between the two tranches of a fill.\<close>

record mock_world =
  mw_orders :: "(string, order) dmap"
  mw_positions :: "(string, position) dmap"
  mw_trades :: "trade list"
  mw_prices :: "(string, decimal) dmap"
  mw_sink :: bool
  mw_events :: "ws_message list"
  mw_scheduled :: "scheduled_fill list"
  mw_now :: utc
  mw_ids :: nat
  mw_draws :: nat

definition mock_world_new :: "utc \<Rightarrow> mock_world" where
  "mock_world_new now = \<lparr>mw_orders = [], mw_positions = [], mw_trades = [], mw_prices = [], mw_sink = False,
     mw_events = [], mw_scheduled = [], mw_now = now, mw_ids = 0, mw_draws = 0\<rparr>"

text \<open>The ratio of a first tranche must be strictly between 0 and 1.\<close>

definition with_partial_fill_ratio :: "decimal \<Rightarrow> mock_source \<Rightarrow> mock_source" where
  "with_partial_fill_ratio ratio S = (if 0 < ratio \<and> ratio < 1 then S\<lparr>mk_ratio := Some ratio\<rparr> else S)"

subsection \<open>Prices\<close>

definition ascii_upper :: "string \<Rightarrow> string" where
  "ascii_upper s = map (\<lambda>c. let n = of_char c :: nat in if 97 \<le> n \<and> n \<le> 122 then char_of (n - 32) else c) s"

definition seed_price :: "string \<Rightarrow> decimal" where
  "seed_price symbol =
     (let s = ascii_upper symbol in
      if s \<in> {''AAPL'', ''USD/JPY'', ''USDJPY''} then 150
      else if s = ''MSFT'' then 400
      else if s \<in> {''GOOG'', ''GOOGL''} then 170
      else if s = ''AMZN'' then 180
      else if s = ''TSLA'' then 250
      else if s = ''NVDA'' then 800
      else if s \<in> {''BTC/USD'', ''BTCUSD''} then 50000
      else if s \<in> {''ETH/USD'', ''ETHUSD''} then 3000
      else if s \<in> {''EUR/USD'', ''EURUSD''} then 108 / 100
      else if s \<in> {''GBP/USD'', ''GBPUSD''} then 127 / 100
      else 100)"

definition get_price :: "mock_source \<Rightarrow> string \<Rightarrow> mock_world \<Rightarrow> decimal \<times> mock_world" where
  "get_price S symbol w =
     (let p = (case dm_get (mw_prices w) symbol of Some p \<Rightarrow> p | None \<Rightarrow> seed_price symbol);
          p1 = max (d_mul (mk_ops S) p (mk_walk S (mw_draws w))) (1 / 100)
      in (p1, w\<lparr>mw_prices := dm_insert symbol p1 (mw_prices w), mw_draws := mw_draws w + 1\<rparr>))"

definition get_quote :: "mock_source \<Rightarrow> string \<Rightarrow> mock_world \<Rightarrow> quote \<times> mock_world" where
  "get_quote S symbol w =
     (case get_price S symbol w of
        (last_price, w1) \<Rightarrow>
          (let spread = max (d_mul (mk_ops S) last_price (1 / 10000)) (1 / 100) in
           (\<lparr>q_symbol = symbol, q_provider = ''mock'', q_bid = last_price - spread, q_bid_size = Some 100,
             q_ask = last_price + spread, q_ask_size = Some 100, q_last = last_price, q_volume = Some 50000,
             q_timestamp = mw_now w1\<rparr>, w1)))"

subsection \<open>Fills\<close>

definition mk_send_event :: "ws_message \<Rightarrow> mock_world \<Rightarrow> mock_world" where
  "mk_send_event m w = (if mw_sink w then w\<lparr>mw_events := mw_events w @ [m]\<rparr> else w)"

definition fresh_id :: "mock_source \<Rightarrow> mock_world \<Rightarrow> string \<times> mock_world" where
  "fresh_id S w = (mk_uuid S (mw_ids w), w\<lparr>mw_ids := mw_ids w + 1\<rparr>)"

definition opened_position :: "utc \<Rightarrow> string \<Rightarrow> position_side \<Rightarrow> decimal \<Rightarrow> decimal \<Rightarrow> position" where
  "opened_position now symbol ps quantity fill_price =
     \<lparr>p_id = ''mock-pos-'' @ symbol, p_symbol = symbol, p_side = ps, p_quantity = quantity,
      p_average_entry_price = fill_price, p_current_price = fill_price, p_unrealized_pnl = 0, p_realized_pnl = 0,
      p_margin_mode = None, p_leverage = None, p_liquidation_price = None, p_opened_at = now, p_updated_at = now\<rparr>"

text \<open>
  Netting: fills of the position's side add up, opposite ones reduce or turn it. The result is False
  when the average is divided by a quantity of zero, where the source panics after having changed
  the quantity.
\<close>

definition mk_upsert_position :: "mock_source \<Rightarrow> string \<Rightarrow> side \<Rightarrow> decimal \<Rightarrow> decimal \<Rightarrow> mock_world \<Rightarrow> bool \<times> mock_world" where
  "mk_upsert_position S symbol sd quantity fill_price w =
     (let fill_side = (case sd of Buy \<Rightarrow> Long | Sell \<Rightarrow> Short);
          touch = (\<lambda>p. p\<lparr>p_current_price := fill_price, p_updated_at := mw_now w\<rparr>);
          put = (\<lambda>p. w\<lparr>mw_positions := dm_insert symbol p (mw_positions w)\<rparr>)
      in case dm_get (mw_positions w) symbol of
        None \<Rightarrow> (True, put (opened_position (mw_now w) symbol fill_side quantity fill_price))
      | Some p \<Rightarrow>
          if p_side p = fill_side then
            (let total_cost = d_mul (mk_ops S) (p_average_entry_price p) (p_quantity p) + d_mul (mk_ops S) fill_price quantity;
                 q = p_quantity p + quantity
             in if q = 0 then (False, put (p\<lparr>p_quantity := q\<rparr>))
                else (True, put (touch (p\<lparr>p_quantity := q, p_average_entry_price := d_div (mk_ops S) total_cost q\<rparr>))))
          else if p_quantity p \<le> quantity then
            (if quantity - p_quantity p = 0 then (True, w\<lparr>mw_positions := dm_remove symbol (mw_positions w)\<rparr>)
             else (True, put (touch (p\<lparr>p_side := fill_side, p_quantity := quantity - p_quantity p,
                                       p_average_entry_price := fill_price\<rparr>))))
          else (True, put (touch (p\<lparr>p_quantity := p_quantity p - quantity\<rparr>))))"

definition filled_order :: "mock_source \<Rightarrow> utc \<Rightarrow> decimal \<Rightarrow> decimal \<Rightarrow> order \<Rightarrow> order" where
  "filled_order S now fill_quantity fill_price ord =
     (let total_filled = o_filled_quantity ord + fill_quantity;
          notional = d_mul (mk_ops S) (case o_average_fill_price ord of Some p \<Rightarrow> p | None \<Rightarrow> 0) (o_filled_quantity ord)
                     + d_mul (mk_ops S) fill_price fill_quantity;
          avg = (if 0 < total_filled then Some (d_div (mk_ops S) notional total_filled) else o_average_fill_price ord);
          remaining = o_quantity ord - total_filled
      in ord\<lparr>o_average_fill_price := avg, o_filled_quantity := total_filled, o_remaining_quantity := remaining,
             o_status := (if 0 < remaining then PartiallyFilled else Filled), o_updated_at := now\<rparr>)"

definition mock_trade :: "string \<Rightarrow> string \<Rightarrow> string \<Rightarrow> side \<Rightarrow> decimal \<Rightarrow> decimal \<Rightarrow> utc \<Rightarrow> trade" where
  "mock_trade i order_id symbol sd quantity price now =
     \<lparr>t_id = i, t_order_id = order_id, t_symbol = symbol, t_side = sd, t_quantity = quantity, t_price = price,
      t_commission = 0, t_commission_currency = ''USD'', t_is_maker = Some False, t_timestamp = now\<rparr>"

definition apply_fill ::
  "mock_source \<Rightarrow> string \<Rightarrow> string \<Rightarrow> side \<Rightarrow> decimal \<Rightarrow> decimal \<Rightarrow> mock_world \<Rightarrow> order option \<times> mock_world" where
  "apply_fill S order_id symbol sd fill_quantity fill_price w =
     (case dm_get (mw_orders w) order_id of
        None \<Rightarrow> (None, w)
      | Some ord \<Rightarrow>
          if o_status ord = Cancelled then (None, w)
          else
            (let ord1 = filled_order S (mw_now w) fill_quantity fill_price ord;
                 w1 = w\<lparr>mw_orders := dm_insert order_id ord1 (mw_orders w)\<rparr>;
                 (i, w2) = fresh_id S w1;
                 w3 = w2\<lparr>mw_trades := mw_trades w2 @ [mock_trade i order_id symbol sd fill_quantity fill_price (mw_now w2)]\<rparr>
             in case mk_upsert_position S symbol sd fill_quantity fill_price w3 of
               (ok, w4) \<Rightarrow> (if ok then Some ord1 else None, w4)))"

fun price_reached :: "side \<Rightarrow> decimal option \<Rightarrow> decimal \<Rightarrow> bool" where
  "price_reached Buy (Some sp) price = (sp \<le> price)"
| "price_reached Sell (Some sp) price = (price \<le> sp)"
| "price_reached sd None price = True"

fun price_within :: "side \<Rightarrow> decimal option \<Rightarrow> decimal \<Rightarrow> bool" where
  "price_within Buy (Some lp) price = (price \<le> lp)"
| "price_within Sell (Some lp) price = (lp \<le> price)"
| "price_within sd None price = True"

definition should_fill :: "scheduled_fill \<Rightarrow> decimal \<Rightarrow> bool" where
  "should_fill f price =
     (case sf_order_type f of
        Market \<Rightarrow> True
      | TrailingStop \<Rightarrow> True
      | Limit \<Rightarrow> price_within (sf_side f) (sf_limit_price f) price
      | Stop \<Rightarrow> price_reached (sf_side f) (sf_stop_price f) price
      | StopLimit \<Rightarrow> price_reached (sf_side f) (sf_stop_price f) price \<and> price_within (sf_side f) (sf_limit_price f) price)"

definition first_tranche :: "mock_source \<Rightarrow> decimal \<Rightarrow> decimal option" where
  "first_tranche S quantity =
     (case mk_ratio S of
        None \<Rightarrow> None
      | Some ratio \<Rightarrow> (let t = d_mul (mk_ops S) quantity ratio in if 0 < t \<and> t < quantity then Some t else None))"

definition report_fill :: "order option \<Rightarrow> mock_world \<Rightarrow> mock_world" where
  "report_fill filled w =
     (case filled of
        None \<Rightarrow> w
      | Some ord \<Rightarrow>
          mk_send_event (WsOrder (if o_status ord = Filled then EvOrderFilled else EvOrderPartiallyFilled) ord None (mw_now w)) w)"

text \<open>
  What the task of a scheduled fill does when it wakes up: it is done, or it sleeps again before
  the remainder.
\<close>

definition fill_step :: "mock_source \<Rightarrow> scheduled_fill \<Rightarrow> mock_world \<Rightarrow> scheduled_fill option \<times> mock_world" where
  "fill_step S f w =
     (case get_price S (sf_symbol f) w of
        (price, w1) \<Rightarrow>
          (case sf_remainder f of
             Some remainder \<Rightarrow>
               (case apply_fill S (sf_order_id f) (sf_symbol f) (sf_side f) remainder price w1 of
                  (filled, w2) \<Rightarrow> (None, report_fill filled w2))
           | None \<Rightarrow>
               if \<not> should_fill f price then (None, w1)
               else case first_tranche S (sf_quantity f) of
                 None \<Rightarrow>
                   (case apply_fill S (sf_order_id f) (sf_symbol f) (sf_side f) (sf_quantity f) price w1 of
                      (filled, w2) \<Rightarrow> (None, report_fill filled w2))
               | Some tranche \<Rightarrow>
                   (case apply_fill S (sf_order_id f) (sf_symbol f) (sf_side f) tranche price w1 of
                      (None, w2) \<Rightarrow> (None, w2)
                    | (Some ord, w2) \<Rightarrow>
                        (Some (f\<lparr>sf_remainder := Some (o_remaining_quantity ord)\<rparr>),
                         mk_send_event (WsOrder EvOrderPartiallyFilled ord None (mw_now w2)) w2))))"

text \<open>The first waiting task wakes up; one that sleeps again goes to the end.\<close>

definition run_next_fill :: "mock_source \<Rightarrow> mock_world \<Rightarrow> mock_world" where
  "run_next_fill S w =
     (case mw_scheduled w of
        [] \<Rightarrow> w
      | f # fs \<Rightarrow>
          (case fill_step S f (w\<lparr>mw_scheduled := fs\<rparr>) of
             (None, w1) \<Rightarrow> w1
           | (Some f1, w1) \<Rightarrow> w1\<lparr>mw_scheduled := mw_scheduled w1 @ [f1]\<rparr>))"

subsection \<open>The broker's operations\<close>

definition accepted_order :: "utc \<Rightarrow> string \<Rightarrow> order_request \<Rightarrow> order" where
  "accepted_order now i r =
     \<lparr>o_id = i, o_client_order_id = or_client_order_id r, o_symbol = or_symbol r, o_side = or_side r,
      o_order_type = or_order_type r, o_quantity = or_quantity r, o_filled_quantity = 0,
      o_remaining_quantity = or_quantity r, o_limit_price = or_limit_price r, o_stop_price = or_stop_price r,
      o_stop_loss = or_stop_loss r, o_take_profit = or_take_profit r, o_trailing_distance = or_trailing_distance r,
      o_trailing_type = or_trailing_type r, o_average_fill_price = None, o_status = Open, o_reject_reason = None,
      o_position_id = or_position_id r, o_parent_order_id = None, o_reduce_only = Some (or_reduce_only r),
      o_post_only = Some (or_post_only r), o_hidden = Some (or_hidden r), o_display_quantity = or_display_quantity r,
      o_oco_group_id = or_oco_group_id r, o_correlation_id = None, o_time_in_force = or_time_in_force r,
      o_created_at = now, o_updated_at = now\<rparr>"

definition mk_submit_order :: "mock_source \<Rightarrow> order_request \<Rightarrow> mock_world \<Rightarrow> (gateway_error + order_handle) \<times> mock_world" where
  "mk_submit_order S r w =
     (case validate_semantics (mk_to_string S) r of
        Inl e \<Rightarrow> (Inl e, w)
      | Inr u \<Rightarrow>
          (let (i, w1) = fresh_id S w;
               ord = accepted_order (mw_now w1) i r;
               w2 = mk_send_event (WsOrder EvOrderCreated ord None (mw_now w1)) (w1\<lparr>mw_orders := dm_insert i ord (mw_orders w1)\<rparr>);
               f = \<lparr>sf_order_id = i, sf_symbol = or_symbol r, sf_side = or_side r, sf_quantity = or_quantity r,
                    sf_order_type = or_order_type r, sf_limit_price = or_limit_price r, sf_stop_price = or_stop_price r,
                    sf_remainder = None\<rparr>
           in (Inr \<lparr>oh_id = i, oh_client_order_id = or_client_order_id r, oh_correlation_id = None, oh_status = Open\<rparr>,
               w2\<lparr>mw_scheduled := mw_scheduled w2 @ [f]\<rparr>)))"

definition mk_get_order :: "string \<Rightarrow> mock_world \<Rightarrow> (gateway_error + order) \<times> mock_world" where
  "mk_get_order i w = (case dm_get (mw_orders w) i of Some ord \<Rightarrow> (Inr ord, w) | None \<Rightarrow> (Inl (OrderNotFound i), w))"

definition query_matches :: "order_query \<Rightarrow> order \<Rightarrow> bool" where
  "query_matches q ord =
     ((case oq_symbol q of Some s \<Rightarrow> o_symbol ord = s | None \<Rightarrow> True)
      \<and> (case oq_status q of Some ss \<Rightarrow> o_status ord \<in> set ss | None \<Rightarrow> True)
      \<and> (case oq_side q of Some s \<Rightarrow> o_side ord = s | None \<Rightarrow> True)
      \<and> (case oq_client_order_id q of Some c \<Rightarrow> o_client_order_id ord = Some c | None \<Rightarrow> True)
      \<and> (case oq_oco_group_id q of Some g \<Rightarrow> o_oco_group_id ord = Some g | None \<Rightarrow> True)
      \<and> (case oq_since q of Some t \<Rightarrow> t \<le> o_created_at ord | None \<Rightarrow> True)
      \<and> (case oq_until q of Some t \<Rightarrow> o_created_at ord < t | None \<Rightarrow> True))"

text \<open>A stable sort with the latest first.\<close>

definition latest_first :: "('a \<Rightarrow> utc) \<Rightarrow> 'a list \<Rightarrow> 'a list" where
  "latest_first key xs = rev (sort_key key (rev xs))"

definition truncated :: "nat option \<Rightarrow> 'a list \<Rightarrow> 'a list" where
  "truncated limit xs = (case limit of Some n \<Rightarrow> take n xs | None \<Rightarrow> xs)"

definition mk_get_orders :: "order_query \<Rightarrow> mock_world \<Rightarrow> (gateway_error + order list) \<times> mock_world" where
  "mk_get_orders q w = (Inr (truncated (oq_limit q) (latest_first o_created_at (filter (query_matches q) (map snd (mw_orders w))))), w)"

definition mk_get_order_history :: "order_query \<Rightarrow> mock_world \<Rightarrow> (gateway_error + order list) \<times> mock_world" where
  "mk_get_order_history q w =
     (Inr (truncated (oq_limit q) (latest_first o_updated_at (filter (\<lambda>ord. order_status_is_terminal (o_status ord)
        \<and> (case oq_symbol q of Some s \<Rightarrow> o_symbol ord = s | None \<Rightarrow> True)
        \<and> (case oq_since q of Some t \<Rightarrow> t \<le> o_created_at ord | None \<Rightarrow> True)
        \<and> (case oq_until q of Some t \<Rightarrow> o_created_at ord < t | None \<Rightarrow> True)) (map snd (mw_orders w))))), w)"

fun order_status_debug :: "order_status \<Rightarrow> string" where
  "order_status_debug Pending = ''Pending''"
| "order_status_debug PendingCancel = ''PendingCancel''"
| "order_status_debug Open = ''Open''"
| "order_status_debug PartiallyFilled = ''PartiallyFilled''"
| "order_status_debug Filled = ''Filled''"
| "order_status_debug Cancelled = ''Cancelled''"
| "order_status_debug Rejected = ''Rejected''"
| "order_status_debug Expired = ''Expired''"

definition mk_modify_order :: "string \<Rightarrow> modify_order_request \<Rightarrow> mock_world \<Rightarrow> (gateway_error + modify_order_result) \<times> mock_world" where
  "mk_modify_order i m w =
     (case dm_get (mw_orders w) i of
        None \<Rightarrow> (Inl (OrderNotFound i), w)
      | Some ord \<Rightarrow>
          if o_status ord \<noteq> Open then
            (Inl (InvalidRequest (''Cannot modify order in '' @ order_status_debug (o_status ord) @ '' state'') None), w)
          else
            (let ord1 = ord\<lparr>o_limit_price := (case mo_limit_price m of Some lp \<Rightarrow> Some lp | None \<Rightarrow> o_limit_price ord),
                            o_stop_price := (case mo_stop_price m of Some sp \<Rightarrow> Some sp | None \<Rightarrow> o_stop_price ord)\<rparr>
             in case mo_quantity m of
               Some qty \<Rightarrow>
                 if qty < o_filled_quantity ord1 then
                   (Inl (InvalidRequest ''New quantity cannot be less than filled quantity'' (Some ''quantity'')),
                    w\<lparr>mw_orders := dm_insert i ord1 (mw_orders w)\<rparr>)
                 else
                   (let ord2 = ord1\<lparr>o_quantity := qty, o_remaining_quantity := qty - o_filled_quantity ord1, o_updated_at := mw_now w\<rparr>
                    in (Inr \<lparr>mr_order = ord2, mr_previous_order_id = None\<rparr>, w\<lparr>mw_orders := dm_insert i ord2 (mw_orders w)\<rparr>))
             | None \<Rightarrow>
                 (let ord2 = ord1\<lparr>o_updated_at := mw_now w\<rparr>
                  in (Inr \<lparr>mr_order = ord2, mr_previous_order_id = None\<rparr>, w\<lparr>mw_orders := dm_insert i ord2 (mw_orders w)\<rparr>))))"

definition mk_cancel_order :: "string \<Rightarrow> mock_world \<Rightarrow> (gateway_error + cancel_order_result) \<times> mock_world" where
  "mk_cancel_order i w =
     (case dm_get (mw_orders w) i of
        None \<Rightarrow> (Inl (OrderNotFound i), w)
      | Some ord \<Rightarrow>
          if o_status ord = Filled then (Inl (InvalidRequest ''Cannot cancel a filled order'' None), w)
          else
            (let ord1 = ord\<lparr>o_status := Cancelled, o_updated_at := mw_now w\<rparr>
             in (Inr \<lparr>cr_success = True, cr_order = ord1\<rparr>,
                 mk_send_event (WsOrder EvOrderCancelled ord1 None (mw_now w)) (w\<lparr>mw_orders := dm_insert i ord1 (mw_orders w)\<rparr>))))"

definition mk_get_positions :: "string option \<Rightarrow> mock_world \<Rightarrow> (gateway_error + position list) \<times> mock_world" where
  "mk_get_positions symbol w =
     (Inr (filter (\<lambda>p. case symbol of Some s \<Rightarrow> p_symbol p = s | None \<Rightarrow> True) (map snd (mw_positions w))), w)"

definition mk_get_position :: "string \<Rightarrow> mock_world \<Rightarrow> (gateway_error + position) \<times> mock_world" where
  "mk_get_position pid w =
     (case find (\<lambda>p. p_id p = pid) (map snd (mw_positions w)) of
        Some p \<Rightarrow> (Inr p, w)
      | None \<Rightarrow> (case dm_get (mw_positions w) pid of Some p \<Rightarrow> (Inr p, w) | None \<Rightarrow> (Inl (PositionNotFound pid), w)))"

definition closing_order :: "utc \<Rightarrow> string \<Rightarrow> string \<Rightarrow> string \<Rightarrow> side \<Rightarrow> decimal \<Rightarrow> decimal \<Rightarrow> order" where
  "closing_order now i pid symbol sd quantity price =
     \<lparr>o_id = i, o_client_order_id = None, o_symbol = symbol, o_side = sd, o_order_type = Market,
      o_quantity = quantity, o_filled_quantity = quantity, o_remaining_quantity = 0, o_limit_price = None,
      o_stop_price = None, o_stop_loss = None, o_take_profit = None, o_trailing_distance = None,
      o_trailing_type = None, o_average_fill_price = Some price, o_status = Filled, o_reject_reason = None,
      o_position_id = Some pid, o_parent_order_id = None, o_reduce_only = Some True, o_post_only = None,
      o_hidden = None, o_display_quantity = None, o_oco_group_id = None, o_correlation_id = None,
      o_time_in_force = Gtc, o_created_at = now, o_updated_at = now\<rparr>"

definition reduce_position :: "string \<Rightarrow> position \<Rightarrow> decimal \<Rightarrow> mock_world \<Rightarrow> mock_world" where
  "reduce_position key p close_qty w = w\<lparr>mw_positions :=
     (if close_qty = p_quantity p then dm_remove key (mw_positions w)
      else dm_insert key (p\<lparr>p_quantity := p_quantity p - close_qty, p_updated_at := mw_now w\<rparr>) (mw_positions w))\<rparr>"

definition mk_close_position ::
  "mock_source \<Rightarrow> string \<Rightarrow> decimal option \<Rightarrow> mock_world \<Rightarrow> (gateway_error + order_handle) \<times> mock_world" where
  "mk_close_position S pid quantity w =
     (case find (\<lambda>e. p_id (snd e) = pid) (mw_positions w) of
        None \<Rightarrow> (Inl (PositionNotFound pid), w)
      | Some (key, p) \<Rightarrow>
          (let close_qty = min (case quantity of Some q \<Rightarrow> q | None \<Rightarrow> p_quantity p) (p_quantity p);
               w1 = reduce_position key p close_qty w;
               close_side = (case p_side p of Long \<Rightarrow> Sell | Short \<Rightarrow> Buy);
               (price, w2) = get_price S (p_symbol p) w1;
               (i, w3) = fresh_id S w2;
               ord = closing_order (mw_now w3) i pid (p_symbol p) close_side close_qty price;
               (j, w4) = fresh_id S (w3\<lparr>mw_orders := dm_insert i ord (mw_orders w3)\<rparr>);
               w5 = w4\<lparr>mw_trades := mw_trades w4 @ [mock_trade j i (p_symbol p) close_side close_qty price (mw_now w3)]\<rparr>
           in (Inr \<lparr>oh_id = i, oh_client_order_id = None, oh_correlation_id = None, oh_status = Filled\<rparr>,
               mk_send_event (WsOrder EvOrderFilled ord None (mw_now w3)) w5)))"

text \<open>The mock broker as the gateway's broker.\<close>

definition mock_env :: "mock_source \<Rightarrow> mock_world env" where
  "mock_env S =
     \<lparr>submit_order = mk_submit_order S, get_order = mk_get_order, get_orders = mk_get_orders, modify_order = mk_modify_order,
      cancel_order = mk_cancel_order, get_positions = mk_get_positions,
      close_position_all = (\<lambda>pid. mk_close_position S pid None),
      utc_now = mw_now, instant_now = mw_now, sleep = (\<lambda>d w. w\<lparr>mw_now := mw_now w + d\<rparr>),
      dec_to_string = mk_to_string S, dec_from_str = mk_from_str S, status_debug = mk_status_debug S\<rparr>"

end
