(* ===== verification/Gw_Mock_Props.thy ===== *)
theory Gw_Mock_Props
  imports Gw_Mock
begin

text \<open>
  The books of the mock broker: whatever is submitted, modified, cancelled, closed and filled, the net
  position of every symbol is the sum of its trades, and every order's filled quantity is the
  sum of the trades of that order.
\<close>

subsection \<open>Sums over trades\<close>

definition signed :: "side \<Rightarrow> decimal \<Rightarrow> decimal" where
  "signed sd q = (case sd of Buy \<Rightarrow> q | Sell \<Rightarrow> - q)"

definition net :: "mock_world \<Rightarrow> string \<Rightarrow> decimal" where
  "net w symbol = (case dm_get (mw_positions w) symbol of
     Some p \<Rightarrow> (case p_side p of Long \<Rightarrow> p_quantity p | Short \<Rightarrow> - p_quantity p) | None \<Rightarrow> 0)"

definition traded :: "trade list \<Rightarrow> string \<Rightarrow> decimal" where
  "traded ts symbol = sum_list (map (\<lambda>t. signed (t_side t) (t_quantity t)) (filter (\<lambda>t. t_symbol t = symbol) ts))"

definition filled_by :: "trade list \<Rightarrow> string \<Rightarrow> decimal" where
  "filled_by ts i = sum_list (map t_quantity (filter (\<lambda>t. t_order_id t = i) ts))"

lemma sums_snoc [simp]:
  "traded (ts @ [t]) symbol = traded ts symbol + (if t_symbol t = symbol then signed (t_side t) (t_quantity t) else 0)"
  "filled_by (ts @ [t]) i = filled_by ts i + (if t_order_id t = i then t_quantity t else 0)"
  by (simp_all add: traded_def filled_by_def)

lemma mock_trade_simps [simp]:
  "t_symbol (mock_trade i oid s sd q p now) = s" "t_side (mock_trade i oid s sd q p now) = sd"
  "t_quantity (mock_trade i oid s sd q p now) = q" "t_order_id (mock_trade i oid s sd q p now) = oid"
  by (simp_all add: mock_trade_def)

lemma filled_by_none: "i \<notin> t_order_id ` set ts \<Longrightarrow> filled_by ts i = 0"
  by (induction ts) (auto simp: filled_by_def)

subsection \<open>The books\<close>

definition order_ok :: "trade list \<Rightarrow> string \<Rightarrow> order \<Rightarrow> bool" where
  "order_ok ts i ord = (o_id ord = i \<and> o_remaining_quantity ord = o_quantity ord - o_filled_quantity ord
     \<and> o_filled_quantity ord = filled_by ts i)"

definition drawn :: "mock_source \<Rightarrow> nat \<Rightarrow> string \<Rightarrow> bool" where
  "drawn S k i = (\<exists>n < k. i = mk_uuid S n)"

lemma drawn_Suc: "drawn S k i \<Longrightarrow> drawn S (Suc k) i"
  unfolding drawn_def using less_SucI by blast

lemma drawn_fresh: "inj (mk_uuid S) \<Longrightarrow> \<not> drawn S k (mk_uuid S k)" "drawn S (Suc k) (mk_uuid S k)"
  by (auto simp: drawn_def inj_def)

definition books_ok :: "mock_source \<Rightarrow> mock_world \<Rightarrow> bool" where
  "books_ok S w = (dm_wf (mw_positions w)
     \<and> (\<forall>symbol p. dm_get (mw_positions w) symbol = Some p \<longrightarrow> p_symbol p = symbol)
     \<and> (\<forall>symbol. net w symbol = traded (mw_trades w) symbol)
     \<and> (\<forall>i ord. dm_get (mw_orders w) i = Some ord \<longrightarrow> order_ok (mw_trades w) i ord)
     \<and> (\<forall>i. dm_get (mw_orders w) i \<noteq> None \<or> i \<in> t_order_id ` set (mw_trades w) \<longrightarrow> drawn S (mw_ids w) i))"

text \<open>Nothing but the prices, the events, the clock and the schedule differs.\<close>

definition same_books :: "mock_world \<Rightarrow> mock_world \<Rightarrow> bool" where
  "same_books w w' = (mw_orders w' = mw_orders w \<and> mw_positions w' = mw_positions w \<and> mw_trades w' = mw_trades w \<and> mw_ids w' = mw_ids w)"

lemma same_books_ok: "same_books w w' \<Longrightarrow> books_ok S w' = books_ok S w"
  by (simp add: same_books_def books_ok_def net_def)

lemma books_send [simp]: "books_ok S (mk_send_event m w) = books_ok S w"
  by (rule same_books_ok) (simp add: same_books_def mk_send_event_def)

lemma books_report [simp]: "books_ok S (report_fill filled w) = books_ok S w"
  by (simp add: report_fill_def split: option.splits)

lemma books_scheduled [simp]: "books_ok S (mw_scheduled_update f w) = books_ok S w"
  by (rule same_books_ok) (simp add: same_books_def)

lemma books_price: "get_price S symbol w = (p, w') \<Longrightarrow> books_ok S w' = books_ok S w"
  by (rule same_books_ok) (auto simp: same_books_def get_price_def Let_def)

lemma books_ids: "books_ok S w \<Longrightarrow> books_ok S (w\<lparr>mw_ids := mw_ids w + 1\<rparr>)"
  by (auto simp: books_ok_def net_def intro: drawn_Suc)

lemma books_order:
  assumes "books_ok S w" "order_ok (mw_trades w) i ord" "dm_get (mw_orders w) i \<noteq> None"
  shows "books_ok S (w\<lparr>mw_orders := dm_insert i ord (mw_orders w)\<rparr>)"
  using assms by (auto simp: books_ok_def net_def)

lemma upsert_books:
  assumes "mk_upsert_position S symbol sd q price w = (ok, w')" "dm_wf (mw_positions w)"
    "\<forall>s p. dm_get (mw_positions w) s = Some p \<longrightarrow> p_symbol p = s"
  shows "net w' s = net w s + (if s = symbol then signed sd q else 0)
    \<and> dm_wf (mw_positions w') \<and> (\<forall>s p. dm_get (mw_positions w') s = Some p \<longrightarrow> p_symbol p = s)
    \<and> mw_orders w' = mw_orders w \<and> mw_trades w' = mw_trades w \<and> mw_ids w' = mw_ids w \<and> mw_scheduled w' = mw_scheduled w"
  using assms
  by (cases sd; cases "dm_get (mw_positions w) symbol")
     (auto simp: mk_upsert_position_def Let_def net_def signed_def opened_position_def
       split: if_splits position_side.splits)

lemma books_fill:
  assumes ok: "books_ok S w" and run: "apply_fill S i symbol sd q price w = (res, w')"
  shows "books_ok S w'"
proof (cases "dm_get (mw_orders w) i")
  case None
  then show ?thesis using ok run by (simp add: apply_fill_def)
next
  case (Some ord)
  show ?thesis
  proof (cases "o_status ord = Cancelled")
    case True
    then show ?thesis using ok run Some by (simp add: apply_fill_def)
  next
    case False
    let ?ord = "filled_order S (mw_now w) q price ord"
    let ?w3 = "w\<lparr>mw_orders := dm_insert i ?ord (mw_orders w), mw_ids := mw_ids w + 1,
      mw_trades := mw_trades w @ [mock_trade (mk_uuid S (mw_ids w)) i symbol sd q price (mw_now w)]\<rparr>"
    obtain b where up: "mk_upsert_position S symbol sd q price ?w3 = (b, w')"
      using run False by (auto simp: apply_fill_def Some fresh_id_def Let_def split: prod.splits)
    note up' = upsert_books [OF up]
    have fo: "o_id ?ord = o_id ord" "o_quantity ?ord = o_quantity ord" "o_filled_quantity ?ord = o_filled_quantity ord + q"
      "o_remaining_quantity ?ord = o_quantity ord - (o_filled_quantity ord + q)"
      by (simp_all add: filled_order_def Let_def)
    have known: "drawn S (mw_ids w) i" using ok Some by (auto simp: books_ok_def)
    have "dm_wf (mw_positions ?w3)" "\<forall>s p. dm_get (mw_positions ?w3) s = Some p \<longrightarrow> p_symbol p = s"
      using ok by (simp_all add: books_ok_def)
    note u = up' [OF this]
    have nets: "net ?w3 s = net w s" for s by (simp add: net_def)
    have "net w' s = traded (mw_trades w') s" for s
      using u [of s] nets ok by (auto simp: books_ok_def)
    moreover have "order_ok (mw_trades w') j o'" if "dm_get (mw_orders w') j = Some o'" for j o'
      using that u ok Some fo by (auto simp: books_ok_def order_ok_def split: if_splits)
    moreover have "drawn S (mw_ids w') j"
      if "dm_get (mw_orders w') j \<noteq> None \<or> j \<in> t_order_id ` set (mw_trades w')" for j
    proof -
      have "j = i \<or> dm_get (mw_orders w) j \<noteq> None \<or> j \<in> t_order_id ` set (mw_trades w)"
        using that u by (auto split: if_splits)
      then have "drawn S (mw_ids w) j" using known ok by (auto simp: books_ok_def)
      then show ?thesis using u by (auto intro: drawn_Suc)
    qed
    ultimately show ?thesis using u unfolding books_ok_def by blast
  qed
qed

lemma books_fill_step:
  assumes "books_ok S w" "fill_step S f w = (res, w')"
  shows "books_ok S w'"
proof -
  obtain price w1 where p: "get_price S (sf_symbol f) w = (price, w1)" by (metis surj_pair)
  then have ok: "books_ok S w1" using assms(1) books_price by blast
  show ?thesis
    using assms(2) ok
    by (auto simp: fill_step_def p dest: books_fill [OF ok] split: prod.splits option.splits if_splits)
qed

lemma books_run:
  assumes "books_ok S w"
  shows "books_ok S (run_next_fill S w)"
proof (cases "mw_scheduled w")
  case Nil
  then show ?thesis using assms by (simp add: run_next_fill_def)
next
  case (Cons f fs)
  obtain res w1 where f: "fill_step S f (w\<lparr>mw_scheduled := fs\<rparr>) = (res, w1)" by (metis surj_pair)
  have "books_ok S w1" by (rule books_fill_step [OF _ f]) (simp add: assms)
  then show ?thesis by (simp add: run_next_fill_def Cons f split: option.splits)
qed

lemma books_new_order:
  assumes "inj (mk_uuid S)" "books_ok S w" "order_ok [] (mk_uuid S (mw_ids w)) ord"
  shows "books_ok S (w\<lparr>mw_ids := mw_ids w + 1, mw_orders := dm_insert (mk_uuid S (mw_ids w)) ord (mw_orders w)\<rparr>)"
proof -
  let ?i = "mk_uuid S (mw_ids w)"
  have fresh: "?i \<notin> t_order_id ` set (mw_trades w)"
    using assms(2) drawn_fresh(1) [OF assms(1)] unfolding books_ok_def by blast
  then have "order_ok (mw_trades w) ?i ord"
    using assms(3) filled_by_none [OF fresh] by (simp add: order_ok_def filled_by_none)
  then show ?thesis
    using assms(2) drawn_fresh(2) [of S "mw_ids w"] by (auto simp: books_ok_def net_def intro: drawn_Suc)
qed

lemma books_submit:
  assumes "inj (mk_uuid S)" "books_ok S w" "mk_submit_order S r w = (res, w')"
  shows "books_ok S w'"
proof -
  have "order_ok [] i (accepted_order now i r)" for i now
    by (simp add: order_ok_def accepted_order_def filled_by_def)
  from books_new_order [OF assms(1,2) this] assms(2,3) show ?thesis
    by (auto simp: mk_submit_order_def fresh_id_def Let_def split: sum.splits)
qed

lemma books_modify: "books_ok S w \<Longrightarrow> mk_modify_order i m w = (res, w') \<Longrightarrow> books_ok S w'"
  by (auto simp: mk_modify_order_def Let_def split: option.splits if_splits
      intro!: books_order) (auto simp: books_ok_def order_ok_def)

lemma books_cancel: "books_ok S w \<Longrightarrow> mk_cancel_order i w = (res, w') \<Longrightarrow> books_ok S w'"
  by (auto simp: mk_cancel_order_def Let_def split: option.splits if_splits
      intro!: books_order) (auto simp: books_ok_def order_ok_def)

lemma reduce_books:
  assumes "dm_wf (mw_positions w)" "dm_get (mw_positions w) key = Some p" "p_symbol p = key"
    "\<forall>s p. dm_get (mw_positions w) s = Some p \<longrightarrow> p_symbol p = s"
  shows "net (reduce_position key p q w) s = net w s + (if s = key then signed (case p_side p of Long \<Rightarrow> Sell | Short \<Rightarrow> Buy) q else 0)
    \<and> dm_wf (mw_positions (reduce_position key p q w))
    \<and> (\<forall>s p'. dm_get (mw_positions (reduce_position key p q w)) s = Some p' \<longrightarrow> p_symbol p' = s)
    \<and> mw_orders (reduce_position key p q w) = mw_orders w \<and> mw_trades (reduce_position key p q w) = mw_trades w
    \<and> mw_ids (reduce_position key p q w) = mw_ids w"
  using assms by (cases "p_side p") (auto simp: reduce_position_def net_def signed_def dm_get_remove)

lemma books_close:
  assumes inj: "inj (mk_uuid S)" and ok: "books_ok S w" and run: "mk_close_position S pid quantity w = (res, w')"
  shows "books_ok S w'"
proof (cases "find (\<lambda>e. p_id (snd e) = pid) (mw_positions w)")
  case None
  then show ?thesis using ok run by (simp add: mk_close_position_def)
next
  case (Some e)
  obtain key p where e: "e = (key, p)" by (cases e)
  have pos: "dm_get (mw_positions w) key = Some p"
    using Some ok by (auto simp: e find_Some_iff books_ok_def dm_get_in [symmetric] set_conv_nth)
  then have sym: "p_symbol p = key" using ok by (simp add: books_ok_def)
  define q where "q = min (case quantity of Some q \<Rightarrow> q | None \<Rightarrow> p_quantity p) (p_quantity p)"
  define sd where "sd = (case p_side p of Long \<Rightarrow> Sell | Short \<Rightarrow> Buy)"
  let ?w1 = "reduce_position key p q w" and ?i = "mk_uuid S (mw_ids w)"
  obtain price w2 where pr: "get_price S key ?w1 = (price, w2)" by (metis surj_pair)
  have red: "net ?w1 s = net w s + (if s = key then signed sd q else 0)" "dm_wf (mw_positions ?w1)"
    "\<forall>s p'. dm_get (mw_positions ?w1) s = Some p' \<longrightarrow> p_symbol p' = s"
    "mw_orders ?w1 = mw_orders w" "mw_trades ?w1 = mw_trades w" "mw_ids ?w1 = mw_ids w" for s
    using reduce_books [OF _ pos sym, of q s] ok by (simp_all add: books_ok_def sd_def)
  have w2: "mw_orders w2 = mw_orders w" "mw_positions w2 = mw_positions ?w1" "mw_trades w2 = mw_trades w" "mw_ids w2 = mw_ids w"
    using pr by (auto simp: get_price_def Let_def red)
  let ?t = "mock_trade (mk_uuid S (Suc (mw_ids w))) ?i key sd q price (mw_now w2)"
  let ?ord = "closing_order (mw_now w2) ?i pid key sd q price"
  have w': "books_ok S w' = books_ok S (w2\<lparr>mw_ids := Suc (Suc (mw_ids w)), mw_orders := dm_insert ?i ?ord (mw_orders w),
      mw_trades := mw_trades w @ [?t]\<rparr>)"
    using run by (auto simp: mk_close_position_def Some e Let_def q_def [symmetric] sd_def [symmetric] sym pr fresh_id_def w2
        intro!: same_books_ok simp: same_books_def mk_send_event_def)
  have fresh: "?i \<notin> t_order_id ` set (mw_trades w)" and new: "dm_get (mw_orders w) ?i = None"
    using ok drawn_fresh(1) [OF inj] unfolding books_ok_def by blast+
  have nets: "net w2 s = net w s + (if s = key then signed sd q else 0)" for s
    using red(1) [of s] by (simp add: net_def w2)
  have "order_ok (mw_trades w @ [?t]) ?i ?ord"
    using filled_by_none [OF fresh] by (simp add: order_ok_def closing_order_def)
  moreover have "order_ok (mw_trades w @ [?t]) j ord'" if "dm_get (mw_orders w) j = Some ord'" for j ord'
    using that ok new by (auto simp: books_ok_def order_ok_def)
  moreover have "drawn S (Suc (Suc (mw_ids w))) j" if "j = ?i \<or> dm_get (mw_orders w) j \<noteq> None \<or> j \<in> t_order_id ` set (mw_trades w)" for j
    using that ok drawn_fresh(2) [of S "mw_ids w"] unfolding books_ok_def by (blast intro: drawn_Suc)
  moreover have "net (w2\<lparr>mw_ids := a, mw_orders := b, mw_trades := c\<rparr>) s = net w2 s" for a b c s by (simp add: net_def)
  ultimately show ?thesis
    unfolding w' using nets ok red(2,3) by (auto simp: books_ok_def w2)
qed

subsection \<open>The mock broker as a system\<close>

inductive mock_step :: "mock_source \<Rightarrow> mock_world \<Rightarrow> mock_world \<Rightarrow> bool" for S where
  mock_submit: "mock_step S w (snd (mk_submit_order S r w))"
| mock_modify: "mock_step S w (snd (mk_modify_order i m w))"
| mock_cancel: "mock_step S w (snd (mk_cancel_order i w))"
| mock_close: "mock_step S w (snd (mk_close_position S pid quantity w))"
| mock_fill: "mock_step S w (run_next_fill S w)"
| mock_quote: "mock_step S w (snd (get_quote S symbol w))"
| mock_time: "mock_step S w (w\<lparr>mw_now := t, mw_sink := b\<rparr>)"

lemma mock_step_books:
  assumes "inj (mk_uuid S)" "books_ok S w" "mock_step S w w'"
  shows "books_ok S w'"
  using assms(3,2)
proof (cases rule: mock_step.cases)
  case (mock_quote symbol)
  obtain p w1 where "get_price S symbol w = (p, w1)" by (metis surj_pair)
  then show ?thesis using mock_quote assms(2) books_price by (auto simp: get_quote_def Let_def)
next
  case (mock_time t b)
  then show ?thesis using assms(2) same_books_ok [of w w' S] by (simp add: same_books_def)
qed (use assms(1,2) in \<open>auto intro: books_submit books_modify books_cancel books_close books_run simp: prod_eq_iff\<close>)

text \<open>
  C36: The books of the mock broker balance: after any sequence of submissions, modifications,
  cancellations, closings and fills the net position of each symbol is the sum of its signed trades,
  and the filled quantity of each order is the sum of its trades and makes up its quantity with
  the remaining one. Fresh ids do not repeat.
\<close>

theorem mock_books_balance:
  assumes "inj (mk_uuid S)" and "reachable (\<lambda>w. \<exists>now. w = mock_world_new now) (mock_step S) w"
  shows "net w symbol = traded (mw_trades w) symbol
    \<and> (\<forall>i ord. dm_get (mw_orders w) i = Some ord \<longrightarrow>
         o_filled_quantity ord = filled_by (mw_trades w) i
         \<and> o_filled_quantity ord + o_remaining_quantity ord = o_quantity ord)"
proof -
  have "books_ok S w"
    using assms(2)
  proof (induction rule: reachable.induct)
    case (reach_init s)
    then show ?case by (auto simp: books_ok_def mock_world_new_def net_def traded_def)
  next
    case (reach_step s s')
    then show ?case using mock_step_books [OF assms(1)] by blast
  qed
  then show ?thesis by (auto simp: books_ok_def order_ok_def)
qed

subsection \<open>An order's fill\<close>

lemma send_simps [simp]:
  "mw_orders (mk_send_event m w) = mw_orders w" "mw_scheduled (mk_send_event m w) = mw_scheduled w"
  "mw_positions (mk_send_event m w) = mw_positions w" "mw_now (mk_send_event m w) = mw_now w"
  "mw_orders (report_fill filled w) = mw_orders w" "mw_scheduled (report_fill filled w) = mw_scheduled w"
  by (simp_all add: mk_send_event_def report_fill_def split: option.splits)

lemma price_simps [simp]:
  "mw_orders (snd (get_price S s w)) = mw_orders w" "mw_scheduled (snd (get_price S s w)) = mw_scheduled w"
  "mw_positions (snd (get_price S s w)) = mw_positions w" "mw_now (snd (get_price S s w)) = mw_now w"
  by (simp_all add: get_price_def Let_def)

lemma fill_applied:
  assumes "dm_get (mw_orders w) i = Some ord" "o_status ord \<noteq> Cancelled"
  shows "dm_get (mw_orders (snd (apply_fill S i symbol sd q price w))) i = Some (filled_order S (mw_now w) q price ord)
    \<and> mw_scheduled (snd (apply_fill S i symbol sd q price w)) = mw_scheduled w"
proof -
  let ?w3 = "w\<lparr>mw_orders := dm_insert i (filled_order S (mw_now w) q price ord) (mw_orders w), mw_ids := mw_ids w + 1,
      mw_trades := mw_trades w @ [mock_trade (mk_uuid S (mw_ids w)) i symbol sd q price (mw_now w)]\<rparr>"
  have "mw_orders (snd (mk_upsert_position S symbol sd q price w')) = mw_orders w'
      \<and> mw_scheduled (snd (mk_upsert_position S symbol sd q price w')) = mw_scheduled w'" for w'
    by (simp add: mk_upsert_position_def Let_def split: option.splits)
  then show ?thesis using assms by (simp add: apply_fill_def fresh_id_def Let_def case_prod_beta)
qed

lemma fill_answers:
  assumes "dm_get (mw_orders w) i = Some ord" "o_status ord \<noteq> Cancelled" "0 < q"
    "\<forall>p. dm_get (mw_positions w) symbol = Some p \<longrightarrow> 0 \<le> p_quantity p"
  shows "fst (apply_fill S i symbol sd q price w) = Some (filled_order S (mw_now w) q price ord)"
proof -
  have "fst (mk_upsert_position S symbol sd q price w')" if "mw_positions w' = mw_positions w" for w'
    using that assms(3,4) by (auto simp: mk_upsert_position_def Let_def split: option.splits)
  then show ?thesis using assms(1,2) by (simp add: apply_fill_def fresh_id_def Let_def case_prod_beta)
qed

lemma run_idle: "mw_scheduled w = [] \<Longrightarrow> run_next_fill S w = w"
  by (simp add: run_next_fill_def)

lemma last_tranche:
  assumes w: "mw_scheduled w = [f]" "dm_get (mw_orders w) (sf_order_id f) = Some ord" "o_status ord \<noteq> Cancelled"
    and q: "sf_remainder f = Some q \<or> sf_remainder f = None \<and> sf_order_type f = Market
      \<and> first_tranche S (sf_quantity f) = None \<and> q = sf_quantity f"
  shows "\<exists>t p. dm_get (mw_orders (run_next_fill S w)) (sf_order_id f) = Some (filled_order S t q p ord)
    \<and> mw_scheduled (run_next_fill S w) = []"
proof -
  obtain pr wp where gp: "get_price S (sf_symbol f) (w\<lparr>mw_scheduled := []\<rparr>) = (pr, wp)" by (metis surj_pair)
  then have wp: "dm_get (mw_orders wp) (sf_order_id f) = Some ord" "mw_scheduled wp = []"
    using w(2) price_simps(1,2) [of S "sf_symbol f" "w\<lparr>mw_scheduled := []\<rparr>"] by simp_all
  let ?a = "apply_fill S (sf_order_id f) (sf_symbol f) (sf_side f) q pr wp"
  have "run_next_fill S w = report_fill (fst ?a) (snd ?a)"
    using q by (auto simp: run_next_fill_def w(1) fill_step_def gp should_fill_def case_prod_beta)
  then show ?thesis using fill_applied [OF wp(1) w(3)] wp(2) by auto
qed

lemma half_tranche:
  assumes w: "mw_scheduled w = [f]" "dm_get (mw_orders w) (sf_order_id f) = Some ord" "o_status ord \<noteq> Cancelled"
    and f: "sf_remainder f = None" "sf_order_type f = Market" "first_tranche S (sf_quantity f) = Some q" "0 < q"
    and long: "\<forall>p. dm_get (mw_positions w) (sf_symbol f) = Some p \<longrightarrow> 0 \<le> p_quantity p"
  shows "\<exists>t p. dm_get (mw_orders (run_next_fill S w)) (sf_order_id f) = Some (filled_order S t q p ord)
    \<and> mw_scheduled (run_next_fill S w) = [f\<lparr>sf_remainder := Some (o_remaining_quantity (filled_order S t q p ord))\<rparr>]"
proof -
  obtain pr wp where gp: "get_price S (sf_symbol f) (w\<lparr>mw_scheduled := []\<rparr>) = (pr, wp)" by (metis surj_pair)
  then have wp: "dm_get (mw_orders wp) (sf_order_id f) = Some ord" "mw_scheduled wp = []" "mw_positions wp = mw_positions w"
    using w(2) price_simps(1-3) [of S "sf_symbol f" "w\<lparr>mw_scheduled := []\<rparr>"] by simp_all
  let ?a = "apply_fill S (sf_order_id f) (sf_symbol f) (sf_side f) q pr wp" and ?o = "filled_order S (mw_now wp) q pr ord"
  have "fst ?a = Some ?o" by (rule fill_answers [OF wp(1) w(3) f(4)]) (use wp(3) long in simp)
  then have a: "?a = (Some ?o, snd ?a)" by (metis prod.collapse)
  have "run_next_fill S w = (let w2 = mk_send_event (WsOrder EvOrderPartiallyFilled ?o None (mw_now (snd ?a))) (snd ?a)
      in w2\<lparr>mw_scheduled := mw_scheduled w2 @ [f\<lparr>sf_remainder := Some (o_remaining_quantity ?o)\<rparr>]\<rparr>)"
    by (simp add: run_next_fill_def w(1) fill_step_def gp should_fill_def f(1-3) Let_def, subst a, simp)
  then show ?thesis using fill_applied [OF wp(1) w(3), of S "sf_symbol f" "sf_side f" q pr] wp(2) by (auto simp: Let_def)
qed

lemma filled_order_simps [simp]:
  "o_filled_quantity (filled_order S t q p ord) = o_filled_quantity ord + q"
  "o_remaining_quantity (filled_order S t q p ord) = o_quantity ord - (o_filled_quantity ord + q)"
  "o_quantity (filled_order S t q p ord) = o_quantity ord"
  "o_status (filled_order S t q p ord) = (if 0 < o_quantity ord - (o_filled_quantity ord + q) then PartiallyFilled else Filled)"
  by (simp_all add: filled_order_def Let_def)

definition order_in :: "mock_world \<Rightarrow> string \<Rightarrow> (order_status \<times> decimal \<times> decimal) option" where
  "order_in w i = map_option (\<lambda>ord. (o_status ord, o_filled_quantity ord, o_remaining_quantity ord)) (dm_get (mw_orders w) i)"

definition market_task :: "string \<Rightarrow> order_request \<Rightarrow> scheduled_fill" where
  "market_task i r = \<lparr>sf_order_id = i, sf_symbol = or_symbol r, sf_side = or_side r, sf_quantity = or_quantity r,
     sf_order_type = or_order_type r, sf_limit_price = or_limit_price r, sf_stop_price = or_stop_price r, sf_remainder = None\<rparr>"

lemma submitted_order:
  assumes "validate_semantics (mk_to_string S) r = Inr ()" "mw_scheduled w = []" "mk_submit_order S r w = (res, w')"
  shows "dm_get (mw_orders w') (mk_uuid S (mw_ids w)) = Some (accepted_order (mw_now w) (mk_uuid S (mw_ids w)) r)
    \<and> mw_positions w' = mw_positions w \<and> mw_scheduled w' = [market_task (mk_uuid S (mw_ids w)) r]"
  using assms by (auto simp: mk_submit_order_def fresh_id_def Let_def market_task_def)

lemma accepted_simps [simp]:
  "o_status (accepted_order now i r) = Open" "o_filled_quantity (accepted_order now i r) = 0"
  "o_quantity (accepted_order now i r) = or_quantity r"
  by (simp_all add: accepted_order_def)

lemma task_simps [simp]:
  "sf_order_id (market_task i r) = i" "sf_remainder (market_task i r) = None" "sf_quantity (market_task i r) = or_quantity r"
  "sf_order_type (market_task i r) = or_order_type r" "sf_symbol (market_task i r) = or_symbol r"
  by (simp_all add: market_task_def)

text \<open>
  C37: A market order submitted to the mock broker is filled completely by the task it schedules, in
  one tranche or in two: once the scheduled fills have run, the order is filled with its whole
  quantity and nothing remains.
\<close>

theorem market_order_is_filled:
  assumes valid: "validate_semantics (mk_to_string S) r = Inr ()" "or_order_type r = Market"
    and idle: "mw_scheduled w = []" and long: "\<forall>p. dm_get (mw_positions w) (or_symbol r) = Some p \<longrightarrow> 0 \<le> p_quantity p"
    and run: "mk_submit_order S r w = (res, w1)"
  shows "order_in (run_next_fill S (run_next_fill S w1)) (mk_uuid S (mw_ids w)) = Some (Filled, or_quantity r, 0)
    \<and> mw_scheduled (run_next_fill S (run_next_fill S w1)) = []"
proof -
  let ?i = "mk_uuid S (mw_ids w)"
  let ?f = "market_task ?i r" and ?ord = "accepted_order (mw_now w) ?i r"
  have w1: "dm_get (mw_orders w1) (sf_order_id ?f) = Some ?ord" "mw_positions w1 = mw_positions w" "mw_scheduled w1 = [?f]"
    using submitted_order [OF valid(1) idle run] by simp_all
  show ?thesis
  proof (cases "first_tranche S (or_quantity r)")
    case None
    then obtain t p where "dm_get (mw_orders (run_next_fill S w1)) ?i = Some (filled_order S t (or_quantity r) p ?ord)"
        "mw_scheduled (run_next_fill S w1) = []"
      using last_tranche [OF w1(3,1), of "or_quantity r" S] valid(2) by auto
    then show ?thesis by (simp add: run_idle order_in_def)
  next
    case (Some q)
    then have q: "0 < q" "q < or_quantity r" by (auto simp: first_tranche_def Let_def split: option.splits if_splits)
    from half_tranche [OF w1(3,1), of S q] Some q valid(2) w1(2) long
    obtain t p where half: "dm_get (mw_orders (run_next_fill S w1)) ?i = Some (filled_order S t q p ?ord)"
        "mw_scheduled (run_next_fill S w1) = [?f\<lparr>sf_remainder := Some (or_quantity r - q)\<rparr>]" by auto
    from last_tranche [OF half(2), of "filled_order S t q p ?ord" "or_quantity r - q" S] half(1) q
    show ?thesis by (auto simp: order_in_def)
  qed
qed

text \<open>
  A scheduled fill keeps the quantity of the submission: an order whose quantity is reduced before
  its fill is filled beyond its new quantity, and its remaining quantity becomes negative.
\<close>

theorem reduced_order_is_overfilled:
  assumes valid: "validate_semantics (mk_to_string S) r = Inr ()" "or_order_type r = Market" "mk_ratio S = None"
    and idle: "mw_scheduled w = []" and less: "0 \<le> q" "q < or_quantity r"
    and run: "mk_submit_order S r w = (res, w1)"
    and modify: "mk_modify_order (mk_uuid S (mw_ids w)) (modify_order_request_default\<lparr>mo_quantity := Some q\<rparr>) w1 = (res2, w2)"
  shows "order_in (run_next_fill S w2) (mk_uuid S (mw_ids w)) = Some (Filled, or_quantity r, q - or_quantity r)
    \<and> q - or_quantity r < 0"
proof -
  let ?i = "mk_uuid S (mw_ids w)"
  have w1: "dm_get (mw_orders w1) ?i = Some (accepted_order (mw_now w) ?i r)" "mw_scheduled w1 = [market_task ?i r]"
    using submitted_order [OF valid(1) idle run] by simp_all
  obtain ord where w2: "dm_get (mw_orders w2) (sf_order_id (market_task ?i r)) = Some ord" "mw_scheduled w2 = [market_task ?i r]"
    and ord: "o_quantity ord = q" "o_filled_quantity ord = 0" "o_status ord = Open"
    using modify w1 less by (auto simp: mk_modify_order_def modify_order_request_default_def Let_def)
  have "o_status ord \<noteq> Cancelled" using ord by simp
  moreover have "first_tranche S (or_quantity r) = None" by (simp add: first_tranche_def valid(3))
  ultimately obtain t p where "dm_get (mw_orders (run_next_fill S w2)) ?i = Some (filled_order S t (or_quantity r) p ord)"
    using last_tranche [OF w2(2,1), of "or_quantity r" S] valid(2) by auto
  then show ?thesis using ord less by (simp add: order_in_def)
qed

end
