(* ===== verification/Gw_Mock_Feed.thy ===== *)
theory Gw_Mock_Feed
  imports Gw_Mock
begin

text \<open>
  What the mock broker reports beside its orders: the account, the trades, synthetic bars
  (\<open>crates/mock/src/adapter.rs\<close>, \<open>price.rs\<close>), and the provider that streams quotes and bars of the
  subscribed symbols (\<open>crates/mock/src/websocket.rs\<close>). The order in which a set of symbols is visited
  is the parameter \<open>visit\<close>. Every factor and every volume is the next draw of the random source.
\<close>

subsection \<open>Account and trades\<close>

definition mk_get_account :: account where
  "mk_get_account = \<lparr>acc_balance = 100000, acc_equity = 100000, acc_margin_used = 0, acc_margin_available = 100000,
     acc_unrealized_pnl = 0, acc_currency = ''USD''\<rparr>"

record trade_query =
  tq_symbol :: "string option"
  tq_order_id :: "string option"
  tq_since :: "utc option"
  tq_until :: "utc option"
  tq_limit :: "nat option"

definition trade_matches :: "trade_query \<Rightarrow> trade \<Rightarrow> bool" where
  "trade_matches q t =
     ((case tq_symbol q of Some s \<Rightarrow> t_symbol t = s | None \<Rightarrow> True)
      \<and> (case tq_order_id q of Some i \<Rightarrow> t_order_id t = i | None \<Rightarrow> True)
      \<and> (case tq_since q of Some since \<Rightarrow> since \<le> t_timestamp t | None \<Rightarrow> True)
      \<and> (case tq_until q of Some until \<Rightarrow> t_timestamp t < until | None \<Rightarrow> True))"

definition mk_get_trades :: "trade_query \<Rightarrow> mock_world \<Rightarrow> trade list" where
  "mk_get_trades q w = truncated (tq_limit q) (latest_first t_timestamp (filter (trade_matches q) (mw_trades w)))"

subsection \<open>Bars\<close>

definition bar_high_of :: "mock_source \<Rightarrow> decimal \<Rightarrow> decimal \<Rightarrow> decimal" where
  "bar_high_of S open_price close_price = max (d_mul (mk_ops S) (max open_price close_price) (1003 / 1000)) (1 / 100)"

definition bar_low_of :: "mock_source \<Rightarrow> decimal \<Rightarrow> decimal \<Rightarrow> decimal" where
  "bar_low_of S open_price close_price =
     max (max (d_mul (mk_ops S) (min open_price close_price) (997 / 1000)) (1 / 100)) (1 / 100)"

definition get_bar :: "mock_source \<Rightarrow> string \<Rightarrow> mock_world \<Rightarrow> bar \<times> mock_world" where
  "get_bar S symbol w =
     (case get_price S symbol w of
        (close_price, w1) \<Rightarrow>
          (let open_price = max (d_mul (mk_ops S) close_price (mk_walk S (mw_draws w1))) (1 / 100) in
           (\<lparr>bar_symbol = symbol, bar_provider = ''mock'', bar_timeframe = OneMinute, bar_timestamp = mw_now w1,
             bar_open = open_price, bar_high = bar_high_of S open_price close_price,
             bar_low = bar_low_of S open_price close_price, bar_close = close_price,
             bar_volume = mk_volume S (mw_draws w1 + 1)\<rparr>, w1\<lparr>mw_draws := mw_draws w1 + 2\<rparr>)))"

fun timeframe_duration :: "timeframe \<Rightarrow> duration" where
  "timeframe_duration OneMinute = 60 * 10 ^ 9"
| "timeframe_duration TwoMinutes = 2 * 60 * 10 ^ 9"
| "timeframe_duration FiveMinutes = 5 * 60 * 10 ^ 9"
| "timeframe_duration TenMinutes = 10 * 60 * 10 ^ 9"
| "timeframe_duration FifteenMinutes = 15 * 60 * 10 ^ 9"
| "timeframe_duration ThirtyMinutes = 30 * 60 * 10 ^ 9"
| "timeframe_duration OneHour = 3600 * 10 ^ 9"
| "timeframe_duration TwoHours = 2 * 3600 * 10 ^ 9"
| "timeframe_duration FourHours = 4 * 3600 * 10 ^ 9"
| "timeframe_duration TwelveHours = 12 * 3600 * 10 ^ 9"
| "timeframe_duration OneDay = 24 * 3600 * 10 ^ 9"
| "timeframe_duration OneWeek = 7 * 24 * 3600 * 10 ^ 9"

text \<open>The last \<open>left\<close> of the requested bars, each opening where the one before closed.\<close>

fun bars_from :: "mock_source \<Rightarrow> string \<Rightarrow> timeframe \<Rightarrow> utc \<Rightarrow> nat \<Rightarrow> decimal \<Rightarrow> mock_world \<Rightarrow> bar list \<times> mock_world" where
  "bars_from S symbol tf now 0 price w = ([], w)"
| "bars_from S symbol tf now (Suc left) price w =
     (let close_price = max (d_mul (mk_ops S) price (mk_walk S (mw_draws w))) (1 / 100);
          b = \<lparr>bar_symbol = symbol, bar_provider = ''mock'', bar_timeframe = tf,
               bar_timestamp = now - timeframe_duration tf * Suc left,
               bar_open = price, bar_high = bar_high_of S price close_price,
               bar_low = bar_low_of S price close_price, bar_close = close_price,
               bar_volume = mk_volume S (mw_draws w + 1)\<rparr>
      in case bars_from S symbol tf now left close_price (w\<lparr>mw_draws := mw_draws w + 2\<rparr>) of (bs, w1) \<Rightarrow> (b # bs, w1))"

definition generate_bars :: "mock_source \<Rightarrow> string \<Rightarrow> timeframe \<Rightarrow> nat \<Rightarrow> mock_world \<Rightarrow> bar list \<times> mock_world" where
  "generate_bars S symbol tf count w =
     (case get_price S symbol w of (price, w1) \<Rightarrow> bars_from S symbol tf (mw_now w1) count price w1)"

definition mk_get_bars :: "mock_source \<Rightarrow> string \<Rightarrow> timeframe \<Rightarrow> nat option \<Rightarrow> mock_world \<Rightarrow> bar list \<times> mock_world" where
  "mk_get_bars S symbol tf limit w = generate_bars S symbol tf (case limit of Some n \<Rightarrow> n | None \<Rightarrow> 100) w"

subsection \<open>The stream\<close>

record event_kinds =
  ek_candles :: bool
  ek_quotes :: bool

definition kinds_step :: "event_kinds \<Rightarrow> string \<Rightarrow> event_kinds" where
  "kinds_step k et =
     (if et = ''*'' then \<lparr>ek_candles = True, ek_quotes = True\<rparr>
      else if starts_with et ''candle'' \<or> et = ''bars'' \<or> et = ''bar'' then k\<lparr>ek_candles := True\<rparr>
      else if et = ''quote'' \<or> et = ''quotes'' then k\<lparr>ek_quotes := True\<rparr>
      else k)"

definition from_event_types :: "string list \<Rightarrow> event_kinds" where
  "from_event_types ets =
     (if ets = [] then \<lparr>ek_candles = True, ek_quotes = True\<rparr>
      else foldl kinds_step \<lparr>ek_candles = False, ek_quotes = False\<rparr> ets)"

record mock_provider =
  mp_symbols :: "string list"
  mp_kinds :: event_kinds
  mp_streaming :: bool

definition mock_provider_new :: mock_provider where
  "mock_provider_new = \<lparr>mp_symbols = [], mp_kinds = \<lparr>ek_candles = True, ek_quotes = True\<rparr>, mp_streaming = False\<rparr>"

definition mp_connect :: "string list \<Rightarrow> string list \<Rightarrow> mock_provider \<Rightarrow> mock_world \<Rightarrow> mock_provider \<times> mock_world" where
  "mp_connect symbols ets p w =
     (p\<lparr>mp_symbols := fold List.insert symbols (mp_symbols p), mp_kinds := from_event_types ets, mp_streaming := True\<rparr>,
      w\<lparr>mw_sink := True\<rparr>)"

definition mp_subscribe :: "string list \<Rightarrow> string list \<Rightarrow> mock_provider \<Rightarrow> mock_provider" where
  "mp_subscribe symbols ets p =
     (let p1 = p\<lparr>mp_symbols := fold List.insert symbols (mp_symbols p)\<rparr>
      in if ets \<noteq> [] then p1\<lparr>mp_kinds := from_event_types ets\<rparr> else p1)"

definition mp_unsubscribe :: "string list \<Rightarrow> mock_provider \<Rightarrow> mock_provider" where
  "mp_unsubscribe symbols p = p\<lparr>mp_symbols := filter (\<lambda>s. s \<notin> set symbols) (mp_symbols p)\<rparr>"

definition mp_disconnect :: "mock_provider \<Rightarrow> mock_world \<Rightarrow> mock_provider \<times> mock_world" where
  "mp_disconnect p w = (p\<lparr>mp_streaming := False\<rparr>, w\<lparr>mw_sink := False\<rparr>)"

definition mp_reconnect :: "mock_provider \<Rightarrow> mock_world \<Rightarrow> mock_provider \<times> mock_world" where
  "mp_reconnect p w = (p\<lparr>mp_streaming := True\<rparr>, w\<lparr>mw_sink := True\<rparr>)"

text \<open>
  What the streaming task sends for one symbol, and for all symbols when its interval ticks, while
  somebody holds the receiving end. Connecting again without disconnecting would leave a second
  task running; the registry connects a provider once.
\<close>

definition symbol_tick :: "mock_source \<Rightarrow> event_kinds \<Rightarrow> string \<Rightarrow> mock_world \<Rightarrow> ws_message list \<times> mock_world" where
  "symbol_tick S k symbol w =
     (case (if ek_quotes k then (case get_quote S symbol w of (q, w1) \<Rightarrow> ([WsQuoteData q (mw_now w1)], w1)) else ([], w)) of
        (qs, w1) \<Rightarrow>
          (case (if ek_candles k then (case get_bar S symbol w1 of (b, w2) \<Rightarrow> ([WsCandle b (mw_now w2)], w2)) else ([], w1)) of
             (cs, w2) \<Rightarrow> (qs @ cs, w2)))"

fun symbols_tick :: "mock_source \<Rightarrow> event_kinds \<Rightarrow> string list \<Rightarrow> mock_world \<Rightarrow> ws_message list \<times> mock_world" where
  "symbols_tick S k [] w = ([], w)"
| "symbols_tick S k (s # ss) w =
     (case symbol_tick S k s w of (ms, w1) \<Rightarrow> (case symbols_tick S k ss w1 of (ms2, w2) \<Rightarrow> (ms @ ms2, w2)))"

definition stream_tick :: "mock_source \<Rightarrow> (string list \<Rightarrow> string list) \<Rightarrow> mock_provider \<Rightarrow> mock_world \<Rightarrow> ws_message list \<times> mock_world" where
  "stream_tick S visit p w =
     (if mp_streaming p then symbols_tick S (mp_kinds p) (visit (mp_symbols p)) w else ([], w))"

subsection \<open>Bars are well formed\<close>

definition bar_ok :: "bar \<Rightarrow> bool" where
  "bar_ok b = (0 < bar_low b \<and> bar_low b \<le> min (bar_open b) (bar_close b)
     \<and> max (bar_open b) (bar_close b) \<le> bar_high b)"

lemma bar_ok_of:
  assumes "mk_ops S = exact_ops" "1 / 100 \<le> x" "1 / 100 \<le> y"
  shows "0 < bar_low_of S x y \<and> bar_low_of S x y \<le> min x y \<and> max x y \<le> bar_high_of S x y"
  using assms by (auto simp: bar_low_of_def bar_high_of_def exact_ops_def max_def min_def)

lemma get_price_floor: "get_price S symbol w = (p, w1) \<Longrightarrow> 1 / 100 \<le> p"
  by (auto simp: get_price_def Let_def)

lemma bars_from_ok:
  assumes "mk_ops S = exact_ops"
  shows "bars_from S symbol tf now n price w = (bs, w1) \<Longrightarrow> 1 / 100 \<le> price \<Longrightarrow>
    length bs = n \<and> list_all bar_ok bs \<and> (bs \<noteq> [] \<longrightarrow> bar_open (hd bs) = price)
    \<and> (\<forall>i. Suc i < n \<longrightarrow> bar_open (bs ! Suc i) = bar_close (bs ! i)) \<and> (\<forall>i < n. bar_timestamp (bs ! i) = now - timeframe_duration tf * (n - i))"
proof (induction n arbitrary: price w bs w1)
  case 0
  then show ?case by simp
next
  case (Suc n)
  define c where "c = max (d_mul (mk_ops S) price (mk_walk S (mw_draws w))) (1 / 100)"
  obtain bs' w2 where rest: "bars_from S symbol tf now n c (w\<lparr>mw_draws := mw_draws w + 2\<rparr>) = (bs', w2)" by (metis surj_pair)
  have c: "1 / 100 \<le> c" by (simp add: c_def)
  obtain b where bs: "bs = b # bs'" and b: "bar_ok b" "bar_open b = price" "bar_close b = c"
      "bar_timestamp b = now - timeframe_duration tf * Suc n"
    using Suc.prems(1) rest bar_ok_of [OF assms Suc.prems(2) c]
    by (auto simp: Let_def c_def [symmetric] bar_ok_def)
  note ih = Suc.IH [OF rest c]
  have "bar_open (bs ! Suc i) = bar_close (bs ! i)" if "Suc i < Suc n" for i
    using that ih b(3) by (cases i; cases bs') (auto simp: bs hd_conv_nth)
  moreover have "bar_timestamp (bs ! i) = now - timeframe_duration tf * (Suc n - i)" if "i < Suc n" for i
    using that ih b(4) by (cases i) (auto simp: bs)
  ultimately show ?case using ih b bs by simp
qed


subsection \<open>A subscription replaces the kinds of all\<close>

lemma symbol_tick_candles:
  "symbol_tick S k symbol w = (ms, w1) \<Longrightarrow>
    filter (\<lambda>m. case m of WsCandle b t \<Rightarrow> bar_symbol b = s | _ \<Rightarrow> False) ms = [] \<longleftrightarrow> (ek_candles k \<longrightarrow> s \<noteq> symbol)"
  by (auto simp: symbol_tick_def get_bar_def get_quote_def Let_def split: if_splits prod.splits)

lemma symbols_tick_candles:
  "symbols_tick S k ss w = (ms, w1) \<Longrightarrow>
    filter (\<lambda>m. case m of WsCandle b t \<Rightarrow> bar_symbol b = s | _ \<Rightarrow> False) ms = [] \<longleftrightarrow> (ek_candles k \<longrightarrow> s \<notin> set ss)"
  by (induction S k ss w arbitrary: ms w1 rule: symbols_tick.induct)
    (auto split: prod.splits simp: symbol_tick_candles)

text \<open>
  The quote subscription that the registry makes for a trailing stop replaces the kinds of events of
  all symbols: bars that were streamed before are not streamed any more, for any symbol.
\<close>

theorem quote_subscription_stops_bars:
  assumes "\<And>xs. set (visit xs) = set xs" and "s \<in> set (mp_symbols p)" "mp_streaming p" "ek_candles (mp_kinds p)"
    and "stream_tick S visit p w = (ms, w1)" and "stream_tick S visit (mp_subscribe [symbol] [''quote''] p) w = (ms', w1')"
  shows "filter (\<lambda>m. case m of WsCandle b t \<Rightarrow> bar_symbol b = s | _ \<Rightarrow> False) ms \<noteq> []
    \<and> filter (\<lambda>m. case m of WsCandle b t \<Rightarrow> bar_symbol b = s' | _ \<Rightarrow> False) ms' = []"
proof -
  have "\<not> ek_candles (mp_kinds (mp_subscribe [symbol] [''quote''] p))"
    by (simp add: mp_subscribe_def from_event_types_def kinds_step_def)
  moreover have "mp_streaming (mp_subscribe [symbol] [''quote''] p)" using assms(3) by (simp add: mp_subscribe_def)
  ultimately show ?thesis
    using assms symbols_tick_candles by (simp add: stream_tick_def)
qed

end
