(* ===== verification/Gw_Mock_Demo.thy ===== *)
theory Gw_Mock_Demo
  imports Gw_Mock_Props Gw_Mock_Feed Gw_Demo_Broker
begin

text \<open>The properties of the mock broker at a concrete source of ids, prices and volumes.\<close>

definition demo_source :: mock_source where
  "demo_source = \<lparr>mk_uuid = (\<lambda>n. replicate n CHR ''i''), mk_walk = (\<lambda>n. 1), mk_volume = (\<lambda>n. 1000), mk_ops = exact_ops,
     mk_to_string = (\<lambda>d. ''d''), mk_from_str = (\<lambda>s. None), mk_status_debug = (\<lambda>s. ''s''), mk_ratio = None\<rparr>"

definition half_source :: mock_source where
  "half_source = with_partial_fill_ratio (1 / 2) demo_source"

definition mock_buy :: order_request where
  "mock_buy = order_market ''MSFT'' Buy 2"

definition half_bought :: mock_world where
  "half_bought = run_next_fill half_source (snd (mk_submit_order half_source mock_buy (mock_world_new 0)))"

lemma demo_uuid_inj: "inj (mk_uuid half_source)"
proof (rule injI)
  fix m n assume "mk_uuid half_source m = mk_uuid half_source n"
  then have "length (mk_uuid half_source m) = length (mk_uuid half_source n)" by (rule arg_cong)
  then show "m = n" by (simp add: half_source_def demo_source_def with_partial_fill_ratio_def)
qed

theorem mock_books_balance_witness:
  "net half_bought ''MSFT'' = traded (mw_trades half_bought) ''MSFT'' \<and> traded (mw_trades half_bought) ''MSFT'' = 1
    \<and> order_in half_bought '''' = Some (PartiallyFilled, 1, 1)
    \<and> filled_by (mw_trades half_bought) '''' = 1"
proof -
  have "reachable (\<lambda>w. \<exists>now. w = mock_world_new now) (mock_step half_source) half_bought"
    unfolding half_bought_def
    by (rule reach_step [where s = "snd (mk_submit_order half_source mock_buy (mock_world_new 0))"],
        rule reach_step [where s = "mock_world_new 0"], rule reach_init) (blast intro: mock_fill mock_submit)+
  moreover have "traded (mw_trades half_bought) ''MSFT'' = 1" "order_in half_bought '''' = Some (PartiallyFilled, 1, 1)"
    by code_simp+
  ultimately show ?thesis
    using mock_books_balance [OF demo_uuid_inj, of half_bought "''MSFT''"] by (auto simp: order_in_def)
qed

theorem market_order_is_filled_witness:
  "order_in (run_next_fill half_source half_bought) '''' = Some (Filled, 2, 0)
    \<and> mw_scheduled (run_next_fill half_source half_bought) = []"
proof -
  have "validate_semantics (mk_to_string half_source) mock_buy = Inr ()" "or_order_type mock_buy = Market"
    "mw_scheduled (mock_world_new 0) = []" "mw_positions (mock_world_new 0) = []" "or_quantity mock_buy = 2"
    "mk_uuid half_source (mw_ids (mock_world_new 0)) = ''''" by code_simp+
  then show ?thesis
    using market_order_is_filled [of half_source mock_buy "mock_world_new 0"
      "fst (mk_submit_order half_source mock_buy (mock_world_new 0))" "snd (mk_submit_order half_source mock_buy (mock_world_new 0))"]
    by (simp add: half_bought_def)
qed

theorem reduced_order_is_overfilled_witness:
  "order_in (run_next_fill demo_source (snd (mk_modify_order '''' (modify_order_request_default\<lparr>mo_quantity := Some 1\<rparr>)
      (snd (mk_submit_order demo_source mock_buy (mock_world_new 0)))))) '''' = Some (Filled, 2, 1 - 2) \<and> (1 - 2 :: decimal) < 0"
proof -
  have "validate_semantics (mk_to_string demo_source) mock_buy = Inr ()" "or_order_type mock_buy = Market" "mk_ratio demo_source = None"
    "mw_scheduled (mock_world_new 0) = []" "or_quantity mock_buy = 2"
    "mk_uuid demo_source (mw_ids (mock_world_new 0)) = ''''" by code_simp+
  then show ?thesis
    using reduced_order_is_overfilled [of demo_source mock_buy "mock_world_new 0" 1] by (simp add: prod_eq_iff)
qed


end
