(* ===== verification/Gw_Api.thy ===== *)
theory Gw_Api
  imports Gw_Server Gw_Fill_Replay
begin

text \<open>
  The REST API (\<open>api/routes.rs\<close>, \<open>api/state.rs\<close>, \<open>api/middleware.rs\<close>) and the shutdown sequence
  (\<open>shutdown.rs\<close>): submission of an order with the registration of its exits, reads with their parent
  and correlation ids, the move of a position's exit legs, the circuit breakers, the probes and the
  check of the API key. A handler takes the state of the gateway and the world and returns the
  answer with both. Handlers that only hand a call to the adapter and its answer back (account,
  trades, quotes, bars, capabilities, status) are left out. Deserialization and the derived
  validation happen before a handler runs.

  The adapter is the parameter \<open>B\<close>: the calls of \<open>env\<close> and those only the API makes. The uuid of a
  correlation id is an argument.
\<close>

datatype bracket_strategy = NoBracket | NativeBracket | NativeOco | PendingSlTp

fun is_native :: "bracket_strategy \<Rightarrow> bool" where
  "is_native NativeBracket = True"
| "is_native NativeOco = True"
| "is_native _ = False"

fun requires_client_management :: "bracket_strategy \<Rightarrow> bool" where
  "requires_client_management NoBracket = True"
| "requires_client_management PendingSlTp = True"
| "requires_client_management _ = False"

record close_position_request =
  cq_order_type :: "order_type option"
  cq_limit_price :: "decimal option"
  cq_quantity :: "decimal option"

definition close_request_default :: close_position_request where
  "close_request_default = \<lparr>cq_order_type = None, cq_limit_price = None, cq_quantity = None\<rparr>"

record 'w broker =
  bk_env :: "'w env"
  bk_strategy :: "order_request \<Rightarrow> bracket_strategy"
  bk_get_position :: "string \<Rightarrow> 'w \<Rightarrow> (gateway_error + position) \<times> 'w"
  bk_close_position :: "string \<Rightarrow> close_position_request \<Rightarrow> 'w \<Rightarrow> (gateway_error + order_handle) \<times> 'w"
  bk_order_history :: "order_query \<Rightarrow> 'w \<Rightarrow> (gateway_error + order list) \<times> 'w"
  bk_breaker :: "'w \<Rightarrow> breaker_snapshot option"
  bk_reset_breaker :: "'w \<Rightarrow> (gateway_error + unit) \<times> 'w"

record gateway_state =
  gs_platform :: trading_platform
  gs_exits :: exit_registry
  gs_registry :: registry
  gs_api_key :: "string option"
  gs_shutting_down :: bool

definition gateway_state_new :: "trading_platform \<Rightarrow> exit_registry \<Rightarrow> registry \<Rightarrow> string option \<Rightarrow> gateway_state" where
  "gateway_state_new platform x rg key =
     \<lparr>gs_platform = platform, gs_exits = x, gs_registry = rg, gs_api_key = key, gs_shutting_down = False\<rparr>"

definition set_shutting_down :: "gateway_state \<Rightarrow> gateway_state" where
  "set_shutting_down st = st\<lparr>gs_shutting_down := True\<rparr>"

text \<open>The exit handler of the gateway's platform; the registry shares it, so an update is seen by all.\<close>

definition gs_exit :: "gateway_state \<Rightarrow> exit_handler option" where
  "gs_exit st = xr_get (gs_exits st) (gs_platform st)"

definition set_exit :: "exit_handler \<Rightarrow> gateway_state \<Rightarrow> gateway_state" where
  "set_exit h st = st\<lparr>gs_exits := dm_insert (gs_platform st) h (gs_exits st)\<rparr>"

subsection \<open>Orders\<close>

definition register_pending_exits ::
  "'w broker \<Rightarrow> order_request \<Rightarrow> string \<Rightarrow> gateway_state \<Rightarrow> 'w \<Rightarrow> gateway_state \<times> 'w" where
  "register_pending_exits B r order_id st w =
     (if or_stop_loss r = None \<and> or_take_profit r = None then (st, w)
      else if bk_strategy B r \<noteq> PendingSlTp then (st, w)
      else case gs_exit st of
        None \<Rightarrow> (st, w)
      | Some h \<Rightarrow>
          if has_pending_for_primary h order_id then (st, w)
          else
            (case register (dec_to_string (bk_env B)) (instant_now (bk_env B) w) (utc_now (bk_env B) w) order_id r h of
               (Inl e, h1) \<Rightarrow> (set_exit h1 st, w)
             | (Inr legs, h1) \<Rightarrow>
                 (case process_buffered_fill (bk_env B) order_id h1 w of (replayed, h2, w1) \<Rightarrow> (set_exit h2 st, w1))))"

definition store_correlation :: "string \<Rightarrow> string \<Rightarrow> gateway_state \<Rightarrow> gateway_state" where
  "store_correlation order_id correlation_id st =
     st\<lparr>gs_registry := (gs_registry st)\<lparr>rg_correlation := corr_store order_id correlation_id (rg_correlation (gs_registry st))\<rparr>\<rparr>"

definition api_submit_order ::
  "'w broker \<Rightarrow> string \<Rightarrow> order_request \<Rightarrow> gateway_state \<Rightarrow> 'w \<Rightarrow> (gateway_error + order_handle) \<times> gateway_state \<times> 'w" where
  "api_submit_order B correlation_id r st w =
     (case validate_semantics (dec_to_string (bk_env B)) r of
        Inl e \<Rightarrow> (Inl e, st, w)
      | Inr _ \<Rightarrow>
          if gs_shutting_down st then (Inl ShuttingDown, st, w)
          else
            (case submit_order (bk_env B) r w of
               (Inl e, w1) \<Rightarrow> (Inl e, st, w1)
             | (Inr handle, w1) \<Rightarrow>
                 (case register_pending_exits B r (oh_id handle) st w1 of
                    (st1, w2) \<Rightarrow>
                      (Inr (handle\<lparr>oh_correlation_id := Some correlation_id\<rparr>),
                       store_correlation (oh_id handle) correlation_id st1, w2))))"

definition gs_parent_order_id_for :: "gateway_state \<Rightarrow> string \<Rightarrow> string option" where
  "gs_parent_order_id_for st order_id =
     (case gs_exit st of Some h \<Rightarrow> parent_order_id_for h order_id | None \<Rightarrow> None)"

definition resolve_parent_order_id :: "gateway_state \<Rightarrow> order \<Rightarrow> order" where
  "resolve_parent_order_id st ord =
     (if o_parent_order_id ord = None then ord\<lparr>o_parent_order_id := gs_parent_order_id_for st (o_id ord)\<rparr> else ord)"

definition annotated :: "gateway_state \<Rightarrow> order \<Rightarrow> order" where
  "annotated st ord =
     resolve_parent_order_id st (ord\<lparr>o_correlation_id := corr_get (rg_correlation (gs_registry st)) (o_id ord)\<rparr>)"

definition api_get_order :: "'w broker \<Rightarrow> string \<Rightarrow> gateway_state \<Rightarrow> 'w \<Rightarrow> (gateway_error + order) \<times> 'w" where
  "api_get_order B order_id st w =
     (case get_order (bk_env B) order_id w of (Inl e, w1) \<Rightarrow> (Inl e, w1) | (Inr ord, w1) \<Rightarrow> (Inr (annotated st ord), w1))"

definition api_get_orders :: "'w broker \<Rightarrow> order_query \<Rightarrow> gateway_state \<Rightarrow> 'w \<Rightarrow> (gateway_error + order list) \<times> 'w" where
  "api_get_orders B q st w =
     (case get_orders (bk_env B) q w of (Inl e, w1) \<Rightarrow> (Inl e, w1) | (Inr ords, w1) \<Rightarrow> (Inr (map (annotated st) ords), w1))"

definition api_get_order_history :: "'w broker \<Rightarrow> order_query \<Rightarrow> gateway_state \<Rightarrow> 'w \<Rightarrow> (gateway_error + order list) \<times> 'w" where
  "api_get_order_history B q st w =
     (case bk_order_history B q w of (Inl e, w1) \<Rightarrow> (Inl e, w1) | (Inr ords, w1) \<Rightarrow> (Inr (map (annotated st) ords), w1))"

text \<open>Changing and cancelling an order is left to the broker; the exits of the order are not touched here.\<close>

definition api_modify_order ::
  "'w broker \<Rightarrow> string \<Rightarrow> modify_order_request \<Rightarrow> gateway_state \<Rightarrow> 'w \<Rightarrow> (gateway_error + modify_order_result) \<times> gateway_state \<times> 'w" where
  "api_modify_order B order_id m st w = (case modify_order (bk_env B) order_id m w of (res, w1) \<Rightarrow> (res, st, w1))"

definition api_cancel_order ::
  "'w broker \<Rightarrow> string \<Rightarrow> gateway_state \<Rightarrow> 'w \<Rightarrow> (gateway_error + cancel_order_result) \<times> gateway_state \<times> 'w" where
  "api_cancel_order B order_id st w = (case cancel_order (bk_env B) order_id w of (res, w1) \<Rightarrow> (res, st, w1))"

definition api_cancel_all_orders ::
  "'w broker \<Rightarrow> string option \<Rightarrow> gateway_state \<Rightarrow> 'w \<Rightarrow> (gateway_error + cancel_all_result) \<times> gateway_state \<times> 'w" where
  "api_cancel_all_orders B symbol st w = (case cancel_all_orders (bk_env B) symbol w of (res, w1) \<Rightarrow> (res, st, w1))"

subsection \<open>Positions\<close>

definition api_close_position ::
  "'w broker \<Rightarrow> string \<Rightarrow> close_position_request option \<Rightarrow> gateway_state \<Rightarrow> 'w
     \<Rightarrow> (gateway_error + order_handle) \<times> gateway_state \<times> 'w" where
  "api_close_position B position_id request st w =
     (case bk_close_position B position_id (case request of Some q \<Rightarrow> q | None \<Rightarrow> close_request_default) w of
        (res, w1) \<Rightarrow> (res, st, w1))"

text \<open>A position that is gone is an empty answer when all are closed.\<close>

definition api_close_all_positions ::
  "'w broker \<Rightarrow> string option \<Rightarrow> gateway_state \<Rightarrow> 'w \<Rightarrow> (gateway_error + order_handle list) \<times> gateway_state \<times> 'w" where
  "api_close_all_positions B symbol st w =
     (case close_all_positions (bk_env B) symbol w of
        (Inr handles, w1) \<Rightarrow> (Inr handles, st, w1)
      | (Inl (PositionNotFound i), w1) \<Rightarrow> (Inr [], st, w1)
      | (Inl e, w1) \<Rightarrow> (Inl e, st, w1))"

record modify_exits_result =
  me_position_id :: string
  me_stop_loss :: "exit_leg_placement option"
  me_take_profit :: "exit_leg_placement option"

definition unprotected_text :: "string \<Rightarrow> exit_leg_type \<Rightarrow> string" where
  "unprotected_text position_id leg =
     leg_to_string leg @ '' for position '' @ position_id @ '' was cancelled and could not be re-established '' @ em_dash @
     '' the position is unprotected''"

definition unprotected_alert ::
  "utc \<Rightarrow> string \<Rightarrow> exit_leg_type \<Rightarrow> string \<Rightarrow> gateway_error \<Rightarrow> gateway_error \<Rightarrow> ws_message" where
  "unprotected_alert now position_id leg cancelled_order_id source restore_error =
     error_with_details now WsPositionUnprotected (unprotected_text position_id leg)
       (JObject [(''position_id'', JString position_id), (''leg_type'', JString (leg_to_string leg)),
                 (''cancelled_order_id'', JString cancelled_order_id), (''error'', JString (error_to_string source)),
                 (''restore_error'', JString (error_to_string restore_error))])"

definition tell_strategies :: "ws_message \<Rightarrow> gateway_state \<Rightarrow> gateway_state" where
  "tell_strategies m st =
     st\<lparr>gs_registry := (gs_registry st)\<lparr>rg_connections := broadcast m (rg_connections (gs_registry st))\<rparr>\<rparr>"

fun unprotected_or :: "utc \<Rightarrow> string \<Rightarrow> exit_leg_type \<Rightarrow> replace_exit_leg_error \<Rightarrow> gateway_state \<Rightarrow> gateway_error \<times> gateway_state" where
  "unprotected_or now position_id leg (StillProtected e) st = (e, st)"
| "unprotected_or now position_id leg (Unprotected cancelled source restore) st =
     (ProviderError (unprotected_text position_id leg) None None,
      tell_strategies (unprotected_alert now position_id leg cancelled source restore) st)"

definition placed_leg :: "exit_leg_type \<Rightarrow> exit_leg_placement \<Rightarrow> modify_exits_result \<Rightarrow> modify_exits_result" where
  "placed_leg leg placement result =
     (case leg of StopLoss \<Rightarrow> result\<lparr>me_stop_loss := Some placement\<rparr> | TakeProfit \<Rightarrow> result\<lparr>me_take_profit := Some placement\<rparr>)"

fun move_legs ::
  "'w broker \<Rightarrow> string \<Rightarrow> (exit_leg_type \<times> decimal option) list \<Rightarrow> modify_exits_result \<Rightarrow> exit_handler \<Rightarrow> gateway_state \<Rightarrow> 'w
     \<Rightarrow> (gateway_error + modify_exits_result) \<times> gateway_state \<times> 'w" where
  "move_legs B position_id [] result h st w = (Inr result, st, w)"
| "move_legs B position_id ((leg, None) # legs) result h st w = move_legs B position_id legs result h st w"
| "move_legs B position_id ((leg, Some price) # legs) result h st w =
     (case live_exit_leg h position_id leg of
        None \<Rightarrow>
          (Inl (OrderNotModifiable position_id (''position has no resting '' @ leg_to_string leg @ '' leg to move'')), st, w)
      | Some entry \<Rightarrow>
          (case replace_exit_leg (bk_env B) (ee_placeholder_id entry) price h w of
             (Inl err, h1, w1) \<Rightarrow>
               (case unprotected_or (utc_now (bk_env B) w1) position_id leg err (set_exit h1 st) of (e, st1) \<Rightarrow> (Inl e, st1, w1))
           | (Inr placement, h1, w1) \<Rightarrow>
               move_legs B position_id legs (placed_leg leg placement result) h1 (set_exit h1 st) w1))"

definition api_modify_position_exits ::
  "'w broker \<Rightarrow> string \<Rightarrow> decimal option \<Rightarrow> decimal option \<Rightarrow> gateway_state \<Rightarrow> 'w
     \<Rightarrow> (gateway_error + modify_exits_result) \<times> gateway_state \<times> 'w" where
  "api_modify_position_exits B position_id stop_loss take_profit st w =
     (case bk_get_position B position_id w of
        (Inl e, w1) \<Rightarrow> (Inl e, st, w1)
      | (Inr p, w1) \<Rightarrow>
          (case gs_exit st of
             None \<Rightarrow> (Inl (UnsupportedOperation ''exit management'' (header_value (gs_platform st))), st, w1)
           | Some h \<Rightarrow>
               move_legs B position_id [(StopLoss, stop_loss), (TakeProfit, take_profit)]
                 \<lparr>me_position_id = position_id, me_stop_loss = None, me_take_profit = None\<rparr> h st w1))"

subsection \<open>Circuit breakers\<close>

definition exit_order_snapshot :: "gateway_state \<Rightarrow> breaker_snapshot" where
  "exit_order_snapshot st = (case gs_exit st of
     Some h \<Rightarrow> \<lparr>sn_state = (case eb_state (eh_breaker h) of CircuitClosed \<Rightarrow> ''closed'' | CircuitOpen \<Rightarrow> ''open''),
                sn_failure_count = eb_failure_count (eh_breaker h)\<rparr>
   | None \<Rightarrow> snapshot_closed)"

definition breaker_status :: "'w broker \<Rightarrow> gateway_state \<Rightarrow> 'w \<Rightarrow> breaker_snapshot \<times> breaker_snapshot" where
  "breaker_status B st w =
     (case bk_breaker B w of Some s \<Rightarrow> s | None \<Rightarrow> snapshot_closed, exit_order_snapshot st)"

definition reset_exit_breaker :: "instant \<Rightarrow> gateway_state \<Rightarrow> (gateway_error + unit) \<times> gateway_state" where
  "reset_exit_breaker now st = (case gs_exit st of
     None \<Rightarrow> (Inr (), st)
   | Some h \<Rightarrow> (case reset_circuit_breaker now h of
       (Inl msg, h1) \<Rightarrow> (Inl (ResetCooldown msg), set_exit h1 st) | (Inr u, h1) \<Rightarrow> (Inr u, set_exit h1 st)))"

definition api_reset_circuit_breakers ::
  "'w broker \<Rightarrow> gateway_state \<Rightarrow> 'w \<Rightarrow> (gateway_error + breaker_snapshot \<times> breaker_snapshot) \<times> gateway_state \<times> 'w" where
  "api_reset_circuit_breakers B st w =
     (case (if bk_breaker B w \<noteq> None then bk_reset_breaker B w else (Inr (), w)) of
        (Inl e, w1) \<Rightarrow> (Inl e, st, w1)
      | (Inr _, w1) \<Rightarrow>
          (case reset_exit_breaker (instant_now (bk_env B) w1) st of
             (Inl e, st1) \<Rightarrow> (Inl e, st1, w1)
           | (Inr _, st1) \<Rightarrow> (Inr (breaker_status B st1 w1), st1, w1)))"

subsection \<open>Probes\<close>

record ready_status =
  rs_ready :: bool
  rs_providers :: "string list"
  rs_provider_count :: nat
  rs_message :: "string option"

definition ready_status_ready :: "string list \<Rightarrow> ready_status" where
  "ready_status_ready providers =
     \<lparr>rs_ready = True, rs_providers = providers, rs_provider_count = length providers, rs_message = None\<rparr>"

definition ready_status_not_ready :: "string \<Rightarrow> ready_status" where
  "ready_status_not_ready reason =
     \<lparr>rs_ready = False, rs_providers = [], rs_provider_count = 0, rs_message = Some reason\<rparr>"

definition get_readyz :: "gateway_state \<Rightarrow> nat \<times> ready_status" where
  "get_readyz st =
     (if gs_shutting_down st then (503, ready_status_not_ready ''Gateway is shutting down'')
      else (200, ready_status_ready [header_value (gs_platform st)]))"

datatype overall_status = Connected | Degraded

record provider_health =
  ph_platform :: string
  ph_connected :: bool
  ph_stale_instruments :: "string list"

record detailed_health =
  dh_status :: overall_status
  dh_version :: string
  dh_git_sha :: string
  dh_providers :: "provider_health list"

definition get_health :: "string \<Rightarrow> string \<Rightarrow> gateway_state \<Rightarrow> detailed_health" where
  "get_health version git_sha st =
     (let stale = (case get_staleness (gs_registry st) (gs_platform st) of Some xs \<Rightarrow> xs | None \<Rightarrow> []);
          connected = (stale = [])
      in \<lparr>dh_status = (if connected then Connected else Degraded), dh_version = version, dh_git_sha = git_sha,
          dh_providers = [\<lparr>ph_platform = header_value (gs_platform st), ph_connected = connected,
                           ph_stale_instruments = stale\<rparr>]\<rparr>)"

subsection \<open>The API key\<close>

text \<open>Header values are visible ASCII text with blanks and tabs; \<open>http_trim\<close> drops those at both ends.\<close>

definition is_blank :: "char \<Rightarrow> bool" where
  "is_blank c = (of_char c \<in> {9 :: nat, 10, 11, 12, 13, 32})"

definition http_trim :: "string \<Rightarrow> string" where
  "http_trim s = rev (dropWhile is_blank (rev (dropWhile is_blank s)))"

definition nonempty_trim :: "string \<Rightarrow> string option" where
  "nonempty_trim s = (let t = http_trim s in if t \<noteq> [] then Some t else None)"

definition extract_api_key :: "string option \<Rightarrow> string option \<Rightarrow> string option" where
  "extract_api_key authorization x_api_key =
     (case Option.bind authorization (\<lambda>v. Option.bind (strip_prefix v ''Bearer '') nonempty_trim) of
        Some key \<Rightarrow> Some key
      | None \<Rightarrow> Option.bind x_api_key nonempty_trim)"

definition is_public_path :: "string \<Rightarrow> bool" where
  "is_public_path path = (path \<in> {''/livez'', ''/readyz'', ''/health'', ''/metrics''})"

definition auth_middleware :: "gateway_state \<Rightarrow> string \<Rightarrow> string option \<Rightarrow> string option \<Rightarrow> gateway_error + unit" where
  "auth_middleware st path authorization x_api_key =
     (case gs_api_key st of
        None \<Rightarrow> Inr ()
      | Some expected \<Rightarrow>
          if is_public_path path then Inr ()
          else
            (case extract_api_key authorization x_api_key of
               Some provided \<Rightarrow>
                 if length expected = length provided \<and> expected = provided then Inr ()
                 else Inl (Unauthorized ''Invalid API key'' ''INVALID_API_KEY'')
             | None \<Rightarrow> Inl (Unauthorized ''API key required'' ''MISSING_API_KEY'')))"

subsection \<open>Shutdown\<close>

text \<open>
  The strategies are told first, then the flag is set and the exits are written. Stopping the
  providers and the background tasks is not modelled.
\<close>

definition run_shutdown_sequence :: "utc \<Rightarrow> gateway_state \<Rightarrow> (utc \<times> exit_state_entry list) option \<times> gateway_state" where
  "run_shutdown_sequence now st =
     (let st1 = st\<lparr>gs_registry := (gs_registry st)\<lparr>rg_connections := broadcast_shutdown now (rg_connections (gs_registry st))\<rparr>\<rparr>;
          st2 = set_shutting_down st1
      in (exit_state_snapshot now (gs_exits st2), st2))"

end
