(* ===== verification/Gw_Api_Props.thy ===== *)
theory Gw_Api_Props
  imports Gw_Api
begin

text \<open>
  What a client of the API gets: an accepted order with a stop-loss or take-profit is protected as
  soon as it fills, whether the fill is reported before or after the registration of its exits; a
  refused order leaves no trace; a repeated answer of the broker does not double the exits; and a
  move of exit legs either reports where they rest or, when cover was lost, tells every strategy.
\<close>

subsection \<open>A full fill covers every registered leg\<close>

lemma full_fill_step:
  assumes env: "accepting E" "reports_quantity E" and t: "tracks h pid 0"
    and m: "0 < q" "hc_min_exit_order_qty (eh_config h) \<le> q"
    and p: "process_entry_fill E pid q q None posid h w = (r, h', w')"
  shows "leg_coverage h' pid = q \<and> eb_is_open (eh_breaker h') = eb_is_open (eh_breaker h)
    \<and> map_option (\<lambda>e. (ee_trigger_price e, ee_side e, ee_symbol e)) (get_entry h' pid) =
        map_option (\<lambda>e. (ee_trigger_price e, ee_side e, ee_symbol e)) (get_entry h pid)"
proof -
  obtain e where e: "get_entry h pid = Some e" "is_pending e" and brk: "\<not> eb_is_open (eh_breaker h)"
    and cov: "leg_coverage h pid = 0"
    using t by (auto simp: tracks_def split: option.splits)
  have new: "\<not> settled h pid q"
    using t e m(1) by (auto simp: tracks_def settled_def terminal_status_def is_pending_def
        split: option.splits exit_entry_status.splits)
  have "hc_min_exit_order_qty (eh_config h) \<le> fill_target q q None (q < q) - leg_coverage h pid"
    using m(2) cov by (simp add: fill_target_def)
  from process_places [OF env(1) brk e new this, of posid w] p
  obtain ord where r: "r = pr_success pid (ee_order_type e) ord" and
    h': "h' = snd (handle_successful_placement (utc_now E w') pid e ord None
      (record_position_id pid posid (update_last_attempted_fill_qty (utc_now E w) pid q h)))"
    by auto
  have "leg_coverage h' pid = q"
    using process_coverage [OF env(2) e(1) p] r e(2)
    by (simp add: pr_is_success_def pr_success_def fill_target_def)
  then show ?thesis
    using h' e(1) by (auto simp: handle_successful_placement_def Let_def update_entry_to_placed_def
        update_last_attempted_fill_qty_def record_position_id_def split: option.splits)
qed

definition leg_entry :: "exit_handler \<Rightarrow> string \<Rightarrow> decimal \<times> (decimal \<times> side \<times> string) option" where
  "leg_entry h pid = (leg_coverage h pid, map_option (\<lambda>e. (ee_trigger_price e, ee_side e, ee_symbol e)) (get_entry h pid))"

lemma full_fill_all:
  assumes env: "accepting E" "reports_quantity E" and q: "0 < q"
  shows "process_entries E pids q q None posid h w = (rs, h', w') \<Longrightarrow> distinct pids \<Longrightarrow>
    hc_min_exit_order_qty (eh_config h) \<le> q \<Longrightarrow> (\<And>pid. pid \<in> set pids \<Longrightarrow> tracks h pid 0) \<Longrightarrow>
    pid \<in> set pids \<Longrightarrow> leg_entry h' pid = (q, snd (leg_entry h pid))"
proof (induction pids arbitrary: h w rs)
  case (Cons k pids)
  obtain r h1 w1 where p: "process_entry_fill E k q q None posid h w = (r, h1, w1)"
    by (cases "process_entry_fill E k q q None posid h w")
  obtain rs2 where rest: "process_entries E pids q q None posid h1 w1 = (rs2, h', w')"
    using Cons.prems(1) p by (auto split: prod.splits)
  note step = full_fill_step [OF env Cons.prems(4) q Cons.prems(3) p, simplified]
  have frame: "get_entry h1 i = get_entry h i" if "i \<noteq> k" for i
    using frame_process_entry_fill [OF p] that by (simp add: fill_frame_def)
  have conf: "hc_min_exit_order_qty (eh_config h1) \<le> q"
    using frame_process_entry_fill [OF p] Cons.prems(3) by (simp add: fill_frame_def)
  have tr: "tracks h1 i 0" if "i \<in> set pids" for i
  proof -
    have "i \<noteq> k" using that Cons.prems(2) by auto
    then show ?thesis using Cons.prems(4) [of i] that frame [of i] step by (simp add: tracks_def leg_coverage_def)
  qed
  show ?case
  proof (cases "pid = k")
    case True
    then have "get_entry h' pid = get_entry h1 pid"
      using rest Cons.prems(2) by (induction pids arbitrary: h1 w1 rs2)
        (auto split: prod.splits dest!: frame_process_entry_fill simp: fill_frame_def)
    then show ?thesis using step True by (simp add: leg_entry_def leg_coverage_def)
  next
    case False
    then have "leg_entry h' pid = (q, snd (leg_entry h1 pid))"
      using Cons.IH [OF rest _ conf tr] Cons.prems(2,5) by simp
    then show ?thesis using frame [OF False] by (simp add: leg_entry_def)
  qed
qed simp

lemma registered_placeholders:
  assumes "register dts inst now p r h = (Inr legs, h')" "get_placeholders_for_primary h p = []"
  shows "get_placeholders_for_primary h' p = opt_list (rl_stop_loss_id legs) @ opt_list (rl_take_profit_id legs)"
  using assms by (cases "or_stop_loss r"; cases "or_take_profit r")
    (auto simp: register_def Let_def get_placeholders_for_primary_def insert_entry_inner_maps link_siblings_legs opt_list_def
        registered_empty_def simp del: link_siblings.simps(1) split: sum.splits if_splits option.splits)

lemma registered_frame:
  assumes "register dts inst now p r h = (Inr legs, h')"
  shows "eh_config h' = eh_config h \<and> eh_breaker h' = eh_breaker h \<and> eh_unmatched h' = eh_unmatched h"
  using assms by (cases "or_stop_loss r"; cases "or_take_profit r")
    (auto simp: register_def Let_def insert_entry_inner_def add_to_secondary_index_def update_entry_def
        registered_empty_def split: sum.splits if_splits)

fun leg_price :: "order_request \<Rightarrow> exit_leg_type \<Rightarrow> decimal option" where
  "leg_price r StopLoss = or_stop_loss r"
| "leg_price r TakeProfit = or_take_profit r"

definition protects :: "order_request \<Rightarrow> string \<Rightarrow> exit_handler \<Rightarrow> bool" where
  "protects r i h = (\<forall>leg price. leg_price r leg = Some price \<longrightarrow>
     leg_entry h (generate_placeholder_id leg i) = (or_quantity r, Some (price, opposite_side (or_side r), or_symbol r)))"

lemma registered_fill_protects:
  assumes env: "accepting E" "reports_quantity E" and q: "0 < or_quantity r"
    and min: "hc_min_exit_order_qty (eh_config h) \<le> or_quantity r" and brk: "\<not> eb_is_open (eh_breaker h)"
    and none: "get_placeholders_for_primary h i = []" and reg: "register dts inst now i r h = (Inr legs, h1)"
    and some: "or_stop_loss r \<noteq> None \<or> or_take_profit r \<noteq> None"
    and run: "handle_fill_internal E i (or_quantity r) (or_quantity r) None posid (h1\<lparr>eh_unmatched := u\<rparr>) w = (rs, h2, w2)"
  shows "protects r i h2"
  unfolding protects_def
proof (intro allI impI)
  fix leg price assume price: "leg_price r leg = Some price"
  let ?h = "h1\<lparr>eh_unmatched := u\<rparr>" and ?pids = "get_placeholders_for_primary h1 i"
  note pids = registered_placeholders [OF reg none] and ids = register_InrD(3,4) [OF reg]
  have tr: "tracks ?h pid 0" if k: "pid \<in> set ?pids" for pid
  proof -
    have "(\<exists>x. or_stop_loss r = Some x \<and> pid = generate_placeholder_id StopLoss i)
        \<or> (\<exists>x. or_take_profit r = Some x \<and> pid = generate_placeholder_id TakeProfit i)"
      using k pids ids by (cases "or_stop_loss r"; cases "or_take_profit r") (auto simp: opt_list_def)
    then obtain leg' price' where "pid = generate_placeholder_id leg' i" "leg_price r leg' = Some price'"
      using leg_price.simps by metis
    then show ?thesis
      using register_entry [OF reg, of leg' price'] registered_frame [OF reg] brk
      by (cases leg') (auto simp: tracks_def leg_coverage_def get_entry_def is_pending_def calculate_active_coverage_def)
  qed
  have pid: "generate_placeholder_id leg i \<in> set ?pids" using price pids ids by (cases leg) (auto simp: opt_list_def)
  have dist: "distinct ?pids" using pids ids
    by (cases "or_stop_loss r"; cases "or_take_profit r") (auto simp: opt_list_def generate_placeholder_id_def)
  have "?pids \<noteq> []" using pid by (metis empty_iff empty_set)
  then have "process_entries E ?pids (or_quantity r) (or_quantity r) None posid ?h w = (rs, h2, w2)"
    using run q placeholders_primary_eq [of ?h h1 i]
    by (auto simp: handle_fill_internal_def handle_fill_with_def Let_def)
  from full_fill_all [OF env q this dist _ tr pid] min registered_frame [OF reg]
  have "leg_entry h2 (generate_placeholder_id leg i) = (or_quantity r, snd (leg_entry ?h (generate_placeholder_id leg i)))" by simp
  then show "leg_entry h2 (generate_placeholder_id leg i) = (or_quantity r, Some (price, opposite_side (or_side r), or_symbol r))"
    using register_entry [OF reg, of leg price] price by (cases leg) (auto simp: leg_entry_def get_entry_def)
qed

lemma gs_exit_set [simp]: "gs_exit (set_exit h st) = Some h" "gs_exit (store_correlation i c st) = gs_exit st"
  by (simp_all add: gs_exit_def set_exit_def xr_get_def store_correlation_def)

lemma register_succeeds:
  assumes "request_ok r" "pending_count h < hc_max_pending_entries (eh_config h)"
  shows "\<exists>legs h1. register dts inst now i r h = (Inr legs, h1)"
  using assms by (cases "or_stop_loss r"; cases "or_take_profit r")
    (auto simp: register_def request_ok_def validate_price_def Let_def)


subsection \<open>Submissions that change nothing\<close>

text \<open>
  C18: A refused submission leaves no trace in the gateway. An invalid order, or any order while the
  gateway shuts down, is not sent to the broker; an order the broker refuses is sent exactly once.
\<close>

theorem refused_submission_leaves_no_trace:
  assumes env: "bk_env B = traced E" and run: "api_submit_order B cid r st (w, calls) = (Inl e, st', w', calls')"
  shows "st' = st \<and>
    (calls' = calls \<and> w' = w \<and> (validate_semantics (dec_to_string E) r = Inl e \<or> gs_shutting_down st \<and> e = ShuttingDown)
     \<or> calls' = calls @ [CallSubmit r] \<and> submit_order E r w = (Inl e, w')
       \<and> validate_semantics (dec_to_string E) r = Inr () \<and> \<not> gs_shutting_down st)"
  using run by (auto simp: api_submit_order_def env split: sum.splits if_splits prod.splits)

text \<open>
  C19: When the broker answers a repeated submission with the id of an order whose exits are already
  registered, the exits are kept as they are: nothing is registered twice, no exit order is placed,
  and the submission is the only call. The handle carries the new correlation id, under which
  a later read of the order reports it.
\<close>

theorem repeated_submission_keeps_exits:
  assumes env: "bk_env B = traced E" and exits: "gs_exit st = Some h" "has_pending_for_primary h (oh_id handle)"
    and ans: "submit_order E r w = (Inr handle, w1)"
    and run: "api_submit_order B cid r st (w, calls) = (Inr handle', st', w', calls')"
  shows "gs_exits st' = gs_exits st \<and> w' = w1 \<and> calls' = calls @ [CallSubmit r]
    \<and> handle' = handle\<lparr>oh_correlation_id := Some cid\<rparr>
    \<and> (\<forall>ord. o_id ord = oh_id handle \<longrightarrow> o_correlation_id (annotated st' ord) = Some cid)"
proof -
  have "register_pending_exits B r (oh_id handle) st wt = (st, wt)" for wt
    using exits by (auto simp: register_pending_exits_def)
  then have st': "st' = store_correlation (oh_id handle) cid st" "w' = w1" "calls' = calls @ [CallSubmit r]"
      "handle' = handle\<lparr>oh_correlation_id := Some cid\<rparr>"
    using run ans by (auto simp: api_submit_order_def env split: sum.splits if_splits)
  then show ?thesis
    by (auto simp: store_correlation_def annotated_def resolve_parent_order_id_def corr_store_def corr_get_def)
qed

subsection \<open>Moving exit legs\<close>

definition strategies :: "gateway_state \<Rightarrow> connection_manager" where
  "strategies st = rg_connections (gs_registry st)"

lemma strategies_simps [simp]:
  "strategies (set_exit h st) = strategies st" "strategies (tell_strategies m st) = broadcast m (strategies st)"
  by (simp_all add: strategies_def set_exit_def tell_strategies_def)

definition moved_to :: "decimal option \<Rightarrow> exit_leg_placement option \<Rightarrow> bool" where
  "moved_to price placement = (map_option lp_trigger_price placement = price)"

fun leg_placement :: "modify_exits_result \<Rightarrow> exit_leg_type \<Rightarrow> exit_leg_placement option" where
  "leg_placement result StopLoss = me_stop_loss result"
| "leg_placement result TakeProfit = me_take_profit result"

lemma leg_placement_placed [simp]:
  "leg_placement (placed_leg leg pl result) leg' = (if leg' = leg then Some pl else leg_placement result leg')"
  by (cases leg; cases leg') (simp_all add: placed_leg_def)

lemma replace_price: "replace_exit_leg E pid price h w = (Inr pl, h1, w1) \<Longrightarrow> lp_trigger_price pl = price"
  by (auto simp: replace_exit_leg_def Let_def split: option.splits if_splits prod.splits sum.splits)

lemma move_legs_outcome:
  assumes "move_legs B position_id legs result h st w = (res, st', w')"
  shows "(case res of
      Inr result' \<Rightarrow> strategies st' = strategies st
        \<and> (distinct (map fst legs) \<longrightarrow> (\<forall>leg. map_option lp_trigger_price (leg_placement result' leg) =
            (case map_of legs leg of Some (Some p) \<Rightarrow> Some p | _ \<Rightarrow> map_option lp_trigger_price (leg_placement result leg))))
    | Inl e \<Rightarrow> strategies st' = strategies st
        \<or> (\<exists>now leg cancelled source restore. e = ProviderError (unprotected_text position_id leg) None None
            \<and> strategies st' = broadcast (unprotected_alert now position_id leg cancelled source restore) (strategies st)))"
  using assms
proof (induction B position_id legs result h st w rule: move_legs.induct)
  case (2 B position_id leg legs result h st w)
  then show ?case
    by (cases res) (auto simp: map_of_eq_None_iff [symmetric] split: option.splits)
next
  case (3 B position_id leg price legs result h st w)
  show ?case
  proof (cases "live_exit_leg h position_id leg")
    case None
    then show ?thesis using 3(2) by auto
  next
    case (Some entry)
    obtain out h1 w1 where out: "replace_exit_leg (bk_env B) (ee_placeholder_id entry) price h w = (out, h1, w1)" by (metis prod_cases3)
    show ?thesis
    proof (cases out)
      case (Inl err)
      then show ?thesis using 3(2) Some out by (cases err) (auto, metis)
    next
      case (Inr pl)
      then have rest: "move_legs B position_id legs (placed_leg leg pl result) h1 (set_exit h1 st) w1 = (res, st', w')"
        using 3(2) Some out by simp
      note ih = 3(1) [OF Some out [symmetric] Inr refl rest]
      have "lp_trigger_price pl = price" using replace_price out Inr by simp
      then show ?thesis using ih
        by (cases res) (auto simp: map_of_eq_None_iff [symmetric] split: option.splits)
    qed
  qed
qed auto


subsection \<open>Breakers and keys\<close>

text \<open>
  Resetting the breakers is not one step: when the exit breaker is in its cooldown the call reports a
  conflict although the adapter's breaker has been reset.
\<close>

theorem refused_reset_resets_adapter:
  assumes "bk_breaker B w \<noteq> None" "bk_reset_breaker B w = (Inr (), w1)"
    and "gs_exit st = Some h" "reset_circuit_breaker (instant_now (bk_env B) w1) h = (Inl msg, h1)"
  shows "api_reset_circuit_breakers B st w = (Inl (ResetCooldown msg), set_exit h1 st, w1)"
  using assms by (simp add: api_reset_circuit_breakers_def reset_exit_breaker_def)

lemma http_trim_idem: "http_trim (http_trim s) = http_trim s"
proof -
  have drop: "dropWhile is_blank (dropWhile is_blank xs) = dropWhile is_blank xs" for xs by (induction xs) auto
  have "dropWhile is_blank (rev (dropWhile is_blank (rev xs))) = rev (dropWhile is_blank (rev xs))"
    if "dropWhile is_blank xs = xs" for xs
  proof (cases "rev (dropWhile is_blank (rev xs))")
    case Nil
    then show ?thesis by (metis dropWhile.simps(1))
  next
    case (Cons c cs)
    then have "xs \<noteq> []" "hd xs = c"
      by (auto, metis append_take_drop_id hd_append2 list.sel(1) list.simps(3) rev_append rev_rev_ident takeWhile_dropWhile_id)
    then have "\<not> is_blank c" using that length_dropWhile_le [of is_blank "tl xs"] by (cases xs) (auto split: if_splits)
    then show ?thesis using Cons by simp
  qed
  then show ?thesis unfolding http_trim_def by (simp add: drop)
qed

text \<open>
  A configured key with blanks at its ends refuses every request: the provided key is trimmed, the
  configured one is not.
\<close>

theorem padded_api_key_refuses_all:
  assumes "gs_api_key st = Some key" "http_trim key \<noteq> key" "\<not> is_public_path path"
  shows "\<exists>e. auth_middleware st path authorization x_api_key = Inl e"
proof -
  have "extract_api_key authorization x_api_key \<noteq> Some key"
    using assms(2) http_trim_idem
    by (auto simp: extract_api_key_def nonempty_trim_def Let_def bind_eq_Some_conv split: option.splits if_splits)
  then show ?thesis using assms(1,3) by (auto simp: auth_middleware_def split: option.splits)
qed

text \<open>Once the shutdown sequence has run no order is accepted and the gateway is not ready.\<close>

theorem shutdown_refuses_orders:
  assumes "validate_semantics (dec_to_string (bk_env B)) r = Inr ()"
  shows "fst (api_submit_order B cid r (snd (run_shutdown_sequence now st)) w) = Inl ShuttingDown
    \<and> fst (get_readyz (snd (run_shutdown_sequence now st))) = 503"
  using assms by (simp add: api_submit_order_def run_shutdown_sequence_def set_shutting_down_def get_readyz_def Let_def)

end
