(* ===== verification/Gw_Api_Demo.thy ===== *)
theory Gw_Api_Demo
  imports Gw_Api_Props Gw_Exit_Demo Gw_Gateway_Demo
begin

text \<open>The properties of the API at a gateway with one exit handler and two connected strategies.\<close>

definition demo_bk :: "'w env \<Rightarrow> 'w broker" where
  "demo_bk E = \<lparr>bk_env = E, bk_strategy = (\<lambda>r. PendingSlTp),
     bk_get_position = (\<lambda>i w. (Inr broker_position, w)), bk_close_position = (\<lambda>i q w. (Inl (PositionNotFound i), w)),
     bk_order_history = (\<lambda>q w. (Inr [], w)), bk_breaker = (\<lambda>w. None), bk_reset_breaker = (\<lambda>w. (Inr (), w))\<rparr>"

definition api_state :: "exit_handler \<Rightarrow> gateway_state" where
  "api_state h = gateway_state_new BinanceSpotLive [(BinanceSpotLive, h)] demo_registry None"

lemma demo_bk_simps [simp]: "bk_env (demo_bk E) = E" "bk_strategy (demo_bk E) r = PendingSlTp"
  by (simp_all add: demo_bk_def)

lemma api_state_exit: "gs_exit (api_state h) = Some h"
  by (simp add: api_state_def gs_exit_def gateway_state_new_def xr_get_def)

definition api_submitted :: gateway_state where
  "api_submitted = fst (snd (api_submit_order (demo_bk demo_env) ''c'' demo_request (api_state demo_new) []))"


theorem refused_submission_leaves_no_trace_witness:
  "snd (api_submit_order (demo_bk (traced demo_no_submit)) ''c'' demo_request (api_state demo_new) ([], [])) =
     (api_state demo_new, [], [CallSubmit demo_request])"
proof -
  have v: "validate_semantics (dec_to_string demo_no_submit) demo_request = Inr ()" "\<not> gs_shutting_down (api_state demo_new)"
    by code_simp+
  let ?run = "api_submit_order (demo_bk (traced demo_no_submit)) ''c'' demo_request (api_state demo_new) ([], [])"
  have run: "?run = (Inl (OrderRejected ''margin'' None None), fst (snd ?run), fst (snd (snd ?run)), snd (snd (snd ?run)))"
    using v by (simp add: api_submit_order_def demo_no_submit_def demo_env_def)
  have "submit_order demo_no_submit demo_request [] = (Inl (OrderRejected ''margin'' None None), [])"
    by (simp add: demo_no_submit_def)
  with refused_submission_leaves_no_trace [OF demo_bk_simps(1) run] v
  show ?thesis by (auto simp: prod_eq_iff)
qed

theorem repeated_submission_keeps_exits_witness:
  "gs_exits (fst (snd (api_submit_order (demo_bk (traced (demo_env\<lparr>submit_order := (\<lambda>r w. (Inr (demo_handle ''p''), w))\<rparr>)))
      ''c'' demo_request (api_state demo_registered) ([], [])))) = [(BinanceSpotLive, demo_registered)]"
proof -
  let ?E = "demo_env\<lparr>submit_order := (\<lambda>r w. (Inr (demo_handle ''p''), w))\<rparr>"
  let ?run = "api_submit_order (demo_bk (traced ?E)) ''c'' demo_request (api_state demo_registered) ([], [])"
  have v: "validate_semantics (dec_to_string ?E) demo_request = Inr ()" "\<not> gs_shutting_down (api_state demo_registered)"
    "has_pending_for_primary demo_registered (oh_id (demo_handle ''p''))" "oh_id (demo_handle ''p'') = ''p''" by code_simp+
  have sub: "submit_order ?E demo_request [] = (Inr (demo_handle ''p''), [])" by simp
  have "register_pending_exits (demo_bk (traced ?E)) demo_request ''p'' (api_state demo_registered) wt = (api_state demo_registered, wt)" for wt
    using v(3,4) api_state_exit by (simp add: register_pending_exits_def)
  then obtain handle' where run: "?run = (Inr handle', fst (snd ?run), fst (snd (snd ?run)), snd (snd (snd ?run)))"
    using v by (simp add: api_submit_order_def)
  from repeated_submission_keeps_exits [OF demo_bk_simps(1) api_state_exit v(3) sub run]
  show ?thesis by (simp add: api_state_def gateway_state_new_def)
qed

definition protected_position :: exit_handler where
  "protected_position = fst (snd (handle_fill_internal demo_env ''p'' 2 2 None (Some ''P'') demo_registered []))"


end
