(* ===== verification/Gw_Oanda_Types.thy ===== *)
theory Gw_Oanda_Types
  imports Gw_Api Gw_Mock_Feed
begin

text \<open>
  The wire of the OANDA broker (\<open>crates/oanda/src/types.rs\<close>): the records its REST answers and stream
  lines are decoded to, the set of transaction ids already published (\<open>dedupe.rs\<close>), and the parameters
  that stand for the code outside the gateway: \<open>codec\<close> prints and parses \<open>Decimal\<close> and RFC 3339 times
  and decodes JSON text with \<open>serde_json\<close>; \<open>'w http\<close> is the HTTP client with the clocks, over an
  abstract world. A reply has a status and a body that is JSON or not.
\<close>

subsection \<open>Wire records\<close>

record oanda_account =
  oac_balance :: string
  oac_nav :: string
  oac_margin_used :: string
  oac_margin_available :: string
  oac_unrealized_pl :: string
  oac_hedging_enabled :: bool
  oac_currency :: string

record client_extensions =
  ce_id :: "string option"
  ce_tag :: "string option"
  ce_comment :: "string option"

text \<open>The stop-loss and take-profit of an order have the same three fields.\<close>

record on_fill =
  of_price :: string
  of_time_in_force :: string
  of_client_extensions :: "client_extensions option"

record trailing_on_fill =
  tf_distance :: string
  tf_time_in_force :: string

record oanda_order =
  oo_id :: string
  oo_order_type :: string
  oo_instrument :: "string option"
  oo_units :: "string option"
  oo_price :: "string option"
  oo_time_in_force :: "string option"
  oo_position_fill :: "string option"
  oo_state :: string
  oo_create_time :: string
  oo_stop_loss_on_fill :: "on_fill option"
  oo_take_profit_on_fill :: "on_fill option"
  oo_trailing_stop_loss_on_fill :: "trailing_on_fill option"
  oo_trade_id :: "string option"
  oo_client_extensions :: "client_extensions option"

text \<open>A trade reference is only its trade id.\<close>

type_synonym trade_ref = string

record oanda_transaction =
  ot_id :: string
  ot_transaction_type :: string
  ot_instrument :: "string option"
  ot_units :: "string option"
  ot_price :: "string option"
  ot_account_balance :: "string option"
  ot_time :: "string option"
  ot_order_id :: "string option"
  ot_reason :: "string option"
  ot_reject_reason :: "string option"
  ot_commission :: "string option"
  ot_financing :: "string option"
  ot_trade_opened :: "trade_ref option"
  ot_trades_closed :: "trade_ref list"
  ot_trade_reduced :: "trade_ref option"

record create_order_response =
  co_create :: "oanda_transaction option"
  co_fill :: "oanda_transaction option"
  co_reject :: "oanda_transaction option"
  co_cancel :: "oanda_transaction option"

record position_leg =
  pl_units :: string
  pl_average_price :: "string option"
  pl_unrealized_pl :: "string option"

record oanda_position =
  op_instrument :: string
  op_long :: position_leg
  op_short :: position_leg
  op_unrealized_pl :: "string option"

record price_bucket =
  pb_price :: string
  pb_liquidity :: int

record oanda_price =
  px_instrument :: string
  px_bids :: "price_bucket list"
  px_asks :: "price_bucket list"
  px_time :: string

record candle_data =
  cd_o :: string
  cd_h :: string
  cd_l :: string
  cd_c :: string

record oanda_candle =
  oc_time :: string
  oc_mid :: "candle_data option"
  oc_bid :: "candle_data option"
  oc_ask :: "candle_data option"
  oc_volume :: int
  oc_complete :: bool

record oanda_trade =
  otr_id :: string
  otr_instrument :: string
  otr_current_units :: string
  otr_initial_units :: "string option"
  otr_price :: string
  otr_open_time :: string
  otr_state :: string
  otr_unrealized_pl :: "string option"

record oanda_order_request =
  rq_order_type :: string
  rq_instrument :: string
  rq_units :: string
  rq_time_in_force :: string
  rq_position_fill :: "string option"
  rq_price :: "string option"
  rq_stop_loss_on_fill :: "on_fill option"
  rq_take_profit_on_fill :: "on_fill option"
  rq_trailing_stop_loss_on_fill :: "trailing_on_fill option"
  rq_client_extensions :: "client_extensions option"

record close_request =
  cl_long_units :: "string option"
  cl_short_units :: "string option"

record stream_price =
  sp_instrument :: string
  sp_bids :: "price_bucket list"
  sp_asks :: "price_bucket list"
  sp_time :: string
  sp_tradeable :: "bool option"

datatype price_message = PriceLine stream_price | PriceHeartbeat string

record position_financing =
  pf_instrument :: string
  pf_financing :: string

record stream_line =
  sl_transaction_type :: string
  sl_id :: "string option"
  sl_instrument :: "string option"
  sl_units :: "string option"
  sl_price :: "string option"
  sl_time :: "string option"
  sl_order_id :: "string option"
  sl_client_order_id :: "string option"
  sl_reason :: "string option"
  sl_reject_reason :: "string option"
  sl_commission :: "string option"
  sl_financing :: "string option"
  sl_account_balance :: "string option"
  sl_position_financings :: "position_financing list option"
  sl_last_transaction_id :: "string option"
  sl_trade_opened :: "trade_ref option"
  sl_trades_closed :: "trade_ref list"
  sl_trade_reduced :: "trade_ref option"

subsection \<open>Code outside the gateway\<close>

text \<open>
  \<open>jd_*\<close> decode a JSON body to a wire record, or give the text of the error; a line of a stream is
  decoded from its text.
\<close>

record codec =
  cx_dec :: "string \<Rightarrow> decimal option"
  cx_show :: "decimal \<Rightarrow> string"
  cx_time :: "string \<Rightarrow> utc option"
  cx_show_time :: "utc \<Rightarrow> string"
  jd_account :: "json \<Rightarrow> string + oanda_account"
  jd_order :: "json \<Rightarrow> string + oanda_order"
  jd_orders :: "json \<Rightarrow> string + oanda_order list"
  jd_created :: "json \<Rightarrow> string + create_order_response"
  jd_trade :: "json \<Rightarrow> string + oanda_trade"
  jd_trades :: "json \<Rightarrow> string + oanda_trade list"
  jd_position :: "json \<Rightarrow> string + oanda_position"
  jd_positions :: "json \<Rightarrow> string + oanda_position list"
  jd_prices :: "json \<Rightarrow> string + oanda_price list"
  jd_candles :: "json \<Rightarrow> string + oanda_candle list"
  jd_price_line :: "string \<Rightarrow> price_message option"
  jd_stream_line :: "string \<Rightarrow> stream_line option"

datatype http_reply = NoReply string | Reply nat "string + json"

datatype http_body = BodyOrder oanda_order_request | BodyClosePosition close_request | BodyCloseTrade string | NoBody

text \<open>
  \<open>ht_summary_late\<close> says whether the account summary asked for next takes longer than the timeout of
  the snapshot; the fetch is then dropped.
\<close>

record 'w http =
  ht_get :: "string \<Rightarrow> 'w \<Rightarrow> http_reply \<times> 'w"
  ht_post :: "string \<Rightarrow> http_body \<Rightarrow> 'w \<Rightarrow> http_reply \<times> 'w"
  ht_put :: "string \<Rightarrow> http_body \<Rightarrow> 'w \<Rightarrow> http_reply \<times> 'w"
  ht_utc :: "'w \<Rightarrow> utc"
  ht_instant :: "'w \<Rightarrow> instant"
  ht_summary_late :: "'w \<Rightarrow> bool"

definition is_success :: "nat \<Rightarrow> bool" where
  "is_success status = (200 \<le> status \<and> status < 300)"

fun jget :: "string \<Rightarrow> json \<Rightarrow> json option" where
  "jget k (JObject fs) = map_of fs k"
| "jget k _ = None"

fun jstr :: "json \<Rightarrow> string option" where
  "jstr (JString s) = Some s"
| "jstr _ = None"

subsection \<open>Published transactions\<close>

record published =
  pu_capacity :: nat
  pu_seen :: "string set"
  pu_order :: "string list"

definition published_capacity :: nat where
  "published_capacity = 4096"

definition published_new :: "nat \<Rightarrow> published" where
  "published_new capacity = \<lparr>pu_capacity = capacity, pu_seen = {}, pu_order = []\<rparr>"

definition claim_one :: "string \<Rightarrow> published \<Rightarrow> published" where
  "claim_one i d =
     (if i \<in> pu_seen d then d
      else let d1 = d\<lparr>pu_seen := insert i (pu_seen d), pu_order := pu_order d @ [i]\<rparr> in
           if length (pu_order d1) > pu_capacity d1
           then (case pu_order d1 of
                   evicted # rest \<Rightarrow> d1\<lparr>pu_seen := pu_seen d1 - {evicted}, pu_order := rest\<rparr>
                 | [] \<Rightarrow> d1)
           else d1)"

definition try_claim_all :: "string list \<Rightarrow> published \<Rightarrow> bool \<times> published" where
  "try_claim_all ids d =
     (if \<exists>i \<in> set ids. i \<in> pu_seen d then (False, d) else (True, fold claim_one ids d))"

definition try_claim :: "string \<Rightarrow> published \<Rightarrow> bool \<times> published" where
  "try_claim i d = try_claim_all [i] d"

text \<open>The queue lists exactly the ids of the set, each once, and is no longer than the capacity.\<close>

definition published_wf :: "published \<Rightarrow> bool" where
  "published_wf d = (distinct (pu_order d) \<and> pu_seen d = set (pu_order d) \<and> length (pu_order d) \<le> pu_capacity d)"

lemma published_new_wf: "published_wf (published_new n)"
  by (simp add: published_wf_def published_new_def)

lemma claim_one_capacity [simp]: "pu_capacity (claim_one i d) = pu_capacity d"
  by (simp add: claim_one_def Let_def split: list.split)

lemma claim_one_wf [gw_inv]: "published_wf d \<Longrightarrow> published_wf (claim_one i d)"
  by (cases "pu_order d @ [i]") (auto simp: published_wf_def claim_one_def Let_def append_eq_Cons_conv)

lemma claims_wf: "published_wf d \<Longrightarrow> published_wf (fold claim_one ids d) \<and> pu_capacity (fold claim_one ids d) = pu_capacity d"
proof (induction ids arbitrary: d)
  case (Cons i ids)
  with Cons.IH [OF claim_one_wf [OF Cons.prems]] show ?case by simp
qed simp

lemma try_claim_all_wf [gw_inv]: "published_wf d \<Longrightarrow> published_wf (snd (try_claim_all ids d))"
  using claims_wf by (simp add: try_claim_all_def)

lemma try_claim_all_capacity [simp]: "published_wf d \<Longrightarrow> pu_capacity (snd (try_claim_all ids d)) = pu_capacity d"
  using claims_wf by (simp add: try_claim_all_def)

text \<open>
  \<open>newer i d\<close> counts the ids claimed after \<open>i\<close>. As long as fewer than the capacity were, \<open>i\<close> is kept.
\<close>

definition newer :: "string \<Rightarrow> published \<Rightarrow> nat" where
  "newer i d = length (takeWhile (\<lambda>j. j \<noteq> i) (rev (pu_order d)))"

lemma newer_own:
  assumes "published_wf d" "i \<notin> pu_seen d" "0 < pu_capacity d"
  shows "i \<in> pu_seen (claim_one i d) \<and> newer i (claim_one i d) = 0"
proof (cases "pu_order d")
  case Nil
  with assms show ?thesis by (simp add: claim_one_def newer_def published_wf_def)
next
  case (Cons e rest)
  with assms show ?thesis by (auto simp: claim_one_def newer_def published_wf_def Let_def)
qed

lemma newer_other:
  assumes wf: "published_wf d" and i: "i \<in> pu_seen d" and room: "Suc (newer i d) < pu_capacity d"
  shows "i \<in> pu_seen (claim_one j d) \<and> newer i (claim_one j d) \<le> Suc (newer i d)"
proof (cases "j \<in> pu_seen d")
  case True
  with i show ?thesis by (simp add: claim_one_def)
next
  case False
  with i have ji: "j \<noteq> i" by blast
  show ?thesis
  proof (cases "Suc (length (pu_order d)) > pu_capacity d")
    case full: True
    from i wf obtain e rest where order: "pu_order d = e # rest"
      by (cases "pu_order d") (auto simp: published_wf_def)
    have "e \<noteq> i"
    proof
      assume "e = i"
      with order wf have "\<forall>j \<in> set (rev rest). j \<noteq> i" by (auto simp: published_wf_def)
      then have "takeWhile (\<lambda>j. j \<noteq> i) (rev rest @ [i]) = rev rest"
        by (subst takeWhile_append2) auto
      then have "newer i d = length rest"
        using order \<open>e = i\<close> by (simp add: newer_def)
      with full room order show False by simp
    qed
    moreover from this i wf order have "i \<in> set (rev rest)" by (auto simp: published_wf_def)
    ultimately show ?thesis
      using False full order i ji wf
      by (auto simp: claim_one_def newer_def published_wf_def takeWhile_append1)
  next
    case False
    with \<open>j \<notin> pu_seen d\<close> i ji show ?thesis by (simp add: claim_one_def newer_def)
  qed
qed

lemma claims_keep:
  assumes "published_wf d" "i \<in> pu_seen d" "newer i d + length ids < pu_capacity d"
  shows "i \<in> pu_seen (fold claim_one ids d) \<and> newer i (fold claim_one ids d) \<le> newer i d + length ids"
  using assms
proof (induction ids arbitrary: d)
  case (Cons j ids)
  have step: "i \<in> pu_seen (claim_one j d) \<and> newer i (claim_one j d) \<le> Suc (newer i d)"
    using Cons.prems by (intro newer_other) auto
  then show ?case
    using Cons.IH [of "claim_one j d"] Cons.prems claim_one_wf [OF Cons.prems(1)] by auto
qed simp

lemma claims_fresh: "i \<notin> set ids \<Longrightarrow> i \<notin> pu_seen d \<Longrightarrow> i \<notin> pu_seen (fold claim_one ids d)"
proof (induction ids arbitrary: d)
  case (Cons j ids)
  then have "i \<notin> pu_seen (claim_one j d)"
    by (auto simp: claim_one_def Let_def split: list.splits)
  with Cons show ?case by simp
qed simp

lemma claims_own:
  assumes "published_wf d" "i \<in> set ids" "i \<notin> pu_seen d" "length ids \<le> pu_capacity d"
  shows "i \<in> pu_seen (fold claim_one ids d) \<and> newer i (fold claim_one ids d) < length ids"
proof -
  from assms(2) obtain before after where ids: "ids = before @ i # after" "i \<notin> set before"
    by (metis split_list_first)
  define d1 where "d1 = fold claim_one before d"
  have wf1: "published_wf d1" and cap1: "pu_capacity d1 = pu_capacity d"
    using claims_wf [OF assms(1)] by (simp_all add: d1_def)
  have own: "i \<in> pu_seen (claim_one i d1) \<and> newer i (claim_one i d1) = 0"
    using wf1 cap1 ids assms(3,4) by (intro newer_own) (auto simp: d1_def claims_fresh)
  have "newer i (claim_one i d1) + length after < pu_capacity (claim_one i d1)"
    using own cap1 ids assms(4) by simp
  then show ?thesis
    using claims_keep [OF claim_one_wf [OF wf1] conjunct1 [OF own], of after] own ids by (auto simp: d1_def)
qed

end
