(* ===== verification/Gw_Oanda_Conv.thy ===== *)
theory Gw_Oanda_Conv
  imports Gw_Oanda_Types
begin

text \<open>
  Translation between the gateway's types and OANDA's wire (\<open>crates/oanda/src/adapter.rs\<close>,
  \<open>capabilities.rs\<close>): signed units, order types, times in force, order states, orders, positions and
  trades, reject codes and HTTP errors, and the ids under which positions are reported. \<open>K\<close> is the
  codec, \<open>now\<close> the current time. A parsed \<open>Decimal\<close> is negative when its value is; a negative zero is
  read as a purchase of nothing.
\<close>

definition quoted :: "string \<Rightarrow> string" where
  "quoted s = [CHR 0x27] @ s @ [CHR 0x27]"

definition dec_or_zero :: "codec \<Rightarrow> string \<Rightarrow> decimal" where
  "dec_or_zero K s = (case cx_dec K s of Some d \<Rightarrow> d | None \<Rightarrow> 0)"

text \<open>\<open>s.and_then(|s| Decimal::from_str(s).ok())\<close>, also the source's \<open>parse_price\<close>.\<close>

definition parse_price :: "codec \<Rightarrow> string option \<Rightarrow> decimal option" where
  "parse_price K s = Option.bind s (cx_dec K)"

definition price_or_zero :: "codec \<Rightarrow> string option \<Rightarrow> decimal" where
  "price_or_zero K s = (case parse_price K s of Some d \<Rightarrow> d | None \<Rightarrow> 0)"

definition time_or_now :: "codec \<Rightarrow> utc \<Rightarrow> string \<Rightarrow> utc" where
  "time_or_now K now s = (case cx_time K s of Some t \<Rightarrow> t | None \<Rightarrow> now)"

subsection \<open>Units, types and states\<close>

fun to_oanda_units :: "codec \<Rightarrow> side \<Rightarrow> decimal \<Rightarrow> string" where
  "to_oanda_units K Buy quantity = cx_show K quantity"
| "to_oanda_units K Sell quantity = CHR ''-'' # cx_show K quantity"

definition from_oanda_units :: "codec \<Rightarrow> string \<Rightarrow> gateway_error + side \<times> decimal" where
  "from_oanda_units K units =
     (case cx_dec K units of
        None \<Rightarrow> Inl (InvalidValue ''units'' (''Cannot parse Oanda units '' @ quoted units @ '' as decimal'') (Some units))
      | Some d \<Rightarrow> if d < 0 then Inr (Sell, \<bar>d\<bar>) else Inr (Buy, d))"

fun to_oanda_order_type :: "order_type \<Rightarrow> gateway_error + string" where
  "to_oanda_order_type Market = Inr ''MARKET''"
| "to_oanda_order_type Limit = Inr ''LIMIT''"
| "to_oanda_order_type Stop = Inr ''STOP''"
| "to_oanda_order_type StopLimit = Inr ''MARKET_IF_TOUCHED''"
| "to_oanda_order_type TrailingStop = Inl (UnsupportedOperation ''standalone trailing stop order'' ''oanda'')"

definition from_oanda_order_type :: "string \<Rightarrow> gateway_error + order_type" where
  "from_oanda_order_type s =
     (if s = ''MARKET'' then Inr Market
      else if s = ''LIMIT'' \<or> s = ''TAKE_PROFIT'' then Inr Limit
      else if s = ''STOP'' \<or> s = ''STOP_LOSS'' then Inr Stop
      else if s = ''MARKET_IF_TOUCHED'' then Inr StopLimit
      else if s = ''TRAILING_STOP_LOSS'' then Inr TrailingStop
      else Inl (InvalidValue ''order_type'' (''Unknown order type from Oanda: '' @ s) (Some s)))"

fun to_oanda_tif :: "time_in_force \<Rightarrow> string" where
  "to_oanda_tif Gtc = ''GTC''"
| "to_oanda_tif Day = ''GFD''"
| "to_oanda_tif Ioc = ''IOC''"
| "to_oanda_tif Fok = ''FOK''"

definition from_oanda_tif :: "string \<Rightarrow> gateway_error + time_in_force" where
  "from_oanda_tif s =
     (if s = ''GTC'' \<or> s = ''GTD'' then Inr Gtc
      else if s = ''GFD'' then Inr Day
      else if s = ''IOC'' then Inr Ioc
      else if s = ''FOK'' then Inr Fok
      else Inl (InvalidValue ''time_in_force'' (''Unknown time in force from Oanda: '' @ s) (Some s)))"

definition from_oanda_order_state :: "string \<Rightarrow> gateway_error + order_status" where
  "from_oanda_order_state s =
     (if s = ''PENDING'' then Inr Open
      else if s = ''FILLED'' \<or> s = ''TRIGGERED'' then Inr Filled
      else if s = ''CANCELLED'' then Inr Cancelled
      else Inl (InvalidValue ''state'' (''Unknown order state from Oanda: '' @ s) (Some s)))"

fun to_oanda_granularity :: "timeframe \<Rightarrow> string" where
  "to_oanda_granularity OneMinute = ''M1''"
| "to_oanda_granularity TwoMinutes = ''M2''"
| "to_oanda_granularity FiveMinutes = ''M5''"
| "to_oanda_granularity TenMinutes = ''M10''"
| "to_oanda_granularity FifteenMinutes = ''M15''"
| "to_oanda_granularity ThirtyMinutes = ''M30''"
| "to_oanda_granularity OneHour = ''H1''"
| "to_oanda_granularity TwoHours = ''H2''"
| "to_oanda_granularity FourHours = ''H4''"
| "to_oanda_granularity TwelveHours = ''H12''"
| "to_oanda_granularity OneDay = ''D''"
| "to_oanda_granularity OneWeek = ''W''"

subsection \<open>Orders\<close>

definition reduce_only_fill :: string where
  "reduce_only_fill = ''REDUCE_ONLY''"

text \<open>The price of an order stands for its limit price, its stop price or both, by type.\<close>

fun trigger_prices :: "order_type \<Rightarrow> decimal option \<Rightarrow> decimal option \<times> decimal option" where
  "trigger_prices Limit price = (price, None)"
| "trigger_prices Stop price = (None, price)"
| "trigger_prices StopLimit price = (price, price)"
| "trigger_prices _ price = (None, None)"

definition translate_oanda_order :: "codec \<Rightarrow> utc \<Rightarrow> oanda_order \<Rightarrow> gateway_error + order" where
  "translate_oanda_order K now ord =
     try_res (case oo_units ord of Some units \<Rightarrow> from_oanda_units K units | None \<Rightarrow> Inr (Buy, 0)) (\<lambda>(side, quantity).
     try_res (from_oanda_order_type (oo_order_type ord)) (\<lambda>otype.
     try_res (case oo_time_in_force ord of Some tif \<Rightarrow> from_oanda_tif tif | None \<Rightarrow> Inr Gtc) (\<lambda>tif.
     try_res (from_oanda_order_state (oo_state ord)) (\<lambda>status.
       let prices = trigger_prices otype (parse_price K (oo_price ord));
           created_at = time_or_now K now (oo_create_time ord)
       in Inr \<lparr>o_id = oo_id ord, o_client_order_id = Option.bind (oo_client_extensions ord) ce_id,
               o_symbol = (case oo_instrument ord of Some i \<Rightarrow> i | None \<Rightarrow> []), o_side = side, o_order_type = otype,
               o_quantity = quantity, o_filled_quantity = 0, o_remaining_quantity = quantity,
               o_limit_price = fst prices, o_stop_price = snd prices,
               o_stop_loss = Option.bind (oo_stop_loss_on_fill ord) (\<lambda>f. cx_dec K (of_price f)),
               o_take_profit = Option.bind (oo_take_profit_on_fill ord) (\<lambda>f. cx_dec K (of_price f)),
               o_trailing_distance = Option.bind (oo_trailing_stop_loss_on_fill ord) (\<lambda>f. cx_dec K (tf_distance f)),
               o_trailing_type = None, o_average_fill_price = None, o_status = status, o_reject_reason = None,
               o_position_id = None, o_parent_order_id = None,
               o_reduce_only = map_option (\<lambda>f. f = reduce_only_fill) (oo_position_fill ord), o_post_only = None,
               o_hidden = None, o_display_quantity = None, o_oco_group_id = None, o_correlation_id = None,
               o_time_in_force = tif, o_created_at = created_at, o_updated_at = created_at\<rparr>))))"

fun translate_all :: "('a \<Rightarrow> gateway_error + 'b) \<Rightarrow> 'a list \<Rightarrow> gateway_error + 'b list" where
  "translate_all f [] = Inr []"
| "translate_all f (x # xs) = try_res (f x) (\<lambda>y. try_res (translate_all f xs) (\<lambda>ys. Inr (y # ys)))"

subsection \<open>Positions and trades\<close>

definition leg_position :: "codec \<Rightarrow> utc \<Rightarrow> string \<Rightarrow> position_side \<Rightarrow> string \<Rightarrow> position_leg \<Rightarrow> position" where
  "leg_position K now instrument side suffix leg =
     \<lparr>p_id = instrument @ suffix, p_symbol = instrument, p_side = side,
      p_quantity = \<bar>dec_or_zero K (pl_units leg)\<bar>,
      p_average_entry_price = price_or_zero K (pl_average_price leg), p_current_price = 0,
      p_unrealized_pnl = price_or_zero K (pl_unrealized_pl leg), p_realized_pnl = 0, p_margin_mode = None,
      p_leverage = None, p_liquidation_price = None, p_opened_at = now, p_updated_at = now\<rparr>"

definition translate_oanda_position :: "codec \<Rightarrow> utc \<Rightarrow> oanda_position \<Rightarrow> position list" where
  "translate_oanda_position K now p =
     (if pl_units (op_long p) \<noteq> ''0'' then [leg_position K now (op_instrument p) Long ''_LONG'' (op_long p)] else [])
     @ (if pl_units (op_short p) \<noteq> ''0'' then [leg_position K now (op_instrument p) Short ''_SHORT'' (op_short p)] else [])"

definition translate_oanda_trade :: "codec \<Rightarrow> utc \<Rightarrow> oanda_trade \<Rightarrow> gateway_error + trade" where
  "translate_oanda_trade K now t =
     try_res (from_oanda_units K (otr_current_units t)) (\<lambda>(side, quantity).
       Inr \<lparr>t_id = otr_id t, t_order_id = [], t_symbol = otr_instrument t, t_side = side, t_quantity = quantity,
            t_price = dec_or_zero K (otr_price t), t_commission = 0, t_commission_currency = [],
            t_is_maker = None, t_timestamp = time_or_now K now (otr_open_time t)\<rparr>)"

fun side_of_units :: "side \<Rightarrow> position_side" where
  "side_of_units Buy = Long"
| "side_of_units Sell = Short"

definition translate_oanda_trade_to_position :: "codec \<Rightarrow> utc \<Rightarrow> oanda_trade \<Rightarrow> gateway_error + position" where
  "translate_oanda_trade_to_position K now t =
     try_res (from_oanda_units K (otr_current_units t)) (\<lambda>(side, quantity).
       Inr \<lparr>p_id = otr_id t, p_symbol = otr_instrument t, p_side = side_of_units side, p_quantity = quantity,
            p_average_entry_price = dec_or_zero K (otr_price t), p_current_price = 0,
            p_unrealized_pnl = price_or_zero K (otr_unrealized_pl t), p_realized_pnl = 0, p_margin_mode = None,
            p_leverage = None, p_liquidation_price = None, p_opened_at = time_or_now K now (otr_open_time t),
            p_updated_at = now\<rparr>)"

definition translate_oanda_account :: "codec \<Rightarrow> oanda_account \<Rightarrow> account" where
  "translate_oanda_account K a =
     \<lparr>acc_balance = dec_or_zero K (oac_balance a), acc_equity = dec_or_zero K (oac_nav a),
      acc_margin_used = dec_or_zero K (oac_margin_used a), acc_margin_available = dec_or_zero K (oac_margin_available a),
      acc_unrealized_pnl = dec_or_zero K (oac_unrealized_pl a), acc_currency = oac_currency a\<rparr>"

definition historical_bar :: "codec \<Rightarrow> string \<Rightarrow> string \<Rightarrow> timeframe \<Rightarrow> oanda_candle \<Rightarrow> bar option" where
  "historical_bar K provider symbol tf c =
     Option.bind (oc_mid c) (\<lambda>mid. Option.bind (cx_time K (oc_time c)) (\<lambda>t.
       Some \<lparr>bar_symbol = symbol, bar_provider = provider, bar_timeframe = tf, bar_timestamp = t,
             bar_open = dec_or_zero K (cd_o mid), bar_high = dec_or_zero K (cd_h mid),
             bar_low = dec_or_zero K (cd_l mid), bar_close = dec_or_zero K (cd_c mid),
             bar_volume = of_int (oc_volume c)\<rparr>))"

subsection \<open>Position ids\<close>

datatype position_target = TargetTrade string | TargetSide string "position_side option"

definition strip_suffix :: "string \<Rightarrow> string \<Rightarrow> string option" where
  "strip_suffix s suffix = map_option rev (strip_prefix (rev s) (rev suffix))"

definition parse_position_id :: "string \<Rightarrow> position_target" where
  "parse_position_id i =
     (if i \<noteq> [] \<and> list_all ascii_digit i then TargetTrade i
      else case strip_suffix i ''_LONG'' of
             Some base \<Rightarrow> TargetSide base (Some Long)
           | None \<Rightarrow> (case strip_suffix i ''_SHORT'' of
                         Some base \<Rightarrow> TargetSide base (Some Short)
                       | None \<Rightarrow> TargetSide i None))"

definition named_trade :: "trade_ref option \<Rightarrow> trade_ref list \<Rightarrow> trade_ref option \<Rightarrow> string option" where
  "named_trade t_opened ts_closed t_reduced =
     Option.bind
       (case (t_opened, t_reduced, ts_closed) of
          (Some t, _, _) \<Rightarrow> Some t
        | (None, Some t, _) \<Rightarrow> Some t
        | (None, None, [t]) \<Rightarrow> Some t
        | _ \<Rightarrow> None)
       (\<lambda>t. if t = [] then None else Some t)"

definition fill_position_id ::
  "string \<Rightarrow> side \<Rightarrow> trade_ref option \<Rightarrow> trade_ref list \<Rightarrow> trade_ref option \<Rightarrow> string option" where
  "fill_position_id instrument side t_opened ts_closed t_reduced =
     (case named_trade t_opened ts_closed t_reduced of
        Some t \<Rightarrow> Some t
      | None \<Rightarrow>
          if instrument = [] then None
          else let reduced_a_trade = ((ts_closed \<noteq> [] \<or> t_reduced \<noteq> None) \<and> t_opened = None);
                   suffix = (if (side = Buy) \<noteq> reduced_a_trade then ''_LONG'' else ''_SHORT'')
               in Some (instrument @ suffix))"

subsection \<open>Errors\<close>

definition map_oanda_reject_code :: "string \<Rightarrow> string" where
  "map_oanda_reject_code reason =
     (if reason \<in> {''INSUFFICIENT_MARGIN'', ''INSUFFICIENT_FUNDS'', ''INSUFFICIENT_LIQUIDITY''} then ''INSUFFICIENT_FUNDS''
      else if reason \<in> {''MARKET_HALTED'', ''INSTRUMENT_NOT_TRADEABLE''} then ''MARKET_CLOSED''
      else if reason = [] then ''ORDER_REJECTED'' else reason)"

definition error_message :: "json \<Rightarrow> string" where
  "error_message body =
     (case Option.bind (case jget ''errorMessage'' body of Some v \<Rightarrow> Some v | None \<Rightarrow> jget ''message'' body) jstr of
        Some m \<Rightarrow> m
      | None \<Rightarrow> ''Unknown error'')"

definition map_http_error :: "nat \<Rightarrow> json \<Rightarrow> gateway_error" where
  "map_http_error status body =
     (let message = error_message body; oanda = Some ''oanda'' in
      if status = 429 then RateLimited None None
      else if status = 503 then ProviderUnavailable message
      else if status \<in> {500, 502, 504} then ProviderError message oanda None
      else if status = 400 then InvalidRequest message None
      else if status \<in> {401, 403} then Unauthorized message ''AUTH_FAILED''
      else if status = 404 then ProviderError (''Upstream returned 404: '' @ message) oanda None
      else if status = 422 then
        OrderRejected message
          (Some (map_oanda_reject_code (case Option.bind (jget ''rejectReason'' body) jstr of Some r \<Rightarrow> r | None \<Rightarrow> [])))
          (Some body)
      else ProviderError (''HTTP '' @ show_nat status @ '': '' @ message) oanda None)"

definition unknown_body :: json where
  "unknown_body = JObject [(''errorMessage'', JString ''Unknown error'')]"

definition body_or_unknown :: "string + json \<Rightarrow> json" where
  "body_or_unknown b = (case b of Inr j \<Rightarrow> j | Inl e \<Rightarrow> unknown_body)"

subsection \<open>Capabilities\<close>

definition oanda_bracket_strategy :: "order_request \<Rightarrow> bracket_strategy" where
  "oanda_bracket_strategy r =
     (if or_stop_loss r = None \<and> or_take_profit r = None then NoBracket else NativeBracket)"

subsection \<open>Round trips\<close>

lemma order_type_roundtrip:
  "to_oanda_order_type t = Inr s \<Longrightarrow> from_oanda_order_type s = Inr t"
  by (cases t) (auto simp: from_oanda_order_type_def)

lemma tif_roundtrip: "from_oanda_tif (to_oanda_tif t) = Inr t"
  by (cases t) (simp_all add: from_oanda_tif_def)

text \<open>
  What the gateway needs of \<open>rust_decimal\<close>: a printed amount parses to itself, and with a minus sign
  in front to its negation.
\<close>

definition prints_amounts :: "codec \<Rightarrow> bool" where
  "prints_amounts K = (\<forall>d \<ge> 0. cx_dec K (cx_show K d) = Some d \<and> cx_dec K (CHR ''-'' # cx_show K d) = Some (- d))"

lemma units_roundtrip:
  assumes "prints_amounts K" "0 < q"
  shows "from_oanda_units K (to_oanda_units K s q) = Inr (s, q)"
  using assms by (cases s) (simp_all add: from_oanda_units_def prints_amounts_def)

lemma strip_suffix_append [simp]: "strip_suffix (s @ x) x = Some s"
  by (simp add: strip_suffix_def)

lemma strip_suffix_SomeD: "strip_suffix s x = Some r \<Longrightarrow> s = r @ x"
  by (auto simp: strip_suffix_def dest!: strip_prefix_SomeD) (metis rev_append rev_rev_ident)

lemma long_is_no_trade [simp]: "parse_position_id (i @ ''_LONG'') = TargetSide i (Some Long)"
  by (simp add: parse_position_id_def ascii_digit_def)

lemma short_is_not_long: "strip_suffix (i @ ''_SHORT'') ''_LONG'' = None"
  by (simp add: strip_suffix_def)

lemma short_is_no_trade [simp]: "parse_position_id (i @ ''_SHORT'') = TargetSide i (Some Short)"
  by (simp add: parse_position_id_def ascii_digit_def short_is_not_long)

lemma digits_are_trade: "i \<noteq> [] \<Longrightarrow> list_all ascii_digit i \<Longrightarrow> parse_position_id i = TargetTrade i"
  by (simp add: parse_position_id_def)

lemma translate_all_Inr:
  "translate_all f xs = Inr ys \<longleftrightarrow> list_all2 (\<lambda>x y. f x = Inr y) xs ys"
  by (induction xs arbitrary: ys) (auto simp: list_all2_Cons1)

lemma translate_all_error: "x \<in> set xs \<Longrightarrow> f x = Inl e \<Longrightarrow> \<exists>e'. translate_all f xs = Inl e'"
proof (induction xs)
  case (Cons a xs)
  then show ?case by (cases "f a"; cases "translate_all f xs") auto
qed simp

end
