(* ===== verification/Gw_Oanda_Feed.thy ===== *)
theory Gw_Oanda_Feed
  imports Gw_Oanda_Conv
begin

text \<open>
  The OANDA streams (\<open>crates/oanda/src/streaming.rs\<close>): newline-separated JSON lines of prices and
  transactions, read in chunks as the network delivers them, turned into messages and sent to the
  strategies; the candles polled over REST; and the loops that reconnect a stream that ended.

  \<open>oanda\<close> is the state the adapter and the provider share. The channel to the strategies is \<open>oa_slot\<close>:
  empty until a provider connects, and what is sent is kept in order while somebody receives. What a
  stream delivers is a list of inputs, what a token says is read from the world, whose clock only moves
  with a call. The conversion of a line to text belongs to its decoder; \<open>http_trim\<close> drops the blanks of
  ASCII at its ends. Texts that are only logged leave out the reason phrase of an HTTP status.
\<close>

record outbox =
  ob_alive :: bool
  ob_sent :: "ws_message list"

record oanda =
  oa_platform :: trading_platform
  oa_base_url :: string
  oa_account_id :: string
  oa_breaker :: adapter_breaker
  oa_hedging :: "bool option"
  oa_slot :: "outbox option"
  oa_published :: published
  oa_internal :: "internal_trading_event list"

definition oanda_live_rest_url :: string where
  "oanda_live_rest_url = ''https://api-fxtrade.oanda.com''"

definition oanda_practice_rest_url :: string where
  "oanda_practice_rest_url = ''https://api-fxpractice.oanda.com''"

definition oanda_rest_url :: "string option \<Rightarrow> trading_platform \<Rightarrow> string" where
  "oanda_rest_url rest_url platform =
     (case rest_url of
        Some url \<Rightarrow> url
      | None \<Rightarrow> if platform = OandaLive then oanda_live_rest_url else oanda_practice_rest_url)"

definition oanda_new :: "string option \<Rightarrow> string \<Rightarrow> trading_platform \<Rightarrow> oanda" where
  "oanda_new rest_url account_id platform =
     \<lparr>oa_platform = platform, oa_base_url = oanda_rest_url rest_url platform, oa_account_id = account_id,
      oa_breaker = ab_new 3 (secs 300) ''oanda'', oa_hedging = None, oa_slot = None,
      oa_published = published_new published_capacity, oa_internal = []\<rparr>"

text \<open>Sending on the channel of the strategies; without a channel or a receiver the message is dropped.\<close>

definition tell :: "ws_message \<Rightarrow> oanda \<Rightarrow> oanda" where
  "tell m a =
     (case oa_slot a of
        Some b \<Rightarrow> if ob_alive b then a\<lparr>oa_slot := Some (b\<lparr>ob_sent := ob_sent b @ [m]\<rparr>)\<rparr> else a
      | None \<Rightarrow> a)"

definition told :: "oanda \<Rightarrow> ws_message list" where
  "told a = (case oa_slot a of Some b \<Rightarrow> ob_sent b | None \<Rightarrow> [])"

definition listened :: "oanda \<Rightarrow> bool" where
  "listened a = (case oa_slot a of Some b \<Rightarrow> ob_alive b | None \<Rightarrow> False)"

definition claim :: "string list \<Rightarrow> oanda \<Rightarrow> bool \<times> oanda" where
  "claim ids a = (case try_claim_all ids (oa_published a) of (won, d) \<Rightarrow> (won, a\<lparr>oa_published := d\<rparr>))"

subsection \<open>Account snapshots\<close>

definition oanda_account_url :: "oanda \<Rightarrow> string \<Rightarrow> string" where
  "oanda_account_url a path = oa_base_url a @ ''/v3/accounts/'' @ oa_account_id a @ path"

definition parsed_account :: "codec \<Rightarrow> oanda_account \<Rightarrow> account option" where
  "parsed_account K acct =
     (case (cx_dec K (oac_balance acct), cx_dec K (oac_nav acct), cx_dec K (oac_margin_used acct),
            cx_dec K (oac_margin_available acct), cx_dec K (oac_unrealized_pl acct)) of
        (Some b, Some e, Some mu, Some ma, Some pl) \<Rightarrow>
          Some \<lparr>acc_balance = b, acc_equity = e, acc_margin_used = mu, acc_margin_available = ma,
                acc_unrealized_pnl = pl, acc_currency = oac_currency acct\<rparr>
      | _ \<Rightarrow> None)"

definition fetch_account :: "codec \<Rightarrow> 'w http \<Rightarrow> oanda \<Rightarrow> 'w \<Rightarrow> account option \<times> 'w" where
  "fetch_account K H a w =
     (case ht_get H (oanda_account_url a ''/summary'') w of
        (NoReply e, w1) \<Rightarrow> (None, w1)
      | (Reply status body, w1) \<Rightarrow>
          if \<not> is_success status then (None, w1)
          else (case body of
                  Inl e \<Rightarrow> (None, w1)
                | Inr j \<Rightarrow> (case jd_account K j of Inl e \<Rightarrow> (None, w1) | Inr acct \<Rightarrow> (parsed_account K acct, w1))))"

definition merge_fill_account :: "codec \<Rightarrow> account \<Rightarrow> string option \<Rightarrow> account" where
  "merge_fill_account K acc fill_balance =
     (case Option.bind fill_balance (cx_dec K) of Some b \<Rightarrow> acc\<lparr>acc_balance := b\<rparr> | None \<Rightarrow> acc)"

definition account_snapshot_for_fill :: "codec \<Rightarrow> 'w http \<Rightarrow> oanda \<Rightarrow> string option \<Rightarrow> 'w \<Rightarrow> account option \<times> 'w" where
  "account_snapshot_for_fill K H a fill_balance w =
     (case fetch_account K H a w of
        (acc, w1) \<Rightarrow> if ht_summary_late H w then (None, w1)
                     else (map_option (\<lambda>x. merge_fill_account K x fill_balance) acc, w1))"

subsection \<open>Prices\<close>

fun first_bucket :: "price_bucket list \<Rightarrow> price_bucket option" where
  "first_bucket [] = None"
| "first_bucket (b # bs) = Some b"

definition bucket_price :: "codec \<Rightarrow> price_bucket list \<Rightarrow> decimal option" where
  "bucket_price K bs = Option.bind (first_bucket bs) (\<lambda>b. cx_dec K (pb_price b))"

definition bucket_size :: "price_bucket list \<Rightarrow> decimal option" where
  "bucket_size bs = map_option (\<lambda>b. of_int (pb_liquidity b)) (first_bucket bs)"

text \<open>The mid price halves a sum, which is exact for prices that leave a digit of the 28 free.\<close>

definition price_to_quote :: "codec \<Rightarrow> utc \<Rightarrow> trading_platform \<Rightarrow> string \<Rightarrow> price_bucket list \<Rightarrow> price_bucket list \<Rightarrow> ws_message list" where
  "price_to_quote K now platform instrument bids asks =
     (case (bucket_price K bids, bucket_price K asks) of
        (Some bid, Some ask) \<Rightarrow>
          [WsQuoteData \<lparr>q_symbol = instrument, q_provider = header_value platform, q_bid = bid,
             q_bid_size = bucket_size bids, q_ask = ask,
             q_ask_size = bucket_size asks, q_last = (bid + ask) / 2,
             q_volume = None, q_timestamp = now\<rparr> now]
      | _ \<Rightarrow> [])"

definition price_line :: "codec \<Rightarrow> utc \<Rightarrow> string \<Rightarrow> oanda \<Rightarrow> oanda" where
  "price_line K now line a =
     (if line = [] then a
      else case jd_price_line K line of
             Some (PriceLine p) \<Rightarrow>
               fold tell (price_to_quote K now (oa_platform a) (sp_instrument p) (sp_bids p) (sp_asks p)) a
           | Some (PriceHeartbeat t) \<Rightarrow> a
           | None \<Rightarrow> a)"

definition newline :: char where
  "newline = CHR 0x0A"

lemma split_once_shorter: "split_once c s = Some (x, y) \<Longrightarrow> length y < length s"
  by (drule split_once_SomeD) simp

function process_price_buffer :: "codec \<Rightarrow> utc \<Rightarrow> string \<Rightarrow> oanda \<Rightarrow> string \<times> oanda" where
  "process_price_buffer K now buffer a =
     (case split_once newline buffer of
        None \<Rightarrow> (buffer, a)
      | Some (line, rest) \<Rightarrow> process_price_buffer K now rest (price_line K now (http_trim (line @ [newline])) a))"
  by pat_completeness auto
termination
  by (relation "measure (\<lambda>(K, now, buffer, a). length buffer)") (auto dest: split_once_shorter)

declare process_price_buffer.simps [simp del]

subsection \<open>Transactions\<close>

definition oanda_reject_reason :: "string \<Rightarrow> reject_reason" where
  "oanda_reject_reason reason =
     (if reason = ''INSUFFICIENT_MARGIN'' then ReasonInsufficientMargin
      else if reason = ''INSUFFICIENT_LIQUIDITY'' \<or> reason = ''INSUFFICIENT_FUNDS'' then ReasonInsufficientBalance
      else if reason = ''INSTRUMENT_NOT_TRADEABLE'' then ReasonSymbolNotTradeable
      else if reason = ''MARKET_HALTED'' then ReasonMarketClosed
      else ReasonUnknown)"

definition fill_reason_to_order_context :: "string option \<Rightarrow> order_type \<times> time_in_force" where
  "fill_reason_to_order_context reason =
     (case reason of
        None \<Rightarrow> (Market, Gtc)
      | Some r \<Rightarrow>
          if r \<in> {''LIMIT_ORDER'', ''TAKE_PROFIT_ORDER''} then (Limit, Gtc)
          else if r \<in> {''STOP_ORDER'', ''STOP_LOSS_ORDER'', ''GUARANTEED_STOP_LOSS_ORDER''} then (Stop, Gtc)
          else if r = ''TRAILING_STOP_LOSS_ORDER'' then (TrailingStop, Gtc)
          else if r = ''MARKET_IF_TOUCHED_ORDER'' then (StopLimit, Gtc)
          else if starts_with r ''MARKET_ORDER'' then (Market, Fok)
          else (Market, Gtc))"

definition parse_transaction_time :: "codec \<Rightarrow> utc \<Rightarrow> string option \<Rightarrow> utc" where
  "parse_transaction_time K now t = (case Option.bind t (cx_time K) of Some u \<Rightarrow> u | None \<Rightarrow> now)"

definition signed_units :: "codec \<Rightarrow> string option \<Rightarrow> side \<times> decimal" where
  "signed_units K units =
     (case Option.bind units (\<lambda>u. case from_oanda_units K u of Inr r \<Rightarrow> Some r | Inl e \<Rightarrow> None) of
        Some r \<Rightarrow> r
      | None \<Rightarrow> (Buy, 0))"

definition first_of :: "'a option \<Rightarrow> 'a option \<Rightarrow> 'a \<Rightarrow> 'a" where
  "first_of x y z = (case x of Some v \<Rightarrow> v | None \<Rightarrow> (case y of Some v \<Rightarrow> v | None \<Rightarrow> z))"

text \<open>An order event with only the fields every transaction sets; the others are filled in by its kind.\<close>

definition wire_order :: "utc \<Rightarrow> string \<Rightarrow> string option \<Rightarrow> string \<Rightarrow> side \<Rightarrow> order_type \<Rightarrow> decimal \<Rightarrow> order_status \<Rightarrow> order" where
  "wire_order now i client symbol side otype quantity status =
     \<lparr>o_id = i, o_client_order_id = client, o_symbol = symbol, o_side = side, o_order_type = otype,
      o_quantity = quantity, o_filled_quantity = 0, o_remaining_quantity = quantity, o_limit_price = None,
      o_stop_price = None, o_stop_loss = None, o_take_profit = None, o_trailing_distance = None,
      o_trailing_type = None, o_average_fill_price = None, o_status = status, o_reject_reason = None,
      o_position_id = None, o_parent_order_id = None, o_reduce_only = None, o_post_only = None,
      o_hidden = None, o_display_quantity = None, o_oco_group_id = None, o_correlation_id = None,
      o_time_in_force = Gtc, o_created_at = now, o_updated_at = now\<rparr>"

definition line_symbol :: "stream_line \<Rightarrow> string" where
  "line_symbol tx = (case sl_instrument tx of Some i \<Rightarrow> i | None \<Rightarrow> [])"

definition line_order_id :: "stream_line \<Rightarrow> string" where
  "line_order_id tx = first_of (sl_order_id tx) (sl_id tx) ''unknown''"

definition fill_order :: "codec \<Rightarrow> utc \<Rightarrow> stream_line \<Rightarrow> order" where
  "fill_order K now tx =
     (let (side, quantity) = signed_units K (sl_units tx);
          (otype, tif) = fill_reason_to_order_context (sl_reason tx)
      in (wire_order now (line_order_id tx) (sl_client_order_id tx) (line_symbol tx) side otype quantity Filled)
           \<lparr>o_filled_quantity := quantity, o_remaining_quantity := 0,
            o_average_fill_price := parse_price K (sl_price tx),
            o_position_id := fill_position_id (line_symbol tx) side (sl_trade_opened tx) (sl_trades_closed tx) (sl_trade_reduced tx),
            o_time_in_force := tif\<rparr>)"

definition fill_trade :: "codec \<Rightarrow> utc \<Rightarrow> stream_line \<Rightarrow> trade" where
  "fill_trade K now tx =
     (let (side, quantity) = signed_units K (sl_units tx) in
      \<lparr>t_id = first_of (sl_id tx) (sl_order_id tx) ''unknown'', t_order_id = line_order_id tx,
       t_symbol = line_symbol tx, t_side = side, t_quantity = quantity,
       t_price = price_or_zero K (sl_price tx), t_commission = price_or_zero K (sl_commission tx),
       t_commission_currency = [], t_is_maker = None,
       t_timestamp = parse_transaction_time K now (sl_time tx)\<rparr>)"

definition carry :: "codec \<Rightarrow> string \<Rightarrow> utc \<Rightarrow> string option \<Rightarrow> ws_message list" where
  "carry K symbol timestamp financing =
     (case parse_price K financing of
        Some amount \<Rightarrow> if amount \<noteq> 0 then [WsFinancing symbol amount timestamp] else []
      | None \<Rightarrow> [])"

definition transaction_fill_to_messages :: "codec \<Rightarrow> utc \<Rightarrow> stream_line \<Rightarrow> ws_message list" where
  "transaction_fill_to_messages K now tx =
     [WsOrder EvOrderFilled (fill_order K now tx) None now, WsTrade EvTradeFilled (fill_trade K now tx) now]
     @ carry K (line_symbol tx) (parse_transaction_time K now (sl_time tx)) (sl_financing tx)"

definition transaction_financing_to_messages :: "codec \<Rightarrow> utc \<Rightarrow> stream_line \<Rightarrow> ws_message list" where
  "transaction_financing_to_messages K now tx =
     List.map_filter (\<lambda>pf. map_option (\<lambda>amount. WsFinancing (pf_instrument pf) amount (parse_transaction_time K now (sl_time tx)))
                             (cx_dec K (pf_financing pf)))
       (case sl_position_financings tx of Some pfs \<Rightarrow> pfs | None \<Rightarrow> [])"

definition transaction_cancel_to_messages :: "utc \<Rightarrow> stream_line \<Rightarrow> ws_message list" where
  "transaction_cancel_to_messages now tx =
     [WsOrder EvOrderCancelled
        (wire_order now (line_order_id tx) (sl_client_order_id tx) (line_symbol tx) Buy Limit 0 Cancelled) None now]"

definition new_order_type :: "string \<Rightarrow> order_type" where
  "new_order_type ty =
     (if ty \<in> {''LIMIT_ORDER'', ''TAKE_PROFIT_ORDER''} then Limit
      else if ty \<in> {''STOP_ORDER'', ''STOP_LOSS_ORDER''} then Stop
      else StopLimit)"

definition transaction_new_order_to_messages :: "codec \<Rightarrow> utc \<Rightarrow> stream_line \<Rightarrow> ws_message list" where
  "transaction_new_order_to_messages K now tx =
     (let (side, quantity) = signed_units K (sl_units tx);
          trigger = parse_price K (sl_price tx);
          otype = new_order_type (sl_transaction_type tx)
      in [WsOrder EvOrderCreated
            ((wire_order now (case sl_id tx of Some i \<Rightarrow> i | None \<Rightarrow> []) None (line_symbol tx) side otype quantity Open)
               \<lparr>o_limit_price := (if otype = Limit then trigger else None),
                o_stop_price := (if otype = Stop \<or> otype = StopLimit then trigger else None)\<rparr>) None now])"

definition transaction_reject_to_messages :: "codec \<Rightarrow> utc \<Rightarrow> stream_line \<Rightarrow> ws_message list" where
  "transaction_reject_to_messages K now tx =
     (let (side, quantity) = signed_units K (sl_units tx) in
      [WsOrder EvOrderRejected
         ((wire_order now (case sl_id tx of Some i \<Rightarrow> i | None \<Rightarrow> []) None (line_symbol tx) side Market quantity Rejected)
            \<lparr>o_reject_reason := map_option oanda_reject_reason (sl_reject_reason tx)\<rparr>) None now])"

definition transaction_to_messages :: "codec \<Rightarrow> utc \<Rightarrow> stream_line \<Rightarrow> ws_message list" where
  "transaction_to_messages K now tx =
     (let ty = sl_transaction_type tx in
      if ty = ''ORDER_FILL'' then transaction_fill_to_messages K now tx
      else if ty = ''ORDER_CANCEL'' then transaction_cancel_to_messages now tx
      else if ty \<in> {''LIMIT_ORDER'', ''STOP_ORDER'', ''MARKET_IF_TOUCHED_ORDER'', ''STOP_LOSS_ORDER'', ''TAKE_PROFIT_ORDER''}
        then transaction_new_order_to_messages K now tx
      else if ty = ''MARKET_ORDER_REJECT'' then transaction_reject_to_messages K now tx
      else if ty = ''DAILY_FINANCING'' then transaction_financing_to_messages K now tx
      else [])"

datatype transaction_sink = SinkStrategy | SinkInternal

definition rest_path_also_publishes :: "string \<Rightarrow> bool" where
  "rest_path_also_publishes ty = (ty = ''ORDER_FILL'' \<or> ty = ''ORDER_CANCEL'')"

definition claim_if_needed :: "transaction_sink \<Rightarrow> stream_line \<Rightarrow> oanda \<Rightarrow> bool \<times> oanda" where
  "claim_if_needed sink tx a =
     (case sink of
        SinkInternal \<Rightarrow> (True, a)
      | SinkStrategy \<Rightarrow>
          if \<not> rest_path_also_publishes (sl_transaction_type tx) then (True, a)
          else case sl_id tx of
                 None \<Rightarrow> (True, a)
               | Some i \<Rightarrow> if oa_slot a = None then (False, a) else claim [i] a)"

definition sink_send :: "transaction_sink \<Rightarrow> ws_message \<Rightarrow> oanda \<Rightarrow> oanda" where
  "sink_send sink m a =
     (case sink of
        SinkStrategy \<Rightarrow> tell m a
      | SinkInternal \<Rightarrow> a\<lparr>oa_internal := oa_internal a @ [internal_event_new m (oa_platform a)]\<rparr>)"

definition transaction_line :: "codec \<Rightarrow> 'w http \<Rightarrow> transaction_sink \<Rightarrow> stream_line \<Rightarrow> oanda \<times> 'w \<Rightarrow> oanda \<times> 'w" where
  "transaction_line K H sink tx s =
     (case s of (a, w) \<Rightarrow>
        if sl_transaction_type tx = ''HEARTBEAT'' then (a, w)
        else case claim_if_needed sink tx a of
               (False, a1) \<Rightarrow> (a1, w)
             | (True, a1) \<Rightarrow>
                 let a2 = fold (sink_send sink) (transaction_to_messages K (ht_utc H w) tx) a1 in
                 if sl_transaction_type tx = ''ORDER_FILL'' \<and> sink = SinkStrategy
                 then (case account_snapshot_for_fill K H a2 (sl_account_balance tx) w of
                         (Some acc, w1) \<Rightarrow>
                           (sink_send sink (WsAccount EvBalanceUpdated acc (parse_transaction_time K (ht_utc H w1) (sl_time tx))) a2, w1)
                       | (None, w1) \<Rightarrow> (a2, w1))
                 else (a2, w))"

definition transaction_text :: "codec \<Rightarrow> 'w http \<Rightarrow> transaction_sink \<Rightarrow> string \<Rightarrow> oanda \<times> 'w \<Rightarrow> oanda \<times> 'w" where
  "transaction_text K H sink line s =
     (if line = [] then s
      else case jd_stream_line K line of Some tx \<Rightarrow> transaction_line K H sink tx s | None \<Rightarrow> s)"

function process_transaction_buffer ::
  "codec \<Rightarrow> 'w http \<Rightarrow> ('w \<Rightarrow> bool) \<Rightarrow> transaction_sink \<Rightarrow> string \<Rightarrow> oanda \<times> 'w \<Rightarrow> string \<times> oanda \<times> 'w" where
  "process_transaction_buffer K H cancelled sink buffer s =
     (case split_once newline buffer of
        None \<Rightarrow> (buffer, s)
      | Some (line, rest) \<Rightarrow>
          if cancelled (snd s) then (buffer, s)
          else process_transaction_buffer K H cancelled sink rest (transaction_text K H sink (http_trim (line @ [newline])) s))"
  by pat_completeness auto
termination
  by (relation "measure (\<lambda>(K, H, cancelled, sink, buffer, s). length buffer)") (auto dest: split_once_shorter)

declare process_transaction_buffer.simps [simp del]

subsection \<open>Streams\<close>

datatype stream_error = StreamNetwork string | HeartbeatTimeout | StreamCancelled | PermanentAuth string

datatype stream_input = Chunk string | StreamEof | ReadError string | Silence | CancelSignal

definition initial_backoff :: duration where
  "initial_backoff = secs 1"

definition max_backoff :: duration where
  "max_backoff = secs 60"

text \<open>The answer to the request that opens a stream; \<open>None\<close> lets it be read.\<close>

definition opening_error :: "http_reply \<Rightarrow> stream_error option" where
  "opening_error r =
     (case r of
        NoReply e \<Rightarrow> Some (StreamNetwork e)
      | Reply status body \<Rightarrow>
          if status = 401 \<or> status = 403 then Some (PermanentAuth (''HTTP '' @ show_nat status))
          else if \<not> is_success status then Some (StreamNetwork (''HTTP '' @ show_nat status))
          else None)"

text \<open>
  Reading a stream: each chunk is appended to the buffer and its complete lines are processed. The
  reason the stream ended is \<open>None\<close> as long as inputs may still come.
\<close>

fun read_stream :: "(string \<Rightarrow> 's \<Rightarrow> string \<times> 's) \<Rightarrow> stream_input list \<Rightarrow> string \<Rightarrow> 's \<Rightarrow> stream_error option \<times> 's" where
  "read_stream process [] buffer s = (None, s)"
| "read_stream process (Chunk bytes # xs) buffer s =
     (case process (buffer @ bytes) s of (buffer1, s1) \<Rightarrow> read_stream process xs buffer1 s1)"
| "read_stream process (StreamEof # xs) buffer s = (Some (StreamNetwork ''Stream ended (EOF)''), s)"
| "read_stream process (ReadError e # xs) buffer s = (Some (StreamNetwork e), s)"
| "read_stream process (Silence # xs) buffer s = (Some HeartbeatTimeout, s)"
| "read_stream process (CancelSignal # xs) buffer s = (Some StreamCancelled, s)"

definition run_single_price_stream ::
  "codec \<Rightarrow> utc \<Rightarrow> http_reply \<Rightarrow> stream_input list \<Rightarrow> oanda \<Rightarrow> stream_error option \<times> oanda" where
  "run_single_price_stream K now reply inputs a =
     (case opening_error reply of
        Some err \<Rightarrow> (Some err, a)
      | None \<Rightarrow> read_stream (process_price_buffer K now) inputs [] a)"

definition run_single_transaction_stream ::
  "codec \<Rightarrow> 'w http \<Rightarrow> ('w \<Rightarrow> bool) \<Rightarrow> transaction_sink \<Rightarrow> http_reply \<Rightarrow> stream_input list \<Rightarrow> oanda \<times> 'w
     \<Rightarrow> stream_error option \<times> oanda \<times> 'w" where
  "run_single_transaction_stream K H cancelled sink reply inputs s =
     (case opening_error reply of
        Some err \<Rightarrow> (Some err, s)
      | None \<Rightarrow> read_stream (process_transaction_buffer K H cancelled sink) inputs [] s)"

text \<open>
  The loop around a stream. An attempt is the opening answer, the inputs, and whether a token fires
  during the sleep after it. The result says how long each sleep lasts and whether the loop ended.
\<close>

fun keep_streaming ::
  "(http_reply \<Rightarrow> stream_input list \<Rightarrow> 's \<Rightarrow> stream_error option \<times> 's) \<Rightarrow>
     (http_reply \<times> stream_input list \<times> bool) list \<Rightarrow> duration \<Rightarrow> 's \<Rightarrow> (duration list \<times> bool) \<times> 's" where
  "keep_streaming single [] backoff s = (([], False), s)"
| "keep_streaming single ((reply, inputs, stopped) # rest) backoff s =
     (case single reply inputs s of
        (None, s1) \<Rightarrow> (([], False), s1)
      | (Some StreamCancelled, s1) \<Rightarrow> (([], True), s1)
      | (Some (PermanentAuth e), s1) \<Rightarrow> (([], True), s1)
      | (Some err, s1) \<Rightarrow>
          if stopped then (([], True), s1)
          else (case keep_streaming single rest (min (backoff * 2) max_backoff) s1 of
                  ((waits, ended), s2) \<Rightarrow> ((backoff # waits, ended), s2)))"

definition run_price_stream ::
  "codec \<Rightarrow> utc \<Rightarrow> (http_reply \<times> stream_input list \<times> bool) list \<Rightarrow> oanda \<Rightarrow> (duration list \<times> bool) \<times> oanda" where
  "run_price_stream K now attempts a = keep_streaming (run_single_price_stream K now) attempts initial_backoff a"

definition run_transaction_stream ::
  "codec \<Rightarrow> 'w http \<Rightarrow> ('w \<Rightarrow> bool) \<Rightarrow> (http_reply \<times> stream_input list \<times> bool) list \<Rightarrow> oanda \<times> 'w
     \<Rightarrow> (duration list \<times> bool) \<times> oanda \<times> 'w" where
  "run_transaction_stream K H cancelled attempts s =
     keep_streaming (run_single_transaction_stream K H cancelled SinkStrategy) attempts initial_backoff s"

definition run_transaction_stream_internal ::
  "codec \<Rightarrow> 'w http \<Rightarrow> ('w \<Rightarrow> bool) \<Rightarrow> (http_reply \<times> stream_input list \<times> bool) list \<Rightarrow> oanda \<times> 'w
     \<Rightarrow> (duration list \<times> bool) \<times> oanda \<times> 'w" where
  "run_transaction_stream_internal K H cancelled attempts s =
     keep_streaming (run_single_transaction_stream K H cancelled SinkInternal) attempts initial_backoff s"

subsection \<open>Candles\<close>

definition wants_candles :: "string list \<Rightarrow> bool" where
  "wants_candles ets =
     list_ex (\<lambda>e. let l = to_lowercase e in
        l \<in> {''candle'', ''candles'', ''bar'', ''bars''} \<or> starts_with l ''candle_'') ets"

definition next_minute_boundary :: "utc \<Rightarrow> utc" where
  "next_minute_boundary now = now - now mod secs 60 + secs 60"

definition candle_to_bar :: "codec \<Rightarrow> trading_platform \<Rightarrow> string \<Rightarrow> oanda_candle \<Rightarrow> bar option" where
  "candle_to_bar K platform symbol c = historical_bar K (header_value platform) symbol OneMinute c"

datatype candle_poll_error = PollAuth string | PollTransient string

definition candle_url :: "string \<Rightarrow> string \<Rightarrow> string" where
  "candle_url rest_url symbol = rest_url @ ''/v3/instruments/'' @ symbol @ ''/candles?granularity=M1&count=3''"

definition poll_candles :: "codec \<Rightarrow> 'w http \<Rightarrow> string \<Rightarrow> string \<Rightarrow> 'w \<Rightarrow> (candle_poll_error + oanda_candle list) \<times> 'w" where
  "poll_candles K H rest_url symbol w =
     (case ht_get H (candle_url rest_url symbol) w of
        (NoReply e, w1) \<Rightarrow> (Inl (PollTransient e), w1)
      | (Reply status body, w1) \<Rightarrow>
          if status = 401 \<or> status = 403 then (Inl (PollAuth (''HTTP '' @ show_nat status)), w1)
          else if \<not> is_success status then (Inl (PollTransient (''HTTP '' @ show_nat status)), w1)
          else (case body of
                  Inl e \<Rightarrow> (Inl (PollTransient e), w1)
                | Inr j \<Rightarrow> (case jd_candles K j of
                               Inl e \<Rightarrow> (Inl (PollTransient e), w1)
                             | Inr cs \<Rightarrow> (Inr (filter oc_complete cs), w1))))"

type_synonym watermarks = "(string, utc) dmap"

definition new_bars :: "utc option \<Rightarrow> bar list \<Rightarrow> bar list" where
  "new_bars watermark bars =
     (case watermark of
        None \<Rightarrow> if bars = [] then [] else [last bars]
      | Some t \<Rightarrow> filter (\<lambda>b. bar_timestamp b > t) bars)"

definition emit_bar :: "utc \<Rightarrow> string \<Rightarrow> bar \<Rightarrow> watermarks \<times> oanda \<Rightarrow> watermarks \<times> oanda" where
  "emit_bar now symbol b s = (dm_insert symbol (bar_timestamp b) (fst s), tell (WsCandle b now) (snd s))"

definition emit_candles :: "codec \<Rightarrow> utc \<Rightarrow> string \<Rightarrow> oanda_candle list \<Rightarrow> watermarks \<times> oanda \<Rightarrow> watermarks \<times> oanda" where
  "emit_candles K now symbol candles s =
     (let fresh = new_bars (dm_get (fst s) symbol) (List.map_filter (candle_to_bar K (oa_platform (snd s)) symbol) candles) in
      if oa_slot (snd s) = None then s else fold (emit_bar now symbol) fresh s)"

fun poll_and_emit ::
  "codec \<Rightarrow> 'w http \<Rightarrow> string list \<Rightarrow> (watermarks \<times> oanda) \<times> 'w \<Rightarrow> bool \<times> (watermarks \<times> oanda) \<times> 'w" where
  "poll_and_emit K H [] (s, w) = (True, s, w)"
| "poll_and_emit K H (symbol # symbols) (s, w) =
     (case poll_candles K H (oa_base_url (snd s)) symbol w of
        (Inl e, w1) \<Rightarrow> (case poll_and_emit K H symbols (s, w1) of (healthy, r) \<Rightarrow> (False, r))
      | (Inr candles, w1) \<Rightarrow> poll_and_emit K H symbols (emit_candles K (ht_utc H w1) symbol candles s, w1))"

datatype wake_up = Woken "string list" | WakeCancelled

datatype poll_end = PollRunning | PollCancelled | PollGaveUp

definition max_consecutive_candle_poll_failures :: nat where
  "max_consecutive_candle_poll_failures = 8"

definition poll_sleep :: "utc \<Rightarrow> duration \<Rightarrow> nat \<Rightarrow> duration" where
  "poll_sleep now backoff failures =
     (if failures = 0 then next_minute_boundary now + secs 3 - now else backoff)"

text \<open>
  The poll loop over its wake-ups, each with the instruments subscribed at that time. The result has
  how the loop ended and the length of every sleep.
\<close>

fun run_candle_poll ::
  "codec \<Rightarrow> 'w http \<Rightarrow> wake_up list \<Rightarrow> duration \<Rightarrow> nat \<Rightarrow> (watermarks \<times> oanda) \<times> 'w
     \<Rightarrow> (poll_end \<times> duration list) \<times> (watermarks \<times> oanda) \<times> 'w" where
  "run_candle_poll K H [] backoff failures s = ((PollRunning, []), s)"
| "run_candle_poll K H (WakeCancelled # ws) backoff failures s = ((PollCancelled, []), s)"
| "run_candle_poll K H (Woken symbols # ws) backoff failures s =
     (let slept = poll_sleep (ht_utc H (snd s)) backoff failures in
      if symbols = []
      then (case run_candle_poll K H ws backoff failures s of ((e, sleeps), s1) \<Rightarrow> ((e, slept # sleeps), s1))
      else case poll_and_emit K H symbols s of
             (True, s1) \<Rightarrow>
               (case run_candle_poll K H ws initial_backoff 0 s1 of ((e, sleeps), s2) \<Rightarrow> ((e, slept # sleeps), s2))
           | (False, s1) \<Rightarrow>
               if failures + 1 \<ge> max_consecutive_candle_poll_failures then ((PollGaveUp, [slept]), s1)
               else (case run_candle_poll K H ws (min (backoff * 2) max_backoff) (failures + 1) s1 of
                       ((e, sleeps), s2) \<Rightarrow> ((e, slept # sleeps), s2)))"

end
