(* ===== verification/Gw_Oanda_Adapter.thy ===== *)
theory Gw_Oanda_Adapter
  imports Gw_Oanda_Feed
begin

text \<open>
  The OANDA adapter (\<open>crates/oanda/src/adapter.rs\<close>): what each call of the gateway asks of the broker,
  how the answer is read, which failures count against the circuit breaker, and what a submission
  publishes of a fill or a cancellation that the answer already reports. Every operation takes the
  adapter's state with the world and returns its answer with both.
\<close>

type_synonym 'w oanda_state = "oanda \<times> 'w"

subsection \<open>Requests\<close>

definition record_if_outage :: "'w http \<Rightarrow> gateway_error \<Rightarrow> 'w oanda_state \<Rightarrow> 'w oanda_state" where
  "record_if_outage H e s =
     (if is_outage_error e
      then ((fst s)\<lparr>oa_breaker := ab_record_failure (ht_instant H (snd s)) (oa_breaker (fst s))\<rparr>, snd s)
      else s)"

definition check_circuit_breaker :: "oanda \<Rightarrow> gateway_error + unit" where
  "check_circuit_breaker a = (if ab_is_open (oa_breaker a) then Inl (ab_open_error (oa_breaker a)) else Inr ())"

definition request_failed :: "string \<Rightarrow> gateway_error" where
  "request_failed e = ProviderError (''Request failed: '' @ e) (Some ''oanda'') None"

definition get_json :: "'w http \<Rightarrow> (json \<Rightarrow> string + 'a) \<Rightarrow> string \<Rightarrow> 'w \<Rightarrow> (gateway_error + 'a) \<times> 'w" where
  "get_json H decode url w =
     (case ht_get H url w of
        (NoReply e, w1) \<Rightarrow> (Inl (request_failed e), w1)
      | (Reply status body, w1) \<Rightarrow>
          if \<not> is_success status then (Inl (map_http_error status (body_or_unknown body)), w1)
          else (case (case body of Inl e \<Rightarrow> Inl e | Inr j \<Rightarrow> decode j) of
                  Inl e \<Rightarrow> (Inl (Internal (''Failed to parse Oanda response: '' @ e) None), w1)
                | Inr x \<Rightarrow> (Inr x, w1)))"

text \<open>A read whose failure is recorded when it is an outage.\<close>

definition read_json :: "'w http \<Rightarrow> (json \<Rightarrow> string + 'a) \<Rightarrow> string \<Rightarrow> 'w oanda_state \<Rightarrow> (gateway_error + 'a) \<times> 'w oanda_state" where
  "read_json H decode url s =
     (case get_json H decode url (snd s) of
        (Inl e, w1) \<Rightarrow> (Inl e, record_if_outage H e (fst s, w1))
      | (Inr x, w1) \<Rightarrow> (Inr x, (fst s, w1)))"

definition says_404 :: "gateway_error \<Rightarrow> bool" where
  "says_404 e = (case e of ProviderError m p src \<Rightarrow> contains m ''404'' | _ \<Rightarrow> False)"

definition read_or_missing ::
  "'w http \<Rightarrow> (json \<Rightarrow> string + 'a) \<Rightarrow> gateway_error \<Rightarrow> string \<Rightarrow> 'w oanda_state \<Rightarrow> (gateway_error + 'a) \<times> 'w oanda_state" where
  "read_or_missing H decode missing url s =
     (case read_json H decode url s of
        (Inl e, s1) \<Rightarrow> (Inl (if says_404 e then missing else e), s1)
      | (Inr x, s1) \<Rightarrow> (Inr x, s1))"

definition guarded :: "('w oanda_state \<Rightarrow> (gateway_error + 'a) \<times> 'w oanda_state) \<Rightarrow> 'w oanda_state \<Rightarrow> (gateway_error + 'a) \<times> 'w oanda_state" where
  "guarded f s = (case check_circuit_breaker (fst s) of Inl e \<Rightarrow> (Inl e, s) | Inr u \<Rightarrow> f s)"

text \<open>The answer is translated at the time it has arrived.\<close>

definition map_answer :: "('s \<Rightarrow> 'a \<Rightarrow> gateway_error + 'b) \<Rightarrow> (gateway_error + 'a) \<times> 's \<Rightarrow> (gateway_error + 'b) \<times> 's" where
  "map_answer f r = (try_res (fst r) (f (snd r)), snd r)"

subsection \<open>Reads\<close>

definition oanda_get_account :: "codec \<Rightarrow> 'w http \<Rightarrow> 'w oanda_state \<Rightarrow> (gateway_error + account) \<times> 'w oanda_state" where
  "oanda_get_account K H =
     guarded (\<lambda>s. map_answer (\<lambda>s1 acct. Inr (translate_oanda_account K acct))
                    (read_json H (jd_account K) (oanda_account_url (fst s) ''/summary'') s))"

definition oanda_get_order :: "codec \<Rightarrow> 'w http \<Rightarrow> string \<Rightarrow> 'w oanda_state \<Rightarrow> (gateway_error + order) \<times> 'w oanda_state" where
  "oanda_get_order K H order_id =
     guarded (\<lambda>s. map_answer (\<lambda>s1. translate_oanda_order K (ht_utc H (snd s1)))
                    (read_or_missing H (jd_order K) (OrderNotFound order_id)
                       (oanda_account_url (fst s) (''/orders/'' @ order_id)) s))"

definition oanda_get_orders :: "codec \<Rightarrow> 'w http \<Rightarrow> order_query \<Rightarrow> 'w oanda_state \<Rightarrow> (gateway_error + order list) \<times> 'w oanda_state" where
  "oanda_get_orders K H q =
     guarded (\<lambda>s. map_answer (\<lambda>s1. translate_all (translate_oanda_order K (ht_utc H (snd s1))))
                    (read_json H (jd_orders K)
                       (oanda_account_url (fst s) ''/orders''
                          @ (case oq_symbol q of Some symbol \<Rightarrow> ''?instrument='' @ symbol | None \<Rightarrow> [])) s))"

definition oanda_get_order_history :: "codec \<Rightarrow> 'w http \<Rightarrow> order_query \<Rightarrow> 'w oanda_state \<Rightarrow> (gateway_error + order list) \<times> 'w oanda_state" where
  "oanda_get_order_history K H q =
     guarded (\<lambda>s. map_answer (\<lambda>s1. translate_all (translate_oanda_order K (ht_utc H (snd s1))))
                    (read_json H (jd_orders K)
                       (oanda_account_url (fst s) ''/orders?state=ALL''
                          @ (case oq_symbol q of Some symbol \<Rightarrow> ''&instrument='' @ symbol | None \<Rightarrow> [])
                          @ (case oq_limit q of Some limit \<Rightarrow> ''&count='' @ show_nat limit | None \<Rightarrow> [])) s))"

definition oanda_get_trades :: "codec \<Rightarrow> 'w http \<Rightarrow> trade_query \<Rightarrow> 'w oanda_state \<Rightarrow> (gateway_error + trade list) \<times> 'w oanda_state" where
  "oanda_get_trades K H q =
     guarded (\<lambda>s. map_answer (\<lambda>s1. translate_all (translate_oanda_trade K (ht_utc H (snd s1))))
                    (read_json H (jd_trades K)
                       (oanda_account_url (fst s) ''/trades''
                          @ (case tq_symbol q of Some symbol \<Rightarrow> ''?instrument='' @ symbol | None \<Rightarrow> [])) s))"

definition open_trade_state :: string where
  "open_trade_state = ''OPEN''"

definition fetch_trade :: "codec \<Rightarrow> 'w http \<Rightarrow> string \<Rightarrow> 'w oanda_state \<Rightarrow> (gateway_error + oanda_trade) \<times> 'w oanda_state" where
  "fetch_trade K H trade_id s =
     map_answer (\<lambda>s1 t. if otr_state t \<noteq> open_trade_state then Inl (PositionNotFound trade_id) else Inr t)
       (read_or_missing H (jd_trade K) (PositionNotFound trade_id)
          (oanda_account_url (fst s) (''/trades/'' @ trade_id)) s)"

definition chosen_position :: "string \<Rightarrow> position_side option \<Rightarrow> position list \<Rightarrow> gateway_error + position" where
  "chosen_position position_id requested ps =
     (case (case requested of
              Some side \<Rightarrow> find (\<lambda>p. p_side p = side) ps
            | None \<Rightarrow> (case ps of p # rest \<Rightarrow> Some p | [] \<Rightarrow> None)) of
        Some p \<Rightarrow> Inr p
      | None \<Rightarrow> Inl (PositionNotFound position_id))"

definition oanda_get_position :: "codec \<Rightarrow> 'w http \<Rightarrow> string \<Rightarrow> 'w oanda_state \<Rightarrow> (gateway_error + position) \<times> 'w oanda_state" where
  "oanda_get_position K H position_id =
     guarded (\<lambda>s.
       case parse_position_id position_id of
         TargetTrade trade_id \<Rightarrow>
           map_answer (\<lambda>s1. translate_oanda_trade_to_position K (ht_utc H (snd s1))) (fetch_trade K H trade_id s)
       | TargetSide instrument requested \<Rightarrow>
           map_answer (\<lambda>s1 p. chosen_position position_id requested (translate_oanda_position K (ht_utc H (snd s1)) p))
             (read_or_missing H (jd_position K) (PositionNotFound position_id)
                (oanda_account_url (fst s) (''/positions/'' @ instrument)) s))"

definition oanda_get_positions :: "codec \<Rightarrow> 'w http \<Rightarrow> string option \<Rightarrow> 'w oanda_state \<Rightarrow> (gateway_error + position list) \<times> 'w oanda_state" where
  "oanda_get_positions K H symbol =
     guarded (\<lambda>s.
       case symbol of
         Some n \<Rightarrow> map_answer (\<lambda>s1 p. Inr [p]) (oanda_get_position K H n s)
       | None \<Rightarrow>
           map_answer (\<lambda>s1 ps. Inr (concat (map (translate_oanda_position K (ht_utc H (snd s1))) ps)))
             (read_json H (jd_positions K) (oanda_account_url (fst s) ''/openPositions'') s))"

definition oanda_quote :: "codec \<Rightarrow> utc \<Rightarrow> oanda_price \<Rightarrow> quote" where
  "oanda_quote K now p =
     (let bid = (case bucket_price K (px_bids p) of Some d \<Rightarrow> d | None \<Rightarrow> 0);
          ask = (case bucket_price K (px_asks p) of Some d \<Rightarrow> d | None \<Rightarrow> 0)
      in \<lparr>q_symbol = px_instrument p, q_provider = ''oanda'', q_bid = bid, q_bid_size = bucket_size (px_bids p),
          q_ask = ask, q_ask_size = bucket_size (px_asks p), q_last = (bid + ask) / 2, q_volume = None,
          q_timestamp = time_or_now K now (px_time p)\<rparr>)"

definition oanda_get_quote :: "codec \<Rightarrow> 'w http \<Rightarrow> string \<Rightarrow> 'w oanda_state \<Rightarrow> (gateway_error + quote) \<times> 'w oanda_state" where
  "oanda_get_quote K H symbol =
     guarded (\<lambda>s. map_answer (\<lambda>s1 ps. case ps of p # rest \<Rightarrow> Inr (oanda_quote K (ht_utc H (snd s1)) p) | [] \<Rightarrow> Inl (SymbolNotFound symbol))
                    (read_json H (jd_prices K) (oanda_account_url (fst s) (''/pricing?instruments='' @ symbol)) s))"

definition oanda_get_bars ::
  "codec \<Rightarrow> 'w http \<Rightarrow> string \<Rightarrow> timeframe \<Rightarrow> nat option \<Rightarrow> utc option \<Rightarrow> utc option \<Rightarrow> 'w oanda_state \<Rightarrow> (gateway_error + bar list) \<times> 'w oanda_state" where
  "oanda_get_bars K H symbol tf limit start end_time =
     guarded (\<lambda>s. map_answer (\<lambda>s1 cs. Inr (List.map_filter (historical_bar K ''oanda'' symbol tf) cs))
                    (read_json H (jd_candles K)
                       (oa_base_url (fst s) @ ''/v3/instruments/'' @ symbol @ ''/candles?granularity='' @ to_oanda_granularity tf
                          @ (case limit of Some n \<Rightarrow> ''&count='' @ show_nat n | None \<Rightarrow> [])
                          @ (case start of Some t \<Rightarrow> ''&from='' @ cx_show_time K t | None \<Rightarrow> [])
                          @ (case end_time of Some t \<Rightarrow> ''&to='' @ cx_show_time K t | None \<Rightarrow> [])) s))"

text \<open>The hedging mode is asked for until an answer was decoded, and \<open>False\<close> until then.\<close>

definition oanda_hedging :: "codec \<Rightarrow> 'w http \<Rightarrow> 'w oanda_state \<Rightarrow> bool \<times> 'w oanda_state" where
  "oanda_hedging K H s =
     (case oa_hedging (fst s) of
        Some h \<Rightarrow> (h, s)
      | None \<Rightarrow>
          (case get_json H (jd_account K) (oanda_account_url (fst s) ''/summary'') (snd s) of
             (Inr acct, w1) \<Rightarrow> (oac_hedging_enabled acct, (fst s)\<lparr>oa_hedging := Some (oac_hedging_enabled acct)\<rparr>, w1)
           | (Inl e, w1) \<Rightarrow> (False, fst s, w1)))"

definition oanda_connected :: "codec \<Rightarrow> 'w http \<Rightarrow> 'w oanda_state \<Rightarrow> bool \<times> 'w oanda_state" where
  "oanda_connected K H s =
     (case oanda_get_account K H s of (Inr acc, s1) \<Rightarrow> (True, s1) | (Inl e, s1) \<Rightarrow> (False, s1))"

subsection \<open>Closing\<close>

definition put_close ::
  "'w http \<Rightarrow> string \<Rightarrow> http_body \<Rightarrow> string \<Rightarrow> string \<Rightarrow> 'w oanda_state \<Rightarrow> (gateway_error + order_handle) \<times> 'w oanda_state" where
  "put_close H url body closed_id fill_key s =
     (case ht_put H url body (snd s) of
        (NoReply e, w1) \<Rightarrow> (Inl (request_failed e), fst s, w1)
      | (Reply status rbody, w1) \<Rightarrow>
          if status = 404 then (Inl (PositionNotFound closed_id), fst s, w1)
          else if \<not> is_success status then
            (let err = map_http_error status (body_or_unknown rbody) in (Inl err, record_if_outage H err (fst s, w1)))
          else (case rbody of
                  Inl e \<Rightarrow> (Inl (Internal (''Failed to parse close response: '' @ e) None), fst s, w1)
                | Inr j \<Rightarrow>
                    (Inr \<lparr>oh_id = (case Option.bind (Option.bind (jget fill_key j) (jget ''id'')) jstr of
                                    Some i \<Rightarrow> i | None \<Rightarrow> ''unknown''),
                          oh_client_order_id = None, oh_correlation_id = None, oh_status = Filled\<rparr>, fst s, w1)))"

definition close_trade :: "'w http \<Rightarrow> string \<Rightarrow> string \<Rightarrow> 'w oanda_state \<Rightarrow> (gateway_error + order_handle) \<times> 'w oanda_state" where
  "close_trade H trade_id units s =
     put_close H (oanda_account_url (fst s) (''/trades/'' @ trade_id @ ''/close'')) (BodyCloseTrade units) trade_id
       ''orderFillTransaction'' s"

definition all_units :: string where
  "all_units = ''ALL''"

definition reduce_trade :: "codec \<Rightarrow> 'w http \<Rightarrow> string \<Rightarrow> order_request \<Rightarrow> 'w oanda_state \<Rightarrow> (gateway_error + order_handle) \<times> 'w oanda_state" where
  "reduce_trade K H trade_id r s =
     (case fetch_trade K H trade_id s of
        (Inl e, s1) \<Rightarrow> (Inl e, s1)
      | (Inr t, s1) \<Rightarrow>
          if otr_instrument t \<noteq> or_symbol r then
            (Inl (InvalidRequest (''trade '' @ trade_id @ '' is on '' @ otr_instrument t @ '', not '' @ or_symbol r) (Some ''position_id'')), s1)
          else (case from_oanda_units K (otr_current_units t) of
                  Inl e \<Rightarrow> (Inl e, s1)
                | Inr (trade_side, open_units) \<Rightarrow>
                    if trade_side = or_side r then
                      (Inl (InvalidRequest (''a '' @ side_debug (or_side r) @ '' order cannot reduce trade '' @ trade_id
                              @ '', which is itself '' @ side_debug trade_side) (Some ''position_id'')), s1)
                    else close_trade H trade_id
                           (if or_quantity r \<ge> open_units then all_units else cx_show K (or_quantity r)) s1))"

definition close_amount :: "codec \<Rightarrow> close_position_request \<Rightarrow> string" where
  "close_amount K q = (case cq_quantity q of Some n \<Rightarrow> cx_show K n | None \<Rightarrow> all_units)"

definition oanda_close_position ::
  "codec \<Rightarrow> 'w http \<Rightarrow> string \<Rightarrow> close_position_request \<Rightarrow> 'w oanda_state \<Rightarrow> (gateway_error + order_handle) \<times> 'w oanda_state" where
  "oanda_close_position K H position_id q =
     guarded (\<lambda>s.
       case parse_position_id position_id of
         TargetTrade trade_id \<Rightarrow> close_trade H trade_id (close_amount K q) s
       | TargetSide instrument requested \<Rightarrow>
           (let side = (case requested of Some sd \<Rightarrow> sd | None \<Rightarrow> Long);
                body = (case side of
                          Long \<Rightarrow> \<lparr>cl_long_units = Some (close_amount K q), cl_short_units = None\<rparr>
                        | Short \<Rightarrow> \<lparr>cl_long_units = None, cl_short_units = Some (close_amount K q)\<rparr>);
                fill_key = (case side of Long \<Rightarrow> ''longOrderFillTransaction'' | Short \<Rightarrow> ''shortOrderFillTransaction'')
            in put_close H (oanda_account_url (fst s) (''/positions/'' @ instrument @ ''/close'')) (BodyClosePosition body)
                 position_id fill_key s))"

subsection \<open>What a submission publishes\<close>

definition rest_fill_order :: "codec \<Rightarrow> utc \<Rightarrow> order_request \<Rightarrow> oanda_transaction \<Rightarrow> decimal \<Rightarrow> order_status \<Rightarrow> order" where
  "rest_fill_order K now r fill filled status =
     (wire_order now (case ot_order_id fill of Some i \<Rightarrow> i | None \<Rightarrow> ot_id fill) (or_client_order_id r) (or_symbol r)
        (or_side r) (or_order_type r) (or_quantity r) status)
       \<lparr>o_filled_quantity := filled, o_remaining_quantity := or_quantity r - filled,
        o_limit_price := or_limit_price r, o_stop_price := or_stop_price r,
        o_average_fill_price := parse_price K (ot_price fill),
        o_position_id := fill_position_id (case ot_instrument fill of Some i \<Rightarrow> i | None \<Rightarrow> or_symbol r) (or_side r)
                           (ot_trade_opened fill) (ot_trades_closed fill) (ot_trade_reduced fill),
        o_time_in_force := or_time_in_force r\<rparr>"

definition rest_fill_trade :: "codec \<Rightarrow> utc \<Rightarrow> order_request \<Rightarrow> oanda_transaction \<Rightarrow> decimal \<Rightarrow> trade" where
  "rest_fill_trade K now r fill filled =
     \<lparr>t_id = ot_id fill, t_order_id = (case ot_order_id fill of Some i \<Rightarrow> i | None \<Rightarrow> ot_id fill),
      t_symbol = or_symbol r, t_side = or_side r, t_quantity = filled, t_price = price_or_zero K (ot_price fill),
      t_commission = price_or_zero K (ot_commission fill), t_commission_currency = [], t_is_maker = None,
      t_timestamp = parse_transaction_time K now (ot_time fill)\<rparr>"

definition rest_fill_messages :: "codec \<Rightarrow> utc \<Rightarrow> order_request \<Rightarrow> oanda_transaction \<Rightarrow> decimal \<Rightarrow> ws_message list" where
  "rest_fill_messages K now r fill filled =
     (let (event, status) = (if filled < or_quantity r then (EvOrderPartiallyFilled, PartiallyFilled) else (EvOrderFilled, Filled)) in
      [WsOrder event (rest_fill_order K now r fill filled status) None now,
       WsTrade EvTradeFilled (rest_fill_trade K now r fill filled) now]
      @ carry K (or_symbol r) (parse_transaction_time K now (ot_time fill)) (ot_financing fill))"

definition emit_rest_fill :: "codec \<Rightarrow> utc \<Rightarrow> order_request \<Rightarrow> oanda_transaction \<Rightarrow> decimal \<Rightarrow> oanda \<Rightarrow> oanda" where
  "emit_rest_fill K now r fill filled a = fold tell (rest_fill_messages K now r fill filled) a"

definition emit_rest_cancel :: "utc \<Rightarrow> order_request \<Rightarrow> string \<Rightarrow> decimal \<Rightarrow> decimal option \<Rightarrow> oanda \<Rightarrow> oanda" where
  "emit_rest_cancel now r order_id filled average a =
     tell (WsOrder EvOrderCancelled
             ((wire_order now order_id (or_client_order_id r) (or_symbol r) (or_side r) (or_order_type r) (or_quantity r) Cancelled)
                \<lparr>o_filled_quantity := filled, o_remaining_quantity := or_quantity r - filled,
                 o_limit_price := or_limit_price r, o_stop_price := or_stop_price r,
                 o_average_fill_price := average, o_time_in_force := or_time_in_force r\<rparr>) None now) a"

definition emit_rest_fill_account_snapshot :: "codec \<Rightarrow> 'w http \<Rightarrow> oanda_transaction \<Rightarrow> 'w oanda_state \<Rightarrow> 'w oanda_state" where
  "emit_rest_fill_account_snapshot K H fill s =
     (if oa_slot (fst s) = None then s
      else case account_snapshot_for_fill K H (fst s) (ot_account_balance fill) (snd s) of
             (None, w1) \<Rightarrow> (fst s, w1)
           | (Some acc, w1) \<Rightarrow>
               (tell (WsAccount EvBalanceUpdated acc (parse_transaction_time K (ht_utc H w1) (ot_time fill))) (fst s), w1))"

definition rest_filled_quantity :: "codec \<Rightarrow> order_request \<Rightarrow> oanda_transaction \<Rightarrow> decimal" where
  "rest_filled_quantity K r fill =
     (case parse_price K (ot_units fill) of Some u \<Rightarrow> min \<bar>u\<bar> (or_quantity r) | None \<Rightarrow> or_quantity r)"

definition publish_fill ::
  "codec \<Rightarrow> 'w http \<Rightarrow> order_request \<Rightarrow> oanda_transaction \<Rightarrow> oanda_transaction option \<Rightarrow> 'w oanda_state \<Rightarrow> (string \<times> order_status) \<times> 'w oanda_state" where
  "publish_fill K H r fill cancel s =
     (let filled = rest_filled_quantity K r fill;
          order_id = (case ot_order_id fill of Some i \<Rightarrow> i | None \<Rightarrow> ot_id fill);
          is_partial = filled < or_quantity r;
          now = ht_utc H (snd s);
          (claimed, a1) = (if oa_slot (fst s) = None then (False, fst s)
                           else claim (case cancel of Some c \<Rightarrow> [ot_id fill, ot_id c] | None \<Rightarrow> [ot_id fill]) (fst s));
          s1 = (if claimed
                then (let a2 = emit_rest_fill K now r fill filled a1;
                          a3 = (if is_partial \<and> cancel \<noteq> None
                                then emit_rest_cancel now r order_id filled (parse_price K (ot_price fill)) a2 else a2)
                      in emit_rest_fill_account_snapshot K H fill (a3, snd s))
                else (a1, snd s))
      in ((order_id, if is_partial then PartiallyFilled else Filled), s1))"

definition publish_cancel ::
  "'w http \<Rightarrow> order_request \<Rightarrow> oanda_transaction option \<Rightarrow> oanda_transaction \<Rightarrow> 'w oanda_state \<Rightarrow> (string \<times> order_status) \<times> 'w oanda_state" where
  "publish_cancel H r create cancel s =
     (let order_id = (case create of Some c \<Rightarrow> ot_id c | None \<Rightarrow> ot_id cancel);
          (claimed, a1) = (if oa_slot (fst s) = None then (False, fst s) else claim [ot_id cancel] (fst s));
          a2 = (if claimed then emit_rest_cancel (ht_utc H (snd s)) r order_id 0 None a1 else a1)
      in ((order_id, Cancelled), a2, snd s))"

definition order_outcome ::
  "codec \<Rightarrow> 'w http \<Rightarrow> order_request \<Rightarrow> create_order_response \<Rightarrow> 'w oanda_state \<Rightarrow> (gateway_error + order_handle) \<times> 'w oanda_state" where
  "order_outcome K H r resp s =
     (let accepted = (\<lambda>((order_id, status), s1).
            (Inr \<lparr>oh_id = order_id, oh_client_order_id = or_client_order_id r, oh_correlation_id = None, oh_status = status\<rparr>, s1))
      in case co_reject resp of
           Some reject \<Rightarrow>
             (let reason = (case ot_reject_reason reject of Some x \<Rightarrow> x | None \<Rightarrow> ''Unknown rejection reason'')
              in (Inl (OrderRejected reason (Some (map_oanda_reject_code reason)) None), s))
         | None \<Rightarrow>
             (case co_fill resp of
                Some fill \<Rightarrow> accepted (publish_fill K H r fill (co_cancel resp) s)
              | None \<Rightarrow>
                  (case co_cancel resp of
                     Some cancel \<Rightarrow> accepted (publish_cancel H r (co_create resp) cancel s)
                   | None \<Rightarrow>
                       (case co_create resp of
                          Some create \<Rightarrow> accepted ((ot_id create, Open), s)
                        | None \<Rightarrow> (Inl (Internal ''Oanda order response contained no create, fill, or cancel transaction'' None), s)))))"

subsection \<open>Orders\<close>

definition own_extensions :: "order_request \<Rightarrow> client_extensions option" where
  "own_extensions r =
     (case or_client_order_id r of
        Some i \<Rightarrow> if i = [] then None else Some \<lparr>ce_id = Some i, ce_tag = None, ce_comment = None\<rparr>
      | None \<Rightarrow> None)"

definition leg_client_extensions :: "order_request \<Rightarrow> exit_leg_type \<Rightarrow> client_extensions option" where
  "leg_client_extensions r leg =
     (case or_client_order_id r of
        Some i \<Rightarrow> if i = [] then None
                  else Some \<lparr>ce_id = Some (i @ ''-'' @ client_order_suffix leg), ce_tag = None, ce_comment = None\<rparr>
      | None \<Rightarrow> None)"

definition leg_on_fill :: "codec \<Rightarrow> order_request \<Rightarrow> exit_leg_type \<Rightarrow> decimal option \<Rightarrow> on_fill option" where
  "leg_on_fill K r leg price =
     map_option (\<lambda>p. \<lparr>of_price = cx_show K p, of_time_in_force = ''GTC'', of_client_extensions = leg_client_extensions r leg\<rparr>) price"

definition or_else :: "'a option \<Rightarrow> 'a option \<Rightarrow> 'a option" where
  "or_else x y = (case x of Some v \<Rightarrow> Some v | None \<Rightarrow> y)"

definition oanda_request :: "codec \<Rightarrow> order_request \<Rightarrow> string \<Rightarrow> oanda_order_request" where
  "oanda_request K r oanda_type =
     \<lparr>rq_order_type = oanda_type, rq_instrument = or_symbol r, rq_units = to_oanda_units K (or_side r) (or_quantity r),
      rq_time_in_force = (if or_order_type r = Market then ''FOK'' else to_oanda_tif (or_time_in_force r)),
      rq_position_fill = (if or_reduce_only r then Some reduce_only_fill else None),
      rq_price = map_option (cx_show K) (or_else (or_limit_price r) (or_stop_price r)),
      rq_stop_loss_on_fill = leg_on_fill K r StopLoss (or_stop_loss r),
      rq_take_profit_on_fill = leg_on_fill K r TakeProfit (or_take_profit r),
      rq_trailing_stop_loss_on_fill = None, rq_client_extensions = own_extensions r\<rparr>"

definition post_order :: "codec \<Rightarrow> 'w http \<Rightarrow> order_request \<Rightarrow> oanda_order_request \<Rightarrow> 'w oanda_state \<Rightarrow> (gateway_error + order_handle) \<times> 'w oanda_state" where
  "post_order K H r rq s =
     (case ht_post H (oanda_account_url (fst s) ''/orders'') (BodyOrder rq) (snd s) of
        (NoReply e, w1) \<Rightarrow> (Inl (request_failed e), fst s, w1)
      | (Reply status body, w1) \<Rightarrow>
          if \<not> is_success status then
            (let err = map_http_error status (body_or_unknown body) in (Inl err, record_if_outage H err (fst s, w1)))
          else (case (case body of Inl e \<Rightarrow> Inl e | Inr j \<Rightarrow> jd_created K j) of
                  Inl e \<Rightarrow> (Inl (Internal (''Failed to parse order response: '' @ e) None), fst s, w1)
                | Inr resp \<Rightarrow> order_outcome K H r resp (fst s, w1)))"

text \<open>The trade that a reduce-only market order closes, when its position id names one.\<close>

definition trade_to_reduce :: "order_request \<Rightarrow> string option" where
  "trade_to_reduce r =
     (if or_reduce_only r \<and> or_order_type r = Market
      then (case or_position_id r of
              Some i \<Rightarrow> (case parse_position_id i of TargetTrade t \<Rightarrow> Some t | TargetSide n sd \<Rightarrow> None)
            | None \<Rightarrow> None)
      else None)"

definition oanda_submit_order :: "codec \<Rightarrow> 'w http \<Rightarrow> order_request \<Rightarrow> 'w oanda_state \<Rightarrow> (gateway_error + order_handle) \<times> 'w oanda_state" where
  "oanda_submit_order K H r =
     guarded (\<lambda>s.
       case trade_to_reduce r of
         Some t \<Rightarrow> reduce_trade K H t r s
       | None \<Rightarrow>
           (case to_oanda_order_type (or_order_type r) of
              Inl e \<Rightarrow> (Inl e, s)
            | Inr oanda_type \<Rightarrow> post_order K H r (oanda_request K r oanda_type) s))"

text \<open>A modification replaces the order by what is sent here.\<close>

definition replacement_request :: "codec \<Rightarrow> modify_order_request \<Rightarrow> order \<Rightarrow> string \<Rightarrow> oanda_order_request" where
  "replacement_request K m current oanda_type =
     \<lparr>rq_order_type = oanda_type, rq_instrument = o_symbol current,
      rq_units = to_oanda_units K (o_side current) (case mo_quantity m of Some q \<Rightarrow> q | None \<Rightarrow> o_quantity current),
      rq_time_in_force = to_oanda_tif (o_time_in_force current),
      rq_position_fill = (if o_reduce_only current = Some True then Some reduce_only_fill else None),
      rq_price = map_option (cx_show K)
        (or_else (mo_limit_price m) (or_else (mo_stop_price m) (or_else (o_limit_price current) (o_stop_price current)))),
      rq_stop_loss_on_fill = None, rq_take_profit_on_fill = None, rq_trailing_stop_loss_on_fill = None,
      rq_client_extensions = None\<rparr>"

definition replaced_order_id :: "string \<Rightarrow> json \<Rightarrow> string" where
  "replaced_order_id order_id j =
     (case jget ''orderCreateTransaction'' j of
        Some create \<Rightarrow> (case Option.bind (jget ''id'' create) jstr of Some i \<Rightarrow> i | None \<Rightarrow> order_id)
      | None \<Rightarrow> order_id)"

definition put_replacement ::
  "codec \<Rightarrow> 'w http \<Rightarrow> string \<Rightarrow> oanda_order_request \<Rightarrow> 'w oanda_state \<Rightarrow> (gateway_error + modify_order_result) \<times> 'w oanda_state" where
  "put_replacement K H order_id rq s =
     (case ht_put H (oanda_account_url (fst s) (''/orders/'' @ order_id)) (BodyOrder rq) (snd s) of
        (NoReply e, w1) \<Rightarrow> (Inl (request_failed e), fst s, w1)
      | (Reply status body, w1) \<Rightarrow>
          if status = 404 then (Inl (OrderNotFound order_id), fst s, w1)
          else if \<not> is_success status then
            (let err = map_http_error status (body_or_unknown body) in (Inl err, record_if_outage H err (fst s, w1)))
          else (case body of
                  Inl e \<Rightarrow> (Inl (Internal (''Failed to parse modify response: '' @ e) None), fst s, w1)
                | Inr j \<Rightarrow>
                    map_answer (\<lambda>s1 ord. Inr \<lparr>mr_order = ord, mr_previous_order_id = Some order_id\<rparr>)
                      (oanda_get_order K H (replaced_order_id order_id j) (fst s, w1))))"

definition oanda_modify_order ::
  "codec \<Rightarrow> 'w http \<Rightarrow> string \<Rightarrow> modify_order_request \<Rightarrow> 'w oanda_state \<Rightarrow> (gateway_error + modify_order_result) \<times> 'w oanda_state" where
  "oanda_modify_order K H order_id m =
     guarded (\<lambda>s.
       case oanda_get_order K H order_id s of
         (Inl e, s1) \<Rightarrow> (Inl e, s1)
       | (Inr current, s1) \<Rightarrow>
           (case to_oanda_order_type (o_order_type current) of
              Inl e \<Rightarrow> (Inl e, s1)
            | Inr oanda_type \<Rightarrow> put_replacement K H order_id (replacement_request K m current oanda_type) s1))"

definition cancelled_stub :: "utc \<Rightarrow> string \<Rightarrow> order" where
  "cancelled_stub now order_id = wire_order now order_id None [] Buy Market 0 Cancelled"

definition oanda_cancel_order :: "'w http \<Rightarrow> string \<Rightarrow> 'w oanda_state \<Rightarrow> (gateway_error + cancel_order_result) \<times> 'w oanda_state" where
  "oanda_cancel_order H order_id =
     guarded (\<lambda>s.
       case ht_put H (oanda_account_url (fst s) (''/orders/'' @ order_id @ ''/cancel'')) NoBody (snd s) of
         (NoReply e, w1) \<Rightarrow> (Inl (request_failed e), fst s, w1)
       | (Reply status body, w1) \<Rightarrow>
           if status = 404 then (Inl (OrderNotFound order_id), fst s, w1)
           else if \<not> is_success status then
             (let err = map_http_error status (body_or_unknown body) in (Inl err, record_if_outage H err (fst s, w1)))
           else (Inr \<lparr>cr_success = True, cr_order = cancelled_stub (ht_utc H w1) order_id\<rparr>, fst s, w1))"

definition oanda_reset_breaker :: "'w http \<Rightarrow> 'w oanda_state \<Rightarrow> (gateway_error + unit) \<times> 'w oanda_state" where
  "oanda_reset_breaker H s =
     (case ab_reset (ht_instant H (snd s)) (oa_breaker (fst s)) of
        (Inl message, b) \<Rightarrow> (Inl (ResetCooldown message), (fst s)\<lparr>oa_breaker := b\<rparr>, snd s)
      | (Inr u, b) \<Rightarrow> (Inr (), (fst s)\<lparr>oa_breaker := b\<rparr>, snd s))"

subsection \<open>The adapter as the gateway sees it\<close>

text \<open>
  The calls of the trait over the adapter's state and the world. \<open>sl\<close> is the sleep of the runtime and
  \<open>sd\<close> the debug text of an exit entry's status, which the adapter does not touch.
\<close>

definition oanda_env ::
  "codec \<Rightarrow> 'w http \<Rightarrow> (duration \<Rightarrow> 'w \<Rightarrow> 'w) \<Rightarrow> (exit_entry_status \<Rightarrow> string) \<Rightarrow> ('w oanda_state) env" where
  "oanda_env K H sl sd =
     \<lparr>submit_order = oanda_submit_order K H, get_order = oanda_get_order K H, get_orders = oanda_get_orders K H,
      modify_order = oanda_modify_order K H, cancel_order = oanda_cancel_order H,
      get_positions = oanda_get_positions K H,
      close_position_all = (\<lambda>i. oanda_close_position K H i close_request_default),
      utc_now = (\<lambda>s. ht_utc H (snd s)), instant_now = (\<lambda>s. ht_instant H (snd s)),
      sleep = (\<lambda>d s. (fst s, sl d (snd s))), dec_to_string = cx_show K, dec_from_str = cx_dec K, status_debug = sd\<rparr>"

definition oanda_broker ::
  "codec \<Rightarrow> 'w http \<Rightarrow> (duration \<Rightarrow> 'w \<Rightarrow> 'w) \<Rightarrow> (exit_entry_status \<Rightarrow> string) \<Rightarrow> ('w oanda_state) broker" where
  "oanda_broker K H sl sd =
     \<lparr>bk_env = oanda_env K H sl sd, bk_strategy = oanda_bracket_strategy, bk_get_position = oanda_get_position K H,
      bk_close_position = oanda_close_position K H, bk_order_history = oanda_get_order_history K H,
      bk_breaker = (\<lambda>s. Some (snapshot_from_adapter (oa_breaker (fst s)))),
      bk_reset_breaker = oanda_reset_breaker H\<rparr>"

end
