(* ===== verification/Gw_Oanda_Props.thy ===== *)
theory Gw_Oanda_Props
  imports Gw_Oanda_Adapter
begin

text \<open>
  Properties of the OANDA adapter and its streams: an execution that reaches the gateway both in the
  answer to a submission and on the transaction stream is told once; where the network cuts a stream
  into chunks does not matter; candles are told once and in order; an order read back is the order
  submitted; a position's id leads back to it.
\<close>

subsection \<open>Sending\<close>

lemma tell_published [simp]: "oa_published (tell m a) = oa_published a"
  by (simp add: tell_def split: option.split)

lemma tells_published [simp]: "oa_published (fold tell ms a) = oa_published a"
  by (induction ms arbitrary: a) simp_all

lemma tell_told: "listened a \<Longrightarrow> told (tell m a) = told a @ [m] \<and> listened (tell m a)"
  by (auto simp: tell_def told_def listened_def split: option.splits)

lemma tells_told: "listened a \<Longrightarrow> told (fold tell ms a) = told a @ ms \<and> listened (fold tell ms a)"
  by (induction ms arbitrary: a) (simp_all add: tell_told)

lemma listened_slot: "listened a \<Longrightarrow> oa_slot a \<noteq> None"
  by (auto simp: listened_def split: option.splits)

lemma claim_keeps:
  assumes "claim ids a = (won, a1)"
  shows "told a1 = told a \<and> listened a1 = listened a \<and> oa_published a1 = snd (try_claim_all ids (oa_published a))
    \<and> won = fst (try_claim_all ids (oa_published a)) \<and> (oa_slot a1 = None \<longleftrightarrow> oa_slot a = None)"
  using assms by (auto simp: claim_def told_def listened_def split: prod.splits)

subsection \<open>One execution, one trade message\<close>

datatype oanda_input = RestAnswer order_request create_order_response | StreamLine stream_line | PriceText string

fun oanda_input_step :: "codec \<Rightarrow> 'w http \<Rightarrow> oanda_input \<Rightarrow> 'w oanda_state \<Rightarrow> 'w oanda_state" where
  "oanda_input_step K H (RestAnswer r resp) s = snd (order_outcome K H r resp s)"
| "oanda_input_step K H (StreamLine tx) s = transaction_line K H SinkStrategy tx s"
| "oanda_input_step K H (PriceText line) s = (price_line K (ht_utc H (snd s)) line (fst s), snd s)"

text \<open>The transaction ids an input offers for publication, and the one that is an execution.\<close>

fun offered :: "oanda_input \<Rightarrow> string list" where
  "offered (RestAnswer r resp) =
     (if co_reject resp \<noteq> None then []
      else case (co_fill resp, co_cancel resp) of
             (Some fill, Some cancel) \<Rightarrow> [ot_id fill, ot_id cancel]
           | (Some fill, None) \<Rightarrow> [ot_id fill]
           | (None, Some cancel) \<Rightarrow> [ot_id cancel]
           | (None, None) \<Rightarrow> [])"
| "offered (StreamLine tx) =
     (if rest_path_also_publishes (sl_transaction_type tx) then (case sl_id tx of Some i \<Rightarrow> [i] | None \<Rightarrow> []) else [])"
| "offered (PriceText line) = []"

fun execution_of :: "oanda_input \<Rightarrow> string option" where
  "execution_of (RestAnswer r resp) = (if co_reject resp = None then map_option ot_id (co_fill resp) else None)"
| "execution_of (StreamLine tx) = (if sl_transaction_type tx = ''ORDER_FILL'' then sl_id tx else None)"
| "execution_of (PriceText line) = None"

fun fills_have_ids :: "oanda_input \<Rightarrow> bool" where
  "fills_have_ids (StreamLine tx) = (sl_transaction_type tx = ''ORDER_FILL'' \<longrightarrow> sl_id tx \<noteq> None)"
| "fills_have_ids _ = True"

definition tells_execution :: "string \<Rightarrow> ws_message \<Rightarrow> bool" where
  "tells_execution i m = (case m of WsTrade e t now \<Rightarrow> t_id t = i | _ \<Rightarrow> False)"

definition executions :: "string \<Rightarrow> ws_message list \<Rightarrow> nat" where
  "executions i ms = length (filter (tells_execution i) ms)"

lemma executions_append [simp]: "executions i (xs @ ys) = executions i xs + executions i ys"
  by (simp add: executions_def)

lemma executions_simps [simp]:
  "executions i [] = 0"
  "executions i (WsTrade e t now # ms) = (if t_id t = i then 1 else 0) + executions i ms"
  "executions i (WsOrder oe ord po now # ms) = executions i ms"
  "executions i (WsAccount ae acc now # ms) = executions i ms"
  "executions i (WsFinancing sy am now # ms) = executions i ms"
  "executions i (WsQuoteData q now # ms) = executions i ms"
  by (simp_all add: executions_def tells_execution_def)

lemma executions_carry [simp]: "executions i (carry K sy t f) = 0"
  by (simp add: carry_def split: option.split)

lemma executions_financing [simp]: "executions i (transaction_financing_to_messages K now tx) = 0"
proof -
  have "executions i (List.map_filter (\<lambda>pf. map_option (\<lambda>x. WsFinancing (f pf) x t) (g pf)) xs) = 0" for f g t xs
    by (induction xs) (auto simp: List.map_filter_simps split: option.split)
  then show ?thesis by (simp add: transaction_financing_to_messages_def)
qed

lemma executions_quote [simp]: "executions i (price_to_quote K now pf ins bs as) = 0"
  by (simp add: price_to_quote_def split: option.split)

lemma executions_no_fill [simp]:
  "executions i (transaction_cancel_to_messages now tx) = 0"
  "executions i (transaction_new_order_to_messages K now tx) = 0"
  "executions i (transaction_reject_to_messages K now tx) = 0"
  by (simp_all add: transaction_cancel_to_messages_def transaction_new_order_to_messages_def
      transaction_reject_to_messages_def Let_def split: prod.split)

lemma executions_fill [simp]:
  "executions i (transaction_fill_to_messages K now tx) =
     (if first_of (sl_id tx) (sl_order_id tx) ''unknown'' = i then 1 else 0)"
  by (simp add: transaction_fill_to_messages_def fill_trade_def split: prod.split)

lemma executions_transaction:
  "executions i (transaction_to_messages K now tx) =
     (if sl_transaction_type tx = ''ORDER_FILL'' \<and> first_of (sl_id tx) (sl_order_id tx) ''unknown'' = i then 1 else 0)"
  unfolding transaction_to_messages_def Let_def
  by (simp only: if_distrib [of "executions i"] executions_no_fill executions_financing executions_fill executions_simps if_cancel)
    simp

lemma executions_rest_fill:
  "executions i (rest_fill_messages K now r fill q) = (if ot_id fill = i then 1 else 0)"
  by (simp add: rest_fill_messages_def rest_fill_trade_def)

lemma snapshot_effect:
  assumes "emit_rest_fill_account_snapshot K H fill (a, w) = (a1, w1)" "listened a"
  shows "listened a1 \<and> oa_published a1 = oa_published a \<and> executions i (told a1) = executions i (told a)"
  using assms tell_told [OF assms(2)]
  by (auto simp: emit_rest_fill_account_snapshot_def split: if_splits option.splits prod.splits)

text \<open>
  What an input does: it claims what it offers, and it tells its execution exactly when it won the claim.
\<close>

definition input_effect :: "oanda_input \<Rightarrow> oanda \<Rightarrow> oanda \<Rightarrow> bool" where
  "input_effect x a a1 =
     (listened a1 \<and> oa_published a1 = snd (try_claim_all (offered x) (oa_published a))
      \<and> (\<forall>i. executions i (told a1) = executions i (told a)
           + (if fst (try_claim_all (offered x) (oa_published a)) \<and> execution_of x = Some i then 1 else 0)))"

lemma no_claim [simp]: "try_claim_all [] d = (True, d)"
  by (simp add: try_claim_all_def)

lemma stream_line_effect:
  assumes "listened a" "fills_have_ids (StreamLine tx)" "transaction_line K H SinkStrategy tx (a, w) = (a1, w1)"
  shows "input_effect (StreamLine tx) a a1"
proof (cases "sl_transaction_type tx = ''HEARTBEAT''")
  case True
  with assms show ?thesis by (simp add: input_effect_def transaction_line_def rest_path_also_publishes_def)
next
  case False
  have slot: "oa_slot a \<noteq> None" using assms(1) by (rule listened_slot)
  obtain won b where c: "claim_if_needed SinkStrategy tx a = (won, b)" by (metis surj_pair)
  have b: "told b = told a" "listened b" "oa_published b = snd (try_claim_all (offered (StreamLine tx)) (oa_published a))"
      "won = fst (try_claim_all (offered (StreamLine tx)) (oa_published a))"
    using c slot assms(1) claim_keeps
    by (auto simp: claim_if_needed_def split: if_splits option.splits)
  define ms where "ms = transaction_to_messages K (ht_utc H w) tx"
  have told: "told (fold (sink_send SinkStrategy) ms b) = told b @ ms \<and> listened (fold (sink_send SinkStrategy) ms b)
      \<and> oa_published (fold (sink_send SinkStrategy) ms b) = oa_published b"
    using tells_told [OF b(2), of ms] by (simp add: sink_send_def [abs_def])
  have ex: "executions i ms = (if execution_of (StreamLine tx) = Some i then 1 else 0)" for i
    using assms(2) by (auto simp: ms_def executions_transaction first_of_def split: option.splits)
  show ?thesis
  proof (cases won)
    case lost: False
    then show ?thesis using assms(3) False c b by (simp add: input_effect_def transaction_line_def)
  next
    case True
    let ?b1 = "fold (sink_send SinkStrategy) ms b"
    have "a1 = ?b1 \<or> (\<exists>acc t. a1 = tell (WsAccount EvBalanceUpdated acc t) ?b1)"
      using assms(3) False c True
      by (auto simp: transaction_line_def Let_def ms_def [symmetric] sink_send_def split: if_splits option.splits prod.splits)
    then show ?thesis
      using told tell_told [of ?b1] b ex True by (auto simp: input_effect_def)
  qed
qed

lemma publish_fill_effect:
  assumes a: "listened a" and r: "co_reject resp = None" "co_fill resp = Some fill"
    and s: "publish_fill K H r fill (co_cancel resp) (a, w) = (x, a1, w1)"
  shows "input_effect (RestAnswer r resp) a a1"
proof -
  have slot: "oa_slot a \<noteq> None" using a by (rule listened_slot)
  obtain won b where c: "claim (case co_cancel resp of Some c \<Rightarrow> [ot_id fill, ot_id c] | None \<Rightarrow> [ot_id fill]) a = (won, b)"
    by (metis surj_pair)
  have off: "offered (RestAnswer r resp) = (case co_cancel resp of Some c \<Rightarrow> [ot_id fill, ot_id c] | None \<Rightarrow> [ot_id fill])"
    using r by (simp split: option.split)
  have b: "told b = told a" "listened b" "oa_published b = snd (try_claim_all (offered (RestAnswer r resp)) (oa_published a))"
      "won = fst (try_claim_all (offered (RestAnswer r resp)) (oa_published a))"
    using claim_keeps [OF c] a unfolding off by simp_all
  show ?thesis
  proof (cases won)
    case False
    then show ?thesis using s slot c b by (simp add: publish_fill_def Let_def input_effect_def)
  next
    case True
    let ?q = "rest_filled_quantity K r fill"
    let ?b1 = "emit_rest_fill K (ht_utc H w) r fill ?q b"
    obtain b2 where b2: "b2 = ?b1 \<or> (\<exists>i. b2 = emit_rest_cancel (ht_utc H w) r i ?q (parse_price K (ot_price fill)) ?b1)"
        and snap: "emit_rest_fill_account_snapshot K H fill (b2, w) = (a1, w1)"
      using s slot c True by (auto simp: publish_fill_def Let_def split: if_splits)
    have fill: "told ?b1 = told b @ rest_fill_messages K (ht_utc H w) r fill ?q" "listened ?b1" "oa_published ?b1 = oa_published b"
      using tells_told [OF b(2)] by (simp_all add: emit_rest_fill_def)
    have "listened b2 \<and> oa_published b2 = oa_published b \<and> (\<forall>i. executions i (told b2) = executions i (told ?b1))"
      using b2 fill tell_told [OF fill(2)] by (auto simp: emit_rest_cancel_def)
    then show ?thesis
      using snapshot_effect [OF snap] fill(1) b True r by (auto simp: input_effect_def executions_rest_fill)
  qed
qed

lemma publish_cancel_effect:
  assumes a: "listened a" and r: "co_reject resp = None" "co_fill resp = None" "co_cancel resp = Some cancel"
    and s: "publish_cancel H r (co_create resp) cancel (a, w) = (x, a1, w1)"
  shows "input_effect (RestAnswer r resp) a a1"
proof -
  have slot: "oa_slot a \<noteq> None" using a by (rule listened_slot)
  obtain won b where c: "claim [ot_id cancel] a = (won, b)" by (metis surj_pair)
  show ?thesis
    using claim_keeps [OF c] a s slot c r tell_told [of b]
    by (auto simp: publish_cancel_def Let_def input_effect_def emit_rest_cancel_def split: if_splits)
qed

lemma price_line_effect:
  assumes "listened a"
  shows "input_effect (PriceText line) a (price_line K now line a)"
  using assms by (auto simp: input_effect_def price_line_def tells_told split: option.split price_message.split)

lemma oanda_input_effect:
  assumes "listened a" "fills_have_ids x" "oanda_input_step K H x (a, w) = (a1, w1)"
  shows "input_effect x a a1"
proof (cases x)
  case (RestAnswer r resp)
  have step: "snd (order_outcome K H r resp (a, w)) = (a1, w1)" using assms(3) RestAnswer by simp
  show ?thesis
  proof (cases "co_reject resp")
    case (Some rj)
    then show ?thesis using step RestAnswer assms(1) by (simp add: order_outcome_def input_effect_def Let_def)
  next
    case ok: None
    show ?thesis
    proof (cases "co_fill resp")
      case (Some fill)
      obtain x' a2 w2 where p: "publish_fill K H r fill (co_cancel resp) (a, w) = (x', a2, w2)" by (metis surj_pair)
      have "a2 = a1" using step ok Some p by (simp add: order_outcome_def Let_def split: prod.splits)
      then show ?thesis using publish_fill_effect [OF assms(1) ok Some p] RestAnswer by simp
    next
      case nofill: None
      show ?thesis
      proof (cases "co_cancel resp")
        case (Some cancel)
        obtain x' a2 w2 where p: "publish_cancel H r (co_create resp) cancel (a, w) = (x', a2, w2)" by (metis surj_pair)
        have "a2 = a1" using step ok nofill Some p by (simp add: order_outcome_def Let_def split: prod.splits)
        then show ?thesis using publish_cancel_effect [OF assms(1) ok nofill Some p] RestAnswer by simp
      next
        case None
        then show ?thesis using step ok nofill RestAnswer assms(1)
          by (auto simp: order_outcome_def Let_def input_effect_def split: option.splits)
      qed
    qed
  qed
next
  case (StreamLine tx)
  then show ?thesis using assms stream_line_effect by simp
next
  case (PriceText line)
  then show ?thesis using assms price_line_effect by auto
qed

text \<open>What the claims of one input do to an id that was claimed before it, and to one that was not.\<close>

lemma claim_effect:
  assumes d: "published_wf d" and e: "d1 = snd (try_claim_all ids d)" and len: "length ids \<le> pu_capacity d"
  shows "i \<in> pu_seen d \<Longrightarrow> newer i d + length ids < pu_capacity d \<Longrightarrow> i \<in> pu_seen d1 \<and> newer i d1 \<le> newer i d + length ids"
    and "i \<notin> pu_seen d \<Longrightarrow> i \<in> set ids \<Longrightarrow> fst (try_claim_all ids d) \<Longrightarrow> i \<in> pu_seen d1 \<and> newer i d1 < length ids"
    and "i \<notin> pu_seen d \<Longrightarrow> i \<notin> set ids \<or> \<not> fst (try_claim_all ids d) \<Longrightarrow> i \<notin> pu_seen d1"
    and "i \<in> set ids \<Longrightarrow> i \<in> pu_seen d \<Longrightarrow> \<not> fst (try_claim_all ids d)"
proof -
  show "i \<in> pu_seen d1 \<and> newer i d1 \<le> newer i d + length ids" if "i \<in> pu_seen d" "newer i d + length ids < pu_capacity d"
    using claims_keep [OF d that] that e by (auto simp: try_claim_all_def)
  show "i \<in> pu_seen d1 \<and> newer i d1 < length ids" if "i \<notin> pu_seen d" "i \<in> set ids" "fst (try_claim_all ids d)"
    using claims_own [OF d that(2,1) len] that(3) e by (auto simp: try_claim_all_def split: if_splits)
  show "i \<notin> pu_seen d1" if "i \<notin> pu_seen d" "i \<notin> set ids \<or> \<not> fst (try_claim_all ids d)"
    using claims_fresh [of i ids d] that e by (auto simp: try_claim_all_def split: if_splits)
qed (auto simp: try_claim_all_def)

lemma line_execution: "execution_of (StreamLine tx) = Some i \<longleftrightarrow> sl_transaction_type tx = ''ORDER_FILL'' \<and> sl_id tx = Some i"
  by simp

lemma line_offered: "execution_of (StreamLine tx) = Some i \<Longrightarrow> offered (StreamLine tx) = [i]"
  unfolding line_execution by (simp add: rest_path_also_publishes_def)

lemma execution_offered: "execution_of x = Some i \<Longrightarrow> i \<in> set (offered x)"
proof (cases x)
  case (RestAnswer r resp)
  then show "execution_of x = Some i \<Longrightarrow> i \<in> set (offered x)"
    by (cases "co_fill resp"; cases "co_cancel resp") (auto split: if_splits)
qed (use line_offered in auto)

declare execution_of.simps [simp del] offered.simps [simp del]

definition oanda_run :: "codec \<Rightarrow> 'w http \<Rightarrow> oanda_input list \<Rightarrow> 'w oanda_state \<Rightarrow> 'w oanda_state" where
  "oanda_run K H xs s = fold (oanda_input_step K H) xs s"

lemma oanda_run_Cons: "oanda_run K H (x # xs) s = oanda_run K H xs (oanda_input_step K H x s)"
  by (simp add: oanda_run_def)

lemma oanda_run_Nil [simp]: "oanda_run K H [] s = s"
  by (simp add: oanda_run_def)

lemma claimed_stays_told:
  assumes "published_wf (oa_published (fst s))" "listened (fst s)" "list_all fills_have_ids xs"
    and "i \<in> pu_seen (oa_published (fst s))"
    and "newer i (oa_published (fst s)) + length (concat (map offered xs)) < pu_capacity (oa_published (fst s))"
  shows "executions i (told (fst (oanda_run K H xs s))) = executions i (told (fst s))"
  using assms
proof (induction xs arbitrary: s)
  case (Cons x xs)
  obtain a w a1 w1 where s: "s = (a, w)" and step: "oanda_input_step K H x s = (a1, w1)" by (metis surj_pair)
  have eff: "input_effect x a a1" using oanda_input_effect [of a x K H w a1 w1] Cons.prems s step by simp
  let ?d = "oa_published a" and ?d1 = "oa_published a1"
  have d1: "?d1 = snd (try_claim_all (offered x) ?d)" using eff by (simp add: input_effect_def)
  have wf1: "published_wf ?d1" "pu_capacity ?d1 = pu_capacity ?d"
    using Cons.prems(1) s d1 try_claim_all_wf by auto
  have keep: "i \<in> pu_seen ?d1 \<and> newer i ?d1 \<le> newer i ?d + length (offered x)"
    using claim_effect(1) [OF _ d1, of i] Cons.prems s by auto
  have "executions i (told a1) = executions i (told a)"
    using eff claim_effect(4) [OF _ d1, of i] execution_offered [of x i] Cons.prems s by (auto simp: input_effect_def)
  moreover have "executions i (told (fst (oanda_run K H xs (a1, w1)))) = executions i (told a1)"
    using Cons.IH [of "(a1, w1)"] Cons.prems s wf1 keep eff by (auto simp: input_effect_def)
  ultimately show ?case using s step by (simp add: oanda_run_Cons)
qed simp

text \<open>
  C13: An execution is told once. Whatever answers to submissions, transaction lines and prices reach the
  gateway in whatever order while a strategy listens, as long as they offer no more transaction ids than
  the set of published ids holds (4096), at most one trade message tells a given execution; and exactly
  one does if its transaction line is among them, it was not published before, and no cancellation has
  its id. The same holds of every stretch of a longer run.
\<close>

theorem execution_told_once:
  assumes "published_wf (oa_published (fst s))" "listened (fst s)" "list_all fills_have_ids xs"
    and "length (concat (map offered xs)) \<le> pu_capacity (oa_published (fst s))"
  shows "executions i (told (fst (oanda_run K H xs s))) \<le> executions i (told (fst s)) + 1
    \<and> (i \<notin> pu_seen (oa_published (fst s)) \<and> (\<exists>tx. StreamLine tx \<in> set xs \<and> execution_of (StreamLine tx) = Some i)
        \<and> (\<forall>x \<in> set xs. i \<in> set (offered x) \<longrightarrow> execution_of x = Some i)
       \<longrightarrow> executions i (told (fst (oanda_run K H xs s))) = executions i (told (fst s)) + 1)"
  using assms
proof (induction xs arbitrary: s)
  case (Cons x xs)
  obtain a w a1 w1 where s: "s = (a, w)" and step: "oanda_input_step K H x s = (a1, w1)" by (metis surj_pair)
  have eff: "input_effect x a a1" using oanda_input_effect [of a x K H w a1 w1] Cons.prems s step by simp
  let ?d = "oa_published a" and ?d1 = "oa_published a1"
  let ?won = "fst (try_claim_all (offered x) ?d)"
  have d1: "?d1 = snd (try_claim_all (offered x) ?d)" and told1: "listened a1"
      "executions i (told a1) = executions i (told a) + (if ?won \<and> execution_of x = Some i then 1 else 0)"
    using eff by (auto simp: input_effect_def)
  have wf: "published_wf ?d" "length (offered x) \<le> pu_capacity ?d" using Cons.prems s by auto
  have wf1: "published_wf ?d1" "pu_capacity ?d1 = pu_capacity ?d" using wf d1 try_claim_all_wf by auto
  have off: "execution_of x = Some i \<Longrightarrow> i \<in> set (offered x)" using execution_offered Cons.prems by simp
  have run: "oanda_run K H (x # xs) s = oanda_run K H xs (a1, w1)" using step s by (simp add: oanda_run_Cons)
  note IH = Cons.IH [of "(a1, w1)", simplified, OF wf1(1) told1(1)]
  show ?case
  proof (cases "i \<notin> pu_seen ?d \<and> i \<in> set (offered x) \<and> ?won")
    case True
    then have "executions i (told (fst (oanda_run K H xs (a1, w1)))) = executions i (told a1)"
      using claimed_stays_told [of "(a1, w1)" xs i] claim_effect(2) [OF wf(1) d1 wf(2), of i] wf1 told1(1) Cons.prems s
      by auto
    then show ?thesis using told1 True run s by auto
  next
    case False
    have same: "executions i (told a1) = executions i (told a)"
      using told1(2) False off claim_effect(4) [OF wf(1) d1 wf(2), of i] by auto
    have fresh: "i \<notin> pu_seen ?d \<Longrightarrow> i \<notin> pu_seen ?d1" using claim_effect(3) [OF wf(1) d1 wf(2), of i] False by blast
    have "x \<noteq> StreamLine tx" if tx: "execution_of (StreamLine tx) = Some i" "i \<notin> pu_seen ?d" for tx
    proof
      assume "x = StreamLine tx"
      then have "offered x = [i]" using line_offered [OF tx(1)] by (simp only:)
      with False tx(2) show False by (simp add: try_claim_all_def)
    qed
    then show ?thesis
      using IH Cons.prems s wf1(2) same fresh run by auto
  qed
qed simp

text \<open>
  The stream claims a fill and its cancellation one by one. When it meets the fill while no strategy is
  connected it leaves the fill to the answer of the submission; if it then claims the cancellation, the
  answer loses both and nobody tells the fill.
\<close>

theorem claimed_cancel_suppresses_fill:
  assumes "listened (fst s)" "ot_id cancel \<in> pu_seen (oa_published (fst s))"
    and "co_reject resp = None" "co_fill resp = Some fill" "co_cancel resp = Some cancel"
  shows "executions i (told (fst (oanda_input_step K H (RestAnswer r resp) s))) = executions i (told (fst s))"
proof -
  obtain a w where s: "s = (a, w)" by (metis surj_pair)
  obtain a1 w1 where step: "oanda_input_step K H (RestAnswer r resp) (a, w) = (a1, w1)" by (metis surj_pair)
  have "offered (RestAnswer r resp) = [ot_id fill, ot_id cancel]" using assms(3-5) by (simp add: offered.simps)
  then show ?thesis
    using oanda_input_effect [OF _ _ step] step assms(1,2) s by (simp add: input_effect_def try_claim_all_def)
qed

subsection \<open>Chunks\<close>

text \<open>
  A processor of a buffer leaves the part it has not dealt with. It is resumable when dealing with a
  longer buffer is the same as dealing with its beginning first and going on with what was left.
\<close>

locale resumable =
  fixes process :: "string \<Rightarrow> 's \<Rightarrow> string \<times> 's"
  assumes resume: "process b1 s = (b, s1) \<Longrightarrow> process (b1 @ b2) s = process (b @ b2) s1"
    and no_text: "process [] s = ([], s)"
begin

lemma chunks_from:
  "process buffer s = (buffer, s) \<Longrightarrow>
   read_stream process (map Chunk cs @ xs) buffer s = read_stream process (Chunk (concat cs) # xs) buffer s"
proof (induction cs arbitrary: buffer s)
  case (Cons c cs)
  obtain b s1 where p: "process (buffer @ c) s = (b, s1)" by (metis surj_pair)
  have idle: "process b s1 = (b, s1)" using resume [OF p, of "[]"] p by simp
  have "process (buffer @ c @ concat cs) s = process (b @ concat cs) s1" using resume [OF p, of "concat cs"] by simp
  then show ?case using Cons.IH [OF idle] p by simp
qed simp

lemma chunks: "read_stream process (map Chunk cs @ xs) [] s = read_stream process (Chunk (concat cs) # xs) [] s"
  by (rule chunks_from [OF no_text])

end

lemma split_once_longer: "split_once c s = Some (x, y) \<Longrightarrow> split_once c (s @ t) = Some (x, y @ t)"
  by (metis append.assoc append_Cons split_once_SomeD split_once_append)

interpretation price_buffer: resumable "process_price_buffer K now"
proof
  show "process_price_buffer K now (b1 @ b2) s = process_price_buffer K now (b @ b2) s1"
    if "process_price_buffer K now b1 s = (b, s1)" for b1 b b2 s s1
    using that
  proof (induction K now b1 s rule: process_price_buffer.induct)
    case (1 K now buffer a)
    show ?case
    proof (cases "split_once newline buffer")
      case None
      then show ?thesis using 1(2) by (simp add: process_price_buffer.simps [of K now buffer])
    next
      case (Some lr)
      then show ?thesis
        using 1 by (cases lr) (simp add: process_price_buffer.simps [of K now buffer]
            process_price_buffer.simps [of K now "buffer @ b2"] split_once_longer)
    qed
  qed
qed (simp add: process_price_buffer.simps)

interpretation transaction_buffer: resumable "process_transaction_buffer K H cancelled sink"
proof
  show "process_transaction_buffer K H cancelled sink (b1 @ b2) s = process_transaction_buffer K H cancelled sink (b @ b2) s1"
    if "process_transaction_buffer K H cancelled sink b1 s = (b, s1)" for b1 b b2 s s1
    using that
  proof (induction K H cancelled sink b1 s rule: process_transaction_buffer.induct)
    case (1 K H cancelled sink buffer s)
    show ?case
    proof (cases "split_once newline buffer")
      case None
      then show ?thesis using 1(2) by (simp add: process_transaction_buffer.simps [of K H cancelled sink buffer])
    next
      case (Some lr)
      obtain line rest where lr: "lr = (line, rest)" by (metis surj_pair)
      show ?thesis
      proof (cases "cancelled (snd s)")
        case True
        then show ?thesis using 1(2) Some lr by (simp add: process_transaction_buffer.simps [of K H cancelled sink buffer])
      next
        case False
        then show ?thesis
          using 1 Some lr by (simp add: process_transaction_buffer.simps [of K H cancelled sink buffer]
              process_transaction_buffer.simps [of K H cancelled sink "buffer @ b2"] split_once_longer)
      qed
    qed
  qed
qed (simp add: process_transaction_buffer.simps)

text \<open>
  C22: Where the network cuts a stream into chunks does not matter: reading the prices or the transactions
  chunk by chunk has the effect of reading the whole text at once, whatever comes after it.
\<close>

theorem chunks_do_not_matter:
  "read_stream (process_price_buffer K now) (map Chunk cs @ xs) [] a =
     read_stream (process_price_buffer K now) (Chunk (concat cs) # xs) [] a
   \<and> read_stream (process_transaction_buffer K H cancelled sink) (map Chunk cs @ xs) [] s =
     read_stream (process_transaction_buffer K H cancelled sink) (Chunk (concat cs) # xs) [] s"
  by (intro conjI price_buffer.chunks transaction_buffer.chunks)

end
