(* ===== verification/Gw_Oanda_Candles.thy ===== *)
theory Gw_Oanda_Candles
  imports Gw_Oanda_Props
begin

text \<open>
  The candles the OANDA provider polls: over any number of poll cycles the bars told of a symbol are
  strictly increasing in time. Further, how often and how long the loops around the streams and the
  poll wait.
\<close>

subsection \<open>Bars told\<close>

fun told_bar :: "string \<Rightarrow> ws_message \<Rightarrow> bar option" where
  "told_bar symbol (WsCandle b now) = (if bar_symbol b = symbol then Some b else None)"
| "told_bar symbol _ = None"

definition bars_told :: "string \<Rightarrow> oanda \<Rightarrow> bar list" where
  "bars_told symbol a = List.map_filter (told_bar symbol) (told a)"

definition polled_bars :: "codec \<Rightarrow> trading_platform \<Rightarrow> string \<Rightarrow> oanda_candle list \<Rightarrow> bar list" where
  "polled_bars K platform symbol candles = List.map_filter (candle_to_bar K platform symbol) candles"

definition increasing :: "bar list \<Rightarrow> bool" where
  "increasing bs = sorted_wrt (<) (map bar_timestamp bs)"

text \<open>OANDA answers with the candles of an instrument from the oldest to the newest.\<close>

definition oldest_first :: "codec \<Rightarrow> 'w http \<Rightarrow> trading_platform \<Rightarrow> string \<Rightarrow> bool" where
  "oldest_first K H platform rest_url =
     (\<forall>symbol w candles w1. poll_candles K H rest_url symbol w = (Inr candles, w1) \<longrightarrow>
        increasing (polled_bars K platform symbol candles))"

lemma polled_symbol: "b \<in> set (polled_bars K platform symbol candles) \<Longrightarrow> bar_symbol b = symbol"
  by (auto simp: polled_bars_def List.map_filter_def candle_to_bar_def historical_bar_def Option.bind_eq_Some_conv)

lemma tell_other [simp]: "oa_platform (tell m a) = oa_platform a" "oa_base_url (tell m a) = oa_base_url a"
  by (simp_all add: tell_def split: option.split)

lemma tells_other [simp]: "oa_platform (fold tell ms a) = oa_platform a" "oa_base_url (fold tell ms a) = oa_base_url a"
  by (induction ms arbitrary: a) simp_all

lemma emit_bars:
  "snd (fold (emit_bar now symbol) bs s) = fold tell (map (\<lambda>b. WsCandle b now) bs) (snd s)
   \<and> dm_get (fst (fold (emit_bar now symbol) bs s)) other =
       (if other = symbol \<and> bs \<noteq> [] then Some (bar_timestamp (last bs)) else dm_get (fst s) other)"
  by (induction bs arbitrary: s) (simp_all add: emit_bar_def)

text \<open>The state of a poll: what was told of each symbol is increasing, and its watermark is the last of it.\<close>

definition candles_ok :: "watermarks \<times> oanda \<Rightarrow> bool" where
  "candles_ok s = (listened (snd s) \<and> (\<forall>symbol. increasing (bars_told symbol (snd s))
     \<and> dm_get (fst s) symbol = (if bars_told symbol (snd s) = [] then None else Some (bar_timestamp (last (bars_told symbol (snd s)))))))"

lemma bars_told_candles:
  assumes "listened a" "\<forall>b \<in> set bs. bar_symbol b = symbol"
  shows "bars_told other (fold tell (map (\<lambda>b. WsCandle b now) bs) a) = bars_told other a @ (if other = symbol then bs else [])"
proof -
  have "List.map_filter (told_bar other) (map (\<lambda>b. WsCandle b now) bs) = (if other = symbol then bs else [])"
    using assms(2) by (induction bs) (auto simp: List.map_filter_simps)
  then show ?thesis using tells_told [OF assms(1)] by (simp add: bars_told_def map_filter_def)
qed

lemma increasing_append:
  assumes "increasing xs" "increasing ys" "xs \<noteq> [] \<Longrightarrow> \<forall>y \<in> set ys. bar_timestamp (last xs) < bar_timestamp y"
  shows "increasing (xs @ ys)"
proof (cases xs rule: rev_cases)
  case (snoc zs z)
  have "bar_timestamp x < bar_timestamp y" if "x \<in> set xs" "y \<in> set ys" for x y
  proof -
    have "bar_timestamp x \<le> bar_timestamp z"
      using that(1) assms(1) snoc by (auto simp: increasing_def sorted_wrt_append)
    also have "\<dots> < bar_timestamp y" using assms(3) that(2) snoc by simp
    finally show ?thesis .
  qed
  then show ?thesis using assms(1,2) by (auto simp: increasing_def sorted_wrt_append)
qed (simp add: assms(2))

lemma new_bars_increasing: "increasing bs \<Longrightarrow> increasing (new_bars w bs)"
  by (auto simp: new_bars_def increasing_def sorted_wrt_filter sorted_wrt_map split: option.split)

lemma new_bars_subset: "set (new_bars w bs) \<subseteq> set bs"
  by (auto simp: new_bars_def split: option.split)

text \<open>One poll appends what \<open>new_bars\<close> chooses for its symbol and leaves the other symbols alone.\<close>

lemma emit_candles_ok:
  assumes ok: "candles_ok s" and inc: "increasing (polled_bars K (oa_platform (snd s)) symbol candles)"
  shows "candles_ok (emit_candles K now symbol candles s)
    \<and> oa_platform (snd (emit_candles K now symbol candles s)) = oa_platform (snd s)
    \<and> oa_base_url (snd (emit_candles K now symbol candles s)) = oa_base_url (snd s)
    \<and> (\<forall>other. bars_told other (snd (emit_candles K now symbol candles s)) = bars_told other (snd s)
         @ (if other = symbol then new_bars (dm_get (fst s) symbol) (polled_bars K (oa_platform (snd s)) symbol candles) else []))"
proof -
  obtain wm a where s: "s = (wm, a)" by (metis surj_pair)
  let ?fresh = "new_bars (dm_get wm symbol) (polled_bars K (oa_platform a) symbol candles)"
  have a: "listened a" using ok s by (simp add: candles_ok_def)
  then obtain ob where slot: "oa_slot a = Some ob" using listened_slot by blast
  have sym: "\<forall>b \<in> set ?fresh. bar_symbol b = symbol" using polled_symbol new_bars_subset by fast
  have e: "emit_candles K now symbol candles s = fold (emit_bar now symbol) ?fresh (wm, a)"
    using s by (simp add: emit_candles_def polled_bars_def Let_def slot)
  note bars = emit_bars [of now symbol ?fresh "(wm, a)"]
  let ?a1 = "fold tell (map (\<lambda>b. WsCandle b now) ?fresh) a"
  have snd: "snd (emit_candles K now symbol candles s) = ?a1" using bars e by simp
  have told: "bars_told other ?a1 = bars_told other a @ (if other = symbol then ?fresh else [])" for other
    by (rule bars_told_candles [OF a sym])
  have later: "\<forall>b \<in> set ?fresh. bar_timestamp (last (bars_told symbol a)) < bar_timestamp b" if "bars_told symbol a \<noteq> []"
    using ok s that by (simp add: candles_ok_def new_bars_def)
  have inc1: "increasing (bars_told other ?a1)" for other
    using told [of other] later increasing_append [of "bars_told symbol a" ?fresh] ok s new_bars_increasing [OF inc]
    by (auto simp: candles_ok_def)
  have mark: "dm_get (fst (emit_candles K now symbol candles s)) other =
      (if bars_told other ?a1 = [] then None else Some (bar_timestamp (last (bars_told other ?a1))))" for other
    using bars ok s told [of other] e by (cases "other = symbol") (auto simp: candles_ok_def)
  show ?thesis
    using snd told inc1 mark tells_told [OF a] s by (auto simp: candles_ok_def)
qed

lemma poll_and_emit_ok:
  assumes "candles_ok s" "oldest_first K H (oa_platform (snd s)) (oa_base_url (snd s))"
    and "poll_and_emit K H symbols (s, w) = (healthy, s1, w1)"
  shows "candles_ok s1 \<and> oa_platform (snd s1) = oa_platform (snd s) \<and> oa_base_url (snd s1) = oa_base_url (snd s)"
  using assms
proof (induction symbols arbitrary: s w healthy)
  case (Cons symbol symbols)
  obtain r w2 where poll: "poll_candles K H (oa_base_url (snd s)) symbol w = (r, w2)" by (metis surj_pair)
  show ?case
  proof (cases r)
    case (Inl e)
    then show ?thesis using Cons.IH [OF Cons.prems(1,2)] Cons.prems(3) poll by (auto split: prod.splits)
  next
    case (Inr candles)
    have inc: "increasing (polled_bars K (oa_platform (snd s)) symbol candles)"
      using Cons.prems(2) poll Inr unfolding oldest_first_def by blast
    note ok = emit_candles_ok [OF Cons.prems(1) inc, of "ht_utc H w2"]
    have "poll_and_emit K H symbols (emit_candles K (ht_utc H w2) symbol candles s, w2) = (healthy, s1, w1)"
      using Cons.prems(3) poll Inr by simp
    from Cons.IH [OF _ _ this] ok Cons.prems(2) show ?thesis by simp
  qed
qed auto

definition poll_cycles :: "codec \<Rightarrow> 'w http \<Rightarrow> string list list \<Rightarrow> (watermarks \<times> oanda) \<times> 'w \<Rightarrow> (watermarks \<times> oanda) \<times> 'w" where
  "poll_cycles K H cycles s = fold (\<lambda>symbols s. snd (poll_and_emit K H symbols s)) cycles s"

lemma poll_cycles_ok:
  "candles_ok (fst s) \<Longrightarrow> oldest_first K H (oa_platform (snd (fst s))) (oa_base_url (snd (fst s))) \<Longrightarrow>
   candles_ok (fst (poll_cycles K H cycles s))
   \<and> oa_platform (snd (fst (poll_cycles K H cycles s))) = oa_platform (snd (fst s))
   \<and> oa_base_url (snd (fst (poll_cycles K H cycles s))) = oa_base_url (snd (fst s))"
proof (induction cycles arbitrary: s)
  case (Cons symbols cycles)
  obtain x w where s: "s = (x, w)" by (metis surj_pair)
  obtain healthy x1 w1 where p: "poll_and_emit K H symbols (x, w) = (healthy, x1, w1)" by (metis surj_pair)
  have "candles_ok x1 \<and> oa_platform (snd x1) = oa_platform (snd x) \<and> oa_base_url (snd x1) = oa_base_url (snd x)"
    using poll_and_emit_ok [OF _ _ p] Cons.prems s by simp
  then show ?case using Cons.IH [of "(x1, w1)"] Cons.prems s p by (simp add: poll_cycles_def)
qed (simp add: poll_cycles_def)

text \<open>
  C14: Candles are told once and in order. While a strategy listens, after any poll cycles over any
  symbols, failed polls included, the bars told of a symbol since the poll started are strictly
  increasing in time. The next answer for a symbol adds exactly its bars newer than the last one told,
  or only the newest when none was told yet, so that a bar missed by one poll is told by the next.
\<close>

theorem candles_told_in_order:
  assumes "oldest_first K H (oa_platform a) (oa_base_url a)" "listened a" "told a = []"
    and "s = fst (poll_cycles K H cycles (([], a), w))"
  shows "increasing (bars_told symbol (snd s))
    \<and> (increasing (polled_bars K (oa_platform a) symbol candles) \<longrightarrow>
        bars_told symbol (snd (emit_candles K now symbol candles s)) = bars_told symbol (snd s)
          @ (if bars_told symbol (snd s) = []
             then (if polled_bars K (oa_platform a) symbol candles = [] then [] else [last (polled_bars K (oa_platform a) symbol candles)])
             else filter (\<lambda>b. bar_timestamp b > bar_timestamp (last (bars_told symbol (snd s)))) (polled_bars K (oa_platform a) symbol candles)))"
proof -
  have "candles_ok ([], a)" using assms(2,3) by (simp add: candles_ok_def bars_told_def increasing_def List.map_filter_simps)
  then have ok: "candles_ok s" and pf: "oa_platform (snd s) = oa_platform a"
    using poll_cycles_ok [of "(([], a), w)" K H cycles] assms(1,4) by simp_all
  show ?thesis
    using ok emit_candles_ok [OF ok, of K symbol candles now] pf by (auto simp: candles_ok_def new_bars_def)
qed

subsection \<open>Waiting\<close>

definition backoff_after :: "nat \<Rightarrow> duration" where
  "backoff_after n = min (initial_backoff * 2 ^ n) max_backoff"

lemma backoff_doubles: "min (backoff_after n * 2) max_backoff = backoff_after (Suc n)"
  by (auto simp: backoff_after_def min_def)

text \<open>
  A stream that drops is opened again after a wait that doubles up to a minute with every drop since the
  task was spawned, however long the stream had been healthy in between: the wait is never set back.
\<close>

theorem stream_backoff_never_resets:
  assumes "\<forall>(reply, inputs, stopped) \<in> set attempts. \<not> stopped \<and> (\<forall>s. \<exists>e s1. single reply inputs s = (Some (StreamNetwork e), s1))"
  shows "fst (keep_streaming single attempts (backoff_after n) s) = (map backoff_after [n..<n + length attempts], False)"
  using assms
proof (induction attempts arbitrary: n s)
  case (Cons attempt attempts)
  obtain reply inputs stopped where a: "attempt = (reply, inputs, stopped)" by (metis surj_pair)
  obtain e s1 where e: "single reply inputs s = (Some (StreamNetwork e), s1)" using Cons.prems a by fastforce
  obtain waits ended s2 where k: "keep_streaming single attempts (backoff_after (Suc n)) s1 = ((waits, ended), s2)"
    by (metis surj_pair)
  have "waits = map backoff_after [Suc n..<Suc n + length attempts] \<and> \<not> ended"
    using Cons.IH [of "Suc n" s1] Cons.prems k by simp
  moreover have "fst (keep_streaming single (attempt # attempts) (backoff_after n) s) = (backoff_after n # waits, ended)"
    using Cons.prems a e k by (simp add: backoff_doubles)
  moreover have "[n..<n + length (attempt # attempts)] = n # [Suc n..<Suc n + length attempts]"
    using upt_conv_Cons [of n "n + length (attempt # attempts)"] by simp
  ultimately show ?case by simp
qed simp

text \<open>
  When no poll succeeds the candle poll gives up after the eighth, having waited for the minute
  boundary once and then 2, 4, 8, 16, 32, 60 and 60 seconds.
\<close>

theorem candle_poll_gives_up:
  assumes "\<And>s. \<not> fst (poll_and_emit K H symbols s)" "symbols \<noteq> []"
  shows "fst (run_candle_poll K H (replicate 8 (Woken symbols) @ ws) initial_backoff 0 s) =
    (PollGaveUp, poll_sleep (ht_utc H (snd s)) initial_backoff 0 # map backoff_after [1..<8])"
proof -
  have run: "fst (run_candle_poll K H (replicate n (Woken symbols) @ ws) (backoff_after f) f s) =
      (PollGaveUp, poll_sleep (ht_utc H (snd s)) (backoff_after f) f # map backoff_after [Suc f..<8])"
    if "n + f = 8" "0 < n" for n f s
    using that
  proof (induction n arbitrary: f s)
    case (Suc n)
    obtain s1 where p: "poll_and_emit K H symbols s = (False, s1)" using assms(1) by (metis (full_types) prod.collapse)
    show ?case
    proof (cases "n = 0")
      case True
      then show ?thesis using p assms(2) Suc.prems by (simp add: Let_def max_consecutive_candle_poll_failures_def)
    next
      case False
      obtain e sleeps s2 where r: "run_candle_poll K H (replicate n (Woken symbols) @ ws) (backoff_after (Suc f)) (Suc f) s1 = ((e, sleeps), s2)"
        by (metis surj_pair)
      have "e = PollGaveUp \<and> sleeps = backoff_after (Suc f) # map backoff_after [Suc (Suc f)..<8]"
        using Suc.IH [of "Suc f" s1] False Suc.prems(1) r by (simp add: poll_sleep_def)
      moreover have "[Suc f..<8] = Suc f # [Suc (Suc f)..<8]" using False Suc.prems(1) by (intro upt_conv_Cons) simp
      moreover have "fst (run_candle_poll K H (replicate (Suc n) (Woken symbols) @ ws) (backoff_after f) f s)
          = (e, poll_sleep (ht_utc H (snd s)) (backoff_after f) f # sleeps)"
        using p assms(2) r False Suc.prems(1) by (simp add: Let_def max_consecutive_candle_poll_failures_def backoff_doubles)
      ultimately show ?thesis by (simp only: prod.inject simp_thms list.simps)
    qed
  qed simp
  show ?thesis using run [of 8 0 s] by (simp add: backoff_after_def initial_backoff_def max_backoff_def secs_def)
qed

end
