(* ===== verification/Gw_Oanda_Orders.thy ===== *)
theory Gw_Oanda_Orders
  imports Gw_Oanda_Adapter
begin

text \<open>
  Orders and positions at OANDA: an order read back is the order submitted, the id a position is reported
  under leads back to it, and what the adapter does with errors, modifications and hedged positions.
\<close>

subsection \<open>Reading an order back\<close>

text \<open>The broker keeps an order with the fields of the request it accepted.\<close>

definition echoed :: "string \<Rightarrow> string \<Rightarrow> oanda_order_request \<Rightarrow> oanda_order" where
  "echoed i created rq =
     \<lparr>oo_id = i, oo_order_type = rq_order_type rq, oo_instrument = Some (rq_instrument rq), oo_units = Some (rq_units rq),
      oo_price = rq_price rq, oo_time_in_force = Some (rq_time_in_force rq), oo_position_fill = rq_position_fill rq,
      oo_state = ''PENDING'', oo_create_time = created, oo_stop_loss_on_fill = rq_stop_loss_on_fill rq,
      oo_take_profit_on_fill = rq_take_profit_on_fill rq,
      oo_trailing_stop_loss_on_fill = rq_trailing_stop_loss_on_fill rq, oo_trade_id = None,
      oo_client_extensions = rq_client_extensions rq\<rparr>"

lemma parse_shown: "prints_amounts K \<Longrightarrow> opt_positive x \<Longrightarrow> parse_price K (map_option (cx_show K) x) = x"
  by (cases x) (auto simp: parse_price_def prints_amounts_def)

lemma leg_reads_back:
  "prints_amounts K \<Longrightarrow> opt_positive x \<Longrightarrow> Option.bind (leg_on_fill K r leg x) (\<lambda>f. cx_dec K (of_price f)) = x"
  by (cases x) (auto simp: leg_on_fill_def prints_amounts_def)

text \<open>The prices of a valid request, as far as its one price on the wire can carry them.\<close>

definition carried_prices :: "order_request \<Rightarrow> decimal option \<times> decimal option" where
  "carried_prices r = (if or_order_type r = StopLimit then (or_limit_price r, or_limit_price r) else (or_limit_price r, or_stop_price r))"

lemma prices_read_back:
  assumes "prints_amounts K" "type_fields_ok r" "or_order_type r \<noteq> TrailingStop"
  shows "trigger_prices (or_order_type r) (parse_price K (map_option (cx_show K) (or_else (or_limit_price r) (or_stop_price r)))) = carried_prices r"
proof -
  have "opt_positive (or_else (or_limit_price r) (or_stop_price r))"
    using assms(2,3) by (cases "or_order_type r") (auto simp: type_fields_ok_def has_positive_iff or_else_def)
  then have "parse_price K (map_option (cx_show K) (or_else (or_limit_price r) (or_stop_price r))) = or_else (or_limit_price r) (or_stop_price r)"
    by (rule parse_shown [OF assms(1)])
  then show ?thesis
    using assms(2,3) by (cases "or_order_type r") (auto simp: type_fields_ok_def has_positive_iff or_else_def carried_prices_def)
qed


subsection \<open>Position ids\<close>

text \<open>
  C24: The id a position is reported under leads back to it. The id of a position reported for an instrument
  parses to that instrument and side, and looking it up in the same answer gives the same position; a
  trade reported as a position parses to that trade; and the id a fill is reported under parses to the
  one trade it names, if it names one by a number, and otherwise to a side of its instrument: the side
  that the fill reduced if it only closed trades, and its own side if not.
\<close>

theorem position_ids_lead_back:
  "(\<forall>pos \<in> set (translate_oanda_position K now p).
      parse_position_id (p_id pos) = TargetSide (op_instrument p) (Some (p_side pos))
      \<and> chosen_position (p_id pos) (Some (p_side pos)) (translate_oanda_position K now p) = Inr pos)
   \<and> (\<forall>pos. otr_id t \<noteq> [] \<and> list_all ascii_digit (otr_id t) \<and> translate_oanda_trade_to_position K now t = Inr pos
        \<longrightarrow> parse_position_id (p_id pos) = TargetTrade (otr_id t))
   \<and> (\<forall>i. fill_position_id instrument side t_opened ts_closed t_reduced = Some i \<longrightarrow>
        (case named_trade t_opened ts_closed t_reduced of
           Some tr \<Rightarrow> list_all ascii_digit tr \<longrightarrow> parse_position_id i = TargetTrade tr
         | None \<Rightarrow> parse_position_id i = TargetSide instrument
             (Some (if t_opened = None \<and> (ts_closed \<noteq> [] \<or> t_reduced \<noteq> None) then side_of_units (opposite_side side) else side_of_units side))))"
proof (intro conjI ballI allI impI)
  fix pos assume "pos \<in> set (translate_oanda_position K now p)"
  then show "parse_position_id (p_id pos) = TargetSide (op_instrument p) (Some (p_side pos))"
      and "chosen_position (p_id pos) (Some (p_side pos)) (translate_oanda_position K now p) = Inr pos"
    by (auto simp: translate_oanda_position_def leg_position_def chosen_position_def split: if_splits)
next
  fix pos assume "otr_id t \<noteq> [] \<and> list_all ascii_digit (otr_id t) \<and> translate_oanda_trade_to_position K now t = Inr pos"
  then show "parse_position_id (p_id pos) = TargetTrade (otr_id t)"
    by (auto simp: translate_oanda_trade_to_position_def digits_are_trade split: prod.splits)
next
  fix i assume i: "fill_position_id instrument side t_opened ts_closed t_reduced = Some i"
  show "case named_trade t_opened ts_closed t_reduced of
      Some tr \<Rightarrow> list_all ascii_digit tr \<longrightarrow> parse_position_id i = TargetTrade tr
    | None \<Rightarrow> parse_position_id i = TargetSide instrument
        (Some (if t_opened = None \<and> (ts_closed \<noteq> [] \<or> t_reduced \<noteq> None) then side_of_units (opposite_side side) else side_of_units side))"
  proof (cases "named_trade t_opened ts_closed t_reduced")
    case None
    then show ?thesis using i by (cases side) (auto simp: fill_position_id_def Let_def split: if_splits)
  next
    case (Some tr)
    then have "tr \<noteq> []" by (auto simp: named_trade_def Option.bind_eq_Some_conv split: if_splits)
    then show ?thesis using i Some by (auto simp: fill_position_id_def digits_are_trade)
  qed
qed

subsection \<open>Errors\<close>

text \<open>Looking up an order the broker does not know is answered as not found, and counted as an outage.\<close>

lemma unknown_order_counts:
  assumes "\<not> ab_is_open (oa_breaker a)" "ht_get H (oanda_account_url a (''/orders/'' @ i)) w = (Reply 404 body, w1)"
  shows "oanda_get_order K H i (a, w) = (Inl (OrderNotFound i), a\<lparr>oa_breaker := ab_record_failure (ht_instant H w1) (oa_breaker a)\<rparr>, w1)"
proof -
  have "contains (''Upstream returned '' @ (''404'' @ ('': '' @ m))) ''404''" for m
    by (intro contains_append_left contains_prefix)
  then have "says_404 (map_http_error 404 b)" for b by (simp add: map_http_error_def says_404_def Let_def)
  moreover have "is_outage_error (map_http_error 404 b)" for b by (simp add: map_http_error_def Let_def)
  ultimately show ?thesis
    using assms by (simp add: oanda_get_order_def guarded_def check_circuit_breaker_def map_answer_def read_or_missing_def
        read_json_def get_json_def is_success_def record_if_outage_def)
qed

text \<open>
  Three lookups of orders the broker does not know, within the window of the breaker, open it: every later
  submission is refused without a request, until the breaker is reset by hand.
\<close>

theorem unknown_orders_open_breaker:
  assumes a: "oa_breaker a = ab_new 3 (secs 300) ''oanda''"
    and unknown: "\<And>url w. \<exists>body. fst (ht_get H url w) = Reply 404 body"
    and clock: "\<And>url w. ht_instant H w \<le> ht_instant H (snd (ht_get H url w))"
    and run: "oanda_get_order K H i1 (a, w0) = (r1, s1)" "oanda_get_order K H i2 s1 = (r2, s2)" "oanda_get_order K H i3 s2 = (r3, s3)"
    and quick: "ht_instant H (snd s3) - ht_instant H (snd s1) \<le> secs 300"
  shows "r1 = Inl (OrderNotFound i1) \<and> r2 = Inl (OrderNotFound i2) \<and> r3 = Inl (OrderNotFound i3)
    \<and> oanda_submit_order K H r s3 = (Inl (ab_open_error (oa_breaker (fst s3))), s3)"
proof -
  have get: "\<exists>b w1. ht_get H url w = (Reply 404 b, w1) \<and> ht_instant H w \<le> ht_instant H w1" for url w
    using unknown [of url w] clock [of w url] by (metis prod.collapse)
  obtain b1 w1 where g1: "ht_get H (oanda_account_url a (''/orders/'' @ i1)) w0 = (Reply 404 b1, w1)" using get by blast
  define a1 where "a1 = a\<lparr>oa_breaker := ab_record_failure (ht_instant H w1) (oa_breaker a)\<rparr>"
  obtain b2 w2 where g2: "ht_get H (oanda_account_url a1 (''/orders/'' @ i2)) w1 = (Reply 404 b2, w2)"
      and t2: "ht_instant H w1 \<le> ht_instant H w2" using get by blast
  define a2 where "a2 = a1\<lparr>oa_breaker := ab_record_failure (ht_instant H w2) (oa_breaker a1)\<rparr>"
  obtain b3 w3 where g3: "ht_get H (oanda_account_url a2 (''/orders/'' @ i3)) w2 = (Reply 404 b3, w3)"
      and t3: "ht_instant H w2 \<le> ht_instant H w3" using get by blast
  note defs = a1_def a2_def a ab_new_def ab_record_failure_def ab_is_open_def Let_def secs_def
  have shut: "\<not> ab_is_open (oa_breaker a)" "\<not> ab_is_open (oa_breaker a1)" "\<not> ab_is_open (oa_breaker a2)"
    by (simp_all add: defs)
  have first: "r1 = Inl (OrderNotFound i1)" "s1 = (a1, w1)"
    using run(1) unknown_order_counts [OF shut(1) g1] by (simp_all add: a1_def)
  have second: "r2 = Inl (OrderNotFound i2)" "s2 = (a2, w2)"
    using run(2) first unknown_order_counts [OF shut(2) g2] by (simp_all add: a2_def)
  define a3 where "a3 = a2\<lparr>oa_breaker := ab_record_failure (ht_instant H w3) (oa_breaker a2)\<rparr>"
  have third: "r3 = Inl (OrderNotFound i3)" "s3 = (a3, w3)"
    using run(3) second unknown_order_counts [OF shut(3) g3] by (simp_all add: a3_def)
  have "ht_instant H w3 - ht_instant H w1 \<le> secs 300" using quick first third by simp
  then have "ab_is_open (oa_breaker a3)"
    using t2 t3 by (simp add: a3_def defs)
  then show ?thesis
    using first second third by (simp add: oanda_submit_order_def guarded_def check_circuit_breaker_def)
qed

text \<open>A submission that gets no answer at all is reported as a provider error but not counted.\<close>

theorem lost_submission_not_counted:
  assumes "\<not> ab_is_open (oa_breaker a)" "trade_to_reduce r = None" "to_oanda_order_type (or_order_type r) = Inr t"
    and "ht_post H (oanda_account_url a ''/orders'') (BodyOrder (oanda_request K r t)) w = (NoReply e, w1)"
  shows "oanda_submit_order K H r (a, w) = (Inl (request_failed e), a, w1) \<and> is_outage_error (request_failed e)"
  using assms by (simp add: oanda_submit_order_def guarded_def check_circuit_breaker_def post_order_def request_failed_def)

text \<open>
  A modification replaces the resting order by one without stop-loss, take-profit and client id, whatever
  the order had.
\<close>

theorem modification_drops_protection:
  assumes "\<not> ab_is_open (oa_breaker (fst s))" "oanda_get_order K H i s = (Inr current, s1)"
    and "to_oanda_order_type (o_order_type current) = Inr t"
  shows "\<exists>rq. oanda_modify_order K H i m s = put_replacement K H i rq s1
    \<and> rq_stop_loss_on_fill rq = None \<and> rq_take_profit_on_fill rq = None \<and> rq_client_extensions rq = None"
  using assms by (intro exI [of _ "replacement_request K m current t"])
    (simp add: oanda_modify_order_def guarded_def check_circuit_breaker_def replacement_request_def)

text \<open>Asked for the positions of a symbol held both ways, the adapter answers with the long one only.\<close>

theorem hedged_symbol_reads_one_position:
  assumes "\<not> ab_is_open (oa_breaker (fst s))" "parse_position_id symbol = TargetSide symbol None"
    and "read_or_missing H (jd_position K) (PositionNotFound symbol) (oanda_account_url (fst s) (''/positions/'' @ symbol)) s = (Inr p, s1)"
    and "pl_units (op_long p) \<noteq> ''0''" "pl_units (op_short p) \<noteq> ''0''"
  shows "\<exists>long short. translate_oanda_position K (ht_utc H (snd s1)) p = [long, short]
    \<and> oanda_get_positions K H (Some symbol) s = (Inr [long], s1)"
  using assms by (simp add: oanda_get_positions_def oanda_get_position_def guarded_def check_circuit_breaker_def map_answer_def
      translate_oanda_position_def chosen_position_def)

text \<open>One order of a type the adapter does not know makes the whole list of orders an error.\<close>

theorem unknown_type_hides_orders:
  assumes "\<not> ab_is_open (oa_breaker (fst s))" "oo_order_type ord = ''GUARANTEED_STOP_LOSS''" "ord \<in> set ords"
    and "read_json H (jd_orders K) (oanda_account_url (fst s) ''/orders'') s = (Inr ords, s1)"
  shows "\<exists>e. oanda_get_orders K H order_query_default s = (Inl e, s1)"
proof -
  have "\<exists>e. translate_oanda_order K (ht_utc H (snd s1)) ord = Inl e"
    using assms(2) by (cases "case oo_units ord of Some u \<Rightarrow> from_oanda_units K u | None \<Rightarrow> Inr (Buy, 0)")
      (auto simp: translate_oanda_order_def from_oanda_order_type_def split: prod.splits)
  then obtain e where "translate_all (translate_oanda_order K (ht_utc H (snd s1))) ords = Inl e"
    using translate_all_error [OF assms(3)] by metis
  then show ?thesis
    using assms(1,4) by (simp add: oanda_get_orders_def guarded_def check_circuit_breaker_def map_answer_def order_query_default_def)
qed

end
