(* ===== verification/Gw_Oanda_Provider.thy ===== *)
theory Gw_Oanda_Provider
  imports Gw_Oanda_Adapter
begin

text \<open>
  The OANDA stream provider (\<open>crates/oanda/src/streaming.rs\<close>): which tasks run after connecting,
  subscribing, unsubscribing, disconnecting and reconnecting. A cancellation token is a number and
  \<open>pv_cancelled\<close> the tokens that fired; a task runs while neither its token nor the provider's own token
  has fired. Each spawn replaces the token of its kind, so that the tasks of the last spawn are told
  from the ones before.
\<close>

datatype stream_task = PriceTask "string list" | CandleTask | TransactionTask

record provider_config =
  pc_symbols :: "string list"
  pc_event_types :: "string list"

record oanda_provider =
  pv_instruments :: "string list"
  pv_config :: "provider_config option"
  pv_closed :: bool
  pv_price_token :: nat
  pv_candle_token :: nat
  pv_transaction_token :: nat
  pv_next_token :: nat
  pv_cancelled :: "nat list"
  pv_tasks :: "(stream_task \<times> nat) list"

definition oanda_provider_new :: oanda_provider where
  "oanda_provider_new = \<lparr>pv_instruments = [], pv_config = None, pv_closed = False, pv_price_token = 0, pv_candle_token = 1,
     pv_transaction_token = 2, pv_next_token = 3, pv_cancelled = [], pv_tasks = []\<rparr>"

definition spawn_price_stream :: "oanda_provider \<Rightarrow> oanda_provider" where
  "spawn_price_stream p =
     (let t = pv_next_token p;
          p1 = p\<lparr>pv_price_token := t, pv_next_token := t + 1, pv_cancelled := pv_price_token p # pv_cancelled p\<rparr>
      in if pv_instruments p = [] then p1 else p1\<lparr>pv_tasks := (PriceTask (pv_instruments p), t) # pv_tasks p\<rparr>)"

definition spawn_transaction_stream :: "oanda_provider \<Rightarrow> oanda_provider" where
  "spawn_transaction_stream p =
     (let t = pv_next_token p in
      p\<lparr>pv_transaction_token := t, pv_next_token := t + 1, pv_cancelled := pv_transaction_token p # pv_cancelled p,
        pv_tasks := (TransactionTask, t) # pv_tasks p\<rparr>)"

definition spawn_candle_poll :: "oanda_provider \<Rightarrow> oanda_provider" where
  "spawn_candle_poll p =
     (let t = pv_next_token p in
      p\<lparr>pv_candle_token := t, pv_next_token := t + 1, pv_cancelled := pv_candle_token p # pv_cancelled p,
        pv_tasks := (CandleTask, t) # pv_tasks p\<rparr>)"

text \<open>Connecting puts the sending end of a new channel into the slot it shares with the adapter.\<close>

definition pv_connect :: "provider_config \<Rightarrow> oanda_provider \<times> oanda \<Rightarrow> oanda_provider \<times> oanda" where
  "pv_connect c s =
     (let p1 = spawn_price_stream ((fst s)\<lparr>pv_config := Some c, pv_instruments := pc_symbols c\<rparr>);
          p2 = (if wants_candles (pc_event_types c) then spawn_candle_poll p1 else p1)
      in (spawn_transaction_stream p2, (snd s)\<lparr>oa_slot := Some \<lparr>ob_alive = True, ob_sent = []\<rparr>\<rparr>))"

definition add_instrument :: "string \<Rightarrow> string list \<Rightarrow> string list" where
  "add_instrument symbol xs = (if symbol \<in> set xs then xs else xs @ [symbol])"

definition pv_subscribe :: "string list \<Rightarrow> oanda_provider \<Rightarrow> oanda_provider" where
  "pv_subscribe symbols p = spawn_price_stream (p\<lparr>pv_instruments := fold add_instrument symbols (pv_instruments p)\<rparr>)"

definition pv_unsubscribe :: "string list \<Rightarrow> oanda_provider \<Rightarrow> oanda_provider" where
  "pv_unsubscribe symbols p =
     spawn_price_stream (p\<lparr>pv_instruments := fold (\<lambda>symbol. filter (\<lambda>i. i \<noteq> symbol)) symbols (pv_instruments p)\<rparr>)"

definition pv_disconnect :: "oanda_provider \<Rightarrow> oanda_provider" where
  "pv_disconnect p =
     p\<lparr>pv_cancelled := [pv_price_token p, pv_candle_token p, pv_transaction_token p] @ pv_cancelled p, pv_closed := True\<rparr>"

definition pv_reconnect :: "oanda_provider \<times> oanda \<Rightarrow> (websocket_error + unit) \<times> oanda_provider \<times> oanda" where
  "pv_reconnect s =
     (case pv_config (fst s) of
        None \<Rightarrow> (Inl (ConnectionClosed ''Cannot reconnect: no stored config''), s)
      | Some c \<Rightarrow> (Inr (), pv_connect c s))"

definition running :: "oanda_provider \<Rightarrow> stream_task list" where
  "running p = (if pv_closed p then [] else map fst (filter (\<lambda>(k, t). t \<notin> set (pv_cancelled p)) (pv_tasks p)))"

datatype provider_op =
  OpConnect provider_config | OpSubscribe "string list" | OpUnsubscribe "string list" | OpDisconnect | OpReconnect

fun provider_step :: "provider_op \<Rightarrow> oanda_provider \<times> oanda \<Rightarrow> oanda_provider \<times> oanda" where
  "provider_step (OpConnect c) s = pv_connect c s"
| "provider_step (OpSubscribe symbols) s = (pv_subscribe symbols (fst s), snd s)"
| "provider_step (OpUnsubscribe symbols) s = (pv_unsubscribe symbols (fst s), snd s)"
| "provider_step OpDisconnect s = (pv_disconnect (fst s), snd s)"
| "provider_step OpReconnect s = snd (pv_reconnect s)"

subsection \<open>The tasks of the last spawn\<close>

fun is_price_task :: "stream_task \<Rightarrow> bool" where
  "is_price_task (PriceTask xs) = True"
| "is_price_task _ = False"

text \<open>
  A task whose token has not fired is the one its kind's current token was made for. The current price
  task streams the current instruments.
\<close>

definition tokens_below :: "oanda_provider \<Rightarrow> bool" where
  "tokens_below p = (pv_price_token p < pv_next_token p \<and> pv_candle_token p < pv_next_token p
     \<and> pv_transaction_token p < pv_next_token p \<and> (\<forall>t \<in> set (pv_cancelled p). t < pv_next_token p)
     \<and> (\<forall>(k, t) \<in> set (pv_tasks p). t < pv_next_token p))"

definition kind_token :: "oanda_provider \<Rightarrow> stream_task \<Rightarrow> nat" where
  "kind_token p k = (case k of PriceTask xs \<Rightarrow> pv_price_token p | CandleTask \<Rightarrow> pv_candle_token p
     | TransactionTask \<Rightarrow> pv_transaction_token p)"

definition provider_wf :: "oanda_provider \<Rightarrow> bool" where
  "provider_wf p =
     (tokens_below p \<and> distinct (map snd (pv_tasks p))
      \<and> distinct [pv_price_token p, pv_candle_token p, pv_transaction_token p]
      \<and> (\<forall>(k, t) \<in> set (pv_tasks p). t \<in> set (pv_cancelled p) \<or> t = kind_token p k)
      \<and> (\<forall>(k, t) \<in> set (pv_tasks p). t = pv_price_token p \<longrightarrow> k = PriceTask (pv_instruments p))
      \<and> (\<not> pv_closed p \<longrightarrow> set (pv_cancelled p) \<inter> {pv_price_token p, pv_candle_token p, pv_transaction_token p} = {}))"

lemma provider_new_wf: "provider_wf oanda_provider_new"
  by (simp add: provider_wf_def tokens_below_def oanda_provider_new_def)

lemmas provider_inv_defs = provider_wf_def tokens_below_def kind_token_def

text \<open>
  A spawn hands out the next token, lets the old token of its kind fire and may start a task under
  the new one.
\<close>

lemma wf_tasks:
  assumes "provider_wf p" "(k, t) \<in> set (pv_tasks p)"
  shows "t < pv_next_token p \<and> (t \<in> set (pv_cancelled p) \<or> t = kind_token p k)"
  using assms by (auto simp: provider_wf_def tokens_below_def)

lemma wf_tokens:
  assumes "provider_wf p"
  shows "pv_price_token p < pv_next_token p" "pv_candle_token p < pv_next_token p" "pv_transaction_token p < pv_next_token p"
    "distinct [pv_price_token p, pv_candle_token p, pv_transaction_token p]" "distinct (map snd (pv_tasks p))"
    "t \<in> set (pv_cancelled p) \<Longrightarrow> t < pv_next_token p"
    "\<not> pv_closed p \<Longrightarrow> set (pv_cancelled p) \<inter> {pv_price_token p, pv_candle_token p, pv_transaction_token p} = {}"
    "(k, pv_price_token p) \<in> set (pv_tasks p) \<Longrightarrow> k = PriceTask (pv_instruments p)"
  using assms by (auto simp: provider_wf_def tokens_below_def)

lemma provider_wfI:
  assumes "\<And>k t. (k, t) \<in> set (pv_tasks p) \<Longrightarrow> t < pv_next_token p \<and> (t \<in> set (pv_cancelled p) \<or> t = kind_token p k)"
    and "pv_price_token p < pv_next_token p" "pv_candle_token p < pv_next_token p" "pv_transaction_token p < pv_next_token p"
    and "distinct [pv_price_token p, pv_candle_token p, pv_transaction_token p]" "distinct (map snd (pv_tasks p))"
    and "\<And>t. t \<in> set (pv_cancelled p) \<Longrightarrow> t < pv_next_token p"
    and "\<not> pv_closed p \<Longrightarrow> set (pv_cancelled p) \<inter> {pv_price_token p, pv_candle_token p, pv_transaction_token p} = {}"
    and "\<And>k. (k, pv_price_token p) \<in> set (pv_tasks p) \<Longrightarrow> k = PriceTask (pv_instruments p)"
  shows "provider_wf p"
  using assms by (auto simp: provider_wf_def tokens_below_def)

lemma fresh_token: "provider_wf p \<Longrightarrow> pv_next_token p \<notin> snd ` set (pv_tasks p)"
  using wf_tasks by fastforce

lemma fresh_task: "provider_wf p \<Longrightarrow> (k, pv_next_token p) \<notin> set (pv_tasks p)"
  using fresh_token by force

lemma spawn_price_wf:
  assumes p: "provider_wf p"
  shows "provider_wf (spawn_price_stream (p\<lparr>pv_config := c, pv_instruments := xs\<rparr>))"
proof (rule provider_wfI)
  let ?q = "spawn_price_stream (p\<lparr>pv_config := c, pv_instruments := xs\<rparr>)"
  note def = spawn_price_stream_def Let_def
  fix k t assume "(k, t) \<in> set (pv_tasks ?q)"
  then show "t < pv_next_token ?q \<and> (t \<in> set (pv_cancelled ?q) \<or> t = kind_token ?q k)"
    using wf_tasks [OF p, of k t] by (auto simp: def kind_token_def less_Suc_eq split: if_splits stream_task.splits)
qed (use wf_tokens [OF p] fresh_token [OF p] fresh_task [OF p] in
  \<open>auto simp: spawn_price_stream_def Let_def less_Suc_eq dest: less_not_refl2 split: if_splits\<close>)

lemma spawn_candle_wf:
  assumes p: "provider_wf p"
  shows "provider_wf (spawn_candle_poll p)"
proof (rule provider_wfI)
  fix k t assume "(k, t) \<in> set (pv_tasks (spawn_candle_poll p))"
  then show "t < pv_next_token (spawn_candle_poll p) \<and> (t \<in> set (pv_cancelled (spawn_candle_poll p)) \<or> t = kind_token (spawn_candle_poll p) k)"
    using wf_tasks [OF p, of k t] by (auto simp: spawn_candle_poll_def Let_def kind_token_def less_Suc_eq split: stream_task.splits)
qed (use wf_tokens [OF p] fresh_token [OF p] fresh_task [OF p] in
  \<open>auto simp: spawn_candle_poll_def Let_def less_Suc_eq dest: less_not_refl2\<close>)

lemma spawn_transaction_wf:
  assumes p: "provider_wf p"
  shows "provider_wf (spawn_transaction_stream p)"
proof (rule provider_wfI)
  fix k t assume "(k, t) \<in> set (pv_tasks (spawn_transaction_stream p))"
  then show "t < pv_next_token (spawn_transaction_stream p)
      \<and> (t \<in> set (pv_cancelled (spawn_transaction_stream p)) \<or> t = kind_token (spawn_transaction_stream p) k)"
    using wf_tasks [OF p, of k t] by (auto simp: spawn_transaction_stream_def Let_def kind_token_def less_Suc_eq split: stream_task.splits)
qed (use wf_tokens [OF p] fresh_token [OF p] fresh_task [OF p] in
  \<open>auto simp: spawn_transaction_stream_def Let_def less_Suc_eq dest: less_not_refl2\<close>)

lemma spawn_price_wf' [gw_inv]: "provider_wf p \<Longrightarrow> provider_wf (spawn_price_stream (p\<lparr>pv_instruments := xs\<rparr>))"
  using spawn_price_wf [of p xs "pv_config p"] by (cases p) simp

lemma disconnect_wf: "provider_wf p \<Longrightarrow> provider_wf (pv_disconnect p)"
  by (auto simp: provider_inv_defs pv_disconnect_def split: stream_task.splits)

lemma connect_wf: "provider_wf (fst s) \<Longrightarrow> provider_wf (fst (pv_connect c s))"
  by (simp add: pv_connect_def Let_def spawn_transaction_wf spawn_candle_wf spawn_price_wf)

lemma provider_step_wf: "provider_wf (fst s) \<Longrightarrow> provider_wf (fst (provider_step x s))"
  by (cases x) (simp_all add: connect_wf disconnect_wf pv_subscribe_def pv_unsubscribe_def spawn_price_wf' pv_reconnect_def
      split: option.split)

text \<open>Tasks that run while a provider is connected: the transaction stream, and the prices of what is subscribed.\<close>

definition provider_serving :: "oanda_provider \<Rightarrow> bool" where
  "provider_serving p =
     ((pv_instruments p \<noteq> [] \<longrightarrow> (PriceTask (pv_instruments p), pv_price_token p) \<in> set (pv_tasks p))
      \<and> (pv_config p \<noteq> None \<longrightarrow> (TransactionTask, pv_transaction_token p) \<in> set (pv_tasks p)))"

lemma provider_step_serving: "provider_serving (fst s) \<Longrightarrow> provider_serving (fst (provider_step x s))"
  by (cases x) (auto simp: provider_serving_def pv_connect_def pv_subscribe_def pv_unsubscribe_def pv_disconnect_def
      pv_reconnect_def spawn_price_stream_def spawn_candle_poll_def spawn_transaction_stream_def Let_def split: option.split)

lemma provider_step_closed: "pv_closed (fst (provider_step x s)) \<longleftrightarrow> pv_closed (fst s) \<or> x = OpDisconnect"
  by (cases x) (auto simp: pv_connect_def pv_subscribe_def pv_unsubscribe_def pv_disconnect_def
      pv_reconnect_def spawn_price_stream_def spawn_candle_poll_def spawn_transaction_stream_def Let_def split: option.split)

lemma provider_step_config:
  "pv_config (fst (provider_step x s)) = None \<longleftrightarrow> pv_config (fst s) = None \<and> (\<forall>c. x \<noteq> OpConnect c)"
  by (cases x) (auto simp: pv_connect_def pv_subscribe_def pv_unsubscribe_def pv_disconnect_def
      pv_reconnect_def spawn_price_stream_def spawn_candle_poll_def spawn_transaction_stream_def Let_def split: option.split)

lemma provider_run:
  "provider_wf (fst s) \<Longrightarrow> provider_serving (fst s) \<Longrightarrow>
   provider_wf (fst (fold provider_step xs s)) \<and> provider_serving (fst (fold provider_step xs s))
   \<and> (pv_closed (fst (fold provider_step xs s)) \<longleftrightarrow> pv_closed (fst s) \<or> OpDisconnect \<in> set xs)
   \<and> (pv_config (fst (fold provider_step xs s)) = None \<longleftrightarrow> pv_config (fst s) = None \<and> (\<forall>c. OpConnect c \<notin> set xs))"
proof (induction xs arbitrary: s)
  case (Cons x xs)
  note IH = Cons.IH [OF provider_step_wf [OF Cons.prems(1), of x] provider_step_serving [OF Cons.prems(2), of x]]
  show ?case using IH by (auto simp: provider_step_closed provider_step_config)
qed simp

lemma same_token_once:
  assumes "distinct (map snd xs)" "\<And>k t. (k, t) \<in> set xs \<Longrightarrow> P k \<Longrightarrow> t = c"
  shows "length (filter P (map fst xs)) \<le> 1"
proof -
  have "set (map snd (filter (P \<circ> fst) xs)) \<subseteq> {c}" using assms(2) by auto
  moreover have "distinct (map snd (filter (P \<circ> fst) xs))" using assms(1) by (rule distinct_map_filter)
  ultimately have "length (map snd (filter (P \<circ> fst) xs)) \<le> card {c}"
    by (metis card_mono distinct_card finite.emptyI finite_insert)
  then show ?thesis by (simp add: filter_map)
qed

lemma running_once:
  assumes p: "provider_wf p" and c: "\<And>k. P k \<Longrightarrow> kind_token p k = c"
  shows "length (filter P (running p)) \<le> 1"
proof -
  have "length (filter P (map fst (filter (\<lambda>(k, t). t \<notin> set (pv_cancelled p)) (pv_tasks p)))) \<le> 1"
  proof (rule same_token_once)
    show "distinct (map snd (filter (\<lambda>(k, t). t \<notin> set (pv_cancelled p)) (pv_tasks p)))"
      using wf_tokens(5) [OF p] by (rule distinct_map_filter)
  qed (use wf_tasks [OF p] c in fastforce)
  then show ?thesis by (simp add: running_def)
qed

lemma running_price:
  assumes "provider_wf p" "PriceTask xs \<in> set (running p)"
  shows "xs = pv_instruments p"
proof -
  from assms(2) obtain t where t: "(PriceTask xs, t) \<in> set (pv_tasks p)" "t \<notin> set (pv_cancelled p)"
    by (auto simp: running_def split: if_splits)
  then have "t = pv_price_token p" using wf_tasks [OF assms(1) t(1)] by (simp add: kind_token_def)
  then show ?thesis using wf_tokens(8) [OF assms(1)] t(1) by blast
qed

lemma serving_runs:
  assumes "provider_wf p" "provider_serving p" "\<not> pv_closed p"
  shows "pv_instruments p \<noteq> [] \<Longrightarrow> PriceTask (pv_instruments p) \<in> set (running p)"
    and "pv_config p \<noteq> None \<Longrightarrow> TransactionTask \<in> set (running p)"
  using assms wf_tokens(7) [OF assms(1)] by (force simp: provider_serving_def running_def)+


text \<open>Reconnecting subscribes what the stored configuration names; later subscriptions are forgotten.\<close>

theorem reconnect_forgets_subscriptions:
  "pv_instruments (fst (fold provider_step [OpConnect c, OpSubscribe symbols, OpReconnect] s)) = pc_symbols c"
  by (simp add: pv_connect_def pv_subscribe_def pv_reconnect_def spawn_price_stream_def spawn_candle_poll_def
      spawn_transaction_stream_def Let_def)

end
