(* ===== verification/Gw_Oanda_Demo.thy ===== *)
theory Gw_Oanda_Demo
  imports Gw_Oanda_Props Gw_Oanda_Candles Gw_Oanda_Orders Gw_Oanda_Provider Gw_Demo_Broker
begin

text \<open>
  The properties of the OANDA adapter at a concrete codec and server. Amounts are printed as fractions,
  times as numbers. The world of the server counts the requests; asked for candles, it answers with the
  two closed candles of that count and an open one.
\<close>

definition fraction_show :: "decimal \<Rightarrow> string" where
  "fraction_show d = show_nat (nat (fst (quotient_of d))) @ ''/'' @ show_nat (nat (snd (quotient_of d)))"

definition fraction_read :: "string \<Rightarrow> decimal option" where
  "fraction_read s = map_option (\<lambda>(p, q). of_nat (read_nat p) / of_nat (read_nat q)) (split_once CHR ''/'' s)"

definition demo_dec :: "string \<Rightarrow> decimal option" where
  "demo_dec s = (case strip_prefix s ''-'' of Some rest \<Rightarrow> map_option uminus (fraction_read rest) | None \<Rightarrow> fraction_read s)"

definition demo_candle :: "nat \<Rightarrow> bool \<Rightarrow> oanda_candle" where
  "demo_candle n closed_candle = \<lparr>oc_time = show_nat n, oc_mid = Some \<lparr>cd_o = ''1/1'', cd_h = ''2/1'', cd_l = ''1/2'', cd_c = ''1/1''\<rparr>,
     oc_bid = None, oc_ask = None, oc_volume = 10, oc_complete = closed_candle\<rparr>"

fun demo_candles :: "json \<Rightarrow> string + oanda_candle list" where
  "demo_candles (JNum n) = Inr [demo_candle (nat n) True, demo_candle (Suc (nat n)) True, demo_candle (Suc (Suc (nat n))) False]"
| "demo_candles _ = Inl ''no candles''"

definition demo_codec :: codec where
  "demo_codec = \<lparr>cx_dec = demo_dec, cx_show = fraction_show, cx_time = (\<lambda>s. Some (read_nat s)), cx_show_time = show_nat,
     jd_account = (\<lambda>j. Inl ''none''), jd_order = (\<lambda>j. Inl ''none''), jd_orders = (\<lambda>j. Inl ''none''),
     jd_created = (\<lambda>j. Inl ''none''), jd_trade = (\<lambda>j. Inl ''none''), jd_trades = (\<lambda>j. Inl ''none''),
     jd_position = (\<lambda>j. Inl ''none''), jd_positions = (\<lambda>j. Inl ''none''), jd_prices = (\<lambda>j. Inl ''none''),
     jd_candles = demo_candles, jd_price_line = (\<lambda>s. None), jd_stream_line = (\<lambda>s. None)\<rparr>"

definition demo_http :: "nat http" where
  "demo_http = \<lparr>ht_get = (\<lambda>url w. (Reply 200 (Inr (JNum (int w))), Suc w)), ht_post = (\<lambda>url body w. (Reply 500 (Inl ''down''), Suc w)),
     ht_put = (\<lambda>url body w. (Reply 500 (Inl ''down''), Suc w)), ht_utc = (\<lambda>w. w), ht_instant = (\<lambda>w. w),
     ht_summary_late = (\<lambda>w. False)\<rparr>"

lemma split_shown [simp]: "split_once CHR ''/'' (show_nat n @ CHR ''/'' # s) = Some (show_nat n, s)"
proof -
  have "CHR ''/'' \<notin> set (show_nat n)" using show_nat_digits [of n] by (auto simp: list_all_iff ascii_digit_def)
  then show ?thesis by simp
qed

lemma fraction_roundtrip: "0 \<le> d \<Longrightarrow> fraction_read (fraction_show d) = Some d"
proof -
  assume d: "0 \<le> d"
  obtain p q where pq: "quotient_of d = (p, q)" by (metis surj_pair)
  have "0 < q" "d = of_int p / of_int q" using pq by (auto simp: quotient_of_denom_pos quotient_of_div)
  moreover from this d have "0 \<le> p" by (simp add: zero_le_divide_iff)
  ultimately show ?thesis using pq by (simp add: fraction_read_def fraction_show_def of_nat_nat)
qed

lemma shown_has_no_sign: "strip_prefix (fraction_show d) ''-'' = None"
proof (rule ccontr)
  let ?n = "nat (fst (quotient_of d))"
  assume "strip_prefix (fraction_show d) ''-'' \<noteq> None"
  then obtain r where "fraction_show d = ''-'' @ r" using strip_prefix_SomeD by blast
  then have "show_nat ?n @ CHR ''/'' # show_nat (nat (snd (quotient_of d))) = CHR ''-'' # r" by (simp add: fraction_show_def)
  then have "CHR ''-'' \<in> set (show_nat ?n)" by (cases "show_nat ?n") auto
  then show False using show_nat_digits [of ?n] by (auto simp: list_all_iff ascii_digit_def)
qed

lemma demo_prints: "prints_amounts demo_codec"
proof -
  have "demo_dec (fraction_show d) = Some d" if "0 \<le> d" for d
    using fraction_roundtrip [OF that] by (simp add: demo_dec_def shown_has_no_sign)
  moreover have "demo_dec (CHR ''-'' # fraction_show d) = Some (- d)" if "0 \<le> d" for d
    using fraction_roundtrip [OF that] by (simp add: demo_dec_def)
  ultimately show ?thesis by (simp add: prints_amounts_def demo_codec_def)
qed

subsection \<open>A fill that arrives twice\<close>

definition demo_oanda :: oanda where
  "demo_oanda = (oanda_new None ''101'' OandaPractice)\<lparr>oa_slot := Some \<lparr>ob_alive = True, ob_sent = []\<rparr>\<rparr>"

definition demo_fill_line :: stream_line where
  "demo_fill_line = \<lparr>sl_transaction_type = ''ORDER_FILL'', sl_id = Some ''7'', sl_instrument = Some ''EUR_USD'',
     sl_units = Some ''-2/1'', sl_price = Some ''1/1'', sl_time = Some ''5'', sl_order_id = Some ''6'',
     sl_client_order_id = None, sl_reason = Some ''MARKET_ORDER'', sl_reject_reason = None, sl_commission = None,
     sl_financing = None, sl_account_balance = None, sl_position_financings = None, sl_last_transaction_id = None,
     sl_trade_opened = Some ''7'', sl_trades_closed = [], sl_trade_reduced = None\<rparr>"

definition demo_fill_answer :: create_order_response where
  "demo_fill_answer = \<lparr>co_create = None, co_fill = Some \<lparr>ot_id = ''7'', ot_transaction_type = ''ORDER_FILL'',
     ot_instrument = Some ''EUR_USD'', ot_units = Some ''-2/1'', ot_price = Some ''1/1'', ot_account_balance = None,
     ot_time = Some ''5'', ot_order_id = Some ''6'', ot_reason = None, ot_reject_reason = None, ot_commission = None,
     ot_financing = None, ot_trade_opened = Some ''7'', ot_trades_closed = [], ot_trade_reduced = None\<rparr>,
     co_reject = None, co_cancel = None\<rparr>"

definition demo_sell :: order_request where
  "demo_sell = order_market ''EUR_USD'' Sell 2"

definition demo_inputs :: "oanda_input list" where
  "demo_inputs = [RestAnswer demo_sell demo_fill_answer, StreamLine demo_fill_line]"

lemma demo_oanda_facts:
  "published_wf (oa_published demo_oanda)" "listened demo_oanda" "told demo_oanda = []" "pu_seen (oa_published demo_oanda) = {}"
  "pu_capacity (oa_published demo_oanda) = 4096" "oa_platform demo_oanda = OandaPractice" "\<not> ab_is_open (oa_breaker demo_oanda)"
  using published_new_wf
  by (simp_all add: demo_oanda_def oanda_new_def listened_def told_def published_new_def published_capacity_def
      ab_is_open_def ab_new_def)

theorem execution_told_once_witness:
  "executions ''7'' (told (fst (oanda_run demo_codec demo_http demo_inputs (demo_oanda, 0)))) = 1"
proof -
  have offers: "map offered demo_inputs = [[''7''], [''7'']]" "map execution_of demo_inputs = [Some ''7'', Some ''7'']"
      "list_all fills_have_ids demo_inputs" by code_simp+
  have tx: "StreamLine demo_fill_line \<in> set demo_inputs \<and> execution_of (StreamLine demo_fill_line) = Some ''7''"
    by (simp add: demo_inputs_def demo_fill_line_def execution_of.simps)
  have all: "\<forall>x \<in> set demo_inputs. ''7'' \<in> set (offered x) \<longrightarrow> execution_of x = Some ''7''"
    using offers(2) by (simp add: demo_inputs_def)
  show ?thesis
    using execution_told_once [of "(demo_oanda, 0)" demo_inputs "''7''" demo_codec demo_http] offers tx all demo_oanda_facts
    by auto
qed

subsection \<open>Two polls\<close>

definition after_polls :: "watermarks \<times> oanda" where
  "after_polls = fst (poll_cycles demo_codec demo_http [[''EUR_USD''], [''EUR_USD'']] (([], demo_oanda), 1))"

lemma demo_polled:
  "\<exists>b1 b2. polled_bars demo_codec pf symbol [demo_candle n True, demo_candle (Suc n) True] = [b1, b2]
     \<and> bar_timestamp b1 = n \<and> bar_timestamp b2 = Suc n"
  by (simp add: polled_bars_def List.map_filter_simps candle_to_bar_def historical_bar_def demo_candle_def demo_codec_def)

lemma demo_oldest_first: "oldest_first demo_codec demo_http pf url"
  unfolding oldest_first_def
proof (intro allI impI)
  fix symbol :: string and w :: nat and candles w1
  assume "poll_candles demo_codec demo_http url symbol w = (Inr candles, w1)"
  then have "candles = [demo_candle w True, demo_candle (Suc w) True]"
    by (auto simp: poll_candles_def demo_http_def is_success_def demo_codec_def demo_candle_def)
  then show "increasing (polled_bars demo_codec pf symbol candles)"
    using demo_polled [of pf symbol w] by (auto simp: increasing_def)
qed

theorem candles_told_in_order_witness:
  "increasing (bars_told ''EUR_USD'' (snd after_polls))
    \<and> map bar_timestamp (bars_told ''EUR_USD'' (snd after_polls)) = [2, 3]
    \<and> map bar_timestamp (bars_told ''EUR_USD'' (snd (emit_candles demo_codec 0 ''EUR_USD'' [demo_candle 3 True, demo_candle 4 True] after_polls)))
        = [2, 3, 4]"
proof -
  have told: "map bar_timestamp (bars_told ''EUR_USD'' (snd after_polls)) = [2, 3]" by code_simp
  have pf: "oa_platform demo_oanda = OandaPractice" by (rule demo_oanda_facts)
  obtain b3 b4 where polled: "polled_bars demo_codec OandaPractice ''EUR_USD'' [demo_candle 3 True, demo_candle 4 True] = [b3, b4]"
      "bar_timestamp b3 = 3" "bar_timestamp b4 = 4"
    using demo_polled [of OandaPractice "''EUR_USD''" 3] by auto
  obtain b1 b2 where bars: "bars_told ''EUR_USD'' (snd after_polls) = [b1, b2]" "bar_timestamp b2 = 3"
    using told by (auto simp: map_eq_Cons_conv)
  show ?thesis
    using candles_told_in_order [OF demo_oldest_first demo_oanda_facts(2,3) after_polls_def,
        of "''EUR_USD''" "[demo_candle 3 True, demo_candle 4 True]" 0] told bars polled
    by (simp add: pf increasing_def)
qed

subsection \<open>An order and its position\<close>

definition demo_bracket :: order_request where
  "demo_bracket = with_stop_loss (order_limit ''EUR_USD'' Buy 3 (11 / 10)) 1"


definition demo_hedge :: oanda_position where
  "demo_hedge = \<lparr>op_instrument = ''EUR_USD'', op_long = \<lparr>pl_units = ''3/1'', pl_average_price = None, pl_unrealized_pl = None\<rparr>,
     op_short = \<lparr>pl_units = ''-2/1'', pl_average_price = None, pl_unrealized_pl = None\<rparr>, op_unrealized_pl = None\<rparr>"

definition demo_trade :: oanda_trade where
  "demo_trade = \<lparr>otr_id = ''42'', otr_instrument = ''EUR_USD'', otr_current_units = ''-2/1'', otr_initial_units = None,
     otr_price = ''1/1'', otr_open_time = ''5'', otr_state = ''OPEN'', otr_unrealized_pl = None\<rparr>"

theorem position_ids_lead_back_witness:
  "\<exists>short. short \<in> set (translate_oanda_position demo_codec 0 demo_hedge) \<and> p_quantity short = 2
    \<and> parse_position_id (p_id short) = TargetSide ''EUR_USD'' (Some Short)
    \<and> (\<exists>pos. translate_oanda_trade_to_position demo_codec 0 demo_trade = Inr pos \<and> parse_position_id (p_id pos) = TargetTrade ''42'')
    \<and> (\<exists>i. fill_position_id ''EUR_USD'' Sell None [''7'', ''8''] None = Some i \<and> parse_position_id i = TargetSide ''EUR_USD'' (Some Long))"
proof -
  let ?short = "leg_position demo_codec 0 ''EUR_USD'' Short ''_SHORT'' (op_short demo_hedge)"
  have short: "?short \<in> set (translate_oanda_position demo_codec 0 demo_hedge)" "p_side ?short = Short" "op_instrument demo_hedge = ''EUR_USD''"
    by (simp_all add: translate_oanda_position_def demo_hedge_def leg_position_def)
  have quantity: "p_quantity ?short = 2" by code_simp
  obtain pos where pos: "translate_oanda_trade_to_position demo_codec 0 demo_trade = Inr pos"
  proof -
    have "isl (translate_oanda_trade_to_position demo_codec 0 demo_trade) = False" by code_simp
    then show ?thesis using that by (cases "translate_oanda_trade_to_position demo_codec 0 demo_trade") auto
  qed
  have tr: "otr_id demo_trade = ''42''" "list_all ascii_digit ''42''" by code_simp+
  have fill: "\<exists>i. fill_position_id ''EUR_USD'' Sell None [''7'', ''8''] None = Some i" "named_trade None [''7'', ''8''] None = None"
    by (simp_all add: fill_position_id_def named_trade_def)
  note P = position_ids_lead_back [of demo_codec 0 demo_hedge demo_trade "''EUR_USD''" Sell None "[''7'', ''8'']" None]
  have 1: "parse_position_id (p_id ?short) = TargetSide ''EUR_USD'' (Some Short)" using bspec [OF conjunct1 [OF P] short(1)] short(2,3) by simp
  have 2: "parse_position_id (p_id pos) = TargetTrade ''42''" using P pos tr by auto
  have 3: "\<exists>i. fill_position_id ''EUR_USD'' Sell None [''7'', ''8''] None = Some i \<and> parse_position_id i = TargetSide ''EUR_USD'' (Some Long)"
    using P fill by auto
  show ?thesis using short(1) quantity 1 2 3 pos by blast
qed

subsection \<open>A provider\<close>

definition demo_ops :: "provider_op list" where
  "demo_ops = [OpConnect \<lparr>pc_symbols = [''EUR_USD''], pc_event_types = [''candle_1m'']\<rparr>, OpSubscribe [''USD_JPY''], OpReconnect]"

definition demo_provider :: oanda_provider where
  "demo_provider = fst (fold provider_step demo_ops (oanda_provider_new, demo_oanda))"


end
