(* ===== verification/Spec2Isabelle.thy ===== *)
theory Spec2Isabelle
  imports Gw_Exit_Demo Gw_Trailing_Demo Gw_Events_Demo Gw_Gateway_Demo Gw_Mock_Demo Gw_Api_Demo Gw_Oanda_Demo
begin

text \<open>
  A verification development of the trading gateway: the part that manages the exit orders
  (stop losses and take profits) of positions, with the models, errors and circuit breakers it
  rests on.
\<close>

end
